(* ===== verification/Demo_Prelude.thy ===== *)
theory Demo_Prelude
  imports Complex_Main "HOL-Library.Word"
begin

text \<open>
  Shared vocabulary of the development: the widths of the machine integers, addresses of
  heap objects, the faults a C++ statement can run into (a dangling or null dereference,
  an empty \<^verbatim>\<open>std::function\<close>, a copy past the end of a buffer) with the small result
  monad that threads them, and the list lemmas the components share.
\<close>

section \<open>Machine integers\<close>

text \<open>The demo is built for 64-bit Linux: \<^verbatim>\<open>int\<close> has 32 bits, \<^verbatim>\<open>long\<close> and \<^verbatim>\<open>long long\<close> 64.\<close>

type_synonym u32 = "32 word"
type_synonym i64 = "64 word"

abbreviation INT_MIN :: int where "INT_MIN \<equiv> - (2 ^ 31)"
abbreviation INT_MAX :: int where "INT_MAX \<equiv> 2 ^ 31 - 1"
abbreviation UINT_MAX :: int where "UINT_MAX \<equiv> 2 ^ 32 - 1"
abbreviation LONG_MIN :: int where "LONG_MIN \<equiv> - (2 ^ 63)"
abbreviation LONG_MAX :: int where "LONG_MAX \<equiv> 2 ^ 63 - 1"
abbreviation ULONG_MAX :: int where "ULONG_MAX \<equiv> 2 ^ 64 - 1"

text \<open>Narrowing keeps the low bits, whatever the signedness of the source.\<close>

lemma scast_down_ucast: "(scast (w :: i64) :: u32) = ucast w"
  by (rule bit_word_eqI) (auto simp: bit_simps)

lemma unat_ucast_u32: "unat (ucast (w :: i64) :: u32) = unat w mod 2 ^ 32"
  by (simp only: unsigned_ucast_eq take_bit_eq_mod) simp

lemma uint_lower: "c \<le> 0 \<Longrightarrow> c \<le> uint w"
  using uint_nonnegative [of w] by linarith

section \<open>Addresses\<close>

datatype addr = Addr (addr_index: nat)

text \<open>Addresses are compared by their index: the allocator hands them out in this order.\<close>

instantiation addr :: linorder
begin

definition less_eq_addr :: "addr \<Rightarrow> addr \<Rightarrow> bool" where
  "less_eq_addr a b \<longleftrightarrow> addr_index a \<le> addr_index b"

definition less_addr :: "addr \<Rightarrow> addr \<Rightarrow> bool" where
  "less_addr a b \<longleftrightarrow> addr_index a < addr_index b"

instance
  by standard (auto simp: less_eq_addr_def less_addr_def addr.expand)

end

section \<open>Faults and results\<close>

text \<open>
  A statement that the C++ standard leaves undefined, or that ends the process, is a fault:
  it is a value of the model and nothing after it is executed.
\<close>

datatype fault =
    UseAfterFree addr       \<comment> \<open>member access through a pointer to a deleted object\<close>
  | DoubleFree addr         \<comment> \<open>\<^verbatim>\<open>delete\<close> of an object that is already deleted\<close>
  | NullDereference         \<comment> \<open>member access through a null pointer\<close>
  | UninitializedPointer    \<comment> \<open>a pointer member is used before anything is stored in it\<close>
  | BadFunctionCall         \<comment> \<open>an empty \<^verbatim>\<open>std::function\<close> is called\<close>
  | BufferOverflow          \<comment> \<open>a copy runs past the end of its buffer\<close>
  | IntegerOverflow         \<comment> \<open>signed arithmetic leaves the range of its type\<close>
  | AllocationFailed        \<comment> \<open>a size that no allocator can serve\<close>

type_synonym 'a res = "fault + 'a"

named_theorems res_simps \<open>rules that run the result monad\<close>
named_theorems msg_simps \<open>rules that unfold messages and the operations that send them\<close>
named_theorems inv_intros \<open>introduction rules for invariants\<close>

definition rbind :: "'a res \<Rightarrow> ('a \<Rightarrow> 'b res) \<Rightarrow> 'b res" where
  "rbind m f = (case m of Inl e \<Rightarrow> Inl e | Inr x \<Rightarrow> f x)"

lemma rbind_Inl [simp, res_simps]: "rbind (Inl e) f = Inl e"
  by (simp add: rbind_def)

lemma rbind_Inr [simp, res_simps]: "rbind (Inr x) f = f x"
  by (simp add: rbind_def)

lemma rbind_assoc [res_simps]: "rbind (rbind m f) g = rbind m (\<lambda>x. rbind (f x) g)"
  by (cases m) simp_all

lemma rbind_eq_Inr: "rbind m f = Inr y \<longleftrightarrow> (\<exists>x. m = Inr x \<and> f x = Inr y)"
  by (cases m) simp_all

lemma rbind_eq_Inl: "rbind m f = Inl e \<longleftrightarrow> m = Inl e \<or> (\<exists>x. m = Inr x \<and> f x = Inl e)"
  by (cases m) auto

text \<open>A loop whose body may fault: it stops at the first fault.\<close>

fun rfold :: "('a \<Rightarrow> 's \<Rightarrow> 's res) \<Rightarrow> 'a list \<Rightarrow> 's \<Rightarrow> 's res" where
  "rfold f [] s = Inr s"
| "rfold f (x # xs) s = rbind (f x s) (rfold f xs)"

lemma rfold_append: "rfold f (xs @ ys) s = rbind (rfold f xs s) (rfold f ys)"
proof (induction xs arbitrary: s)
  case Nil
  show ?case by simp
next
  case (Cons x xs)
  show ?case by (cases "f x s") (simp_all add: Cons.IH)
qed

lemma rfold_total:
  assumes "\<And>x t. x \<in> set xs \<Longrightarrow> f x t = Inr (g x t)"
  shows "rfold f xs s = Inr (fold g xs s)"
  using assms by (induction xs arbitrary: s) simp_all

lemma rfold_invariant:
  assumes "\<And>x t t'. x \<in> set xs \<Longrightarrow> P t \<Longrightarrow> f x t = Inr t' \<Longrightarrow> P t'"
    and "P s" and "rfold f xs s = Inr s'"
  shows "P s'"
  using assms
proof (induction xs arbitrary: s)
  case Nil
  then show ?case by simp
next
  case (Cons x xs)
  then obtain t where t: "f x s = Inr t" "rfold f xs t = Inr s'"
    by (auto simp: rbind_eq_Inr)
  have "P t"
    using Cons.prems(1) [of x s t] Cons.prems(2) t(1) by simp
  show ?case
    by (rule Cons.IH [OF _ \<open>P t\<close> t(2)]) (use Cons.prems(1) in auto)
qed

text \<open>A guard that turns a failed check into a fault.\<close>

definition require :: "bool \<Rightarrow> fault \<Rightarrow> 's \<Rightarrow> 's res" where
  "require b e s = (if b then Inr s else Inl e)"

lemma require_simps [simp, res_simps]:
  "require True e s = Inr s" "require False e s = Inl e"
  by (simp_all add: require_def)

lemma require_eq_Inr [simp]: "require b e s = Inr t \<longleftrightarrow> b \<and> t = s"
  by (auto simp: require_def)

section \<open>Lists\<close>

text \<open>\<^verbatim>\<open>erase(itr); break;\<close> inside a search loop removes the first match only.\<close>

fun erase_first :: "('a \<Rightarrow> bool) \<Rightarrow> 'a list \<Rightarrow> 'a list" where
  "erase_first P [] = []"
| "erase_first P (x # xs) = (if P x then xs else x # erase_first P xs)"

lemma erase_first_none: "(\<And>x. x \<in> set xs \<Longrightarrow> \<not> P x) \<Longrightarrow> erase_first P xs = xs"
  by (induction xs) simp_all

lemma erase_first_split:
  "(\<And>x. x \<in> set xs \<Longrightarrow> \<not> P x) \<Longrightarrow> P y \<Longrightarrow> erase_first P (xs @ y # ys) = xs @ ys"
  by (induction xs) simp_all

lemma set_erase_first: "set (erase_first P xs) \<subseteq> set xs"
  by (induction xs) auto

lemma distinct_erase_first: "distinct xs \<Longrightarrow> distinct (erase_first P xs)"
  by (induction xs) (use set_erase_first in fastforce)+

lemma set_erase_first_eq: "distinct xs \<Longrightarrow> set (erase_first ((=) y) xs) = set xs - {y}"
  by (induction xs) auto

lemma find_SomeD: "find P xs = Some x \<Longrightarrow> x \<in> set xs \<and> P x"
  by (induction xs) (auto split: if_splits)

lemma find_split:
  assumes "find P xs = Some x"
  obtains us vs where "xs = us @ x # vs" "P x" "\<And>u. u \<in> set us \<Longrightarrow> \<not> P u"
proof -
  have "\<exists>us vs. xs = us @ x # vs \<and> P x \<and> (\<forall>u \<in> set us. \<not> P u)"
    using assms
  proof (induction xs)
    case Nil
    then show ?case by simp
  next
    case (Cons y ys)
    show ?case
    proof (cases "P y")
      case True
      with Cons.prems show ?thesis by (intro exI [of _ "[]"] exI [of _ ys]) simp
    next
      case False
      with Cons obtain us vs where "ys = us @ x # vs" "P x" "\<forall>u \<in> set us. \<not> P u"
        by auto
      with False show ?thesis by (intro exI [of _ "y # us"] exI [of _ vs]) simp
    qed
  qed
  then show ?thesis using that by blast
qed

text \<open>A loop over the pairs of a \<^verbatim>\<open>QMap\<close> that acts on the entries with a given key.\<close>

lemma filter_distinct_keys:
  assumes "distinct (map fst kvs)"
  shows "map snd (filter (\<lambda>(k, v). k = key) kvs)
    = (case map_of kvs key of None \<Rightarrow> [] | Some v \<Rightarrow> [v])"
  using assms
proof (induction kvs)
  case Nil
  show ?case by simp
next
  case (Cons kv kvs)
  obtain k v where kv: "kv = (k, v)" by (cases kv)
  show ?case
  proof (cases "k = key")
    case True
    with Cons.prems kv have "key \<notin> fst ` set kvs" by auto
    then have "map_of kvs key = None" by (simp add: map_of_eq_None_iff)
    with Cons kv True show ?thesis by simp
  next
    case False
    with Cons kv show ?thesis by simp
  qed
qed

end
