(* ===== verification/Text_Numbers.thy ===== *)
theory Text_Numbers
  imports Demo_Prelude "HOL-Library.Char_ord"
begin

text \<open>
  Numbers as text, the part of the C and C++ standard libraries that \<^verbatim>\<open>JsonTools.cpp\<close>
  rests on: decimal output of integers (\<^verbatim>\<open>stringstream << v\<close>), \<^verbatim>\<open>strtol\<close>,
  \<^verbatim>\<open>strtoul\<close> and \<^verbatim>\<open>atoll\<close> in base 10 with their end pointer, saturation and
  \<^verbatim>\<open>errno\<close>, and the default six-digit output of a \<^verbatim>\<open>double\<close>. The lemmas are the
  round trips between the printers and the scanners.
\<close>

section \<open>Characters\<close>

definition digit_char :: "nat \<Rightarrow> char" where
  "digit_char d = char_of (48 + d)"

definition is_digit :: "char \<Rightarrow> bool" where
  "is_digit c \<longleftrightarrow> (48::nat) \<le> of_char c \<and> of_char c \<le> (57::nat)"

definition digit_val :: "char \<Rightarrow> nat" where
  "digit_val c = of_char c - 48"

text \<open>\<^verbatim>\<open>isspace\<close> of the C locale: space, tab, newline, vertical tab, form feed, return.\<close>

definition is_space :: "char \<Rightarrow> bool" where
  "is_space c \<longleftrightarrow> of_char c = (32::nat) \<or> ((9::nat) \<le> of_char c \<and> of_char c \<le> (13::nat))"

abbreviation newline :: char where "newline \<equiv> CHR 0x0A"
abbreviation nul :: char where "nul \<equiv> CHR 0x00"

lemma is_digit_digit_char [simp]: "d < 10 \<Longrightarrow> is_digit (digit_char d)"
  by (simp add: is_digit_def digit_char_def)

lemma digit_val_digit_char [simp]: "d < 10 \<Longrightarrow> digit_val (digit_char d) = d"
  by (simp add: digit_val_def digit_char_def)

lemma digit_val_less: "is_digit c \<Longrightarrow> digit_val c < 10"
  unfolding is_digit_def digit_val_def by linarith

lemma digit_not_space: "is_digit c \<Longrightarrow> \<not> is_space c"
  by (auto simp: is_digit_def is_space_def)

lemma digit_not_sign: "is_digit c \<Longrightarrow> c \<noteq> CHR ''-'' \<and> c \<noteq> CHR ''+''"
  by (auto simp: is_digit_def)

lemma digit_not_nul: "is_digit c \<Longrightarrow> c \<noteq> nul"
  by (auto simp: is_digit_def)

lemma special_not_digit [simp]:
  "\<not> is_digit newline" "\<not> is_digit (CHR ''-'')" "\<not> is_digit nul" "\<not> is_digit (CHR ''n'')"
  by (simp_all add: is_digit_def)

lemma minus_not_space [simp]: "\<not> is_space (CHR ''-'')" "\<not> is_space (CHR ''n'')"
  by (simp_all add: is_space_def)

section \<open>Decimal output\<close>

fun show_nat :: "nat \<Rightarrow> string" where
  "show_nat n = (if n < 10 then [digit_char n] else show_nat (n div 10) @ [digit_char (n mod 10)])"

declare show_nat.simps [simp del]

definition show_int :: "int \<Rightarrow> string" where
  "show_int i = (if i < 0 then CHR ''-'' # show_nat (nat (- i)) else show_nat (nat i))"

lemma show_nat_nonempty [simp]: "show_nat n \<noteq> []"
  by (subst show_nat.simps) simp

lemma show_nat_digits: "c \<in> set (show_nat n) \<Longrightarrow> is_digit c"
proof (induction n rule: show_nat.induct)
  case (1 n)
  show ?case
  proof (cases "n < 10")
    case True
    with "1.prems" show ?thesis by (simp add: show_nat.simps [of n])
  next
    case False
    with "1.prems" consider "c \<in> set (show_nat (n div 10))" | "c = digit_char (n mod 10)"
      by (auto simp: show_nat.simps [of n])
    then show ?thesis using "1.IH" [OF False] by cases auto
  qed
qed

section \<open>Scanning\<close>

definition digits_val :: "string \<Rightarrow> nat" where
  "digits_val ds = foldl (\<lambda>a c. a * 10 + digit_val c) 0 ds"

lemma digits_val_snoc: "digits_val (ds @ [c]) = digits_val ds * 10 + digit_val c"
  by (simp add: digits_val_def)

lemma digits_val_show_nat [simp]: "digits_val (show_nat n) = n"
proof (induction n rule: show_nat.induct)
  case (1 n)
  show ?case
  proof (cases "n < 10")
    case True
    then show ?thesis by (simp add: show_nat.simps [of n] digits_val_def)
  next
    case False
    then have "digits_val (show_nat n) = (n div 10) * 10 + n mod 10"
      using "1.IH" by (simp add: show_nat.simps [of n] digits_val_snoc)
    then show ?thesis by simp
  qed
qed

lemma show_nat_inject: "show_nat m = show_nat n \<Longrightarrow> m = n"
  by (metis digits_val_show_nat)

lemma show_int_inject: "show_int i = show_int j \<Longrightarrow> i = j"
proof -
  have no_minus: "show_nat n \<noteq> CHR ''-'' # xs" for n xs
    using show_nat_digits [of "CHR ''-''" n] by auto
  assume "show_int i = show_int j"
  then show "i = j"
    using no_minus no_minus [symmetric]
    by (auto simp: show_int_def split: if_splits dest!: show_nat_inject)
qed

text \<open>
  The common prefix of \<^verbatim>\<open>strtol\<close> and \<^verbatim>\<open>strtoul\<close>: white space, one optional sign, then
  digits. The result is the sign, the digits and what is left after them; with no digit
  nothing is consumed.
\<close>

definition scan_sign :: "string \<Rightarrow> bool \<times> string" where
  "scan_sign s = (case s of [] \<Rightarrow> (False, [])
     | c # cs \<Rightarrow> if c = CHR ''-'' then (True, cs) else if c = CHR ''+'' then (False, cs) else (False, s))"

definition scan_number :: "string \<Rightarrow> (bool \<times> nat \<times> string) option" where
  "scan_number s = (let (neg, u) = scan_sign (dropWhile is_space s); ds = takeWhile is_digit u
     in if ds = [] then None else Some (neg, digits_val ds, dropWhile is_digit u))"

text \<open>
  \<^verbatim>\<open>strtol(s, &end, 10)\<close>: the value, the text at \<^verbatim>\<open>end\<close>, whether something was consumed
  and whether \<^verbatim>\<open>errno\<close> was set to \<^verbatim>\<open>ERANGE\<close>.
\<close>

record scanned =
  sc_val :: int
  sc_rest :: string
  sc_some :: bool      \<comment> \<open>\<^verbatim>\<open>end_ptr != c_str\<close>\<close>
  sc_erange :: bool    \<comment> \<open>\<^verbatim>\<open>errno == ERANGE\<close>\<close>

definition strtol :: "string \<Rightarrow> scanned" where
  "strtol s = (case scan_number s of
       None \<Rightarrow> \<lparr>sc_val = 0, sc_rest = s, sc_some = False, sc_erange = False\<rparr>
     | Some (neg, m, r) \<Rightarrow>
         (let v = (if neg then - int m else int m)
          in if v < LONG_MIN then \<lparr>sc_val = LONG_MIN, sc_rest = r, sc_some = True, sc_erange = True\<rparr>
             else if LONG_MAX < v then \<lparr>sc_val = LONG_MAX, sc_rest = r, sc_some = True, sc_erange = True\<rparr>
             else \<lparr>sc_val = v, sc_rest = r, sc_some = True, sc_erange = False\<rparr>))"

text \<open>\<^verbatim>\<open>strtoul\<close> negates in the unsigned type: \<^verbatim>\<open>"-1"\<close> is \<^verbatim>\<open>ULONG_MAX\<close>, with no error.\<close>

definition strtoul :: "string \<Rightarrow> scanned" where
  "strtoul s = (case scan_number s of
       None \<Rightarrow> \<lparr>sc_val = 0, sc_rest = s, sc_some = False, sc_erange = False\<rparr>
     | Some (neg, m, r) \<Rightarrow>
         (if ULONG_MAX < int m
          then \<lparr>sc_val = ULONG_MAX, sc_rest = r, sc_some = True, sc_erange = True\<rparr>
          else \<lparr>sc_val = (if neg then - int m else int m) mod 2 ^ 64,
                sc_rest = r, sc_some = True, sc_erange = False\<rparr>))"

text \<open>
  \<^verbatim>\<open>atoll\<close> in the GNU C library is \<^verbatim>\<open>strtoll\<close> without the end pointer: it reads a prefix
  and yields 0 where there is no number.
\<close>

definition atoll :: "string \<Rightarrow> i64" where
  "atoll s = word_of_int (sc_val (strtol s))"

text \<open>\<^verbatim>\<open>c_str()\<close>: the C string ends at the first NUL.\<close>

definition c_str :: "string \<Rightarrow> string" where
  "c_str s = takeWhile (\<lambda>c. c \<noteq> nul) s"

lemma c_str_id: "nul \<notin> set s \<Longrightarrow> c_str s = s"
  unfolding c_str_def by (rule takeWhile_eq_all_conv [THEN iffD2]) auto

section \<open>Round trips\<close>

lemma takeWhile_digits:
  "(\<And>c. c \<in> set ds \<Longrightarrow> is_digit c) \<Longrightarrow> r = [] \<or> \<not> is_digit (hd r) \<Longrightarrow>
    takeWhile is_digit (ds @ r) = ds \<and> dropWhile is_digit (ds @ r) = r"
  by (induction ds) (cases r; simp)+

lemma scan_number_show_nat:
  assumes "r = [] \<or> \<not> is_digit (hd r)"
  shows "scan_number (show_nat n @ r) = Some (False, n, r)"
proof -
  obtain c cs where c: "show_nat n = c # cs" by (cases "show_nat n") auto
  then have d: "is_digit c" using show_nat_digits [of c n] by simp
  have "dropWhile is_space (show_nat n @ r) = show_nat n @ r"
    using digit_not_space [OF d] by (simp add: c)
  moreover have "scan_sign (show_nat n @ r) = (False, show_nat n @ r)"
    using digit_not_sign [OF d] by (simp add: c scan_sign_def)
  moreover have "takeWhile is_digit (show_nat n @ r) = show_nat n \<and> dropWhile is_digit (show_nat n @ r) = r"
    by (rule takeWhile_digits [OF _ assms]) (rule show_nat_digits)
  ultimately show ?thesis by (simp add: scan_number_def)
qed

lemma scan_number_show_int:
  assumes "r = [] \<or> \<not> is_digit (hd r)"
  shows "scan_number (show_int i @ r) = Some (i < 0, nat \<bar>i\<bar>, r)"
proof (cases "i < 0")
  case False
  then show ?thesis using scan_number_show_nat [OF assms] by (simp add: show_int_def)
next
  case True
  let ?n = "nat (- i)"
  have "takeWhile is_digit (show_nat ?n @ r) = show_nat ?n \<and> dropWhile is_digit (show_nat ?n @ r) = r"
    by (rule takeWhile_digits [OF _ assms]) (rule show_nat_digits)
  then show ?thesis using True by (simp add: scan_number_def scan_sign_def show_int_def)
qed

lemma strtol_show_int:
  assumes "LONG_MIN \<le> i" "i \<le> LONG_MAX" "r = [] \<or> \<not> is_digit (hd r)"
  shows "strtol (show_int i @ r) = \<lparr>sc_val = i, sc_rest = r, sc_some = True, sc_erange = False\<rparr>"
  using assms(1,2) by (simp add: strtol_def scan_number_show_int [OF assms(3)])

lemma strtoul_show_int:
  assumes "0 \<le> i" "i \<le> ULONG_MAX" "r = [] \<or> \<not> is_digit (hd r)"
  shows "strtoul (show_int i @ r) = \<lparr>sc_val = i, sc_rest = r, sc_some = True, sc_erange = False\<rparr>"
  using assms(1,2) by (simp add: strtoul_def scan_number_show_int [OF assms(3)])

lemma atoll_show_int:
  assumes "r = [] \<or> \<not> is_digit (hd r)"
  shows "atoll (show_int (sint (w :: i64)) @ r) = w"
proof -
  have "LONG_MIN \<le> sint w" "sint w \<le> LONG_MAX"
    using sint_ge [of w] sint_lt [of w] by simp_all
  from strtol_show_int [OF this assms] show ?thesis by (simp add: atoll_def)
qed

lemma show_int_chars: "c \<in> set (show_int i) \<Longrightarrow> is_digit c \<or> c = CHR ''-''"
  by (auto simp: show_int_def split: if_splits dest: show_nat_digits)

lemma c_str_show_int [simp]: "c_str (show_int i) = show_int i"
  by (rule c_str_id) (use show_int_chars [of nul i] in auto)

lemma scan_sign_rest: "set (snd (scan_sign s)) \<subseteq> set s"
  by (auto simp: scan_sign_def split: list.splits if_splits)

text \<open>The scanned value is always a \<^verbatim>\<open>long\<close> (an \<^verbatim>\<open>unsigned long\<close>).\<close>

lemma strtol_range: "LONG_MIN \<le> sc_val (strtol s) \<and> sc_val (strtol s) \<le> LONG_MAX"
  by (auto simp: strtol_def Let_def split: option.splits)

lemma strtoul_range: "0 \<le> sc_val (strtoul s) \<and> sc_val (strtoul s) \<le> ULONG_MAX"
proof -
  have "0 \<le> (x::int) mod 2 ^ 64 \<and> x mod 2 ^ 64 \<le> ULONG_MAX" for x
    using pos_mod_bound [of "2 ^ 64" x] by simp
  then show ?thesis by (auto simp: strtoul_def split: option.splits)
qed

end
