(* ===== verification/Doubles.thy ===== *)
theory Doubles
  imports Text_Numbers
begin

text \<open>
  The two uses of \<^verbatim>\<open>double\<close> in the demo. Session, handle and feed identifiers are
  \<^verbatim>\<open>long long\<close> values that are cast to \<^verbatim>\<open>double\<close> before they go into a message, and
  \<^verbatim>\<open>ToString(double)\<close> prints a number with the default six digits of a stream. A finite
  double is represented by the rational number it denotes; the cast rounds to nearest, ties
  to even, on 53 significant bits (IEEE 754 binary64, as on x86-64).
\<close>

section \<open>The cast from long long\<close>

text \<open>How many low bits do not fit in a 53-bit significand.\<close>

fun excess_bits :: "nat \<Rightarrow> nat" where
  "excess_bits a = (if a < 2 ^ 53 then 0 else Suc (excess_bits (a div 2)))"

declare excess_bits.simps [simp del]

definition round53 :: "nat \<Rightarrow> nat" where
  "round53 a = (let k = excess_bits a; q = a div 2 ^ k; r = a mod 2 ^ k; h = 2 ^ k div 2
     in if k = 0 then a
        else if r < h \<or> (r = h \<and> even q) then q * 2 ^ k
        else (q + 1) * 2 ^ k)"

definition double_of_int :: "int \<Rightarrow> int" where
  "double_of_int i = (if i < 0 then - int (round53 (nat (- i))) else int (round53 (nat i)))"

text \<open>\<^verbatim>\<open>(double)id\<close> for a \<^verbatim>\<open>long long id\<close>.\<close>

definition double_of_i64 :: "i64 \<Rightarrow> rat" where
  "double_of_i64 w = of_int (double_of_int (sint w))"

lemma excess_bits_small: "a < 2 ^ 53 \<Longrightarrow> excess_bits a = 0"
  by (simp add: excess_bits.simps)

lemma round53_small: "a < 2 ^ 53 \<Longrightarrow> round53 a = a"
  by (simp add: round53_def excess_bits_small)

lemma round53_limit: "a \<le> 2 ^ 53 \<Longrightarrow> round53 a = a"
proof (cases "a < 2 ^ 53")
  case False
  moreover assume "a \<le> 2 ^ 53"
  ultimately have a: "a = 2 ^ 53" by simp
  have "excess_bits (2 ^ 53) = 1"
    by (subst excess_bits.simps) (simp add: excess_bits_small)
  then show ?thesis by (simp add: round53_def a)
qed (rule round53_small)

lemma double_of_int_exact: "\<bar>i\<bar> \<le> 2 ^ 53 \<Longrightarrow> double_of_int i = i"
  by (auto simp: double_of_int_def round53_limit)

text \<open>Rounding is off by at most half a unit in the last place.\<close>

lemma round53_error:
  "2 * \<bar>int (round53 a) - int a\<bar> \<le> int (2 ^ excess_bits a)"
proof -
  let ?k = "excess_bits a"
  define P where "P = (2::nat) ^ ?k"
  define q where "q = a div P"
  define r where "r = a mod P"
  have a: "a = q * P + r" unfolding q_def r_def by simp
  have r: "r < P" unfolding r_def P_def by simp
  have R: "round53 a = (if ?k = 0 then a
      else if r < P div 2 \<or> (r = P div 2 \<and> even q) then q * P else (q + 1) * P)"
    by (simp add: round53_def q_def r_def P_def Let_def)
  show ?thesis
  proof (cases "?k = 0")
    case True
    then show ?thesis by (simp add: R)
  next
    case False
    then have h: "2 * (P div 2) = P" by (cases ?k) (simp_all add: P_def)
    consider (down) "round53 a = q * P" "r \<le> P div 2"
      | (up) "round53 a = q * P + P" "P div 2 \<le> r"
      using False R by (force simp: not_less split: if_splits)
    then have "2 * \<bar>int (round53 a) - int a\<bar> \<le> int P"
    proof cases
      case down
      then have "int (round53 a) - int a = - int r" using a by simp
      moreover have "2 * r \<le> P" using down(2) h by linarith
      ultimately show ?thesis by simp
    next
      case up
      then have "int (round53 a) - int a = int P - int r" using a by simp
      moreover have "P \<le> 2 * r" using up(2) h by linarith
      ultimately show ?thesis using r by simp
    qed
    then show ?thesis by (simp add: P_def)
  qed
qed

section \<open>Default stream output\<close>

definition pow10 :: "int \<Rightarrow> rat" where
  "pow10 e = (if 0 \<le> e then 10 ^ nat e else 1 / 10 ^ nat (- e))"

text \<open>Round to nearest integer, ties to even.\<close>

definition round_even :: "rat \<Rightarrow> int" where
  "round_even x = (let f = \<lfloor>x\<rfloor>; r = x - of_int f
     in if r < 1 / 2 \<or> (r = 1 / 2 \<and> even f) then f else f + 1)"

text \<open>The decimal exponent of a positive double lies between -324 and 308.\<close>

definition exp10_of :: "rat \<Rightarrow> int" where
  "exp10_of x = (case find (\<lambda>e. pow10 e \<le> x) (rev [-324..308]) of None \<Rightarrow> -324 | Some e \<Rightarrow> e)"

definition strip_zeros :: "string \<Rightarrow> string" where
  "strip_zeros s = rev (dropWhile (\<lambda>c. c = CHR ''0'') (rev s))"

definition with_point :: "string \<Rightarrow> string \<Rightarrow> string" where
  "with_point a f = (let f' = strip_zeros f in if f' = [] then a else a @ CHR ''.'' # f')"

definition show_exp :: "int \<Rightarrow> string" where
  "show_exp e = CHR ''e'' # (if e < 0 then CHR ''-'' else CHR ''+'') #
     (let d = show_nat (nat \<bar>e\<bar>) in if length d < 2 then CHR ''0'' # d else d)"

text \<open>The \<^verbatim>\<open>%g\<close> format with precision 6, which \<^verbatim>\<open>ostream << double\<close> uses by default.\<close>

definition show_pos_g6 :: "rat \<Rightarrow> string" where
  "show_pos_g6 x = (let e0 = exp10_of x; m0 = round_even (x * pow10 (5 - e0));
       (m, e) = (if m0 = 1000000 then (100000, e0 + 1) else (m0, e0)); ds = show_nat (nat m)
     in if e < -4 \<or> 6 \<le> e then with_point (take 1 ds) (drop 1 ds) @ show_exp e
        else if 0 \<le> e then with_point (take (nat e + 1) ds) (drop (nat e + 1) ds)
        else with_point ''0'' (replicate (nat (- e) - 1) CHR ''0'' @ ds))"

definition show_g6 :: "rat \<Rightarrow> string" where
  "show_g6 x = (if x = 0 then ''0'' else if x < 0 then CHR ''-'' # show_pos_g6 (- x) else show_pos_g6 x)"

end
