(* ===== verification/Json_Value.thy ===== *)
theory Json_Value
  imports Doubles "HOL-Library.AList"
begin

text \<open>
  JSON values and the two libraries that handle them. \<^verbatim>\<open>Json::Value\<close> is the tagged union of
  \<^verbatim>\<open>src/jsoncpp/include/json/value.h\<close>; its type tests and its array and object access are
  the ones that header documents. What only the compiled library knows (the reader, the
  writer, the conversions between numbers) and Qt's own JSON reader and writer are arguments
  of the model, the fields of \<open>json_lib\<close>; the locales below state what the code relies on,
  and a small reference library at the end satisfies them.
\<close>

section \<open>Values\<close>

datatype value_type = nullValue | intValue | uintValue | realValue | stringValue
  | booleanValue | arrayValue | objectValue

datatype json =
    JNull
  | JInt i64                         \<comment> \<open>\<^verbatim>\<open>LargestInt int_\<close>\<close>
  | JUInt i64                        \<comment> \<open>\<^verbatim>\<open>LargestUInt uint_\<close>\<close>
  | JReal rat                        \<comment> \<open>\<^verbatim>\<open>double real_\<close>\<close>
  | JStr string
  | JBool bool
  | JArr "json list"
  | JObj "(string \<times> json) list"     \<comment> \<open>\<^verbatim>\<open>ObjectValues *map_\<close>, as name/value pairs\<close>

fun type_of :: "json \<Rightarrow> value_type" where
  "type_of JNull = nullValue"
| "type_of (JInt _) = intValue"
| "type_of (JUInt _) = uintValue"
| "type_of (JReal _) = realValue"
| "type_of (JStr _) = stringValue"
| "type_of (JBool _) = booleanValue"
| "type_of (JArr _) = arrayValue"
| "type_of (JObj _) = objectValue"

definition isString :: "json \<Rightarrow> bool" where "isString v \<longleftrightarrow> type_of v = stringValue"
definition isBool :: "json \<Rightarrow> bool" where "isBool v \<longleftrightarrow> type_of v = booleanValue"
definition isArray :: "json \<Rightarrow> bool" where "isArray v \<longleftrightarrow> type_of v = arrayValue"
definition isObject :: "json \<Rightarrow> bool" where "isObject v \<longleftrightarrow> type_of v = objectValue"

fun asString :: "json \<Rightarrow> string" where
  "asString (JStr s) = s"
| "asString _ = []"

text \<open>The elements of an array, the members of an object.\<close>

fun elements :: "json \<Rightarrow> json list" where
  "elements (JArr vs) = vs"
| "elements _ = []"

fun members :: "json \<Rightarrow> (string \<times> json) list" where
  "members (JObj kvs) = kvs"
| "members _ = []"

fun json_size :: "json \<Rightarrow> nat" where
  "json_size (JArr vs) = length vs"
| "json_size (JObj kvs) = length kvs"
| "json_size _ = 0"

text \<open>\<^verbatim>\<open>ArrayIndex\<close> is \<^verbatim>\<open>unsigned int\<close>.\<close>

definition isValidIndex :: "json \<Rightarrow> u32 \<Rightarrow> bool" where
  "isValidIndex v i \<longleftrightarrow> unat i < json_size v"

text \<open>Reading beyond the end of a constant array yields the null value.\<close>

definition json_index :: "json \<Rightarrow> u32 \<Rightarrow> json" where
  "json_index v i = (if unat i < length (elements v) then elements v ! unat i else JNull)"

definition json_append :: "json \<Rightarrow> json \<Rightarrow> json" where
  "json_append arr v = JArr (elements arr @ [v])"

definition isMember :: "json \<Rightarrow> string \<Rightarrow> bool" where
  "isMember v k \<longleftrightarrow> map_of (members v) k \<noteq> None"

text \<open>\<^verbatim>\<open>operator[]\<close> of a constant object: null if there is no member with that name.\<close>

definition json_get :: "json \<Rightarrow> string \<Rightarrow> json" where
  "json_get v k = (case map_of (members v) k of None \<Rightarrow> JNull | Some x \<Rightarrow> x)"

text \<open>\<^verbatim>\<open>msg[k] = v\<close>, which turns a null value into an object first.\<close>

definition json_set :: "string \<Rightarrow> json \<Rightarrow> json \<Rightarrow> json" where
  "json_set k v obj = JObj (AList.update k v (members obj))"

lemma type_tests [simp]:
  "isString v \<longleftrightarrow> (\<exists>s. v = JStr s)" "isBool v \<longleftrightarrow> (\<exists>b. v = JBool b)"
  "isArray v \<longleftrightarrow> (\<exists>vs. v = JArr vs)" "isObject v \<longleftrightarrow> (\<exists>kvs. v = JObj kvs)"
  by (cases v; simp add: isString_def isBool_def isArray_def isObject_def)+

lemma json_get_obj [simp]: "json_get (JObj kvs) k = (case map_of kvs k of None \<Rightarrow> JNull | Some x \<Rightarrow> x)"
  by (simp add: json_get_def)

lemma json_get_set: "json_get (json_set k v obj) k' = (if k' = k then v else json_get obj k')"
  by (simp add: json_get_def json_set_def update_conv')

lemma isMember_set: "isMember (json_set k v obj) k' \<longleftrightarrow> k' = k \<or> isMember obj k'"
  by (simp add: isMember_def json_set_def update_conv')

section \<open>The libraries\<close>

record json_lib =
  lib_parse :: "string \<Rightarrow> json option"                  \<comment> \<open>\<^verbatim>\<open>Json::Reader::parse\<close>\<close>
  lib_write :: "json \<Rightarrow> string"                         \<comment> \<open>\<^verbatim>\<open>Json::FastWriter::write\<close>\<close>
  lib_isInt :: "json \<Rightarrow> bool"
  lib_isUInt :: "json \<Rightarrow> bool"
  lib_isDouble :: "json \<Rightarrow> bool"
  lib_isConvertibleTo :: "json \<Rightarrow> value_type \<Rightarrow> bool"
  lib_asBool :: "json \<Rightarrow> bool"
  lib_asInt :: "json \<Rightarrow> u32"
  lib_asUInt :: "json \<Rightarrow> u32"
  lib_asDouble :: "json \<Rightarrow> rat"
  lib_strtod :: "string \<Rightarrow> rat \<times> string \<times> bool"         \<comment> \<open>value, text at the end pointer, \<^verbatim>\<open>errno\<close>\<close>
  qt_fromJson :: "string \<Rightarrow> json option"                \<comment> \<open>\<^verbatim>\<open>QJsonDocument::fromJson\<close>\<close>
  qt_toJson :: "json \<Rightarrow> string"                         \<comment> \<open>\<^verbatim>\<open>QJsonDocument::toJson(Compact)\<close>\<close>

text \<open>
  What \<^verbatim>\<open>JsonValueToLongLong\<close> needs of the writer: one line of JSON text, in which integers
  are written in decimal and the null value as \<^verbatim>\<open>null\<close>.
\<close>

locale json_writer =
  fixes wr :: "json \<Rightarrow> string"
  assumes write_int: "wr (JInt w) = show_int (sint w) @ [newline]"
    and write_uint: "wr (JUInt w) = show_int (uint w) @ [newline]"
    and write_null: "wr JNull = ''null'' @ [newline]"
    and write_str: "\<exists>body. wr (JStr s) = CHR 0x22 # body"
begin

lemma write_nonempty: "wr (JInt w) \<noteq> []" "wr (JUInt w) \<noteq> []" "wr JNull \<noteq> []"
  by (simp_all add: write_int write_uint write_null)

lemma atoll_int: "atoll (c_str (butlast (wr (JInt w)))) = w"
  using atoll_show_int [of "[]" w] by (simp add: write_int butlast_append)

lemma atoll_uint:
  assumes "uint w \<le> LONG_MAX"
  shows "atoll (c_str (butlast (wr (JUInt w)))) = w"
proof -
  have "LONG_MIN \<le> uint w" by (simp add: uint_lower)
  with assms strtol_show_int [of "uint w" "[]"] show ?thesis
    by (simp add: write_uint butlast_append atoll_def)
qed

lemma atoll_null: "atoll (c_str (butlast (wr JNull))) = 0"
proof -
  have c: "c_str (butlast (''null'' @ [newline])) = ''null''" by (simp add: c_str_def)
  have d: "dropWhile is_space ''null'' = ''null''" by simp
  have "scan_number ''null'' = None" by (simp add: scan_number_def d scan_sign_def)
  then have "strtol ''null'' = \<lparr>sc_val = 0, sc_rest = ''null'', sc_some = False, sc_erange = False\<rparr>"
    by (simp add: strtol_def)
  then show ?thesis using c by (simp only: write_null atoll_def) (simp add: c)
qed

text \<open>A quoted number is no number for \<^verbatim>\<open>atoll\<close>: the text starts with the quote.\<close>

lemma atoll_str: "atoll (c_str (butlast (wr (JStr s)))) = 0"
proof -
  obtain body where "wr (JStr s) = CHR 0x22 # body" using write_str by blast
  moreover have "scan_number (CHR 0x22 # xs) = None" "scan_number [] = None" for xs
    by (simp_all add: scan_number_def scan_sign_def is_space_def is_digit_def)
  ultimately show ?thesis
    by (cases "body = []") (simp_all add: atoll_def strtol_def c_str_def)
qed

end

text \<open>
  What the integer getters need of the number conversions: an integer converts to \<^verbatim>\<open>int\<close>
  (to \<^verbatim>\<open>unsigned int\<close>) exactly when it is in range, and then to the same number.
\<close>

locale json_numbers =
  fixes convertible :: "json \<Rightarrow> value_type \<Rightarrow> bool"
    and as_int :: "json \<Rightarrow> u32"
    and as_uint :: "json \<Rightarrow> u32"
  assumes int_in_int: "convertible (JInt w) intValue \<longleftrightarrow> INT_MIN \<le> sint w \<and> sint w \<le> INT_MAX"
    and uint_in_int: "convertible (JUInt w) intValue \<longleftrightarrow> uint w \<le> INT_MAX"
    and int_in_uint: "convertible (JInt w) uintValue \<longleftrightarrow> 0 \<le> sint w \<and> sint w \<le> UINT_MAX"
    and uint_in_uint: "convertible (JUInt w) uintValue \<longleftrightarrow> uint w \<le> UINT_MAX"
    and as_int_int: "as_int (JInt w) = ucast w"
    and as_int_uint: "as_int (JUInt w) = ucast w"
    and as_uint_int: "as_uint (JInt w) = ucast w"
    and as_uint_uint: "as_uint (JUInt w) = ucast w"

section \<open>A reference library\<close>

text \<open>
  A compact writer and the plain number conversions: the concrete instance on which the
  hypotheses about the libraries are satisfied. It reads no text; a witness that needs a
  parsed message says which text stands for which value.
\<close>

definition quoted :: "string \<Rightarrow> string" where
  "quoted s = CHR 0x22 # concat (map (\<lambda>c. if c = CHR 0x22 \<or> c = CHR 0x5C then [CHR 0x5C, c] else [c]) s) @ [CHR 0x22]"

fun sep_by :: "string \<Rightarrow> string list \<Rightarrow> string" where
  "sep_by sep [] = []"
| "sep_by sep [x] = x"
| "sep_by sep (x # xs) = x @ sep @ sep_by sep xs"

fun ref_text :: "json \<Rightarrow> string" where
  "ref_text JNull = ''null''"
| "ref_text (JInt w) = show_int (sint w)"
| "ref_text (JUInt w) = show_int (uint w)"
| "ref_text (JReal x) = show_g6 x"
| "ref_text (JStr s) = quoted s"
| "ref_text (JBool b) = (if b then ''true'' else ''false'')"
| "ref_text (JArr vs) = ''['' @ sep_by '','' (map ref_text vs) @ '']''"
| "ref_text (JObj kvs) = ''{'' @ sep_by '','' (map (\<lambda>(k, v). quoted k @ '':'' @ ref_text v) kvs) @ ''}''"

definition ref_write :: "json \<Rightarrow> string" where
  "ref_write v = ref_text v @ [newline]"

fun ref_int_value :: "json \<Rightarrow> int option" where
  "ref_int_value JNull = Some 0"
| "ref_int_value (JInt w) = Some (sint w)"
| "ref_int_value (JUInt w) = Some (uint w)"
| "ref_int_value (JReal x) = Some (if 0 \<le> x then \<lfloor>x\<rfloor> else - \<lfloor>- x\<rfloor>)"
| "ref_int_value (JBool b) = Some (if b then 1 else 0)"
| "ref_int_value _ = None"

definition ref_convertible :: "json \<Rightarrow> value_type \<Rightarrow> bool" where
  "ref_convertible v t = (case ref_int_value v of None \<Rightarrow> False | Some i \<Rightarrow>
     (if t = intValue then INT_MIN \<le> i \<and> i \<le> INT_MAX
      else if t = uintValue then 0 \<le> i \<and> i \<le> UINT_MAX else True))"

definition ref_as_word :: "json \<Rightarrow> u32" where
  "ref_as_word v = (case ref_int_value v of None \<Rightarrow> 0 | Some i \<Rightarrow> word_of_int i)"

definition ref_lib :: json_lib where
  "ref_lib = \<lparr>
     lib_parse = (\<lambda>s. None),
     lib_write = ref_write,
     lib_isInt = (\<lambda>v. (type_of v = intValue \<or> type_of v = uintValue) \<and> ref_convertible v intValue),
     lib_isUInt = (\<lambda>v. (type_of v = intValue \<or> type_of v = uintValue) \<and> ref_convertible v uintValue),
     lib_isDouble = (\<lambda>v. type_of v = intValue \<or> type_of v = uintValue \<or> type_of v = realValue),
     lib_isConvertibleTo = ref_convertible,
     lib_asBool = (\<lambda>v. ref_int_value v \<noteq> Some 0),
     lib_asInt = ref_as_word,
     lib_asUInt = ref_as_word,
     lib_asDouble = (\<lambda>v. case v of JReal x \<Rightarrow> x | _ \<Rightarrow> (case ref_int_value v of None \<Rightarrow> 0 | Some i \<Rightarrow> of_int i)),
     lib_strtod = (\<lambda>s. let r = strtol s in (of_int (sc_val r), sc_rest r, sc_erange r)),
     qt_fromJson = (\<lambda>s. None),
     qt_toJson = ref_text\<rparr>"

interpretation ref_writer: json_writer ref_write
  by unfold_locales (simp_all add: ref_write_def quoted_def)

interpretation ref_numbers: json_numbers ref_convertible ref_as_word ref_as_word
  by unfold_locales
    (simp_all add: ref_convertible_def ref_as_word_def uint_lower scast_down_ucast)

end
