(* ===== verification/Json_Tools.thy ===== *)
theory Json_Tools
  imports Json_Value
begin

text \<open>
  \<^verbatim>\<open>src/JsonTools.cpp\<close>: typed extraction from JSON values, arrays and objects, vectors to
  arrays and back, and the text forms of a value. A function that returns \<^verbatim>\<open>bool\<close> and
  writes through an \<^verbatim>\<open>out\<close> pointer takes the old contents of the pointer and returns the
  pair of both; an integer of the code's type \<^verbatim>\<open>int\<close> or \<^verbatim>\<open>unsigned int\<close> is a 32-bit
  word. \<^verbatim>\<open>QString\<close> and \<^verbatim>\<open>std::string\<close> are both \<open>string\<close>: the texts involved are ASCII,
  on which the conversions between the two are the identity.
\<close>

section \<open>Numbers to text\<close>

text \<open>\<^verbatim>\<open>os >> out\<close> reads one token.\<close>

definition read_token :: "string \<Rightarrow> string" where
  "read_token s = takeWhile (\<lambda>c. \<not> is_space c) (dropWhile is_space s)"

definition ToString_bool :: "bool \<Rightarrow> string" where
  "ToString_bool v = read_token (if v then ''1'' else ''0'')"

definition ToString_int :: "u32 \<Rightarrow> string" where
  "ToString_int v = read_token (show_int (sint v))"

definition ToString_uint :: "u32 \<Rightarrow> string" where
  "ToString_uint v = read_token (show_nat (unat v))"

definition ToString_double :: "rat \<Rightarrow> string" where
  "ToString_double v = read_token (show_g6 v)"

lemma read_token_id: "(\<And>c. c \<in> set s \<Longrightarrow> \<not> is_space c) \<Longrightarrow> read_token s = s"
proof -
  assume h: "\<And>c. c \<in> set s \<Longrightarrow> \<not> is_space c"
  then have "dropWhile is_space s = s" by (cases s) simp_all
  moreover have "takeWhile (\<lambda>c. \<not> is_space c) s = s"
    by (rule takeWhile_eq_all_conv [THEN iffD2]) (use h in auto)
  ultimately show ?thesis by (simp add: read_token_def)
qed

lemma ToString_int_eq [simp]: "ToString_int v = show_int (sint v)"
  unfolding ToString_int_def
  by (rule read_token_id) (use show_int_chars digit_not_space in fastforce)

lemma ToString_uint_eq [simp]: "ToString_uint v = show_nat (unat v)"
  unfolding ToString_uint_def
  by (rule read_token_id) (use show_nat_digits digit_not_space in blast)

section \<open>Typed access to one value\<close>

definition GetStringFromJson :: "json_lib \<Rightarrow> json \<Rightarrow> string \<Rightarrow> bool \<times> string" where
  "GetStringFromJson L v out =
     (if \<not> isString v then
        (if isBool v then (True, ToString_bool (lib_asBool L v))
         else if lib_isInt L v then (True, ToString_int (lib_asInt L v))
         else if lib_isUInt L v then (True, ToString_uint (lib_asUInt L v))
         else if lib_isDouble L v then (True, ToString_double (lib_asDouble L v))
         else (False, out))
      else (True, asString v))"

text \<open>
  The string branch stores \<^verbatim>\<open>val\<close> even when the text is refused; the store narrows a
  \<^verbatim>\<open>long\<close> to an \<^verbatim>\<open>int\<close>.
\<close>

definition GetIntFromJson :: "json_lib \<Rightarrow> json \<Rightarrow> u32 \<Rightarrow> bool \<times> u32" where
  "GetIntFromJson L v out =
     (if \<not> isString v then
        (let ret = lib_isConvertibleTo L v intValue
         in (ret, if ret then lib_asInt L v else out))
      else
        (let r = strtol (c_str (asString v));
             ret = (sc_some r \<and> sc_rest r = [] \<and> \<not> sc_erange r
                    \<and> INT_MIN \<le> sc_val r \<and> sc_val r \<le> INT_MAX)
         in (ret, word_of_int (sc_val r))))"

definition GetUIntFromJson :: "json_lib \<Rightarrow> json \<Rightarrow> u32 \<Rightarrow> bool \<times> u32" where
  "GetUIntFromJson L v out =
     (if \<not> isString v then
        (let ret = lib_isConvertibleTo L v uintValue
         in (ret, if ret then lib_asUInt L v else out))
      else
        (let r = strtoul (c_str (asString v));
             ret = (sc_some r \<and> sc_rest r = [] \<and> \<not> sc_erange r \<and> sc_val r \<le> UINT_MAX)
         in (ret, word_of_int (sc_val r))))"

definition GetBoolFromJson :: "json_lib \<Rightarrow> json \<Rightarrow> bool \<Rightarrow> bool \<times> bool" where
  "GetBoolFromJson L v out =
     (if \<not> isString v then
        (let ret = lib_isConvertibleTo L v booleanValue
         in (ret, if ret then lib_asBool L v else out))
      else if asString v = ''true'' then (True, True)
      else if asString v = ''false'' then (True, False)
      else (False, out))"

definition GetDoubleFromJson :: "json_lib \<Rightarrow> json \<Rightarrow> rat \<Rightarrow> bool \<times> rat" where
  "GetDoubleFromJson L v out =
     (if \<not> isString v then
        (let ret = lib_isConvertibleTo L v realValue
         in (ret, if ret then lib_asDouble L v else out))
      else
        (let s = c_str (asString v); (val, rest, errno) = lib_strtod L s
         in (rest \<noteq> s \<and> rest = [] \<and> \<not> errno, val)))"

definition GetValueFromJson :: "json \<Rightarrow> json \<Rightarrow> bool \<times> json" where
  "GetValueFromJson v out = (True, v)"

section \<open>Arrays to vectors\<close>

text \<open>
  The loop of \<^verbatim>\<open>JsonArrayToVector\<close>: \<open>junk\<close> is the content of the uninitialised local
  \<^verbatim>\<open>T val\<close>, \<open>vec\<close> what has been pushed so far.
\<close>

fun array_loop :: "(json \<Rightarrow> 'a \<Rightarrow> bool \<times> 'a) \<Rightarrow> 'a \<Rightarrow> json list \<Rightarrow> 'a list \<Rightarrow> bool \<times> 'a list" where
  "array_loop getter junk [] vec = (True, vec)"
| "array_loop getter junk (v # vs) vec =
     (case getter v junk of (ok, x) \<Rightarrow>
        if \<not> ok then (False, vec) else array_loop getter junk vs (vec @ [x]))"

definition JsonArrayToVector :: "(json \<Rightarrow> 'a \<Rightarrow> bool \<times> 'a) \<Rightarrow> 'a \<Rightarrow> json \<Rightarrow> bool \<times> 'a list" where
  "JsonArrayToVector getter junk v =
     (if \<not> isArray v then (False, []) else array_loop getter junk (elements v) [])"

definition JsonArrayToValueVector :: "json \<Rightarrow> bool \<times> json list" where
  "JsonArrayToValueVector v = JsonArrayToVector GetValueFromJson JNull v"

definition JsonArrayToIntVector :: "json_lib \<Rightarrow> u32 \<Rightarrow> json \<Rightarrow> bool \<times> u32 list" where
  "JsonArrayToIntVector L junk v = JsonArrayToVector (GetIntFromJson L) junk v"

definition JsonArrayToUIntVector :: "json_lib \<Rightarrow> u32 \<Rightarrow> json \<Rightarrow> bool \<times> u32 list" where
  "JsonArrayToUIntVector L junk v = JsonArrayToVector (GetUIntFromJson L) junk v"

definition JsonArrayToStringVector :: "json_lib \<Rightarrow> json \<Rightarrow> bool \<times> string list" where
  "JsonArrayToStringVector L v = JsonArrayToVector (GetStringFromJson L) [] v"

definition JsonArrayToBoolVector :: "json_lib \<Rightarrow> bool \<Rightarrow> json \<Rightarrow> bool \<times> bool list" where
  "JsonArrayToBoolVector L junk v = JsonArrayToVector (GetBoolFromJson L) junk v"

definition JsonArrayToDoubleVector :: "json_lib \<Rightarrow> rat \<Rightarrow> json \<Rightarrow> bool \<times> rat list" where
  "JsonArrayToDoubleVector L junk v = JsonArrayToVector (GetDoubleFromJson L) junk v"

section \<open>Vectors to arrays\<close>

text \<open>\<open>mk\<close> is the constructor \<^verbatim>\<open>Json::Value(vec[i])\<close> of the element type.\<close>

definition VectorToJsonArray :: "('a \<Rightarrow> json) \<Rightarrow> 'a list \<Rightarrow> json" where
  "VectorToJsonArray mk vec = fold (\<lambda>x result. json_append result (mk x)) vec (JArr [])"

definition ValueVectorToJsonArray :: "json list \<Rightarrow> json" where
  "ValueVectorToJsonArray vec = VectorToJsonArray (\<lambda>v. v) vec"

definition json_of_int :: "u32 \<Rightarrow> json" where
  "json_of_int i = JInt (scast i)"

definition json_of_uint :: "u32 \<Rightarrow> json" where
  "json_of_uint u = JUInt (ucast u)"

definition IntVectorToJsonArray :: "u32 list \<Rightarrow> json" where
  "IntVectorToJsonArray vec = VectorToJsonArray json_of_int vec"

definition UIntVectorToJsonArray :: "u32 list \<Rightarrow> json" where
  "UIntVectorToJsonArray vec = VectorToJsonArray json_of_uint vec"

definition StringVectorToJsonArray :: "string list \<Rightarrow> json" where
  "StringVectorToJsonArray vec = VectorToJsonArray JStr vec"

definition BoolVectorToJsonArray :: "bool list \<Rightarrow> json" where
  "BoolVectorToJsonArray vec = VectorToJsonArray JBool vec"

definition DoubleVectorToJsonArray :: "rat list \<Rightarrow> json" where
  "DoubleVectorToJsonArray vec = VectorToJsonArray JReal vec"

section \<open>Elements of arrays and members of objects\<close>

text \<open>
  The index is a \<^verbatim>\<open>size_t\<close>; \<^verbatim>\<open>static_cast<int>\<close> and \<^verbatim>\<open>static_cast<ArrayIndex>\<close> both keep
  its low 32 bits.
\<close>

definition GetValueFromJsonArray :: "json \<Rightarrow> i64 \<Rightarrow> json \<Rightarrow> bool \<times> json" where
  "GetValueFromJsonArray v n out =
     (if \<not> isArray v \<or> \<not> isValidIndex v (ucast n) then (False, out)
      else (True, json_index v (ucast n)))"

definition GetValueFromJsonObject :: "json \<Rightarrow> string \<Rightarrow> json \<Rightarrow> bool \<times> json" where
  "GetValueFromJsonObject v k out =
     (if \<not> isObject v \<or> \<not> isMember v k then (False, out) else (True, json_get v k))"

text \<open>\<^verbatim>\<open>GetValueFromJsonX(in, \<dots>, &x) && GetTFromJson(x, out)\<close>, with a null \<^verbatim>\<open>x\<close> at first.\<close>

definition and_then_get :: "bool \<times> json \<Rightarrow> (json \<Rightarrow> 'a \<Rightarrow> bool \<times> 'a) \<Rightarrow> 'a \<Rightarrow> bool \<times> 'a" where
  "and_then_get r getter out = (if fst r then getter (snd r) out else (False, out))"

definition GetIntFromJsonArray :: "json_lib \<Rightarrow> json \<Rightarrow> i64 \<Rightarrow> u32 \<Rightarrow> bool \<times> u32" where
  "GetIntFromJsonArray L v n out = and_then_get (GetValueFromJsonArray v n JNull) (GetIntFromJson L) out"

definition GetUIntFromJsonArray :: "json_lib \<Rightarrow> json \<Rightarrow> i64 \<Rightarrow> u32 \<Rightarrow> bool \<times> u32" where
  "GetUIntFromJsonArray L v n out = and_then_get (GetValueFromJsonArray v n JNull) (GetUIntFromJson L) out"

definition GetStringFromJsonArray :: "json_lib \<Rightarrow> json \<Rightarrow> i64 \<Rightarrow> string \<Rightarrow> bool \<times> string" where
  "GetStringFromJsonArray L v n out = and_then_get (GetValueFromJsonArray v n JNull) (GetStringFromJson L) out"

definition GetBoolFromJsonArray :: "json_lib \<Rightarrow> json \<Rightarrow> i64 \<Rightarrow> bool \<Rightarrow> bool \<times> bool" where
  "GetBoolFromJsonArray L v n out = and_then_get (GetValueFromJsonArray v n JNull) (GetBoolFromJson L) out"

definition GetDoubleFromJsonArray :: "json_lib \<Rightarrow> json \<Rightarrow> i64 \<Rightarrow> rat \<Rightarrow> bool \<times> rat" where
  "GetDoubleFromJsonArray L v n out = and_then_get (GetValueFromJsonArray v n JNull) (GetDoubleFromJson L) out"

definition GetIntFromJsonObject :: "json_lib \<Rightarrow> json \<Rightarrow> string \<Rightarrow> u32 \<Rightarrow> bool \<times> u32" where
  "GetIntFromJsonObject L v k out = and_then_get (GetValueFromJsonObject v k JNull) (GetIntFromJson L) out"

definition GetUIntFromJsonObject :: "json_lib \<Rightarrow> json \<Rightarrow> string \<Rightarrow> u32 \<Rightarrow> bool \<times> u32" where
  "GetUIntFromJsonObject L v k out = and_then_get (GetValueFromJsonObject v k JNull) (GetUIntFromJson L) out"

definition GetStringFromJsonObject :: "json_lib \<Rightarrow> json \<Rightarrow> string \<Rightarrow> string \<Rightarrow> bool \<times> string" where
  "GetStringFromJsonObject L v k out = and_then_get (GetValueFromJsonObject v k JNull) (GetStringFromJson L) out"

definition GetBoolFromJsonObject :: "json_lib \<Rightarrow> json \<Rightarrow> string \<Rightarrow> bool \<Rightarrow> bool \<times> bool" where
  "GetBoolFromJsonObject L v k out = and_then_get (GetValueFromJsonObject v k JNull) (GetBoolFromJson L) out"

definition GetDoubleFromJsonObject :: "json_lib \<Rightarrow> json \<Rightarrow> string \<Rightarrow> rat \<Rightarrow> bool \<times> rat" where
  "GetDoubleFromJsonObject L v k out = and_then_get (GetValueFromJsonObject v k JNull) (GetDoubleFromJson L) out"

section \<open>Text forms\<close>

text \<open>
  \<^verbatim>\<open>value.substr(0, value.size() - 1)\<close> drops the last character; for the empty text
  the length wraps to \<^verbatim>\<open>npos\<close> and the result is empty, as \<open>butlast []\<close> is.
\<close>

definition JsonValueToString :: "json_lib \<Rightarrow> json \<Rightarrow> string" where
  "JsonValueToString L v = butlast (lib_write L v)"

definition JsonValueToLongLong :: "json_lib \<Rightarrow> json \<Rightarrow> string \<Rightarrow> i64" where
  "JsonValueToLongLong L v k =
     (let idStr = snd (GetValueFromJsonObject v k JNull)
      in atoll (c_str (JsonValueToString L idStr)))"

definition ConvertToJson :: "json_lib \<Rightarrow> string \<Rightarrow> json \<Rightarrow> bool \<times> json" where
  "ConvertToJson L msg ret =
     (case qt_fromJson L msg of
        None \<Rightarrow> (False, ret)
      | Some document \<Rightarrow> if \<not> isObject document then (False, ret) else (True, document))"

definition JsonValueToQString :: "json_lib \<Rightarrow> json \<Rightarrow> string" where
  "JsonValueToQString L message =
     (let json_str = JsonValueToString L message;
          jsonObject = snd (ConvertToJson L json_str (JObj []))
      in qt_toJson L jsonObject)"

section \<open>The getters as an interface\<close>

text \<open>
  What the array loop relies on: a getter's answer, and its value when the answer is
  \<^verbatim>\<open>true\<close>, do not depend on what was in the out variable before.
\<close>

locale json_getter =
  fixes getter :: "json \<Rightarrow> 'a \<Rightarrow> bool \<times> 'a"
  assumes answer_stable: "fst (getter v a) = fst (getter v b)"
    and value_stable: "fst (getter v a) \<Longrightarrow> snd (getter v a) = snd (getter v b)"
begin

lemma array_loop_junk: "array_loop getter a vs vec = array_loop getter b vs vec"
proof (induction vs arbitrary: vec)
  case Nil
  show ?case by simp
next
  case (Cons v vs)
  show ?case
    using Cons.IH answer_stable [of v a b] value_stable [of v a b]
    by (auto split: prod.splits)
qed

lemma vector_junk: "JsonArrayToVector getter a v = JsonArrayToVector getter b v"
  using array_loop_junk by (simp add: JsonArrayToVector_def)

end

text \<open>A getter that reads back what a constructor of values stores.\<close>

locale json_codec = json_getter +
  fixes mk :: "'a \<Rightarrow> json"
  assumes getter_mk: "getter (mk x) out = (True, x)"
begin

lemma array_loop_mk: "array_loop getter junk (map mk xs) vec = (True, vec @ xs)"
  by (induction xs arbitrary: vec) (simp_all add: getter_mk)

end

lemma elements_fold_append:
  "fold (\<lambda>x result. json_append result (mk x)) xs (JArr vs) = JArr (vs @ map mk xs)"
  by (induction xs arbitrary: vs) (simp_all add: json_append_def)

lemma VectorToJsonArray_eq: "VectorToJsonArray mk xs = JArr (map mk xs)"
  using elements_fold_append [of mk xs "[]"] by (simp add: VectorToJsonArray_def)

context json_codec begin

lemma vector_roundtrip: "JsonArrayToVector getter junk (VectorToJsonArray mk xs) = (True, xs)"
  by (simp add: JsonArrayToVector_def VectorToJsonArray_eq array_loop_mk)

end

interpretation value_codec: json_codec GetValueFromJson "\<lambda>v. v"
  by unfold_locales (simp_all add: GetValueFromJson_def)

interpretation string_codec: json_codec "GetStringFromJson L" JStr for L
  by unfold_locales (auto simp: GetStringFromJson_def)

interpretation int_getter: json_getter "GetIntFromJson L" for L
  by unfold_locales (auto simp: GetIntFromJson_def Let_def)

interpretation uint_getter: json_getter "GetUIntFromJson L" for L
  by unfold_locales (auto simp: GetUIntFromJson_def Let_def)

interpretation bool_getter: json_getter "GetBoolFromJson L" for L
  by unfold_locales (auto simp: GetBoolFromJson_def Let_def)

interpretation double_getter: json_getter "GetDoubleFromJson L" for L
  by unfold_locales (auto simp: GetDoubleFromJson_def Let_def split: prod.splits)

text \<open>A library whose number conversions behave as documented.\<close>

locale int_lib = json_numbers "lib_isConvertibleTo L" "lib_asInt L" "lib_asUInt L"
  for L :: json_lib

lemma sint_scast_u32: "sint (scast (i :: u32) :: i64) = sint i"
  by (simp add: sint_up_scast is_up)

lemma uint_ucast_u32: "uint (ucast (i :: u32) :: i64) = uint i"
  by (simp add: uint_up_ucast is_up)

lemma ucast_scast_u32: "(ucast (scast (i :: u32) :: i64) :: u32) = i"
  by (rule bit_word_eqI) (auto simp: bit_simps)

lemma ucast_ucast_u32: "(ucast (ucast (i :: u32) :: i64) :: u32) = i"
  by (rule bit_word_eqI) (auto simp: bit_simps)

lemma sint_u32_range: "INT_MIN \<le> sint (i :: u32) \<and> sint i \<le> INT_MAX"
  using sint_ge [of i] sint_lt [of i] by simp

lemma uint_u32_range: "uint (i :: u32) \<le> UINT_MAX"
  using uint_lt2p [of i] by simp

sublocale int_lib \<subseteq> ints: json_codec "GetIntFromJson L" json_of_int
  by unfold_locales
    (simp_all add: GetIntFromJson_def json_of_int_def int_in_int as_int_int
      sint_scast_u32 ucast_scast_u32 sint_u32_range [simplified])

sublocale int_lib \<subseteq> uints: json_codec "GetUIntFromJson L" json_of_uint
  by unfold_locales
    (simp_all add: GetUIntFromJson_def json_of_uint_def uint_in_uint as_uint_uint
      uint_ucast_u32 ucast_ucast_u32 uint_u32_range [simplified])

context int_lib begin

lemma int_vector: "JsonArrayToIntVector L junk (IntVectorToJsonArray is) = (True, is)"
  unfolding JsonArrayToIntVector_def IntVectorToJsonArray_def by (rule ints.vector_roundtrip)

lemma uint_vector: "JsonArrayToUIntVector L junk (UIntVectorToJsonArray us) = (True, us)"
  unfolding JsonArrayToUIntVector_def UIntVectorToJsonArray_def by (rule uints.vector_roundtrip)

end

interpretation ref_int_lib: int_lib ref_lib
  by (simp add: int_lib_def ref_lib_def ref_numbers.json_numbers_axioms)

section \<open>Outcome of the array loop\<close>

lemma array_loop_outcome:
  "array_loop getter junk vs vec =
     (list_all (\<lambda>v. fst (getter v junk)) vs,
      vec @ map (\<lambda>v. snd (getter v junk)) (takeWhile (\<lambda>v. fst (getter v junk)) vs))"
  by (induction vs arbitrary: vec) (auto split: prod.splits)

text \<open>
  C39: the typed array readers fail on a value that is not an array; on an array they succeed
  exactly when every element converts, and in both cases the vector holds the converted
  elements before the first one that does not convert, in order.
\<close>

theorem JsonArrayToVector_outcome:
  "JsonArrayToVector getter junk v =
     (isArray v \<and> list_all (\<lambda>x. fst (getter x junk)) (elements v),
      map (\<lambda>x. snd (getter x junk)) (takeWhile (\<lambda>x. fst (getter x junk)) (elements v)))"
  by (cases v) (simp_all add: JsonArrayToVector_def array_loop_outcome isArray_def)

text \<open>
  The uninitialised local of the array loop never shows: the six vector readers give the
  same result whatever it contains.
\<close>

lemma JsonArrayToVector_no_junk:
  "JsonArrayToIntVector L a v = JsonArrayToIntVector L b v
   \<and> JsonArrayToUIntVector L a v = JsonArrayToUIntVector L b v
   \<and> JsonArrayToBoolVector L p v = JsonArrayToBoolVector L q v
   \<and> JsonArrayToDoubleVector L x v = JsonArrayToDoubleVector L y v"
  unfolding JsonArrayToIntVector_def JsonArrayToUIntVector_def JsonArrayToBoolVector_def
    JsonArrayToDoubleVector_def
  using int_getter.vector_junk uint_getter.vector_junk bool_getter.vector_junk
    double_getter.vector_junk by blast

text \<open>
  C40: vectors of values, strings, signed and unsigned integers written to a JSON array are
  read back unchanged by the matching reader, for any library whose number conversions
  behave as documented.
\<close>

theorem vector_array_roundtrip:
  assumes "int_lib L"
  shows "JsonArrayToIntVector L junk (IntVectorToJsonArray is) = (True, is)
    \<and> JsonArrayToUIntVector L junk (UIntVectorToJsonArray us) = (True, us)
    \<and> JsonArrayToStringVector L (StringVectorToJsonArray ss) = (True, ss)
    \<and> JsonArrayToValueVector (ValueVectorToJsonArray vs) = (True, vs)"
  unfolding JsonArrayToStringVector_def StringVectorToJsonArray_def
    JsonArrayToValueVector_def ValueVectorToJsonArray_def
  using int_lib.int_vector [OF assms] int_lib.uint_vector [OF assms]
    string_codec.vector_roundtrip value_codec.vector_roundtrip by blast

theorem vector_array_roundtrip_witness:
  "JsonArrayToIntVector ref_lib 7 (IntVectorToJsonArray [1, -1]) = (True, [1, -1])"
  using vector_array_roundtrip [OF ref_int_lib.int_lib_axioms, of 7 "[1, -1]" "[]" "[]" "[]"] by blast

section \<open>Integers in strings\<close>

lemma strtol_cases:
  assumes "scan_number s = Some (neg, m, r)" "v = (if neg then - int m else int m)"
  shows "strtol s = \<lparr>sc_val = max LONG_MIN (min LONG_MAX v), sc_rest = r, sc_some = True,
    sc_erange = (v < LONG_MIN \<or> LONG_MAX < v)\<rparr>"
  using assms(2) [symmetric] by (simp add: strtol_def assms(1) Let_def max_def min_def)

lemma strtol_none: "scan_number s = None \<Longrightarrow> \<not> sc_some (strtol s)"
  by (simp add: strtol_def)

lemma clamp_in_int:
  "\<not> (v < LONG_MIN \<or> LONG_MAX < v) \<Longrightarrow> max LONG_MIN (min LONG_MAX v) = v"
  by (simp add: max_def min_def)

text \<open>
  A JSON string is accepted as an \<^verbatim>\<open>int\<close> exactly when the whole C string is one decimal
  number (leading white space and a sign allowed) whose value fits in 32 signed bits, and
  then that value is delivered; the decimal text of every \<^verbatim>\<open>int\<close> is accepted.
\<close>

lemma GetIntFromJson_string:
  "(fst (GetIntFromJson L (JStr s) out) \<longleftrightarrow>
      (\<exists>neg m. scan_number (c_str s) = Some (neg, m, []) \<and>
         INT_MIN \<le> (if neg then - int m else int m) \<and> (if neg then - int m else int m) \<le> INT_MAX))
   \<and> GetIntFromJson L (JStr (show_int (sint i))) out = (True, i)"
proof
  show "fst (GetIntFromJson L (JStr s) out) \<longleftrightarrow>
      (\<exists>neg m. scan_number (c_str s) = Some (neg, m, []) \<and>
         INT_MIN \<le> (if neg then - int m else int m) \<and> (if neg then - int m else int m) \<le> INT_MAX)"
  proof (cases "scan_number (c_str s)")
    case None
    then show ?thesis using strtol_none [OF None] by (simp add: GetIntFromJson_def)
  next
    case (Some t)
    obtain neg m r where t: "t = (neg, m, r)" by (cases t)
    define v where "v = (if neg then - int m else int m)"
    have r: "strtol (c_str s) = \<lparr>sc_val = max LONG_MIN (min LONG_MAX v), sc_rest = r,
        sc_some = True, sc_erange = (v < LONG_MIN \<or> LONG_MAX < v)\<rparr>"
      by (rule strtol_cases) (simp_all add: Some t v_def)
    have "fst (GetIntFromJson L (JStr s) out) \<longleftrightarrow> r = [] \<and> INT_MIN \<le> v \<and> v \<le> INT_MAX"
      by (auto simp: GetIntFromJson_def r max_def min_def split: if_splits)
    then show ?thesis by (auto simp: Some t v_def)
  qed
next
  have "LONG_MIN \<le> sint i" "sint i \<le> LONG_MAX"
    using sint_u32_range [of i] by simp_all
  from strtol_show_int [OF this, of "[]"]
  show "GetIntFromJson L (JStr (show_int (sint i))) out = (True, i)"
    using sint_u32_range [of i] by (simp add: GetIntFromJson_def)
qed

lemmas scan_eval = scan_number_def scan_sign_def is_digit_def is_space_def digits_val_def digit_val_def

text \<open>
  \<^verbatim>\<open>GetUIntFromJson\<close> accepts the decimal text of every unsigned value, but the negation
  inside \<^verbatim>\<open>strtoul\<close> also lets a negative number through when it wraps to a small one:
  \<^verbatim>\<open>"-18446744073709551615"\<close> is taken for 1, while \<^verbatim>\<open>"-1"\<close> is refused.
\<close>

lemma GetUIntFromJson_string:
  "GetUIntFromJson L (JStr (show_int (uint u))) out = (True, u)
   \<and> GetUIntFromJson L (JStr ''-18446744073709551615'') out = (True, 1)
   \<and> \<not> fst (GetUIntFromJson L (JStr ''-1'') out)"
proof (intro conjI)
  have "0 \<le> uint u" "uint u \<le> ULONG_MAX"
    using uint_u32_range [of u] by simp_all
  from strtoul_show_int [OF this, of "[]"]
  show "GetUIntFromJson L (JStr (show_int (uint u))) out = (True, u)"
    using uint_u32_range [of u] by (simp add: GetUIntFromJson_def)
next
  have "scan_number ''-18446744073709551615'' = Some (True, 18446744073709551615, [])"
    by (simp add: scan_eval)
  then show "GetUIntFromJson L (JStr ''-18446744073709551615'') out = (True, 1)"
    by (simp add: GetUIntFromJson_def strtoul_def c_str_def)
next
  have "scan_number ''-1'' = Some (True, 1, [])"
    by (simp add: scan_eval)
  then show "\<not> fst (GetUIntFromJson L (JStr ''-1'') out)"
    by (simp add: GetUIntFromJson_def strtoul_def c_str_def)
qed

section \<open>Indices\<close>

text \<open>
  Below \<^verbatim>\<open>2^32\<close> reading element \<open>n\<close> succeeds exactly when the array has it, and yields
  it; the casts to \<^verbatim>\<open>int\<close> and \<^verbatim>\<open>ArrayIndex\<close> make larger indices wrap, so that index
  \<^verbatim>\<open>2^32\<close> reads element 0 of any non-empty array.
\<close>

lemma GetValueFromJsonArray_bounds:
  "(unat n < 2 ^ 32 \<longrightarrow> GetValueFromJsonArray (JArr vs) n out =
     (if unat n < length vs then (True, vs ! unat n) else (False, out)))
   \<and> GetValueFromJsonArray (JArr (v # ws)) 4294967296 out = (True, v)"
proof (intro conjI impI)
  assume "unat n < 2 ^ 32"
  then have i: "unat (ucast n :: u32) = unat n"
    unfolding unat_ucast_u32 by (rule mod_less)
  show "GetValueFromJsonArray (JArr vs) n out =
     (if unat n < length vs then (True, vs ! unat n) else (False, out))"
    unfolding GetValueFromJsonArray_def isValidIndex_def json_index_def i by simp
next
  have "(ucast (4294967296 :: i64) :: u32) = 0" by simp
  then show "GetValueFromJsonArray (JArr (v # ws)) 4294967296 out = (True, v)"
    by (simp add: GetValueFromJsonArray_def isValidIndex_def json_index_def)
qed

section \<open>Identifiers\<close>

lemma GetValue_obj [simp]:
  "GetValueFromJsonObject (JObj kvs) k out =
     (case map_of kvs k of None \<Rightarrow> (False, out) | Some v \<Rightarrow> (True, v))"
  by (simp add: GetValueFromJsonObject_def isMember_def split: option.splits)

lemma GetValue_no_object: "\<not> isObject v \<Longrightarrow> GetValueFromJsonObject v k out = (False, out)"
  unfolding GetValueFromJsonObject_def by (rule if_P) blast

lemma LongLong_unfold:
  "JsonValueToLongLong L (JObj kvs) k =
     atoll (c_str (butlast (lib_write L (case map_of kvs k of None \<Rightarrow> JNull | Some v \<Rightarrow> v))))"
  by (simp add: JsonValueToLongLong_def JsonValueToString_def split: option.splits)

lemma LongLong_int:
  "json_writer (lib_write L) \<Longrightarrow> map_of kvs k = Some (JInt w) \<Longrightarrow> JsonValueToLongLong L (JObj kvs) k = w"
  by (simp only: LongLong_unfold option.case json_writer.atoll_int)

lemma LongLong_uint:
  "json_writer (lib_write L) \<Longrightarrow> map_of kvs k = Some (JUInt w) \<Longrightarrow> uint w \<le> LONG_MAX \<Longrightarrow>
    JsonValueToLongLong L (JObj kvs) k = w"
  by (simp only: LongLong_unfold option.case json_writer.atoll_uint)

lemma LongLong_str:
  "json_writer (lib_write L) \<Longrightarrow> map_of kvs k = Some (JStr s) \<Longrightarrow> JsonValueToLongLong L (JObj kvs) k = 0"
  by (simp only: LongLong_unfold option.case json_writer.atoll_str)

lemma LongLong_missing:
  "json_writer (lib_write L) \<Longrightarrow> map_of kvs k = None \<Longrightarrow> JsonValueToLongLong L (JObj kvs) k = 0"
  by (simp only: LongLong_unfold option.case json_writer.atoll_null)

lemma LongLong_null:
  "json_writer (lib_write L) \<Longrightarrow> map_of kvs k = Some JNull \<Longrightarrow> JsonValueToLongLong L (JObj kvs) k = 0"
  by (simp only: LongLong_unfold option.case json_writer.atoll_null)

lemma LongLong_no_object:
  "json_writer (lib_write L) \<Longrightarrow> \<not> isObject v \<Longrightarrow> JsonValueToLongLong L v k = 0"
  unfolding JsonValueToLongLong_def JsonValueToString_def
  by (simp only: GetValue_no_object not_False_eq_True snd_conv Let_def json_writer.atoll_null)

text \<open>
  \<^verbatim>\<open>JsonValueToLongLong\<close> yields the value of an integer member exactly, for all 64 bits,
  and 0 when the member is missing, null or a string; it never reports a failure.
\<close>

lemma JsonValueToLongLong_cases:
  assumes "json_writer (lib_write L)"
  shows "(map_of kvs k = Some (JInt w) \<longrightarrow> JsonValueToLongLong L (JObj kvs) k = w)
    \<and> (map_of kvs k = Some (JUInt w) \<and> uint w \<le> LONG_MAX \<longrightarrow> JsonValueToLongLong L (JObj kvs) k = w)
    \<and> (map_of kvs k = Some (JStr s) \<longrightarrow> JsonValueToLongLong L (JObj kvs) k = 0)
    \<and> (map_of kvs k = None \<or> map_of kvs k = Some JNull \<longrightarrow> JsonValueToLongLong L (JObj kvs) k = 0)
    \<and> (\<not> isObject v \<longrightarrow> JsonValueToLongLong L v k = 0)"
  using LongLong_int [OF assms] LongLong_uint [OF assms] LongLong_str [OF assms]
    LongLong_missing [OF assms] LongLong_null [OF assms] LongLong_no_object [OF assms]
  by (intro conjI impI) (blast+)

end
