(* ===== verification/Common_Tools.thy ===== *)
theory Common_Tools
  imports Demo_Prelude
begin

text \<open>
  \<^verbatim>\<open>src/Common.cpp\<close>: random identifiers, settings from the environment, and the global
  server address. What the operating system and Qt deliver is an argument: the generator
  behind \<^verbatim>\<open>qrand\<close> (a step from a seed to a non-negative number and the next seed),
  \<^verbatim>\<open>getenv\<close> and \<^verbatim>\<open>gethostname\<close>.
\<close>

record os_env =
  qrand :: "nat \<Rightarrow> nat \<times> nat"
  getenv :: "string \<Rightarrow> string option"
  gethostname :: "string option"      \<comment> \<open>\<open>None\<close> when the call fails\<close>

section \<open>Random strings\<close>

definition charSet :: string where
  "charSet = ''ABCDEFGHIJKLMNOPQRSTUVWXYZabcdefghijklmnopqrstuvwxyz0123456789''"

definition strLen :: nat where
  "strLen = length charSet"

text \<open>The loop body: one draw, one character appended.\<close>

fun random_loop :: "(nat \<Rightarrow> nat \<times> nat) \<Rightarrow> nat \<Rightarrow> string \<Rightarrow> nat \<Rightarrow> string \<times> nat" where
  "random_loop rnd 0 randomString seed = (randomString, seed)"
| "random_loop rnd (Suc n) randomString seed =
     (let (r, seed') = rnd seed
      in random_loop rnd n (randomString @ [charSet ! (r mod strLen)]) seed')"

text \<open>\<^verbatim>\<open>len\<close> is an \<^verbatim>\<open>int\<close>; a negative one runs the loop no time.\<close>

definition GetRandomString :: "(nat \<Rightarrow> nat \<times> nat) \<Rightarrow> int \<Rightarrow> nat \<Rightarrow> string \<times> nat" where
  "GetRandomString rnd len seed = random_loop rnd (nat len) [] seed"

lemma strLen_eq: "strLen = 62"
  by (simp add: strLen_def charSet_def)

text \<open>The draws of the generator, one after the other.\<close>

fun draws :: "(nat \<Rightarrow> nat \<times> nat) \<Rightarrow> nat \<Rightarrow> nat \<Rightarrow> nat list" where
  "draws rnd 0 seed = []"
| "draws rnd (Suc n) seed = fst (rnd seed) # draws rnd n (snd (rnd seed))"

lemma length_draws [simp]: "length (draws rnd n seed) = n"
  by (induction n arbitrary: seed) simp_all

lemma random_loop_eq:
  "fst (random_loop rnd n acc seed) = acc @ map (\<lambda>r. charSet ! (r mod strLen)) (draws rnd n seed)"
  by (induction n arbitrary: acc seed) (simp_all add: case_prod_unfold Let_def)

lemma charSet_at: "charSet ! (r mod strLen) \<in> set charSet"
  by (rule nth_mem) (simp add: strLen_def charSet_def)

lemma charSet_distinct: "distinct charSet"
  by (simp add: charSet_def)

lemma charSet_at_inject: "charSet ! (a mod strLen) = charSet ! (b mod strLen) \<Longrightarrow> a mod strLen = b mod strLen"
  using nth_eq_iff_index_eq [OF charSet_distinct, of "a mod strLen" "b mod strLen"]
  by (simp add: strLen_def [symmetric] strLen_eq)

text \<open>
  A random string has exactly the requested length (none for a negative length) and
  only letters and digits; two calls give the same string exactly when their draws agree
  modulo 62, position by position.
\<close>

lemma GetRandomString_correct:
  "length (fst (GetRandomString rnd len seed)) = nat len
   \<and> set (fst (GetRandomString rnd len seed)) \<subseteq> set charSet
   \<and> (fst (GetRandomString rnd len a) = fst (GetRandomString rnd len b) \<longleftrightarrow>
      map (\<lambda>r. r mod 62) (draws rnd (nat len) a) = map (\<lambda>r. r mod 62) (draws rnd (nat len) b))"
proof -
  have eq: "fst (GetRandomString rnd len s) = map (\<lambda>r. charSet ! (r mod strLen)) (draws rnd (nat len) s)" for s
    by (simp add: GetRandomString_def random_loop_eq)
  have inj: "map (\<lambda>r. charSet ! (r mod strLen)) xs = map (\<lambda>r. charSet ! (r mod strLen)) ys \<longleftrightarrow>
      map (\<lambda>r. r mod 62) xs = map (\<lambda>r. r mod 62) ys" for xs ys
  proof
    assume h: "map (\<lambda>r. charSet ! (r mod strLen)) xs = map (\<lambda>r. charSet ! (r mod strLen)) ys"
    then have l: "length xs = length ys" by (rule map_eq_imp_length_eq)
    show "map (\<lambda>r. r mod 62) xs = map (\<lambda>r. r mod 62) ys"
    proof (rule nth_equalityI)
      fix i assume "i < length (map (\<lambda>r. r mod 62) xs)"
      then have "charSet ! (xs ! i mod strLen) = charSet ! (ys ! i mod strLen)"
        using h l by (metis (mono_tags, lifting) length_map nth_map)
      then show "map (\<lambda>r. r mod 62) xs ! i = map (\<lambda>r. r mod 62) ys ! i"
        using charSet_at_inject \<open>i < _\<close> l by (simp add: strLen_eq)
    qed (simp add: l)
  next
    assume "map (\<lambda>r. r mod 62) xs = map (\<lambda>r. r mod 62) ys"
    then have "map ((!) charSet) (map (\<lambda>r. r mod 62) xs) = map ((!) charSet) (map (\<lambda>r. r mod 62) ys)"
      by (rule arg_cong)
    then show "map (\<lambda>r. charSet ! (r mod strLen)) xs = map (\<lambda>r. charSet ! (r mod strLen)) ys"
      by (simp add: strLen_eq o_def)
  qed
  show ?thesis using charSet_at by (auto simp: eq inj)
qed

section \<open>Settings\<close>

definition GetEnvVarOrDefault :: "os_env \<Rightarrow> string \<Rightarrow> string \<Rightarrow> string" where
  "GetEnvVarOrDefault E env_var_name default_value =
     (let value = (case getenv E env_var_name of None \<Rightarrow> [] | Some env_var \<Rightarrow> env_var)
      in if value = [] then default_value else value)"

definition GetPeerConnectionString :: "os_env \<Rightarrow> string" where
  "GetPeerConnectionString E = GetEnvVarOrDefault E ''WEBRTC_CONNECT'' ''stun:192.168.1.104''"

definition GetDefaultServerName :: "os_env \<Rightarrow> string" where
  "GetDefaultServerName E = GetEnvVarOrDefault E ''WEBRTC_SERVER'' ''192.168.1.104''"

definition GetPeerName :: "os_env \<Rightarrow> string" where
  "GetPeerName E =
     GetEnvVarOrDefault E ''USERNAME'' ''user'' @ ''@'' @
     (case gethostname E of Some Computer_name \<Rightarrow> Computer_name | None \<Rightarrow> ''host'')"

text \<open>The global \<^verbatim>\<open>gServerUrl\<close>, as a state of one string.\<close>

definition SetServerUrl :: "string \<Rightarrow> string \<Rightarrow> string" where
  "SetServerUrl url gServerUrl = url"

definition GetServerUrl :: "string \<Rightarrow> string" where
  "GetServerUrl gServerUrl = gServerUrl"

text \<open>
  An unset or empty environment variable gives the default, any other variable its own
  text; with neither a user name in the environment nor a host name the peer is called
  \<^verbatim>\<open>user@host\<close>.
\<close>

lemma GetEnvVarOrDefault_cases:
  "(getenv E v = None \<or> getenv E v = Some [] \<longrightarrow> GetEnvVarOrDefault E v d = d)
   \<and> (getenv E v = Some x \<and> x \<noteq> [] \<longrightarrow> GetEnvVarOrDefault E v d = x)
   \<and> (gethostname E = None \<and> getenv E ''USERNAME'' = None \<longrightarrow> GetPeerName E = ''user@host'')"
  by (auto simp: GetEnvVarOrDefault_def GetPeerName_def)

end
