(* ===== verification/Web_Socket.thy ===== *)
theory Web_Socket
  imports Demo_Prelude
begin

text \<open>
  \<^verbatim>\<open>src/JanusWebSocket.cpp\<close>: the connection to the Janus server with its keep-alive timer
  and its time-out watchdog. \<^verbatim>\<open>QWebSocket\<close> is not under \<^verbatim>\<open>src/\<close>: its state is a field that
  only the environment changes, and the calls made on it are recorded as commands in the
  order in which they are issued. \<^verbatim>\<open>QTimer\<close> follows its documentation: \<^verbatim>\<open>start(ms)\<close> sets the
  interval and (re)starts, \<^verbatim>\<open>start()\<close> restarts with the last interval, a timer fires again
  and again until \<^verbatim>\<open>stop()\<close>. Time is counted in milliseconds.
\<close>

section \<open>Timers\<close>

record qtimer =
  t_interval :: nat
  t_left :: "nat option"      \<comment> \<open>milliseconds until the next timeout; \<open>None\<close> when inactive\<close>

definition timer_new :: qtimer where
  "timer_new = \<lparr>t_interval = 0, t_left = None\<rparr>"

definition timer_start :: "nat \<Rightarrow> qtimer \<Rightarrow> qtimer" where
  "timer_start ms t = \<lparr>t_interval = ms, t_left = Some ms\<rparr>"

definition timer_restart :: "qtimer \<Rightarrow> qtimer" where
  "timer_restart t = t\<lparr>t_left := Some (t_interval t)\<rparr>"

definition timer_stop :: "qtimer \<Rightarrow> qtimer" where
  "timer_stop t = t\<lparr>t_left := None\<rparr>"

definition timer_isActive :: "qtimer \<Rightarrow> bool" where
  "timer_isActive t \<longleftrightarrow> t_left t \<noteq> None"

definition timer_due :: "qtimer \<Rightarrow> bool" where
  "timer_due t \<longleftrightarrow> t_left t = Some 0"

definition timer_tick :: "qtimer \<Rightarrow> qtimer" where
  "timer_tick t = t\<lparr>t_left := map_option (\<lambda>n. n - 1) (t_left t)\<rparr>"

text \<open>The contract of a timer, as its users need it.\<close>

locale timer_api =
  fixes start :: "nat \<Rightarrow> 't \<Rightarrow> 't"
    and restart :: "'t \<Rightarrow> 't"
    and stop :: "'t \<Rightarrow> 't"
    and tick :: "'t \<Rightarrow> 't"
    and interval :: "'t \<Rightarrow> nat"
    and left :: "'t \<Rightarrow> nat option"
  assumes left_start: "left (start ms t) = Some ms"
    and interval_start: "interval (start ms t) = ms"
    and left_restart: "left (restart t) = Some (interval t)"
    and interval_restart: "interval (restart t) = interval t"
    and left_stop: "left (stop t) = None"
    and interval_stop: "interval (stop t) = interval t"
    and left_tick: "left (tick t) = map_option (\<lambda>n. n - 1) (left t)"
    and interval_tick: "interval (tick t) = interval t"
begin

lemma left_ticks: "left ((tick ^^ n) t) = map_option (\<lambda>k. k - n) (left t)"
  by (induction n) (simp_all add: left_tick option.map_comp o_def option.map_ident)

lemma interval_ticks: "interval ((tick ^^ n) t) = interval t"
  by (induction n) (simp_all add: interval_tick)

text \<open>A started timer is due after exactly its interval, not before.\<close>

lemma due_after: "left ((tick ^^ n) (start ms t)) = Some 0 \<longleftrightarrow> ms \<le> n"
  by (simp add: left_ticks left_start)

lemma due_after_restart: "left ((tick ^^ n) (restart t)) = Some 0 \<longleftrightarrow> interval t \<le> n"
  by (simp add: left_ticks left_restart)

lemma stopped_never_due: "left ((tick ^^ n) (stop t)) = None"
  by (simp add: left_ticks left_stop)

end

interpretation qtimer: timer_api timer_start timer_restart timer_stop timer_tick t_interval t_left
  by unfold_locales
    (simp_all add: timer_start_def timer_restart_def timer_stop_def timer_tick_def)

section \<open>State\<close>

datatype socket_state = UnconnectedState | HostLookupState | ConnectingState | ConnectedState
  | BoundState | ListeningState | ClosingState

datatype ws_cmd =
    WsOpen string string bool      \<comment> \<open>URL, sub-protocol header, peer verification switched off\<close>
  | WsClose
  | WsSendText string

text \<open>\<open>'cb\<close> names the functions bound to the callbacks; an empty \<^verbatim>\<open>std::function\<close> is \<open>None\<close>.\<close>

record 'cb janus_ws =
  ws_state :: socket_state
  ws_cmds :: "ws_cmd list"
  pPingTimer :: qtimer
  pPingTimeOutTimer :: qtimer
  OnWebSocketReceiveMessageCallBack :: "'cb option"
  OnWebSocketErrorCallBack :: "'cb option"
  OnWebSocketConnectedCallBack :: "'cb option"
  OnWebSocketDisConnectedCallBack :: "'cb option"
  OnWebSocketHeartBeatCallBack :: "'cb option"
  OnWebSocketTimeOutCallBack :: "'cb option"

definition pingInterval :: nat where "pingInterval = 25000"
definition pingTimeout :: nat where "pingTimeout = 60000"

definition ws_new :: "'cb janus_ws" where
  "ws_new = \<lparr>ws_state = UnconnectedState, ws_cmds = [], pPingTimer = timer_new,
     pPingTimeOutTimer = timer_new, OnWebSocketReceiveMessageCallBack = None,
     OnWebSocketErrorCallBack = None, OnWebSocketConnectedCallBack = None,
     OnWebSocketDisConnectedCallBack = None, OnWebSocketHeartBeatCallBack = None,
     OnWebSocketTimeOutCallBack = None\<rparr>"

definition ws_cmd :: "ws_cmd \<Rightarrow> 'cb janus_ws \<Rightarrow> 'cb janus_ws" where
  "ws_cmd c s = s\<lparr>ws_cmds := ws_cmds s @ [c]\<rparr>"

section \<open>Operations\<close>

text \<open>\<^verbatim>\<open>url.startsWith("wss://")\<close>\<close>

definition is_wss :: "string \<Rightarrow> bool" where
  "is_wss url \<longleftrightarrow> take 6 url = ''wss://''"

definition JWS_Open :: "string \<Rightarrow> 'cb janus_ws \<Rightarrow> 'cb janus_ws" where
  "JWS_Open url s =
     (let s = ws_cmd (WsOpen url ''janus-protocol'' (is_wss url)) s
      in s\<lparr>pPingTimer := timer_start pingInterval (pPingTimer s)\<rparr>)"

definition ws_close_if_open :: "'cb janus_ws \<Rightarrow> 'cb janus_ws" where
  "ws_close_if_open s = (if ws_state s \<noteq> UnconnectedState then ws_cmd WsClose s else s)"

definition ws_stop_timers :: "'cb janus_ws \<Rightarrow> 'cb janus_ws" where
  "ws_stop_timers s = s\<lparr>pPingTimer := timer_stop (pPingTimer s),
     pPingTimeOutTimer := timer_stop (pPingTimeOutTimer s)\<rparr>"

definition JWS_Close :: "'cb janus_ws \<Rightarrow> 'cb janus_ws" where
  "JWS_Close s = ws_stop_timers (ws_close_if_open s)"

definition JWS_SendMessage :: "string \<Rightarrow> 'cb janus_ws \<Rightarrow> 'cb janus_ws" where
  "JWS_SendMessage message s = ws_cmd (WsSendText message) s"

definition JWS_ResetTimer :: "'cb janus_ws \<Rightarrow> 'cb janus_ws" where
  "JWS_ResetTimer s = s\<lparr>pPingTimeOutTimer := timer_restart (timer_stop (pPingTimeOutTimer s))\<rparr>"

text \<open>The destructor disconnects the slots, stops the timers and closes the socket.\<close>

definition JWS_destroy :: "'cb janus_ws \<Rightarrow> 'cb janus_ws" where
  "JWS_destroy s = ws_cmd WsClose (ws_stop_timers s)"

definition RegisterReceiveMessageCallback :: "'cb \<Rightarrow> 'cb janus_ws \<Rightarrow> 'cb janus_ws" where
  "RegisterReceiveMessageCallback cb s = s\<lparr>OnWebSocketReceiveMessageCallBack := Some cb\<rparr>"

definition RegisterErrorCallback :: "'cb \<Rightarrow> 'cb janus_ws \<Rightarrow> 'cb janus_ws" where
  "RegisterErrorCallback cb s = s\<lparr>OnWebSocketErrorCallBack := Some cb\<rparr>"

definition RegisterConnectedCallback :: "'cb \<Rightarrow> 'cb janus_ws \<Rightarrow> 'cb janus_ws" where
  "RegisterConnectedCallback cb s = s\<lparr>OnWebSocketConnectedCallBack := Some cb\<rparr>"

definition RegisterDisConnectedCallback :: "'cb \<Rightarrow> 'cb janus_ws \<Rightarrow> 'cb janus_ws" where
  "RegisterDisConnectedCallback cb s = s\<lparr>OnWebSocketDisConnectedCallBack := Some cb\<rparr>"

definition RegisterHeartBeatCallback :: "'cb \<Rightarrow> 'cb janus_ws \<Rightarrow> 'cb janus_ws" where
  "RegisterHeartBeatCallback cb s = s\<lparr>OnWebSocketHeartBeatCallBack := Some cb\<rparr>"

definition RegisterTimeOutCallback :: "'cb \<Rightarrow> 'cb janus_ws \<Rightarrow> 'cb janus_ws" where
  "RegisterTimeOutCallback cb s = s\<lparr>OnWebSocketTimeOutCallBack := Some cb\<rparr>"

section \<open>Slots\<close>

text \<open>
  In every slot the callback is the last statement. A slot is therefore the new state of the
  socket together with the callback that is then run, if one is registered.
\<close>

definition onWsMessage :: "'cb janus_ws \<Rightarrow> 'cb option \<times> 'cb janus_ws" where
  "onWsMessage s = (OnWebSocketReceiveMessageCallBack s, s)"

definition onWsError :: "'cb janus_ws \<Rightarrow> 'cb option \<times> 'cb janus_ws" where
  "onWsError s = (OnWebSocketErrorCallBack s, s)"

definition onPingTimer :: "'cb janus_ws \<Rightarrow> 'cb option \<times> 'cb janus_ws" where
  "onPingTimer s =
     (if ws_state s = ConnectedState then
        (let s' = (if \<not> timer_isActive (pPingTimeOutTimer s)
                   then s\<lparr>pPingTimeOutTimer := timer_start pingTimeout (pPingTimeOutTimer s)\<rparr>
                   else s)
         in (OnWebSocketHeartBeatCallBack s', s'))
      else (None, s\<lparr>pPingTimeOutTimer := timer_stop (pPingTimeOutTimer s)\<rparr>))"

definition onPingTimeout :: "'cb janus_ws \<Rightarrow> 'cb option \<times> 'cb janus_ws" where
  "onPingTimeout s =
     (let s' = ws_stop_timers (ws_close_if_open s) in (OnWebSocketTimeOutCallBack s', s'))"

definition onWebSocketConnected :: "'cb janus_ws \<Rightarrow> 'cb option \<times> 'cb janus_ws" where
  "onWebSocketConnected s = (OnWebSocketConnectedCallBack s, s)"

definition onWebSocketDisConnected :: "'cb janus_ws \<Rightarrow> 'cb option \<times> 'cb janus_ws" where
  "onWebSocketDisConnected s = (OnWebSocketDisConnectedCallBack s, s)"

lemmas ws_ops = JWS_Open_def JWS_Close_def JWS_SendMessage_def JWS_ResetTimer_def
  ws_close_if_open_def ws_stop_timers_def ws_cmd_def

lemmas timer_ops = timer_start_def timer_restart_def timer_stop_def timer_isActive_def
  timer_tick_def timer_due_def timer_new_def

section \<open>The socket in time\<close>

datatype ws_event =
    Tick                        \<comment> \<open>one millisecond passes\<close>
  | PingFires | TimeoutFires     \<comment> \<open>a due timer runs its slot\<close>
  | Received | Failed | Connected | Disconnected      \<comment> \<open>the signals of the socket\<close>
  | StateIs socket_state         \<comment> \<open>the socket changes state\<close>
  | DoOpen string | DoClose | DoSend string | DoReset    \<comment> \<open>the owner calls the object\<close>

text \<open>
  A due timer runs its slot before more time passes; a timer is armed again with its
  interval when it fires. Which of two due timers runs first is not determined.
\<close>

inductive ws_step :: "'cb janus_ws \<Rightarrow> ws_event \<Rightarrow> 'cb option \<Rightarrow> 'cb janus_ws \<Rightarrow> bool" where
  tick: "\<not> timer_due (pPingTimer s) \<Longrightarrow> \<not> timer_due (pPingTimeOutTimer s) \<Longrightarrow>
    ws_step s Tick None (s\<lparr>pPingTimer := timer_tick (pPingTimer s),
      pPingTimeOutTimer := timer_tick (pPingTimeOutTimer s)\<rparr>)"
| ping: "timer_due (pPingTimer s) \<Longrightarrow>
    onPingTimer (s\<lparr>pPingTimer := timer_restart (pPingTimer s)\<rparr>) = (cb, s') \<Longrightarrow>
    ws_step s PingFires cb s'"
| timeout: "timer_due (pPingTimeOutTimer s) \<Longrightarrow>
    onPingTimeout (s\<lparr>pPingTimeOutTimer := timer_restart (pPingTimeOutTimer s)\<rparr>) = (cb, s') \<Longrightarrow>
    ws_step s TimeoutFires cb s'"
| received: "onWsMessage s = (cb, s') \<Longrightarrow> ws_step s Received cb s'"
| failed: "onWsError s = (cb, s') \<Longrightarrow> ws_step s Failed cb s'"
| connected: "onWebSocketConnected s = (cb, s') \<Longrightarrow> ws_step s Connected cb s'"
| disconnected: "onWebSocketDisConnected s = (cb, s') \<Longrightarrow> ws_step s Disconnected cb s'"
| state: "ws_step s (StateIs st) None (s\<lparr>ws_state := st\<rparr>)"
| do_open: "ws_step s (DoOpen url) None (JWS_Open url s)"
| do_close: "ws_step s DoClose None (JWS_Close s)"
| do_send: "ws_step s (DoSend m) None (JWS_SendMessage m s)"
| do_reset: "ws_step s DoReset None (JWS_ResetTimer s)"

inductive_cases ws_stepE: "ws_step s e cb s'"
inductive_simps ws_step_timeout: "ws_step s TimeoutFires cb s'"
inductive_simps ws_step_ping: "ws_step s PingFires cb s'"

inductive ws_run :: "'cb janus_ws \<Rightarrow> ws_event list \<Rightarrow> 'cb janus_ws \<Rightarrow> bool" where
  nil: "ws_run s [] s"
| cons: "ws_step s e cb t \<Longrightarrow> ws_run t es u \<Longrightarrow> ws_run s (e # es) u"

inductive_cases ws_run_nilE: "ws_run s [] u"
inductive_cases ws_run_consE: "ws_run s (e # es) u"

text \<open>Milliseconds in a run.\<close>

definition ticks :: "ws_event list \<Rightarrow> nat" where
  "ticks es = length (filter ((=) Tick) es)"

lemma ticks_Cons: "ticks (e # es) = (if e = Tick then 1 else 0) + ticks es"
  by (simp add: ticks_def)

section \<open>The watchdog\<close>

text \<open>
  What the watchdog still has to wait for: at least \<open>n\<close> milliseconds, or it is not running;
  its interval is the configured one whenever it can be restarted.
\<close>

definition watch_ge :: "nat \<Rightarrow> 'cb janus_ws \<Rightarrow> bool" where
  "watch_ge n s \<longleftrightarrow> t_interval (pPingTimeOutTimer s) = pingTimeout
     \<and> (\<forall>k. t_left (pPingTimeOutTimer s) = Some k \<longrightarrow> n \<le> k)"

lemma watch_ge_mono: "watch_ge n s \<Longrightarrow> m \<le> n \<Longrightarrow> watch_ge m s"
  by (auto simp: watch_ge_def)

lemma watch_ge_not_due: "watch_ge n s \<Longrightarrow> 0 < n \<Longrightarrow> \<not> timer_due (pPingTimeOutTimer s)"
  by (auto simp: watch_ge_def timer_due_def)

lemma onPingTimer_watch: "onPingTimer s = (cb, s') \<Longrightarrow> watch_ge n s \<Longrightarrow> n \<le> pingTimeout \<Longrightarrow> watch_ge n s'"
  by (auto simp: onPingTimer_def watch_ge_def timer_ops Let_def split: if_splits)

lemma ws_step_watch:
  assumes "ws_step s e cb s'" "watch_ge n s" "0 < n" "n \<le> pingTimeout"
  shows "watch_ge (n - (if e = Tick then 1 else 0)) s'"
  using assms
proof (cases rule: ws_step.cases)
  case tick
  with assms(2) show ?thesis by (auto simp: watch_ge_def timer_tick_def)
next
  case ping
  then have "watch_ge n s'"
    by (intro onPingTimer_watch [OF ping(3)]) (use assms in \<open>auto simp: watch_ge_def\<close>)
  with ping show ?thesis by simp
next
  case timeout
  with watch_ge_not_due [OF assms(2,3)] show ?thesis by simp
qed (use assms in \<open>auto simp: watch_ge_def ws_ops timer_ops Let_def onWsMessage_def onWsError_def
    onWebSocketConnected_def onWebSocketDisConnected_def\<close>)


definition ex_socket :: "unit janus_ws" where
  "ex_socket = ws_new\<lparr>ws_state := ConnectedState, pPingTimeOutTimer := timer_start pingTimeout timer_new\<rparr>"


definition quiet :: "ws_event \<Rightarrow> bool" where
  "quiet e \<longleftrightarrow> e \<in> {Tick, PingFires, Received, Failed, Connected} \<or> (\<exists>m. e = DoSend m)"

lemma ws_step_quiet:
  assumes "ws_step s e cb s'" "quiet e" "ws_state s = ConnectedState"
    "t_left (pPingTimeOutTimer s) = Some n"
  shows "ws_state s' = ConnectedState
    \<and> t_left (pPingTimeOutTimer s') = Some (n - (if e = Tick then 1 else 0))"
  using assms
  by (cases rule: ws_stepE)
    (auto simp: quiet_def onPingTimer_def timer_ops Let_def ws_ops onWsMessage_def onWsError_def
      onWebSocketConnected_def split: if_splits)

text \<open>
  C34: the watchdog is not forgetful either: with the watchdog running, a connected socket
  that gets no keep-alive answer and is neither closed nor disconnected has a due watchdog
  once its remaining time has passed, and firing it closes the socket and stops both timers.
\<close>

theorem watchdog_fires:
  assumes "ws_run s es s'" "\<forall>e \<in> set es. quiet e" "ws_state s = ConnectedState"
    "t_left (pPingTimeOutTimer s) = Some n" "n \<le> ticks es"
  shows "\<exists>cb t. ws_step s' TimeoutFires cb t \<and> last (ws_cmds t) = WsClose
    \<and> \<not> timer_isActive (pPingTimer t) \<and> \<not> timer_isActive (pPingTimeOutTimer t)"
proof -
  have run: "ws_run s es s' \<Longrightarrow> \<forall>e \<in> set es. quiet e \<Longrightarrow> ws_state s = ConnectedState \<Longrightarrow>
      t_left (pPingTimeOutTimer s) = Some n \<Longrightarrow>
      ws_state s' = ConnectedState \<and> t_left (pPingTimeOutTimer s') = Some (n - ticks es)" for n
  proof (induction arbitrary: n rule: ws_run.induct)
    case (nil s)
    then show ?case by (simp add: ticks_def)
  next
    case (cons s e cb t es u)
    have t: "ws_state t = ConnectedState
        \<and> t_left (pPingTimeOutTimer t) = Some (n - (if e = Tick then 1 else 0))"
      using cons by (intro ws_step_quiet) auto
    have "ws_state u = ConnectedState
        \<and> t_left (pPingTimeOutTimer u) = Some (n - (if e = Tick then 1 else 0) - ticks es)"
      by (rule cons.IH) (use t cons.prems in auto)
    then show ?case by (simp add: ticks_Cons)
  qed
  from run [OF assms(1-4)] assms(5)
  have "ws_state s' = ConnectedState" "timer_due (pPingTimeOutTimer s')"
    by (simp_all add: timer_due_def)
  then show ?thesis
    by (auto simp: ws_step_timeout onPingTimeout_def Let_def ws_ops timer_ops)
qed

theorem watchdog_fires_witness:
  "\<exists>cb t. ws_step (ex_socket\<lparr>pPingTimeOutTimer := timer_start 0 timer_new\<rparr>) TimeoutFires cb t
    \<and> last (ws_cmds t) = WsClose \<and> \<not> timer_isActive (pPingTimer t)
    \<and> \<not> timer_isActive (pPingTimeOutTimer t)"
  by (rule watchdog_fires [OF ws_run.nil, of _ 0])
    (simp_all add: ex_socket_def timer_ops ticks_def)

text \<open>
  While connected a ping always asks for a keep-alive message and leaves the watchdog
  running: it starts a stopped watchdog with 60000 ms and never prolongs a running one; when
  not connected it asks for nothing and stops the watchdog.
\<close>

lemma onPingTimer_contract:
  "(ws_state s = ConnectedState \<longrightarrow>
      fst (onPingTimer s) = OnWebSocketHeartBeatCallBack s
      \<and> t_left (pPingTimeOutTimer (snd (onPingTimer s))) =
          (case t_left (pPingTimeOutTimer s) of None \<Rightarrow> Some 60000 | Some n \<Rightarrow> Some n))
   \<and> (ws_state s \<noteq> ConnectedState \<longrightarrow>
      fst (onPingTimer s) = None \<and> \<not> timer_isActive (pPingTimeOutTimer (snd (onPingTimer s))))
   \<and> ws_cmds (snd (onPingTimer s)) = ws_cmds s"
  by (auto simp: onPingTimer_def timer_ops Let_def pingTimeout_def split: option.splits)

text \<open>
  Closing, by the owner or by the watchdog, leaves no active timer and closes the
  socket exactly when it is not already unconnected; after an owner's close nothing but a
  new \<^verbatim>\<open>Open\<close> or a late keep-alive answer starts a timer again.
\<close>

lemma JWS_Close_stops:
  assumes "ws_run (JWS_Close s) es s'" "\<forall>e \<in> set es. e \<noteq> DoReset \<and> (\<forall>url. e \<noteq> DoOpen url)"
  shows "\<not> timer_isActive (pPingTimer s') \<and> \<not> timer_isActive (pPingTimeOutTimer s')
    \<and> (ws_cmds (JWS_Close s) = ws_cmds s @ (if ws_state s = UnconnectedState then [] else [WsClose]))"
proof -
  have step: "ws_step t e cb t' \<Longrightarrow> e \<noteq> DoReset \<Longrightarrow> \<forall>url. e \<noteq> DoOpen url \<Longrightarrow>
      t_left (pPingTimer t) = None \<and> t_left (pPingTimeOutTimer t) = None \<Longrightarrow>
      t_left (pPingTimer t') = None \<and> t_left (pPingTimeOutTimer t') = None" for t e cb and t' :: "'a janus_ws"
    by (erule ws_stepE)
      (auto simp: timer_ops ws_ops onWsMessage_def onWsError_def onWebSocketConnected_def
        onWebSocketDisConnected_def)
  have "ws_run t es s' \<Longrightarrow> \<forall>e \<in> set es. e \<noteq> DoReset \<and> (\<forall>url. e \<noteq> DoOpen url) \<Longrightarrow>
      t_left (pPingTimer t) = None \<and> t_left (pPingTimeOutTimer t) = None \<Longrightarrow>
      t_left (pPingTimer s') = None \<and> t_left (pPingTimeOutTimer s') = None" for t
  proof (induction rule: ws_run.induct)
    case (nil s)
    then show ?case by simp
  next
    case (cons s e cb t es u)
    then show ?case using step [OF cons.hyps(1)] by simp
  qed
  from this [OF assms] show ?thesis by (simp add: ws_ops timer_ops)
qed

end
