(* ===== verification/Janus_State.thy ===== *)
theory Janus_State
  imports Json_Tools Common_Tools Web_Socket
begin

text \<open>
  The data shared by \<^verbatim>\<open>JanusVideoRoomManager\<close> and \<^verbatim>\<open>JanusPeerConnection\<close>: the two
  classes call each other, so their members live in one state. A manager owns its socket,
  its tables of callbacks and its peers; a peer is an object on the heap, known by its
  address, and can be deleted while something still points to it. A \<^verbatim>\<open>std::bind\<close> of a
  member function is the name of that function (and the address of its object); the three
  functions the conference layer registers are functions on the state of that layer, which
  the manager carries as \<open>client\<close>.
\<close>

section \<open>Bound functions\<close>

text \<open>Member functions of a peer that are bound to the answer of a request.\<close>

datatype peer_slot =
    OnAttachVideoRoomJoin | OnAttachVideoRoomCreate | OnAttachVideoRoomDestory
  | OnAttachTextRoomJoin | OnAttachTextRoomCreate | OnAttachTextRoomDestory
  | OnCreateVideoRoom | OnCreateTextRoom | OnDestoryVideoRoom | OnDestoryTextRoom

datatype listener =
    ToCreateSessionId               \<comment> \<open>\<^verbatim>\<open>JanusVideoRoomManager::onCreateSessionId\<close>\<close>
  | ToHeartBeat                     \<comment> \<open>\<^verbatim>\<open>JanusVideoRoomManager::onHeartBeat\<close>\<close>
  | ToPeer addr peer_slot           \<comment> \<open>a member function of the peer at this address\<close>

datatype video_event = EventJoin | EventAttached | EventEvent
datatype text_event = TextEventEvent

text \<open>Member functions of the manager that are bound to the socket.\<close>

datatype socket_slot = SlotSocketConnected | SlotSocketDisConnected | SlotReceivedMessage | SlotHeartBeatMessage

text \<open>Member functions of the manager that report the outcome of a room request.\<close>

datatype report_slot =
    CreateVideoRoomSuccessed | CreateVideoRoomFailed
  | CreateTextRoomSuccessed | CreateTextRoomFailed
  | DestroyVideoRoomSuccessed | DestroyVideoRoomFailed
  | DestroyTextRoomSuccessed | DestroyTextRoomFailed

section \<open>Objects\<close>

text \<open>The members of \<^verbatim>\<open>JanusPeerConnection\<close>, but for its pointers to the manager and the socket.\<close>

record peer =
  mSessionID :: i64
  mVideoRoomHandleID :: i64
  mTextRoomHandleID :: i64
  mPrivateId :: i64
  mSubscribeId :: i64
  mVideoRoomId :: u32
  mTextRoomId :: u32
  mVideoRoomDisplayName :: string
  mTextRoomDisplayName :: string
  onCreateVideoRoomSuccessedCallback :: "report_slot option"
  onCreateVideoRoomFailedCallback :: "report_slot option"
  onCreateTextRoomSuccessedCallback :: "report_slot option"
  onCreateTextRoomFailedCallback :: "report_slot option"
  onDestroyVideoRoomSuccessedCallback :: "report_slot option"
  onDestroyVideoRoomFailedCallback :: "report_slot option"
  onDestroyTextRoomSuccessedCallback :: "report_slot option"
  onDestroyTextRoomFailedCallback :: "report_slot option"

record 'c janus =
  pWebSocket :: "socket_slot janus_ws"
  mVideoRoomID :: u32
  mSessionId :: i64
  mPrivatedId :: i64
  mMessage_success_callback :: "string \<rightharpoonup> listener"
  mMessage_ack_callback :: "string \<rightharpoonup> listener"
  mMessage_event_videoRoom :: "(string \<times> video_event) list"
  mMessage_event_textRoom :: "(string \<times> text_event) list"
  mVideoRoomPeerList :: "addr list"
  mTextRoomPeerList :: "addr list"
  pCreateVideoRoomPeer :: "addr option"
  pCreateTextRoomPeer :: "addr option"
  OnConnectToPeer :: "(i64 \<Rightarrow> bool \<Rightarrow> bool \<Rightarrow> bool \<Rightarrow> 'c \<Rightarrow> 'c res) option"
  OnRemoteSdp :: "(i64 \<Rightarrow> string \<Rightarrow> string \<Rightarrow> bool \<Rightarrow> 'c \<Rightarrow> 'c res) option"
  OnRemoteStreamRemove :: "(i64 \<Rightarrow> 'c \<Rightarrow> 'c res) option"
  heap :: "addr \<rightharpoonup> peer"
  next_addr :: nat
  seed :: nat                 \<comment> \<open>of \<^verbatim>\<open>qrand\<close>\<close>
  stdout :: "string list"     \<comment> \<open>lines written to \<^verbatim>\<open>std::cout\<close>\<close>
  client :: 'c

text \<open>
  What is not under \<^verbatim>\<open>src/\<close>: the JSON libraries, the random generator, and what the
  allocator leaves in the members of a new object that no constructor initialises (the
  second argument numbers the members).
\<close>

record janus_env =
  je_json :: json_lib
  je_rand :: "nat \<Rightarrow> nat \<times> nat"
  je_junk :: "addr \<Rightarrow> nat \<Rightarrow> i64"

section \<open>The heap\<close>

definition deref :: "addr \<Rightarrow> 'c janus \<Rightarrow> peer res" where
  "deref a s = (case heap s a of None \<Rightarrow> Inl (UseAfterFree a) | Some p \<Rightarrow> Inr p)"

definition put_peer :: "addr \<Rightarrow> peer \<Rightarrow> 'c janus \<Rightarrow> 'c janus" where
  "put_peer a p s = s\<lparr>heap := (heap s)(a \<mapsto> p)\<rparr>"

definition alloc_peer :: "peer \<Rightarrow> 'c janus \<Rightarrow> addr \<times> 'c janus" where
  "alloc_peer p s = (let a = Addr (next_addr s)
     in (a, s\<lparr>heap := (heap s)(a \<mapsto> p), next_addr := Suc (next_addr s)\<rparr>))"

definition free_peer :: "addr \<Rightarrow> 'c janus \<Rightarrow> 'c janus res" where
  "free_peer a s = (case heap s a of None \<Rightarrow> Inl (DoubleFree a)
     | Some p \<Rightarrow> Inr (s\<lparr>heap := (heap s)(a := None)\<rparr>))"

lemma deref_Some [res_simps]: "heap s a = Some p \<Longrightarrow> deref a s = Inr p"
  by (simp add: deref_def)

lemma deref_eq_Inr [simp]: "deref a s = Inr p \<longleftrightarrow> heap s a = Some p"
  by (simp add: deref_def split: option.splits)

lemma deref_put [simp]: "deref a (put_peer a p s) = Inr p"
  by (simp add: put_peer_def)

section \<open>Shared operations of the manager\<close>

definition AddMessageSuccessCallback :: "string \<Rightarrow> listener \<Rightarrow> 'c janus \<Rightarrow> 'c janus" where
  "AddMessageSuccessCallback tran func s =
     s\<lparr>mMessage_success_callback := (mMessage_success_callback s)(tran \<mapsto> func)\<rparr>"

definition AddMessageAckCallback :: "string \<Rightarrow> listener \<Rightarrow> 'c janus \<Rightarrow> 'c janus" where
  "AddMessageAckCallback tran func s =
     s\<lparr>mMessage_ack_callback := (mMessage_ack_callback s)(tran \<mapsto> func)\<rparr>"

text \<open>\<^verbatim>\<open>GetRandomString(12)\<close>, the transaction of a request.\<close>

definition new_transaction :: "janus_env \<Rightarrow> 'c janus \<Rightarrow> string \<times> 'c janus" where
  "new_transaction E s = (let (t, sd) = GetRandomString (je_rand E) 12 (seed s) in (t, s\<lparr>seed := sd\<rparr>))"

text \<open>\<^verbatim>\<open>pWebSocket->SendMessage(JsonValueToQString(msg))\<close>\<close>

definition send_json :: "janus_env \<Rightarrow> json \<Rightarrow> 'c janus \<Rightarrow> 'c janus" where
  "send_json E msg s =
     s\<lparr>pWebSocket := JWS_SendMessage (JsonValueToQString (je_json E) msg) (pWebSocket s)\<rparr>"

text \<open>The texts sent so far.\<close>

definition sent :: "'c janus \<Rightarrow> string list" where
  "sent s = [m. WsSendText m \<leftarrow> ws_cmds (pWebSocket s)]"

text \<open>An integer identifier goes into a message as a \<^verbatim>\<open>double\<close>.\<close>

definition json_of_id :: "i64 \<Rightarrow> json" where
  "json_of_id w = JReal (double_of_i64 w)"

section \<open>Reports\<close>

definition print_line :: "string \<Rightarrow> u32 \<Rightarrow> 'c janus \<Rightarrow> 'c janus" where
  "print_line text roomId s = s\<lparr>stdout := stdout s @ [text @ show_nat (unat roomId)]\<rparr>"

definition onCreateVideoRoomSuccessed :: "u32 \<Rightarrow> 'c janus \<Rightarrow> 'c janus" where
  "onCreateVideoRoomSuccessed = print_line '' ====== create video room successed. roomID : ''"

definition onCreateVideoRoomFailed :: "u32 \<Rightarrow> 'c janus \<Rightarrow> 'c janus" where
  "onCreateVideoRoomFailed = print_line '' ====== create video room failed. roomID : ''"

definition onCreateTextRoomSuccessed :: "u32 \<Rightarrow> 'c janus \<Rightarrow> 'c janus" where
  "onCreateTextRoomSuccessed = print_line '' ====== create text room successed. roomID : ''"

definition onCreateTextRoomFailed :: "u32 \<Rightarrow> 'c janus \<Rightarrow> 'c janus" where
  "onCreateTextRoomFailed = print_line '' ====== create text room failed. roomID : ''"

definition onDestroyVideoRoomSuccessed :: "u32 \<Rightarrow> 'c janus \<Rightarrow> 'c janus" where
  "onDestroyVideoRoomSuccessed = print_line '' ====== destroy video room successed. ====== roomID : ''"

definition onDestroyVideoRoomFailed :: "u32 \<Rightarrow> 'c janus \<Rightarrow> 'c janus" where
  "onDestroyVideoRoomFailed = print_line '' ====== destroy video room failed. ====== roomID : ''"

definition onDestroyTextRoomSuccessed :: "u32 \<Rightarrow> 'c janus \<Rightarrow> 'c janus" where
  "onDestroyTextRoomSuccessed = print_line '' ====== destroy text room successed. ====== roomID : ''"

definition onDestroyTextRoomFailed :: "u32 \<Rightarrow> 'c janus \<Rightarrow> 'c janus" where
  "onDestroyTextRoomFailed = print_line '' ====== destroy text room failed. ====== roomID : ''"

fun run_report :: "report_slot \<Rightarrow> u32 \<Rightarrow> 'c janus \<Rightarrow> 'c janus" where
  "run_report CreateVideoRoomSuccessed = onCreateVideoRoomSuccessed"
| "run_report CreateVideoRoomFailed = onCreateVideoRoomFailed"
| "run_report CreateTextRoomSuccessed = onCreateTextRoomSuccessed"
| "run_report CreateTextRoomFailed = onCreateTextRoomFailed"
| "run_report DestroyVideoRoomSuccessed = onDestroyVideoRoomSuccessed"
| "run_report DestroyVideoRoomFailed = onDestroyVideoRoomFailed"
| "run_report DestroyTextRoomSuccessed = onDestroyTextRoomSuccessed"
| "run_report DestroyTextRoomFailed = onDestroyTextRoomFailed"

text \<open>Calling a \<^verbatim>\<open>CREATEROOM_CALLBACK\<close>: an empty one throws.\<close>

definition call_report :: "report_slot option \<Rightarrow> u32 \<Rightarrow> 'c janus \<Rightarrow> 'c janus res" where
  "call_report cb roomId s = (case cb of None \<Rightarrow> Inl BadFunctionCall | Some f \<Rightarrow> Inr (run_report f roomId s))"

text \<open>\<^verbatim>\<open>if(cb){ cb(roomId); }\<close>\<close>

definition call_report_if :: "report_slot option \<Rightarrow> u32 \<Rightarrow> 'c janus \<Rightarrow> 'c janus res" where
  "call_report_if cb roomId s = (if cb \<noteq> None then call_report cb roomId s else Inr s)"

lemma run_report_prints: "\<exists>text. run_report f = print_line text"
  unfolding run_report.simps
  by (cases f) (simp_all only: run_report.simps onCreateVideoRoomSuccessed_def onCreateVideoRoomFailed_def
      onCreateTextRoomSuccessed_def onCreateTextRoomFailed_def onDestroyVideoRoomSuccessed_def
      onDestroyVideoRoomFailed_def onDestroyTextRoomSuccessed_def onDestroyTextRoomFailed_def, blast+)

text \<open>A report changes nothing but the output.\<close>

lemma run_report_stdout: "\<exists>line. run_report f r (s :: 'a janus) = s\<lparr>stdout := stdout s @ [line]\<rparr>"
proof -
  obtain t where t: "run_report f = (print_line t :: u32 \<Rightarrow> 'a janus \<Rightarrow> 'a janus)"
    using run_report_prints by blast
  have "run_report f r s = s\<lparr>stdout := stdout s @ [t @ show_nat (unat r)]\<rparr>"
    by (simp only: t print_line_def)
  then show ?thesis by blast
qed

section \<open>Frames\<close>

text \<open>What the shared operations leave alone, field by field.\<close>

lemma send_json_simps [simp]:
  "heap (send_json E m s) = heap s" "next_addr (send_json E m s) = next_addr s"
  "seed (send_json E m s) = seed s" "stdout (send_json E m s) = stdout s"
  "client (send_json E m s) = client s" "mSessionId (send_json E m s) = mSessionId s"
  "mPrivatedId (send_json E m s) = mPrivatedId s" "mVideoRoomID (send_json E m s) = mVideoRoomID s"
  "mMessage_success_callback (send_json E m s) = mMessage_success_callback s"
  "mMessage_ack_callback (send_json E m s) = mMessage_ack_callback s"
  "mMessage_event_videoRoom (send_json E m s) = mMessage_event_videoRoom s"
  "mMessage_event_textRoom (send_json E m s) = mMessage_event_textRoom s"
  "mVideoRoomPeerList (send_json E m s) = mVideoRoomPeerList s"
  "mTextRoomPeerList (send_json E m s) = mTextRoomPeerList s"
  "pCreateVideoRoomPeer (send_json E m s) = pCreateVideoRoomPeer s"
  "pCreateTextRoomPeer (send_json E m s) = pCreateTextRoomPeer s"
  "OnConnectToPeer (send_json E m s) = OnConnectToPeer s"
  "OnRemoteSdp (send_json E m s) = OnRemoteSdp s"
  "OnRemoteStreamRemove (send_json E m s) = OnRemoteStreamRemove s"
  by (simp_all add: send_json_def)

lemma sent_send_json [simp]:
  "sent (send_json E m s) = sent s @ [JsonValueToQString (je_json E) m]"
  by (simp add: send_json_def sent_def JWS_SendMessage_def ws_cmd_def)

lemma sent_cong: "pWebSocket s = pWebSocket t \<Longrightarrow> sent s = sent t"
  by (simp add: sent_def)

end
