(* ===== verification/Janus_Peer.thy ===== *)
theory Janus_Peer
  imports Janus_State
begin

text \<open>
  \<^verbatim>\<open>src/JanusPeerConnection.cpp\<close>: one handle on a Janus plug-in. A request goes out with a
  fresh transaction, and the member function that continues with the answer is registered
  with the manager under that transaction. Every operation takes the address of its object
  (\<^verbatim>\<open>this\<close>); on a deleted object it is a fault.
\<close>

section \<open>Construction and destruction\<close>

text \<open>The constructor stores the session only; handles and rooms keep what the memory held.\<close>

definition JPC_init :: "janus_env \<Rightarrow> addr \<Rightarrow> i64 \<Rightarrow> peer" where
  "JPC_init E a tSessionId = \<lparr>
     mSessionID = tSessionId,
     mVideoRoomHandleID = je_junk E a 0,
     mTextRoomHandleID = je_junk E a 1,
     mPrivateId = 0,
     mSubscribeId = 0,
     mVideoRoomId = ucast (je_junk E a 2),
     mTextRoomId = ucast (je_junk E a 3),
     mVideoRoomDisplayName = ''cc'',
     mTextRoomDisplayName = ''cc'',
     onCreateVideoRoomSuccessedCallback = None,
     onCreateVideoRoomFailedCallback = None,
     onCreateTextRoomSuccessedCallback = None,
     onCreateTextRoomFailedCallback = None,
     onDestroyVideoRoomSuccessedCallback = None,
     onDestroyVideoRoomFailedCallback = None,
     onDestroyTextRoomSuccessedCallback = None,
     onDestroyTextRoomFailedCallback = None\<rparr>"

definition JPC_new :: "janus_env \<Rightarrow> 'c janus \<Rightarrow> addr \<times> 'c janus" where
  "JPC_new E s = alloc_peer (JPC_init E (Addr (next_addr s)) (mSessionId s)) s"

text \<open>\<^verbatim>\<open>delete peer\<close>: the destructor resets members that nobody can read afterwards.\<close>

definition JPC_delete :: "addr \<Rightarrow> 'c janus \<Rightarrow> 'c janus res" where
  "JPC_delete this s = free_peer this s"

section \<open>Members\<close>

definition update_peer :: "addr \<Rightarrow> (peer \<Rightarrow> peer) \<Rightarrow> 'c janus \<Rightarrow> 'c janus res" where
  "update_peer this f s = rbind (deref this s) (\<lambda>p. Inr (put_peer this (f p) s))"

definition SetVideoRoomDisplayName :: "addr \<Rightarrow> string \<Rightarrow> 'c janus \<Rightarrow> 'c janus res" where
  "SetVideoRoomDisplayName this name = update_peer this (\<lambda>p. p\<lparr>mVideoRoomDisplayName := name\<rparr>)"

definition SetTextRoomDisplayName :: "addr \<Rightarrow> string \<Rightarrow> 'c janus \<Rightarrow> 'c janus res" where
  "SetTextRoomDisplayName this name = update_peer this (\<lambda>p. p\<lparr>mTextRoomDisplayName := name\<rparr>)"

definition SetSubscribe :: "addr \<Rightarrow> i64 \<Rightarrow> 'c janus \<Rightarrow> 'c janus res" where
  "SetSubscribe this i = update_peer this (\<lambda>p. p\<lparr>mSubscribeId := i\<rparr>)"

definition SetPrivateId :: "addr \<Rightarrow> i64 \<Rightarrow> 'c janus \<Rightarrow> 'c janus res" where
  "SetPrivateId this i = update_peer this (\<lambda>p. p\<lparr>mPrivateId := i\<rparr>)"

definition GetVideoRoomHandleID :: "addr \<Rightarrow> 'c janus \<Rightarrow> i64 res" where
  "GetVideoRoomHandleID this s = rbind (deref this s) (\<lambda>p. Inr (mVideoRoomHandleID p))"

definition GetTextRoomHandleID :: "addr \<Rightarrow> 'c janus \<Rightarrow> i64 res" where
  "GetTextRoomHandleID this s = rbind (deref this s) (\<lambda>p. Inr (mTextRoomHandleID p))"

definition GetSubscribeID :: "addr \<Rightarrow> 'c janus \<Rightarrow> i64 res" where
  "GetSubscribeID this s = rbind (deref this s) (\<lambda>p. Inr (mSubscribeId p))"

definition RegisterCreateVideoRoomSuccessed :: "addr \<Rightarrow> report_slot \<Rightarrow> 'c janus \<Rightarrow> 'c janus res" where
  "RegisterCreateVideoRoomSuccessed this cb =
     update_peer this (\<lambda>p. p\<lparr>onCreateVideoRoomSuccessedCallback := Some cb\<rparr>)"

definition RegisterCreateVideoRoomFailed :: "addr \<Rightarrow> report_slot \<Rightarrow> 'c janus \<Rightarrow> 'c janus res" where
  "RegisterCreateVideoRoomFailed this cb =
     update_peer this (\<lambda>p. p\<lparr>onCreateVideoRoomFailedCallback := Some cb\<rparr>)"

definition RegisterCreateTextRoomSuccessed :: "addr \<Rightarrow> report_slot \<Rightarrow> 'c janus \<Rightarrow> 'c janus res" where
  "RegisterCreateTextRoomSuccessed this cb =
     update_peer this (\<lambda>p. p\<lparr>onCreateTextRoomSuccessedCallback := Some cb\<rparr>)"

definition RegisterCreateTextRoomFailed :: "addr \<Rightarrow> report_slot \<Rightarrow> 'c janus \<Rightarrow> 'c janus res" where
  "RegisterCreateTextRoomFailed this cb =
     update_peer this (\<lambda>p. p\<lparr>onCreateTextRoomFailedCallback := Some cb\<rparr>)"

definition RegisterDestroyVideoRoomSuccessed :: "addr \<Rightarrow> report_slot \<Rightarrow> 'c janus \<Rightarrow> 'c janus res" where
  "RegisterDestroyVideoRoomSuccessed this cb =
     update_peer this (\<lambda>p. p\<lparr>onDestroyVideoRoomSuccessedCallback := Some cb\<rparr>)"

definition RegisterDestroyVideoRoomFailed :: "addr \<Rightarrow> report_slot \<Rightarrow> 'c janus \<Rightarrow> 'c janus res" where
  "RegisterDestroyVideoRoomFailed this cb =
     update_peer this (\<lambda>p. p\<lparr>onDestroyVideoRoomFailedCallback := Some cb\<rparr>)"

definition RegisterDestroyTextRoomSuccessed :: "addr \<Rightarrow> report_slot \<Rightarrow> 'c janus \<Rightarrow> 'c janus res" where
  "RegisterDestroyTextRoomSuccessed this cb =
     update_peer this (\<lambda>p. p\<lparr>onDestroyTextRoomSuccessedCallback := Some cb\<rparr>)"

definition RegisterDestroyTextRoomFailed :: "addr \<Rightarrow> report_slot \<Rightarrow> 'c janus \<Rightarrow> 'c janus res" where
  "RegisterDestroyTextRoomFailed this cb =
     update_peer this (\<lambda>p. p\<lparr>onDestroyTextRoomFailedCallback := Some cb\<rparr>)"

section \<open>Attaching to a plug-in\<close>

definition attach_msg :: "string \<Rightarrow> string \<Rightarrow> i64 \<Rightarrow> json" where
  "attach_msg plugin transaction sid = JObj [
     (''janus'', JStr ''attach''),
     (''plugin'', JStr plugin),
     (''transaction'', JStr transaction),
     (''session_id'', json_of_id sid)]"

text \<open>
  The six functions that attach send the same message; they differ in the plug-in, in the
  room member they store and in the function that continues.
\<close>

definition attach_with ::
  "janus_env \<Rightarrow> addr \<Rightarrow> string \<Rightarrow> (peer \<Rightarrow> peer) \<Rightarrow> peer_slot \<Rightarrow> 'c janus \<Rightarrow> 'c janus res" where
  "attach_with E this plugin store_room continue s =
     rbind (deref this s) (\<lambda>p.
       let (transaction, s) = new_transaction E s;
           s = send_json E (attach_msg plugin transaction (mSessionID p)) s;
           s = put_peer this (store_room p) s
       in Inr (AddMessageSuccessCallback transaction (ToPeer this continue) s))"

definition JPC_AttachVideoRoom :: "janus_env \<Rightarrow> addr \<Rightarrow> u32 \<Rightarrow> 'c janus \<Rightarrow> 'c janus res" where
  "JPC_AttachVideoRoom E this roomId =
     attach_with E this ''janus.plugin.videoroom'' (\<lambda>p. p\<lparr>mVideoRoomId := roomId\<rparr>) OnAttachVideoRoomJoin"

definition JPC_AttachTextRoom :: "janus_env \<Rightarrow> addr \<Rightarrow> u32 \<Rightarrow> 'c janus \<Rightarrow> 'c janus res" where
  "JPC_AttachTextRoom E this roomId =
     attach_with E this ''janus.plugin.textroom'' (\<lambda>p. p\<lparr>mTextRoomId := roomId\<rparr>) OnAttachTextRoomJoin"

definition JPC_CreateVideoRoom :: "janus_env \<Rightarrow> addr \<Rightarrow> u32 \<Rightarrow> 'c janus \<Rightarrow> 'c janus res" where
  "JPC_CreateVideoRoom E this roomId =
     attach_with E this ''janus.plugin.videoroom'' (\<lambda>p. p\<lparr>mVideoRoomId := roomId\<rparr>) OnAttachVideoRoomCreate"

text \<open>The source registers \<^verbatim>\<open>onAttachVideoRoomCreate\<close> here as well.\<close>

definition JPC_CreateTextRoom :: "janus_env \<Rightarrow> addr \<Rightarrow> u32 \<Rightarrow> 'c janus \<Rightarrow> 'c janus res" where
  "JPC_CreateTextRoom E this roomId =
     attach_with E this ''janus.plugin.textroom'' (\<lambda>p. p\<lparr>mTextRoomId := roomId\<rparr>) OnAttachVideoRoomCreate"

definition JPC_DestoryVideoRoom :: "janus_env \<Rightarrow> addr \<Rightarrow> u32 \<Rightarrow> 'c janus \<Rightarrow> 'c janus res" where
  "JPC_DestoryVideoRoom E this roomId =
     attach_with E this ''janus.plugin.videoroom'' (\<lambda>p. p\<lparr>mVideoRoomId := roomId\<rparr>) OnAttachVideoRoomDestory"

definition JPC_DestoryTextRoom :: "janus_env \<Rightarrow> addr \<Rightarrow> u32 \<Rightarrow> 'c janus \<Rightarrow> 'c janus res" where
  "JPC_DestoryTextRoom E this roomId =
     attach_with E this ''janus.plugin.textroom'' (\<lambda>p. p\<lparr>mTextRoomId := roomId\<rparr>) OnAttachTextRoomDestory"

section \<open>Messages on a handle\<close>

definition plugin_msg :: "i64 \<Rightarrow> string \<Rightarrow> i64 \<Rightarrow> (string \<times> json) list \<Rightarrow> json" where
  "plugin_msg handle transaction sid rest = JObj ([
     (''janus'', JStr ''message''),
     (''handle_id'', json_of_id handle),
     (''transaction'', JStr transaction),
     (''session_id'', json_of_id sid)] @ rest)"

definition joinVideoRoom_body :: "peer \<Rightarrow> json" where
  "joinVideoRoom_body p = JObj ([
     (''request'', JStr ''join''),
     (''room'', json_of_uint (mVideoRoomId p))] @
     (if mSubscribeId p = 0
      then [(''ptype'', JStr ''publisher''), (''display'', JStr (mVideoRoomDisplayName p))]
      else [(''ptype'', JStr ''subscriber''), (''feed'', json_of_id (mSubscribeId p)),
            (''private_id'', json_of_id (mPrivateId p))]))"

definition room_body :: "string \<Rightarrow> u32 \<Rightarrow> json" where
  "room_body request roomId = JObj [(''request'', JStr request), (''room'', json_of_uint roomId)]"

definition joinVideoRoom :: "janus_env \<Rightarrow> addr \<Rightarrow> 'c janus \<Rightarrow> 'c janus res" where
  "joinVideoRoom E this s = rbind (deref this s) (\<lambda>p.
     let (transaction, s) = new_transaction E s
     in Inr (send_json E (plugin_msg (mVideoRoomHandleID p) transaction (mSessionID p)
               [(''body'', joinVideoRoom_body p)]) s))"

definition joinTextRoom :: "janus_env \<Rightarrow> addr \<Rightarrow> 'c janus \<Rightarrow> 'c janus res" where
  "joinTextRoom E this s = rbind (deref this s) (\<lambda>p.
     let (transaction, s) = new_transaction E s
     in Inr (send_json E (plugin_msg (mTextRoomHandleID p) transaction (mSessionID p)
               [(''body'', JObj [(''request'', JStr ''setup'')])]) s))"

definition createVideoRoom :: "janus_env \<Rightarrow> addr \<Rightarrow> 'c janus \<Rightarrow> 'c janus res" where
  "createVideoRoom E this s = rbind (deref this s) (\<lambda>p.
     let (transaction, s) = new_transaction E s;
         s = send_json E (plugin_msg (mVideoRoomHandleID p) transaction (mSessionID p)
               [(''body'', room_body ''create'' (mVideoRoomId p))]) s
     in Inr (AddMessageSuccessCallback transaction (ToPeer this OnCreateVideoRoom) s))"

definition createTextRoom :: "janus_env \<Rightarrow> addr \<Rightarrow> 'c janus \<Rightarrow> 'c janus res" where
  "createTextRoom E this s = rbind (deref this s) (\<lambda>p.
     let (transaction, s) = new_transaction E s;
         s = send_json E (plugin_msg (mTextRoomHandleID p) transaction (mSessionID p)
               [(''body'', room_body ''create'' (mTextRoomId p))]) s
     in Inr (AddMessageSuccessCallback transaction (ToPeer this OnCreateTextRoom) s))"

definition destoryVideoRoom :: "janus_env \<Rightarrow> addr \<Rightarrow> 'c janus \<Rightarrow> 'c janus res" where
  "destoryVideoRoom E this s = rbind (deref this s) (\<lambda>p.
     let (transaction, s) = new_transaction E s;
         s = send_json E (plugin_msg (mVideoRoomHandleID p) transaction (mSessionID p)
               [(''body'', room_body ''destroy'' (mVideoRoomId p))]) s
     in Inr (AddMessageSuccessCallback transaction (ToPeer this OnDestoryVideoRoom) s))"

definition destoryTextRoom :: "janus_env \<Rightarrow> addr \<Rightarrow> 'c janus \<Rightarrow> 'c janus res" where
  "destoryTextRoom E this s = rbind (deref this s) (\<lambda>p.
     let (transaction, s) = new_transaction E s;
         s = send_json E (plugin_msg (mTextRoomHandleID p) transaction (mSessionID p)
               [(''body'', room_body ''destroy'' (mTextRoomId p))]) s
     in Inr (AddMessageSuccessCallback transaction (ToPeer this OnDestoryTextRoom) s))"

section \<open>Answers to an attach\<close>

text \<open>\<^verbatim>\<open>GetValueFromJsonObject(recvMsg, "data", &dataObj); \<dots> JsonValueToLongLong(dataObj, "id")\<close>\<close>

definition attached_id :: "janus_env \<Rightarrow> json \<Rightarrow> i64" where
  "attached_id E recvMsg =
     (let dataObj = snd (GetValueFromJsonObject recvMsg ''data'' JNull)
      in JsonValueToLongLong (je_json E) dataObj ''id'')"

definition onAttachVideoRoomJoin :: "janus_env \<Rightarrow> addr \<Rightarrow> json \<Rightarrow> 'c janus \<Rightarrow> 'c janus res" where
  "onAttachVideoRoomJoin E this recvMsg s =
     rbind (update_peer this (\<lambda>p. p\<lparr>mVideoRoomHandleID := attached_id E recvMsg\<rparr>) s) (joinVideoRoom E this)"

definition onAttachVideoRoomCreate :: "janus_env \<Rightarrow> addr \<Rightarrow> json \<Rightarrow> 'c janus \<Rightarrow> 'c janus res" where
  "onAttachVideoRoomCreate E this recvMsg s =
     rbind (update_peer this (\<lambda>p. p\<lparr>mVideoRoomHandleID := attached_id E recvMsg\<rparr>) s) (createVideoRoom E this)"

definition onAttachTextRoomJoin :: "janus_env \<Rightarrow> addr \<Rightarrow> json \<Rightarrow> 'c janus \<Rightarrow> 'c janus res" where
  "onAttachTextRoomJoin E this recvMsg s =
     rbind (update_peer this (\<lambda>p. p\<lparr>mTextRoomHandleID := attached_id E recvMsg\<rparr>) s) (joinTextRoom E this)"

definition onAttachTextRoomCreate :: "janus_env \<Rightarrow> addr \<Rightarrow> json \<Rightarrow> 'c janus \<Rightarrow> 'c janus res" where
  "onAttachTextRoomCreate E this recvMsg s =
     rbind (update_peer this (\<lambda>p. p\<lparr>mTextRoomHandleID := attached_id E recvMsg\<rparr>) s) (createTextRoom E this)"

definition onAttachVideoRoomDestory :: "janus_env \<Rightarrow> addr \<Rightarrow> json \<Rightarrow> 'c janus \<Rightarrow> 'c janus res" where
  "onAttachVideoRoomDestory E this recvMsg s =
     rbind (update_peer this (\<lambda>p. p\<lparr>mVideoRoomHandleID := attached_id E recvMsg\<rparr>) s) (destoryVideoRoom E this)"

definition onAttachTextRoomDestory :: "janus_env \<Rightarrow> addr \<Rightarrow> json \<Rightarrow> 'c janus \<Rightarrow> 'c janus res" where
  "onAttachTextRoomDestory E this recvMsg s =
     rbind (update_peer this (\<lambda>p. p\<lparr>mTextRoomHandleID := attached_id E recvMsg\<rparr>) s) (destoryTextRoom E this)"

section \<open>Answers to a room request\<close>

text \<open>\<^verbatim>\<open>plugindata.data\<close> of an answer.\<close>

definition plugin_data :: "json \<Rightarrow> json" where
  "plugin_data recvMsg =
     (let plugindata = snd (GetValueFromJsonObject recvMsg ''plugindata'' JNull)
      in snd (GetValueFromJsonObject plugindata ''data'' JNull))"

definition onCreateVideoRoom :: "janus_env \<Rightarrow> addr \<Rightarrow> json \<Rightarrow> 'c janus \<Rightarrow> 'c janus res" where
  "onCreateVideoRoom E this recvMsg s = rbind (deref this s) (\<lambda>p.
     let data = plugin_data recvMsg;
         videoroom = snd (GetStringFromJsonObject (je_json E) data ''videoroom'' []);
         CreatedRoomId = mVideoRoomId p
     in if videoroom = ''event'' then call_report_if (onCreateVideoRoomFailedCallback p) CreatedRoomId s
        else if videoroom = ''created'' then
          (let CreatedRoomId = snd (GetUIntFromJsonObject (je_json E) data ''room'' CreatedRoomId)
           in call_report_if (onCreateVideoRoomSuccessedCallback p) CreatedRoomId s)
        else Inr s)"

definition onCreateTextRoom :: "janus_env \<Rightarrow> addr \<Rightarrow> json \<Rightarrow> 'c janus \<Rightarrow> 'c janus res" where
  "onCreateTextRoom E this recvMsg s = rbind (deref this s) (\<lambda>p.
     let data = plugin_data recvMsg;
         textroom = snd (GetStringFromJsonObject (je_json E) data ''textroom'' []);
         CreatedRoomId = mTextRoomId p
     in if textroom = ''error'' then call_report_if (onCreateTextRoomFailedCallback p) CreatedRoomId s
        else if textroom = ''created'' then
          (let CreatedRoomId = snd (GetUIntFromJsonObject (je_json E) data ''room'' CreatedRoomId)
           in call_report_if (onCreateTextRoomSuccessedCallback p) CreatedRoomId s)
        else Inr s)"

text \<open>The source tests one callback and calls another one here.\<close>

definition onDestoryVideoRoom :: "janus_env \<Rightarrow> addr \<Rightarrow> json \<Rightarrow> 'c janus \<Rightarrow> 'c janus res" where
  "onDestoryVideoRoom E this recvMsg s = rbind (deref this s) (\<lambda>p.
     let data = plugin_data recvMsg;
         videoroom = snd (GetStringFromJsonObject (je_json E) data ''videoroom'' []);
         CreatedRoomId = mVideoRoomId p
     in if videoroom = ''event'' then call_report_if (onDestroyVideoRoomFailedCallback p) CreatedRoomId s
        else if videoroom = ''destroyed'' then
          (let CreatedRoomId = snd (GetUIntFromJsonObject (je_json E) data ''room'' CreatedRoomId)
           in if onDestroyVideoRoomSuccessedCallback p \<noteq> None
              then call_report (onCreateVideoRoomSuccessedCallback p) CreatedRoomId s
              else Inr s)
        else Inr s)"

definition onDestoryTextRoom :: "janus_env \<Rightarrow> addr \<Rightarrow> json \<Rightarrow> 'c janus \<Rightarrow> 'c janus res" where
  "onDestoryTextRoom E this recvMsg s = rbind (deref this s) (\<lambda>p.
     let data = plugin_data recvMsg;
         textroom = snd (GetStringFromJsonObject (je_json E) data ''textroom'' []);
         CreatedRoomId = mTextRoomId p
     in if textroom = ''error'' then call_report_if (onDestroyTextRoomFailedCallback p) CreatedRoomId s
        else if textroom = ''destroyed'' then
          (let CreatedRoomId = snd (GetUIntFromJsonObject (je_json E) data ''room'' CreatedRoomId)
           in call_report_if (onDestroyTextRoomSuccessedCallback p) CreatedRoomId s)
        else Inr s)"

text \<open>The function a peer has bound to an answer.\<close>

fun run_peer_slot :: "janus_env \<Rightarrow> peer_slot \<Rightarrow> addr \<Rightarrow> json \<Rightarrow> 'c janus \<Rightarrow> 'c janus res" where
  "run_peer_slot E OnAttachVideoRoomJoin = onAttachVideoRoomJoin E"
| "run_peer_slot E OnAttachVideoRoomCreate = onAttachVideoRoomCreate E"
| "run_peer_slot E OnAttachVideoRoomDestory = onAttachVideoRoomDestory E"
| "run_peer_slot E OnAttachTextRoomJoin = onAttachTextRoomJoin E"
| "run_peer_slot E OnAttachTextRoomCreate = onAttachTextRoomCreate E"
| "run_peer_slot E OnAttachTextRoomDestory = onAttachTextRoomDestory E"
| "run_peer_slot E OnCreateVideoRoom = onCreateVideoRoom E"
| "run_peer_slot E OnCreateTextRoom = onCreateTextRoom E"
| "run_peer_slot E OnDestoryVideoRoom = onDestoryVideoRoom E"
| "run_peer_slot E OnDestoryTextRoom = onDestoryTextRoom E"

section \<open>Negotiation\<close>

definition jsep_obj :: "string \<Rightarrow> string \<Rightarrow> json" where
  "jsep_obj type sdp = JObj [(''type'', JStr type), (''sdp'', JStr sdp)]"

definition JPC_SendSDP :: "janus_env \<Rightarrow> addr \<Rightarrow> string \<Rightarrow> string \<Rightarrow> 'c janus \<Rightarrow> 'c janus res" where
  "JPC_SendSDP E this sdp type s = rbind (deref this s) (\<lambda>p.
     let (transaction, s) = new_transaction E s;
         body = (if mSubscribeId p = 0
                 then JObj [(''request'', JStr ''configure''), (''audio'', JBool True), (''video'', JBool True)]
                 else JObj [(''request'', JStr ''start''), (''room'', json_of_uint (mVideoRoomId p))])
     in Inr (send_json E (plugin_msg (mVideoRoomHandleID p) transaction (mSessionID p)
               [(''body'', body), (''jsep'', jsep_obj type sdp)]) s))"

definition JPC_SendSDPText :: "janus_env \<Rightarrow> addr \<Rightarrow> string \<Rightarrow> string \<Rightarrow> 'c janus \<Rightarrow> 'c janus res" where
  "JPC_SendSDPText E this sdp type s = rbind (deref this s) (\<lambda>p.
     let (transaction, s) = new_transaction E s
     in Inr (send_json E (plugin_msg (mTextRoomHandleID p) transaction (mSessionID p)
               [(''body'', JObj [(''request'', JStr ''ack'')]), (''jsep'', jsep_obj type sdp)]) s))"

definition candidate_obj :: "string \<Rightarrow> u32 \<Rightarrow> string \<Rightarrow> json" where
  "candidate_obj sdpMid sdpMLineIndex candidate =
     (if sdpMid = ''end'' then JObj [(''completed'', JBool True)]
      else JObj [(''candidate'', JStr candidate), (''sdpMid'', JStr sdpMid),
                 (''sdpMLineIndex'', json_of_int sdpMLineIndex)])"

definition trickle_msg :: "i64 \<Rightarrow> string \<Rightarrow> i64 \<Rightarrow> json \<Rightarrow> json" where
  "trickle_msg handle transaction sid candidate = JObj [
     (''janus'', JStr ''trickle''),
     (''handle_id'', json_of_id handle),
     (''transaction'', JStr transaction),
     (''session_id'', json_of_id sid),
     (''candidate'', candidate)]"

definition JPC_SendCandidate ::
  "janus_env \<Rightarrow> addr \<Rightarrow> string \<Rightarrow> u32 \<Rightarrow> string \<Rightarrow> 'c janus \<Rightarrow> 'c janus res" where
  "JPC_SendCandidate E this sdpMid sdpMLineIndex candidate s = rbind (deref this s) (\<lambda>p.
     let (transaction, s) = new_transaction E s
     in Inr (send_json E (trickle_msg (mVideoRoomHandleID p) transaction (mSessionID p)
               (candidate_obj sdpMid sdpMLineIndex candidate)) s))"

end
