(* ===== verification/Janus_Manager.thy ===== *)
theory Janus_Manager
  imports Janus_Peer
begin

text \<open>
  \<^verbatim>\<open>src/JanusVideoRoomManager.cpp\<close>: the session with the Janus server. It turns the
  messages of the socket into calls of the functions registered for them, keeps the peers
  of the video and the text room, and tells the conference layer about remote descriptions
  and streams. This theory holds the definitions; \<open>Janus_Invariants\<close> and
  \<open>Janus_Protocol\<close> hold what is proved of them.
\<close>

section \<open>Construction and destruction\<close>

text \<open>
  The constructor binds four of the six callbacks of the socket and fills the two event
  tables, which a \<^verbatim>\<open>QMap\<close> keeps in the order of the keys. What survives from one manager to
  the next (the heap, the seed, the output, the client) is given.
\<close>

definition JVRM_new ::
  "(addr \<rightharpoonup> peer) \<Rightarrow> nat \<Rightarrow> nat \<Rightarrow> string list \<Rightarrow> 'c \<Rightarrow> 'c janus" where
  "JVRM_new h next sd out c = \<lparr>
     pWebSocket =
       RegisterHeartBeatCallback SlotHeartBeatMessage
         (RegisterReceiveMessageCallback SlotReceivedMessage
           (RegisterDisConnectedCallback SlotSocketDisConnected
             (RegisterConnectedCallback SlotSocketConnected ws_new))),
     mVideoRoomID = 1234, mSessionId = 0, mPrivatedId = 0,
     mMessage_success_callback = Map.empty, mMessage_ack_callback = Map.empty,
     mMessage_event_videoRoom =
       [(''attached'', EventAttached), (''event'', EventEvent), (''joined'', EventJoin)],
     mMessage_event_textRoom = [(''eventevent'', TextEventEvent)],
     mVideoRoomPeerList = [], mTextRoomPeerList = [],
     pCreateVideoRoomPeer = None, pCreateTextRoomPeer = None,
     OnConnectToPeer = None, OnRemoteSdp = None, OnRemoteStreamRemove = None,
     heap = h, next_addr = next, seed = sd, stdout = out, client = c\<rparr>"

definition delete_if :: "addr option \<Rightarrow> 'c janus \<Rightarrow> 'c janus res" where
  "delete_if a s = (case a of None \<Rightarrow> Inr s | Some this \<Rightarrow> JPC_delete this s)"

definition JVRM_destroy :: "'c janus \<Rightarrow> 'c janus res" where
  "JVRM_destroy s =
     rbind (Inr (s\<lparr>pWebSocket := JWS_destroy (pWebSocket s)\<rparr>)) (\<lambda>s.
     rbind (rfold JPC_delete (mVideoRoomPeerList s) s) (\<lambda>s.
     let s = s\<lparr>mVideoRoomPeerList := []\<rparr> in
     rbind (rfold JPC_delete (mTextRoomPeerList s) s) (\<lambda>s.
     let s = s\<lparr>mTextRoomPeerList := []\<rparr> in
     rbind (delete_if (pCreateVideoRoomPeer s) s) (\<lambda>s.
     let s = s\<lparr>pCreateVideoRoomPeer := None\<rparr> in
     rbind (delete_if (pCreateTextRoomPeer s) s) (\<lambda>s.
     Inr (s\<lparr>pCreateTextRoomPeer := None,
            mMessage_success_callback := Map.empty, mMessage_ack_callback := Map.empty,
            mMessage_event_videoRoom := [], mMessage_event_textRoom := [],
            OnConnectToPeer := None, OnRemoteSdp := None, OnRemoteStreamRemove := None\<rparr>))))))"

section \<open>The connection\<close>

definition ConnectServer :: "string \<Rightarrow> 'c janus \<Rightarrow> 'c janus" where
  "ConnectServer server s = s\<lparr>pWebSocket := JWS_Open server (pWebSocket s)\<rparr>"

definition DisConnectServer :: "'c janus \<Rightarrow> 'c janus" where
  "DisConnectServer s = s\<lparr>pWebSocket := JWS_Close (pWebSocket s)\<rparr>"

definition createSessionId :: "janus_env \<Rightarrow> 'c janus \<Rightarrow> 'c janus" where
  "createSessionId E s =
     (let (transaction, s) = new_transaction E s;
          s = send_json E (JObj [(''janus'', JStr ''create''), (''transaction'', JStr transaction)]) s
      in AddMessageSuccessCallback transaction ToCreateSessionId s)"

definition onCreateSessionId :: "janus_env \<Rightarrow> json \<Rightarrow> 'c janus \<Rightarrow> 'c janus" where
  "onCreateSessionId E recvmsg s =
     (let dataObj = snd (GetValueFromJsonObject recvmsg ''data'' JNull)
      in s\<lparr>mSessionId := JsonValueToLongLong (je_json E) dataObj ''id''\<rparr>)"

definition onSocketConnected :: "janus_env \<Rightarrow> 'c janus \<Rightarrow> 'c janus" where
  "onSocketConnected E s = createSessionId E s"

definition onSocketDisConnected :: "'c janus \<Rightarrow> 'c janus" where
  "onSocketDisConnected s = s"

definition onWebSocketHeartBeatMessage :: "janus_env \<Rightarrow> 'c janus \<Rightarrow> 'c janus" where
  "onWebSocketHeartBeatMessage E s =
     (let (transaction, s) = new_transaction E s;
          s = send_json E (JObj [(''janus'', JStr ''keepalive''), (''transaction'', JStr transaction),
                (''session_id'', json_of_id (mSessionId s))]) s
      in AddMessageAckCallback transaction ToHeartBeat s)"

definition onHeartBeat :: "json \<Rightarrow> 'c janus \<Rightarrow> 'c janus" where
  "onHeartBeat recvmsg s = s\<lparr>pWebSocket := JWS_ResetTimer (pWebSocket s)\<rparr>"

section \<open>Rooms\<close>

text \<open>The registrations that follow the construction of a room-management peer.\<close>

definition register_reports :: "addr \<Rightarrow> 'c janus \<Rightarrow> 'c janus res" where
  "register_reports a s =
     rbind (RegisterCreateTextRoomFailed a CreateTextRoomFailed s) (\<lambda>s.
     rbind (RegisterCreateVideoRoomFailed a CreateVideoRoomFailed s) (\<lambda>s.
     rbind (RegisterCreateTextRoomSuccessed a CreateTextRoomSuccessed s) (\<lambda>s.
     rbind (RegisterCreateVideoRoomSuccessed a CreateVideoRoomSuccessed s) (\<lambda>s.
     rbind (RegisterDestroyTextRoomFailed a DestroyTextRoomFailed s) (\<lambda>s.
     rbind (RegisterDestroyVideoRoomFailed a DestroyVideoRoomFailed s) (\<lambda>s.
     rbind (RegisterDestroyTextRoomSuccessed a DestroyTextRoomSuccessed s) (\<lambda>s.
     RegisterDestroyVideoRoomSuccessed a DestroyVideoRoomSuccessed s)))))))"

definition need_video_peer :: "janus_env \<Rightarrow> 'c janus \<Rightarrow> (addr \<times> 'c janus) res" where
  "need_video_peer E s = (case pCreateVideoRoomPeer s of
       Some a \<Rightarrow> Inr (a, s)
     | None \<Rightarrow> (let (a, s) = JPC_new E s; s = s\<lparr>pCreateVideoRoomPeer := Some a\<rparr>
                in rbind (register_reports a s) (\<lambda>s. Inr (a, s))))"

definition need_text_peer :: "janus_env \<Rightarrow> 'c janus \<Rightarrow> (addr \<times> 'c janus) res" where
  "need_text_peer E s = (case pCreateTextRoomPeer s of
       Some a \<Rightarrow> Inr (a, s)
     | None \<Rightarrow> (let (a, s) = JPC_new E s; s = s\<lparr>pCreateTextRoomPeer := Some a\<rparr>
                in rbind (register_reports a s) (\<lambda>s. Inr (a, s))))"

definition JVRM_CreateVideoRoom :: "janus_env \<Rightarrow> u32 \<Rightarrow> 'c janus \<Rightarrow> 'c janus res" where
  "JVRM_CreateVideoRoom E roomId s =
     rbind (need_video_peer E s) (\<lambda>(a, s). JPC_CreateVideoRoom E a roomId s)"

definition JVRM_CreateTextRoom :: "janus_env \<Rightarrow> u32 \<Rightarrow> 'c janus \<Rightarrow> 'c janus res" where
  "JVRM_CreateTextRoom E roomId s =
     rbind (need_text_peer E s) (\<lambda>(a, s). JPC_CreateTextRoom E a roomId s)"

definition JVRM_DestoryVideoRoom :: "janus_env \<Rightarrow> u32 \<Rightarrow> 'c janus \<Rightarrow> 'c janus res" where
  "JVRM_DestoryVideoRoom E roomId s =
     rbind (need_video_peer E s) (\<lambda>(a, s). JPC_DestoryVideoRoom E a roomId s)"

definition JVRM_DestoryTextRoom :: "janus_env \<Rightarrow> u32 \<Rightarrow> 'c janus \<Rightarrow> 'c janus res" where
  "JVRM_DestoryTextRoom E roomId s =
     rbind (need_text_peer E s) (\<lambda>(a, s). JPC_DestoryTextRoom E a roomId s)"

definition JVRM_JoinVideoRoom :: "janus_env \<Rightarrow> u32 \<Rightarrow> string \<Rightarrow> 'c janus \<Rightarrow> 'c janus res" where
  "JVRM_JoinVideoRoom E roomId videoRoomDisplayName s =
     (let s = s\<lparr>mVideoRoomID := roomId\<rparr>; (peer, s) = JPC_new E s
      in rbind (SetVideoRoomDisplayName peer videoRoomDisplayName s) (\<lambda>s.
         let s = s\<lparr>mVideoRoomPeerList := mVideoRoomPeerList s @ [peer]\<rparr>
         in JPC_AttachVideoRoom E peer roomId s))"

definition JVRM_JoinTextRoom :: "janus_env \<Rightarrow> u32 \<Rightarrow> 'c janus \<Rightarrow> 'c janus res" where
  "JVRM_JoinTextRoom E roomId s =
     (let (peer, s) = JPC_new E s;
          s = s\<lparr>mTextRoomPeerList := mTextRoomPeerList s @ [peer]\<rparr>
      in JPC_AttachTextRoom E peer roomId s)"

definition JVRM_LeaveVideoRoom :: "'c janus \<Rightarrow> 'c janus res" where
  "JVRM_LeaveVideoRoom s =
     rbind (rfold JPC_delete (mVideoRoomPeerList s) s) (\<lambda>s. Inr (s\<lparr>mVideoRoomPeerList := []\<rparr>))"

definition JVRM_LeaveTextRoom :: "'c janus \<Rightarrow> 'c janus res" where
  "JVRM_LeaveTextRoom s =
     rbind (rfold JPC_delete (mTextRoomPeerList s) s) (\<lambda>s. Inr (s\<lparr>mTextRoomPeerList := []\<rparr>))"

definition RegisterConnectToPeerCallBack ::
  "(i64 \<Rightarrow> bool \<Rightarrow> bool \<Rightarrow> bool \<Rightarrow> 'c \<Rightarrow> 'c res) \<Rightarrow> 'c janus \<Rightarrow> 'c janus" where
  "RegisterConnectToPeerCallBack cb s = s\<lparr>OnConnectToPeer := Some cb\<rparr>"

definition RegisterRemoteSdpCallBack ::
  "(i64 \<Rightarrow> string \<Rightarrow> string \<Rightarrow> bool \<Rightarrow> 'c \<Rightarrow> 'c res) \<Rightarrow> 'c janus \<Rightarrow> 'c janus" where
  "RegisterRemoteSdpCallBack cb s = s\<lparr>OnRemoteSdp := Some cb\<rparr>"

definition RegisterRemoteStreamRemoveCallBack ::
  "(i64 \<Rightarrow> 'c \<Rightarrow> 'c res) \<Rightarrow> 'c janus \<Rightarrow> 'c janus" where
  "RegisterRemoteStreamRemoveCallBack cb s = s\<lparr>OnRemoteStreamRemove := Some cb\<rparr>"

section \<open>Looking for a peer\<close>

text \<open>The search loops: the first peer of the list that satisfies the test, if any.\<close>

fun find_peer :: "(peer \<Rightarrow> bool) \<Rightarrow> addr list \<Rightarrow> 'c janus \<Rightarrow> addr option res" where
  "find_peer P [] s = Inr None"
| "find_peer P (a # as) s = rbind (deref a s) (\<lambda>p. if P p then Inr (Some a) else find_peer P as s)"

definition DisconnectPeer :: "i64 \<Rightarrow> bool" where
  "DisconnectPeer peer_id = True"

definition JVRM_SendSDP :: "janus_env \<Rightarrow> i64 \<Rightarrow> string \<Rightarrow> string \<Rightarrow> 'c janus \<Rightarrow> 'c janus res" where
  "JVRM_SendSDP E i sdp type s =
     rbind (rbind (find_peer (\<lambda>p. mVideoRoomHandleID p = i) (mVideoRoomPeerList s) s)
       (\<lambda>r. case r of None \<Rightarrow> Inr s | Some a \<Rightarrow> JPC_SendSDP E a sdp type s)) (\<lambda>s.
     rbind (find_peer (\<lambda>p. mTextRoomHandleID p = i) (mTextRoomPeerList s) s)
       (\<lambda>r. case r of None \<Rightarrow> Inr s | Some a \<Rightarrow> JPC_SendSDPText E a sdp type s))"

definition JVRM_SendCandidate ::
  "janus_env \<Rightarrow> i64 \<Rightarrow> string \<Rightarrow> u32 \<Rightarrow> string \<Rightarrow> 'c janus \<Rightarrow> 'c janus res" where
  "JVRM_SendCandidate E i sdpMid sdpMLineIndex candidate s =
     rbind (find_peer (\<lambda>p. mVideoRoomHandleID p = i) (mVideoRoomPeerList s) s)
       (\<lambda>r. case r of None \<Rightarrow> Inr s | Some a \<Rightarrow> JPC_SendCandidate E a sdpMid sdpMLineIndex candidate s)"

section \<open>Events of a room\<close>

text \<open>Running a function of the conference layer on its state.\<close>

definition up_call :: "('c \<Rightarrow> 'c res) \<Rightarrow> 'c janus \<Rightarrow> 'c janus res" where
  "up_call f s = rbind (f (client s)) (\<lambda>c. Inr (s\<lparr>client := c\<rparr>))"

definition add_publisher :: "janus_env \<Rightarrow> json \<Rightarrow> 'c janus \<Rightarrow> 'c janus res" where
  "add_publisher E publishersRef s =
     (let i = JsonValueToLongLong (je_json E) publishersRef ''id''
      in if 0 < sint i then
           (let (peer, s) = JPC_new E s;
                s = s\<lparr>mVideoRoomPeerList := mVideoRoomPeerList s @ [peer]\<rparr>
            in rbind (SetSubscribe peer i s) (\<lambda>s.
               rbind (SetPrivateId peer (mPrivatedId s) s) (\<lambda>s.
               JPC_AttachVideoRoom E peer (mVideoRoomID s) s)))
         else Inr s)"

definition onVideoRoomEventPublisher :: "janus_env \<Rightarrow> json \<Rightarrow> 'c janus \<Rightarrow> 'c janus res" where
  "onVideoRoomEventPublisher E recvData s =
     (let s = s\<lparr>mPrivatedId := JsonValueToLongLong (je_json E) recvData ''private_id''\<rparr>;
          dataObj = plugin_data recvData;
          publishers = snd (GetValueFromJsonObject dataObj ''publishers'' JNull);
          publishersArr = snd (JsonArrayToValueVector publishers)
      in rfold (add_publisher E) publishersArr s)"

definition onVideoRoomEventJoin :: "janus_env \<Rightarrow> json \<Rightarrow> 'c janus \<Rightarrow> 'c janus res" where
  "onVideoRoomEventJoin E recvData s =
     rbind (onVideoRoomEventPublisher E recvData s) (\<lambda>s.
     let sender = JsonValueToLongLong (je_json E) recvData ''sender''
     in rbind (find_peer (\<lambda>p. mVideoRoomHandleID p = sender) (mVideoRoomPeerList s) s)
          (\<lambda>r. case r of None \<Rightarrow> Inr s
             | Some a \<Rightarrow> (case OnConnectToPeer s of None \<Rightarrow> Inr s
                          | Some f \<Rightarrow> up_call (f sender False True False) s)))"

definition onVideoRoomEventSdp :: "janus_env \<Rightarrow> json \<Rightarrow> bool \<Rightarrow> 'c janus \<Rightarrow> 'c janus res" where
  "onVideoRoomEventSdp E recvData isTextRoom s =
     (let sender = JsonValueToLongLong (je_json E) recvData ''sender'';
          jsepObj = snd (GetValueFromJsonObject recvData ''jsep'' JNull);
          type = snd (GetStringFromJsonObject (je_json E) jsepObj ''type'' []);
          sdp = snd (GetStringFromJsonObject (je_json E) jsepObj ''sdp'' [])
      in if sdp \<noteq> [] then (case OnRemoteSdp s of None \<Rightarrow> Inr s
           | Some f \<Rightarrow> up_call (f sender type sdp isTextRoom) s)
         else Inr s)"

definition onVideoRoomEventAttached :: "janus_env \<Rightarrow> json \<Rightarrow> 'c janus \<Rightarrow> 'c janus res" where
  "onVideoRoomEventAttached E recvData s = onVideoRoomEventSdp E recvData False s"

definition onVideoRoomEventUnpublish :: "janus_env \<Rightarrow> json \<Rightarrow> 'c janus \<Rightarrow> 'c janus res" where
  "onVideoRoomEventUnpublish E recvData s =
     (let dataObj = plugin_data recvData;
          unpublishId = JsonValueToLongLong (je_json E) dataObj ''unpublished''
      in if unpublishId \<noteq> 0 then
           rbind (find_peer (\<lambda>p. mSubscribeId p = unpublishId) (mVideoRoomPeerList s) s)
             (\<lambda>r. case r of None \<Rightarrow> Inr s | Some a \<Rightarrow>
                rbind (case OnRemoteStreamRemove s of None \<Rightarrow> Inr s
                       | Some f \<Rightarrow> rbind (GetVideoRoomHandleID a s) (\<lambda>h. up_call (f h) s))
                  (\<lambda>s. Inr (s\<lparr>mVideoRoomPeerList := erase_first ((=) a) (mVideoRoomPeerList s)\<rparr>)))
         else Inr s)"

definition onVideoRoomEventEvent :: "janus_env \<Rightarrow> json \<Rightarrow> 'c janus \<Rightarrow> 'c janus res" where
  "onVideoRoomEventEvent E recvData s =
     rbind (onVideoRoomEventSdp E recvData False s) (\<lambda>s.
     rbind (onVideoRoomEventPublisher E recvData s) (\<lambda>s.
     onVideoRoomEventUnpublish E recvData s))"

definition onTextRoomEventEvent :: "janus_env \<Rightarrow> json \<Rightarrow> 'c janus \<Rightarrow> 'c janus res" where
  "onTextRoomEventEvent E recvData s = onVideoRoomEventSdp E recvData True s"

fun run_video_event :: "janus_env \<Rightarrow> video_event \<Rightarrow> json \<Rightarrow> 'c janus \<Rightarrow> 'c janus res" where
  "run_video_event E EventJoin = onVideoRoomEventJoin E"
| "run_video_event E EventAttached = onVideoRoomEventAttached E"
| "run_video_event E EventEvent = onVideoRoomEventEvent E"

fun run_text_event :: "janus_env \<Rightarrow> text_event \<Rightarrow> json \<Rightarrow> 'c janus \<Rightarrow> 'c janus res" where
  "run_text_event E TextEventEvent = onTextRoomEventEvent E"

text \<open>Both dispatchers go through the whole table and run every entry with the right key.\<close>

definition onVideoRoomEvent :: "janus_env \<Rightarrow> string \<Rightarrow> json \<Rightarrow> 'c janus \<Rightarrow> 'c janus res" where
  "onVideoRoomEvent E event object s =
     rfold (\<lambda>(key, f) s. if key = event then run_video_event E f object s else Inr s)
       (mMessage_event_videoRoom s) s"

definition onTextRoomEvent :: "janus_env \<Rightarrow> string \<Rightarrow> json \<Rightarrow> 'c janus \<Rightarrow> 'c janus res" where
  "onTextRoomEvent E event object s =
     rfold (\<lambda>(key, f) s. if key = event then run_text_event E f object s else Inr s)
       (mMessage_event_textRoom s) s"

section \<open>Messages of the server\<close>

fun run_listener :: "janus_env \<Rightarrow> listener \<Rightarrow> json \<Rightarrow> 'c janus \<Rightarrow> 'c janus res" where
  "run_listener E ToCreateSessionId object s = Inr (onCreateSessionId E object s)"
| "run_listener E ToHeartBeat object s = Inr (onHeartBeat object s)"
| "run_listener E (ToPeer a slot) object s = run_peer_slot E slot a object s"

definition onMessageSuccess :: "janus_env \<Rightarrow> string \<Rightarrow> json \<Rightarrow> 'c janus \<Rightarrow> 'c janus res" where
  "onMessageSuccess E tran object s = (case mMessage_success_callback s tran of
       None \<Rightarrow> Inr s
     | Some callback \<Rightarrow> run_listener E callback object
         (s\<lparr>mMessage_success_callback := (mMessage_success_callback s)(tran := None)\<rparr>))"

definition onMessageAck :: "janus_env \<Rightarrow> string \<Rightarrow> json \<Rightarrow> 'c janus \<Rightarrow> 'c janus res" where
  "onMessageAck E tran object s = (case mMessage_ack_callback s tran of
       None \<Rightarrow> Inr s
     | Some callback \<Rightarrow> run_listener E callback object
         (s\<lparr>mMessage_ack_callback := (mMessage_ack_callback s)(tran := None)\<rparr>))"

definition onWebSocketReceivedMessage :: "janus_env \<Rightarrow> string \<Rightarrow> 'c janus \<Rightarrow> 'c janus res" where
  "onWebSocketReceivedMessage E message s =
     (case lib_parse (je_json E) message of
        None \<Rightarrow> Inr s
      | Some object \<Rightarrow>
         (let kind = snd (GetStringFromJsonObject (je_json E) object ''janus'' []);
              transaction = snd (GetStringFromJsonObject (je_json E) object ''transaction'' [])
          in if kind = ''success'' then onMessageSuccess E transaction object s
             else if kind = ''ack'' then onMessageAck E transaction object s
             else if kind = ''event'' then
               (let dataObj = plugin_data object;
                    (ret, janusEvent) = GetStringFromJsonObject (je_json E) dataObj ''videoroom'' []
                in if ret then onVideoRoomEvent E janusEvent object s
                   else (let (ret, janusEvent) = GetStringFromJsonObject (je_json E) dataObj ''textroom'' janusEvent
                         in if ret then onTextRoomEvent E ''eventevent'' object s else Inr s))
             else Inr s))"

text \<open>The function bound to a callback of the socket; a text message comes with its text.\<close>

fun run_socket_slot :: "janus_env \<Rightarrow> socket_slot \<Rightarrow> string \<Rightarrow> 'c janus \<Rightarrow> 'c janus res" where
  "run_socket_slot E SlotSocketConnected msg s = Inr (onSocketConnected E s)"
| "run_socket_slot E SlotSocketDisConnected msg s = Inr (onSocketDisConnected s)"
| "run_socket_slot E SlotReceivedMessage msg s = onWebSocketReceivedMessage E msg s"
| "run_socket_slot E SlotHeartBeatMessage msg s = Inr (onWebSocketHeartBeatMessage E s)"

end
