(* ===== verification/Janus_Objects.thy ===== *)
theory Janus_Objects
  imports Janus_Manager
begin

text \<open>
  Objects and pointers. Every operation of a peer honours one contract, the locale
  \<open>peer_op\<close>: on a deleted object it is a use after free; on a live one it returns, keeps
  every object alive and only adds callbacks that point to the object itself. The two
  state invariants \<open>janus_wf\<close> (everything the manager owns is alive, once) and
  \<open>pending_live\<close> (no registered callback points to a deleted object) are proved to follow
  from the contract once and for all.
\<close>

section \<open>Invariants\<close>

definition opt_list :: "'a option \<Rightarrow> 'a list" where
  "opt_list x = (case x of None \<Rightarrow> [] | Some y \<Rightarrow> [y])"

lemma opt_list_simps [simp]: "opt_list None = []" "opt_list (Some y) = [y]"
  by (simp_all add: opt_list_def)

text \<open>The objects that the manager will delete.\<close>

definition owned :: "'c janus \<Rightarrow> addr list" where
  "owned s = mVideoRoomPeerList s @ mTextRoomPeerList s
     @ opt_list (pCreateVideoRoomPeer s) @ opt_list (pCreateTextRoomPeer s)"

text \<open>The callback that \<^verbatim>\<open>onDestoryVideoRoom\<close> calls is set whenever the one it tests is.\<close>

definition reports_ok :: "peer \<Rightarrow> bool" where
  "reports_ok p \<longleftrightarrow> (onDestroyVideoRoomSuccessedCallback p \<noteq> None \<longrightarrow>
     onCreateVideoRoomSuccessedCallback p \<noteq> None)"

definition janus_wf :: "'c janus \<Rightarrow> bool" where
  "janus_wf s \<longleftrightarrow> distinct (owned s) \<and> set (owned s) \<subseteq> dom (heap s)
     \<and> (\<forall>a \<in> dom (heap s). a < Addr (next_addr s))
     \<and> (\<forall>p \<in> ran (heap s). reports_ok p)
     \<and> ran (mMessage_ack_callback s) \<subseteq> {ToHeartBeat}"

definition pending_live :: "'c janus \<Rightarrow> bool" where
  "pending_live s \<longleftrightarrow> (\<forall>a slot. ToPeer a slot \<in> ran (mMessage_success_callback s) \<longrightarrow> a \<in> dom (heap s))"

lemma janus_wfD:
  assumes "janus_wf s"
  shows "distinct (owned s)" "set (owned s) \<subseteq> dom (heap s)"
    "heap s a = Some p \<Longrightarrow> a < Addr (next_addr s)" "heap s a = Some p \<Longrightarrow> reports_ok p"
    "ran (mMessage_ack_callback s) \<subseteq> {ToHeartBeat}"
  using assms by (auto simp: janus_wf_def ran_def)

lemma fresh_addr: "janus_wf s \<Longrightarrow> heap s (Addr (next_addr s)) = None"
  using janus_wfD(3) [of s "Addr (next_addr s)"] by (cases "heap s (Addr (next_addr s))") auto

lemma owned_live: "janus_wf s \<Longrightarrow> a \<in> set (owned s) \<Longrightarrow> \<exists>p. heap s a = Some p"
  using janus_wfD(2) [of s] by auto

section \<open>What a peer operation may change\<close>

definition peer_shape :: "peer \<Rightarrow> report_slot option \<times> report_slot option" where
  "peer_shape p = (onDestroyVideoRoomSuccessedCallback p, onCreateVideoRoomSuccessedCallback p)"

definition evolves :: "addr \<Rightarrow> 'c janus \<Rightarrow> 'c janus \<Rightarrow> bool" where
  "evolves a s s' \<longleftrightarrow>
     mVideoRoomPeerList s' = mVideoRoomPeerList s \<and> mTextRoomPeerList s' = mTextRoomPeerList s
     \<and> pCreateVideoRoomPeer s' = pCreateVideoRoomPeer s
     \<and> pCreateTextRoomPeer s' = pCreateTextRoomPeer s
     \<and> next_addr s' = next_addr s
     \<and> (\<forall>b. map_option peer_shape (heap s' b) = map_option peer_shape (heap s b))
     \<and> (\<forall>b. b \<noteq> a \<longrightarrow> heap s' b = heap s b)
     \<and> mMessage_ack_callback s' = mMessage_ack_callback s
     \<and> ran (mMessage_success_callback s') \<subseteq> ran (mMessage_success_callback s) \<union> range (ToPeer a)
     \<and> mMessage_event_videoRoom s' = mMessage_event_videoRoom s
     \<and> mMessage_event_textRoom s' = mMessage_event_textRoom s
     \<and> mSessionId s' = mSessionId s \<and> mVideoRoomID s' = mVideoRoomID s \<and> mPrivatedId s' = mPrivatedId s
     \<and> OnConnectToPeer s' = OnConnectToPeer s \<and> OnRemoteSdp s' = OnRemoteSdp s
     \<and> OnRemoteStreamRemove s' = OnRemoteStreamRemove s \<and> client s' = client s"

lemma evolves_refl [inv_intros]: "evolves a s s"
  by (simp add: evolves_def)

lemma evolves_trans: "evolves a s t \<Longrightarrow> evolves a t u \<Longrightarrow> evolves a s u"
  by (simp add: evolves_def) blast

lemma evolves_heap:
  "evolves a s s' \<Longrightarrow> heap s b = Some p \<Longrightarrow> \<exists>q. heap s' b = Some q \<and> peer_shape q = peer_shape p"
proof -
  assume "evolves a s s'" "heap s b = Some p"
  then have "map_option peer_shape (heap s' b) = Some (peer_shape p)"
    by (simp add: evolves_def)
  then show ?thesis by auto
qed

lemma evolves_dom: "evolves a s s' \<Longrightarrow> dom (heap s') = dom (heap s)"
proof -
  assume "evolves a s s'"
  then have "map_option peer_shape (heap s' b) = map_option peer_shape (heap s b)" for b
    by (simp add: evolves_def)
  then have "heap s' b = None \<longleftrightarrow> heap s b = None" for b
    by (metis option.map_disc_iff)
  then show ?thesis by (auto simp: dom_def)
qed

lemma reports_ok_shape: "peer_shape p = peer_shape q \<Longrightarrow> reports_ok p \<longleftrightarrow> reports_ok q"
  by (simp add: peer_shape_def reports_ok_def)

lemma evolves_wf:
  assumes "evolves a s s'" "janus_wf s"
  shows "janus_wf s'"
proof -
  have own: "owned s' = owned s" and nxt: "next_addr s' = next_addr s"
    and ack: "mMessage_ack_callback s' = mMessage_ack_callback s"
    using assms(1) by (simp_all add: evolves_def owned_def)
  have "reports_ok q" if "heap s' b = Some q" for b q
  proof -
    have "map_option peer_shape (heap s' b) = map_option peer_shape (heap s b)"
      using assms(1) by (simp add: evolves_def)
    then have "map_option peer_shape (heap s b) = Some (peer_shape q)"
      using that by simp
    then obtain p where "heap s b = Some p" "peer_shape p = peer_shape q" by auto
    then show ?thesis using janus_wfD(4) [OF assms(2)] reports_ok_shape by blast
  qed
  then have "\<forall>q \<in> ran (heap s'). reports_ok q" by (auto simp: ran_def)
  then show ?thesis
    using assms(2) unfolding janus_wf_def own nxt ack evolves_dom [OF assms(1)] by blast
qed

lemma evolves_pending:
  assumes "evolves a s s'" "pending_live s" "a \<in> dom (heap s)"
  shows "pending_live s'"
  using assms unfolding pending_live_def evolves_dom [OF assms(1)] evolves_def by blast

section \<open>Steps of a peer operation\<close>

lemma evolves_new_transaction [inv_intros]: "new_transaction E s = (t, s') \<Longrightarrow> evolves a s s'"
  by (auto simp: new_transaction_def evolves_def split: prod.splits)

lemma evolves_send [inv_intros]: "evolves a s (send_json E m s)"
  by (simp add: evolves_def)

lemma evolves_put [inv_intros]:
  "heap s a = Some p \<Longrightarrow> peer_shape q = peer_shape p \<Longrightarrow> evolves a s (put_peer a q s)"
  by (simp add: evolves_def put_peer_def)

lemma ran_fun_upd_subset: "ran (m(k \<mapsto> v)) \<subseteq> insert v (ran m)"
  by (auto simp: ran_def)

lemma evolves_add [inv_intros]: "evolves a s (AddMessageSuccessCallback t (ToPeer a slot) s)"
  using ran_fun_upd_subset [of "mMessage_success_callback s" t "ToPeer a slot"]
  by (auto simp: evolves_def AddMessageSuccessCallback_def)

lemma evolves_report [inv_intros]: "evolves a s (run_report f r s)"
  using run_report_stdout [of f r s] by (auto simp: evolves_def)

lemma new_transaction_heap: "new_transaction E s = (t, s') \<Longrightarrow> heap s' = heap s"
  by (auto simp: new_transaction_def split: prod.splits)

section \<open>The contract\<close>

locale peer_op =
  fixes this :: addr
    and f :: "'c janus \<Rightarrow> 'c janus res"
  assumes dangling: "heap s this = None \<Longrightarrow> f s = Inl (UseAfterFree this)"
    and returns: "heap s this = Some p \<Longrightarrow> reports_ok p \<Longrightarrow> \<exists>s'. f s = Inr s' \<and> evolves this s s'"
begin

lemma live_if_returns: "f s = Inr s' \<Longrightarrow> \<exists>p. heap s this = Some p"
  using dangling [of s] by (cases "heap s this") auto

lemma frame: "f s = Inr s' \<Longrightarrow> janus_wf s \<Longrightarrow> evolves this s s'"
  using live_if_returns [of s s'] returns [of s] janus_wfD(4) [of s this] by force

lemma keeps_wf: "f s = Inr s' \<Longrightarrow> janus_wf s \<Longrightarrow> janus_wf s'"
  using frame evolves_wf by blast

lemma keeps_pending: "f s = Inr s' \<Longrightarrow> janus_wf s \<Longrightarrow> pending_live s \<Longrightarrow> pending_live s'"
  using frame [of s s'] live_if_returns [of s s'] evolves_pending [of this s s'] by blast

lemma no_fault: "janus_wf s \<Longrightarrow> this \<in> dom (heap s) \<Longrightarrow> \<exists>s'. f s = Inr s'"
  using returns janus_wfD(4) by blast

end

text \<open>Operations on the same object compose.\<close>

lemma peer_op_bind:
  assumes "peer_op this f" "peer_op this g"
  shows "peer_op this (\<lambda>s. rbind (f s) g)"
proof
  fix s :: "'a janus"
  assume "heap s this = None"
  then show "rbind (f s) g = Inl (UseAfterFree this)"
    using peer_op.dangling [OF assms(1)] by simp
next
  fix s :: "'a janus" and p
  assume p: "heap s this = Some p" "reports_ok p"
  obtain t where t: "f s = Inr t" "evolves this s t"
    using peer_op.returns [OF assms(1) p] by blast
  obtain q where "heap t this = Some q" "reports_ok q"
    using evolves_heap [OF t(2) p(1)] reports_ok_shape p(2) by blast
  from peer_op.returns [OF assms(2) this] t
  show "\<exists>s'. rbind (f s) g = Inr s' \<and> evolves this s s'"
    using evolves_trans by fastforce
qed

lemma peer_op_update:
  assumes "\<And>p. peer_shape (h p) = peer_shape p"
  shows "peer_op this (update_peer this h)"
  by unfold_locales
    (auto simp: update_peer_def deref_def assms intro!: evolves_put)

text \<open>An operation that reads its object, draws a transaction, sends, and may register itself.\<close>

lemma peer_op_message:
  assumes "\<And>p t u. heap u this = Some p \<Longrightarrow> evolves this u (k p t u)"
  shows "peer_op this (\<lambda>s. rbind (deref this s) (\<lambda>p.
    let (transaction, s) = new_transaction E s in Inr (k p transaction s)))"
proof
  fix s :: "'a janus" and p
  assume p: "heap s this = Some p"
  obtain t u where tu: "new_transaction E s = (t, u)" by (cases "new_transaction E s")
  then have "heap u this = Some p" using p new_transaction_heap by metis
  then have "evolves this s (k p t u)"
    using evolves_trans [OF evolves_new_transaction [OF tu] assms] by blast
  then show "\<exists>s'. rbind (deref this s) (\<lambda>p. let (transaction, s) = new_transaction E s
      in Inr (k p transaction s)) = Inr s' \<and> evolves this s s'"
    by (simp add: deref_def p tu)
qed (simp add: deref_def)

lemma peer_op_attach:
  assumes "\<And>p. peer_shape (h p) = peer_shape p"
  shows "peer_op this (attach_with E this plugin h slot)"
  unfolding attach_with_def Let_def
  by (rule peer_op_message [unfolded Let_def])
    (rule evolves_trans [OF evolves_trans [OF evolves_send evolves_put] evolves_add],
      simp_all add: assms)

interpretation attach_video: peer_op this "JPC_AttachVideoRoom E this roomId" for E this roomId
  unfolding JPC_AttachVideoRoom_def by (rule peer_op_attach) (simp add: peer_shape_def)

interpretation attach_text: peer_op this "JPC_AttachTextRoom E this roomId" for E this roomId
  unfolding JPC_AttachTextRoom_def by (rule peer_op_attach) (simp add: peer_shape_def)

interpretation create_video: peer_op this "JPC_CreateVideoRoom E this roomId" for E this roomId
  unfolding JPC_CreateVideoRoom_def by (rule peer_op_attach) (simp add: peer_shape_def)

interpretation create_text: peer_op this "JPC_CreateTextRoom E this roomId" for E this roomId
  unfolding JPC_CreateTextRoom_def by (rule peer_op_attach) (simp add: peer_shape_def)

interpretation destroy_video: peer_op this "JPC_DestoryVideoRoom E this roomId" for E this roomId
  unfolding JPC_DestoryVideoRoom_def by (rule peer_op_attach) (simp add: peer_shape_def)

interpretation destroy_text: peer_op this "JPC_DestoryTextRoom E this roomId" for E this roomId
  unfolding JPC_DestoryTextRoom_def by (rule peer_op_attach) (simp add: peer_shape_def)

interpretation set_subscribe: peer_op this "SetSubscribe this i" for this i
  unfolding SetSubscribe_def by (rule peer_op_update) (simp add: peer_shape_def)

interpretation set_private: peer_op this "SetPrivateId this i" for this i
  unfolding SetPrivateId_def by (rule peer_op_update) (simp add: peer_shape_def)

interpretation set_video_name: peer_op this "SetVideoRoomDisplayName this name" for this name
  unfolding SetVideoRoomDisplayName_def by (rule peer_op_update) (simp add: peer_shape_def)

interpretation set_text_name: peer_op this "SetTextRoomDisplayName this name" for this name
  unfolding SetTextRoomDisplayName_def by (rule peer_op_update) (simp add: peer_shape_def)

interpretation send_sdp: peer_op this "JPC_SendSDP E this sdp ty" for E this sdp ty
  unfolding JPC_SendSDP_def Let_def by (rule peer_op_message [unfolded Let_def]) (rule evolves_send)

interpretation send_sdp_text: peer_op this "JPC_SendSDPText E this sdp ty" for E this sdp ty
  unfolding JPC_SendSDPText_def by (rule peer_op_message) (rule evolves_send)

interpretation send_candidate: peer_op this "JPC_SendCandidate E this mid idx cand" for E this mid idx cand
  unfolding JPC_SendCandidate_def by (rule peer_op_message) (rule evolves_send)

section \<open>The functions bound to answers\<close>

lemma peer_op_join: "peer_op this (joinVideoRoom E this)" "peer_op this (joinTextRoom E this)"
  unfolding joinVideoRoom_def joinTextRoom_def
  by (rule peer_op_message, rule evolves_send)+

lemma peer_op_request:
  "peer_op this (createVideoRoom E this)" "peer_op this (createTextRoom E this)"
  "peer_op this (destoryVideoRoom E this)" "peer_op this (destoryTextRoom E this)"
  unfolding createVideoRoom_def createTextRoom_def destoryVideoRoom_def destoryTextRoom_def Let_def
  by (rule peer_op_message [unfolded Let_def], rule evolves_trans [OF evolves_send evolves_add])+

lemma call_report_if_returns: "\<exists>s'. call_report_if cb r s = Inr s' \<and> evolves a s s'"
  by (auto simp: call_report_if_def call_report_def intro: evolves_refl evolves_report)

lemma call_report_returns: "cb \<noteq> None \<Longrightarrow> \<exists>s'. call_report cb r s = Inr s' \<and> evolves a s s'"
  by (auto simp: call_report_def intro: evolves_report)

lemma Inr_returns: "\<exists>s'. Inr s = Inr s' \<and> evolves a s s'"
  using evolves_refl by blast

lemma peer_op_outcome:
  "peer_op this (onCreateVideoRoom E this obj)" "peer_op this (onCreateTextRoom E this obj)"
  "peer_op this (onDestoryVideoRoom E this obj)" "peer_op this (onDestoryTextRoom E this obj)"
  by unfold_locales
    (simp_all add: onCreateVideoRoom_def onCreateTextRoom_def onDestoryVideoRoom_def
      onDestoryTextRoom_def deref_def Let_def reports_ok_def call_report_if_returns
      call_report_returns Inr_returns evolves_refl)

interpretation slot: peer_op this "run_peer_slot E slot this obj" for E slot this obj
proof (cases slot)
  case OnAttachVideoRoomJoin
  show "peer_op this (run_peer_slot E slot this obj)"
    unfolding OnAttachVideoRoomJoin run_peer_slot.simps onAttachVideoRoomJoin_def
    by (intro peer_op_bind peer_op_update peer_op_join) (simp add: peer_shape_def)
next
  case OnAttachTextRoomJoin
  show "peer_op this (run_peer_slot E slot this obj)"
    unfolding OnAttachTextRoomJoin run_peer_slot.simps onAttachTextRoomJoin_def
    by (intro peer_op_bind peer_op_update peer_op_join) (simp add: peer_shape_def)
next
  case OnAttachVideoRoomCreate
  show "peer_op this (run_peer_slot E slot this obj)"
    unfolding OnAttachVideoRoomCreate run_peer_slot.simps onAttachVideoRoomCreate_def
    by (intro peer_op_bind peer_op_update peer_op_request) (simp add: peer_shape_def)
next
  case OnAttachTextRoomCreate
  show "peer_op this (run_peer_slot E slot this obj)"
    unfolding OnAttachTextRoomCreate run_peer_slot.simps onAttachTextRoomCreate_def
    by (intro peer_op_bind peer_op_update peer_op_request) (simp add: peer_shape_def)
next
  case OnAttachVideoRoomDestory
  show "peer_op this (run_peer_slot E slot this obj)"
    unfolding OnAttachVideoRoomDestory run_peer_slot.simps onAttachVideoRoomDestory_def
    by (intro peer_op_bind peer_op_update peer_op_request) (simp add: peer_shape_def)
next
  case OnAttachTextRoomDestory
  show "peer_op this (run_peer_slot E slot this obj)"
    unfolding OnAttachTextRoomDestory run_peer_slot.simps onAttachTextRoomDestory_def
    by (intro peer_op_bind peer_op_update peer_op_request) (simp add: peer_shape_def)
qed (simp_all only: run_peer_slot.simps peer_op_outcome)

end
