(* ===== verification/Janus_Invariants.thy ===== *)
theory Janus_Invariants
  imports Janus_Objects
begin

text \<open>
  The session as a whole: what its owner may call and what the socket may deliver, as one
  step relation, and the two invariants of \<open>Janus_Objects\<close> over all reachable sessions.
  A call never faults. A message can fault in two ways only, and the theorems say which: a
  callback whose peer was deleted, or a function of the conference layer that faults.
\<close>

section \<open>Results that keep the invariants\<close>

definition clients :: "'c janus \<Rightarrow> _" where
  "clients s = (OnConnectToPeer s, OnRemoteSdp s, OnRemoteStreamRemove s, client s)"

text \<open>From \<open>s\<close>: a result, not a fault; every object survives; both invariants are kept.\<close>

definition good :: "'c janus \<Rightarrow> 'c janus res \<Rightarrow> bool" where
  "good s r \<longleftrightarrow> (\<exists>s'. r = Inr s' \<and> janus_wf s' \<and> dom (heap s) \<subseteq> dom (heap s')
     \<and> (pending_live s \<longrightarrow> pending_live s') \<and> clients s' = clients s)"

lemma good_Inr [inv_intros]: "janus_wf s \<Longrightarrow> good s (Inr s)"
  by (simp add: good_def)

lemma good_bind:
  assumes "good s r"
    and "\<And>t. r = Inr t \<Longrightarrow> janus_wf t \<Longrightarrow> dom (heap s) \<subseteq> dom (heap t) \<Longrightarrow> good t (g t)"
  shows "good s (rbind r g)"
proof -
  obtain t where t: "r = Inr t" "janus_wf t" "dom (heap s) \<subseteq> dom (heap t)"
    "pending_live s \<longrightarrow> pending_live t" "clients t = clients s"
    using assms(1) by (auto simp: good_def)
  from assms(2) [OF t(1-3)] t show ?thesis by (auto simp: good_def)
qed

lemma good_from:
  assumes "good t r" "dom (heap s) \<subseteq> dom (heap t)" "pending_live s \<longrightarrow> pending_live t" "clients t = clients s"
  shows "good s r"
  using assms by (auto simp: good_def)

lemma good_rfold:
  assumes "\<And>x t. x \<in> set xs \<Longrightarrow> janus_wf t \<Longrightarrow> good t (f x t)" "janus_wf s"
  shows "good s (rfold f xs s)"
  using assms
proof (induction xs arbitrary: s)
  case Nil
  then show ?case by (simp add: good_Inr)
next
  case (Cons x xs)
  then show ?case by (auto intro!: good_bind)
qed

lemma evolves_good: "evolves a s s' \<Longrightarrow> janus_wf s \<Longrightarrow> a \<in> dom (heap s) \<Longrightarrow> good s (Inr s')"
  using evolves_wf [of a s s'] evolves_pending [of a s s'] evolves_dom [of a s s']
  by (simp add: good_def clients_def evolves_def)

lemma peer_op_good:
  assumes "peer_op a f" "janus_wf s" "a \<in> dom (heap s)"
  shows "good s (f s)"
proof -
  obtain p where p: "heap s a = Some p" using assms(3) by auto
  obtain s' where "f s = Inr s'" "evolves a s s'"
    using peer_op.returns [OF assms(1) p] janus_wfD(4) [OF assms(2) p] by blast
  then show ?thesis using evolves_good assms by force
qed

text \<open>A change of fields that neither invariant reads, or of the session's own callbacks.\<close>

lemma quiet_change_good:
  assumes wf: "janus_wf s" and same: "heap s' = heap s" "next_addr s' = next_addr s" "owned s' = owned s"
    and succ: "ran (mMessage_success_callback s') \<subseteq> insert ToCreateSessionId (ran (mMessage_success_callback s))"
    and ack: "ran (mMessage_ack_callback s') \<subseteq> insert ToHeartBeat (ran (mMessage_ack_callback s))"
    and cl: "clients s' = clients s"
  shows "good s (Inr s')"
proof -
  have "janus_wf s'"
    using wf ack unfolding janus_wf_def same by blast
  moreover have "pending_live s \<longrightarrow> pending_live s'"
    using succ unfolding pending_live_def same by blast
  ultimately show ?thesis by (simp add: good_def same cl)
qed

lemma ran_remove: "ran (m(k := None)) \<subseteq> ran m"
  by (auto simp: ran_def)

lemma ran_insert: "ran (m(k := None)) \<subseteq> insert v (ran m)" "ran m \<subseteq> insert v (ran m)"
    "ran (m(k \<mapsto> v)) \<subseteq> insert v (ran m)"
  by (auto simp: ran_def)

lemmas quiet_simps = owned_def clients_def ran_insert

section \<open>New peers\<close>

lemma reports_ok_init [simp]: "reports_ok (JPC_init E a sid)"
  by (simp add: reports_ok_def JPC_init_def)

lemma JPC_new_eq:
  "JPC_new E s = (Addr (next_addr s),
     s\<lparr>heap := (heap s)(Addr (next_addr s) \<mapsto> JPC_init E (Addr (next_addr s)) (mSessionId s)),
       next_addr := Suc (next_addr s)\<rparr>)"
  by (simp add: JPC_new_def alloc_peer_def Let_def)

lemma less_Addr_Suc: "a < Addr n \<Longrightarrow> a < Addr (Suc n)" "Addr n < Addr (Suc n)"
  by (cases a; simp add: less_addr_def)+

text \<open>Storing a fresh object keeps the invariants, wherever its owner puts the pointer.\<close>

lemma fresh_good:
  assumes wf: "janus_wf s"
    and h: "heap t = (heap s)(Addr (next_addr s) \<mapsto> p)" "reports_ok p" "next_addr t = Suc (next_addr s)"
    and own: "distinct (owned t)" "set (owned t) \<subseteq> insert (Addr (next_addr s)) (set (owned s))"
    and rest: "mMessage_success_callback t = mMessage_success_callback s"
      "mMessage_ack_callback t = mMessage_ack_callback s" "clients t = clients s"
  shows "good s (Inr t)"
proof -
  have "\<forall>a \<in> dom (heap t). a < Addr (next_addr t)"
    using janus_wfD(3) [OF wf] less_Addr_Suc by (auto simp: h)
  moreover have "set (owned t) \<subseteq> dom (heap t)"
    using own(2) janus_wfD(2) [OF wf] by (auto simp: h)
  moreover have "\<forall>q \<in> ran (heap t). reports_ok q"
    using janus_wfD(4) [OF wf] h(2) by (auto simp: h ran_def)
  ultimately have "janus_wf t"
    using janus_wfD(5) [OF wf] own(1) by (simp add: janus_wf_def rest)
  then show ?thesis
    by (auto simp: good_def pending_live_def rest h(1))
qed

lemma fresh_not_owned: "janus_wf s \<Longrightarrow> Addr (next_addr s) \<notin> set (owned s)"
  using fresh_addr [of s] owned_live [of s] by fastforce

section \<open>Deleting peers\<close>

lemma delete_loop:
  "distinct as \<Longrightarrow> set as \<subseteq> dom (heap s) \<Longrightarrow>
   rfold JPC_delete as s = Inr (s\<lparr>heap := heap s |` (- set as)\<rparr>)"
proof (induction as arbitrary: s)
  case Nil
  show ?case by simp
next
  case (Cons a as)
  then obtain p where p: "heap s a = Some p" by auto
  let ?s = "s\<lparr>heap := (heap s)(a := None)\<rparr>"
  have "heap ?s |` (- set as) = heap s |` (- set (a # as))"
    by (rule ext) (simp add: restrict_map_def)
  moreover have "rfold JPC_delete as ?s = Inr (?s\<lparr>heap := heap ?s |` (- set as)\<rparr>)"
    by (rule Cons.IH) (use Cons.prems in auto)
  ultimately have "rfold JPC_delete as ?s = Inr (?s\<lparr>heap := heap s |` (- set (a # as))\<rparr>)"
    by (simp only:)
  moreover have "JPC_delete a s = Inr ?s"
    by (simp add: JPC_delete_def free_peer_def p)
  ultimately show ?case by simp
qed

lemma LeaveVideoRoom_eq:
  "janus_wf s \<Longrightarrow> JVRM_LeaveVideoRoom s =
     Inr (s\<lparr>heap := heap s |` (- set (mVideoRoomPeerList s)), mVideoRoomPeerList := []\<rparr>)"
  using delete_loop [of "mVideoRoomPeerList s" s] janus_wfD(1,2) [of s]
  by (simp add: JVRM_LeaveVideoRoom_def owned_def)

lemma LeaveTextRoom_eq:
  "janus_wf s \<Longrightarrow> JVRM_LeaveTextRoom s =
     Inr (s\<lparr>heap := heap s |` (- set (mTextRoomPeerList s)), mTextRoomPeerList := []\<rparr>)"
  using delete_loop [of "mTextRoomPeerList s" s] janus_wfD(1,2) [of s]
  by (simp add: JVRM_LeaveTextRoom_def owned_def)

lemma ran_restrict_subset: "ran (m |` A) \<subseteq> ran m"
  by (auto simp: ran_def restrict_map_def)

lemma restrict_wf:
  assumes "janus_wf s" "distinct (owned t)" "set (owned t) \<subseteq> set (owned s) - D"
    "heap t = heap s |` (- D)" "next_addr t = next_addr s" "mMessage_ack_callback t = mMessage_ack_callback s"
  shows "janus_wf t"
  using assms ran_restrict_subset [of "heap s" "- D"] unfolding janus_wf_def by auto

lemma LeaveVideoRoom_wf:
  assumes "janus_wf s" "JVRM_LeaveVideoRoom s = Inr s'"
  shows "janus_wf s'"
  using assms janus_wfD(1) [OF assms(1)]
  by (intro restrict_wf [OF assms(1), of _ "set (mVideoRoomPeerList s)"])
    (auto simp: LeaveVideoRoom_eq owned_def)

lemma LeaveTextRoom_wf:
  assumes "janus_wf s" "JVRM_LeaveTextRoom s = Inr s'"
  shows "janus_wf s'"
  using assms janus_wfD(1) [OF assms(1)]
  by (intro restrict_wf [OF assms(1), of _ "set (mTextRoomPeerList s)"])
    (auto simp: LeaveTextRoom_eq owned_def)

section \<open>Calls of the owner\<close>

datatype call =
    CallConnectServer string | CallDisConnectServer
  | CallCreateVideoRoom u32 | CallCreateTextRoom u32
  | CallDestoryVideoRoom u32 | CallDestoryTextRoom u32
  | CallJoinVideoRoom u32 string | CallJoinTextRoom u32
  | CallLeaveVideoRoom | CallLeaveTextRoom
  | CallSendSDP i64 string string | CallSendCandidate i64 string u32 string

fun run_call :: "janus_env \<Rightarrow> call \<Rightarrow> 'c janus \<Rightarrow> 'c janus res" where
  "run_call E (CallConnectServer server) s = Inr (ConnectServer server s)"
| "run_call E CallDisConnectServer s = Inr (DisConnectServer s)"
| "run_call E (CallCreateVideoRoom r) s = JVRM_CreateVideoRoom E r s"
| "run_call E (CallCreateTextRoom r) s = JVRM_CreateTextRoom E r s"
| "run_call E (CallDestoryVideoRoom r) s = JVRM_DestoryVideoRoom E r s"
| "run_call E (CallDestoryTextRoom r) s = JVRM_DestoryTextRoom E r s"
| "run_call E (CallJoinVideoRoom r name) s = JVRM_JoinVideoRoom E r name s"
| "run_call E (CallJoinTextRoom r) s = JVRM_JoinTextRoom E r s"
| "run_call E CallLeaveVideoRoom s = JVRM_LeaveVideoRoom s"
| "run_call E CallLeaveTextRoom s = JVRM_LeaveTextRoom s"
| "run_call E (CallSendSDP i sdp ty) s = JVRM_SendSDP E i sdp ty s"
| "run_call E (CallSendCandidate i mid idx cand) s = JVRM_SendCandidate E i mid idx cand s"

definition leaves :: "call \<Rightarrow> bool" where
  "leaves c \<longleftrightarrow> c \<in> {CallLeaveVideoRoom, CallLeaveTextRoom}"

lemma put_put [simp]: "put_peer a p (put_peer a q s) = put_peer a p s"
  by (simp add: put_peer_def)

lemma update_put [simp]: "update_peer a f (put_peer a q s) = Inr (put_peer a (f q) s)"
  by (simp add: update_peer_def)

lemma update_Some: "heap s a = Some p \<Longrightarrow> update_peer a f s = Inr (put_peer a (f p) s)"
  by (simp add: update_peer_def deref_Some)

text \<open>All eight reports of a room-management peer are bound, each to its own function.\<close>

definition with_reports :: "peer \<Rightarrow> peer" where
  "with_reports p = p\<lparr>
     onCreateTextRoomFailedCallback := Some CreateTextRoomFailed,
     onCreateVideoRoomFailedCallback := Some CreateVideoRoomFailed,
     onCreateTextRoomSuccessedCallback := Some CreateTextRoomSuccessed,
     onCreateVideoRoomSuccessedCallback := Some CreateVideoRoomSuccessed,
     onDestroyTextRoomFailedCallback := Some DestroyTextRoomFailed,
     onDestroyVideoRoomFailedCallback := Some DestroyVideoRoomFailed,
     onDestroyTextRoomSuccessedCallback := Some DestroyTextRoomSuccessed,
     onDestroyVideoRoomSuccessedCallback := Some DestroyVideoRoomSuccessed\<rparr>"

lemma reports_ok_with [simp]: "reports_ok (with_reports p)"
  by (simp add: reports_ok_def with_reports_def)

lemma register_reports_eq:
  "heap s a = Some p \<Longrightarrow> register_reports a s = Inr (put_peer a (with_reports p) s)"
  by (simp add: register_reports_def update_Some with_reports_def
      RegisterCreateTextRoomFailed_def RegisterCreateVideoRoomFailed_def
      RegisterCreateTextRoomSuccessed_def RegisterCreateVideoRoomSuccessed_def
      RegisterDestroyTextRoomFailed_def RegisterDestroyVideoRoomFailed_def
      RegisterDestroyTextRoomSuccessed_def RegisterDestroyVideoRoomSuccessed_def)

lemma need_video_peer_good:
  assumes "janus_wf s"
  obtains a t where "need_video_peer E s = Inr (a, t)" "good s (Inr t)" "a \<in> dom (heap t)"
proof (cases "pCreateVideoRoomPeer s")
  case (Some a)
  then have "a \<in> dom (heap s)"
    using owned_live [OF assms, of a] by (auto simp: owned_def)
  then show ?thesis
    using that Some assms by (simp add: need_video_peer_def good_Inr)
next
  case None
  let ?a = "Addr (next_addr s)"
  let ?p = "with_reports (JPC_init E ?a (mSessionId s))"
  let ?t = "put_peer ?a ?p ((snd (JPC_new E s))\<lparr>pCreateVideoRoomPeer := Some ?a\<rparr>)"
  have "need_video_peer E s = Inr (?a, ?t)"
    by (simp add: need_video_peer_def None JPC_new_eq Let_def register_reports_eq)
  moreover have "good s (Inr ?t)"
    by (rule fresh_good [OF assms, of _ ?p])
      (use janus_wfD(1) [OF assms] fresh_not_owned [OF assms] None in
        \<open>auto simp: JPC_new_eq put_peer_def owned_def clients_def\<close>)
  ultimately show ?thesis
    using that by (simp add: put_peer_def)
qed

lemma need_text_peer_good:
  assumes "janus_wf s"
  obtains a t where "need_text_peer E s = Inr (a, t)" "good s (Inr t)" "a \<in> dom (heap t)"
proof (cases "pCreateTextRoomPeer s")
  case (Some a)
  then have "a \<in> dom (heap s)"
    using owned_live [OF assms, of a] by (auto simp: owned_def)
  then show ?thesis
    using that Some assms by (simp add: need_text_peer_def good_Inr)
next
  case None
  let ?a = "Addr (next_addr s)"
  let ?p = "with_reports (JPC_init E ?a (mSessionId s))"
  let ?t = "put_peer ?a ?p ((snd (JPC_new E s))\<lparr>pCreateTextRoomPeer := Some ?a\<rparr>)"
  have "need_text_peer E s = Inr (?a, ?t)"
    by (simp add: need_text_peer_def None JPC_new_eq Let_def register_reports_eq)
  moreover have "good s (Inr ?t)"
    by (rule fresh_good [OF assms, of _ ?p])
      (use janus_wfD(1) [OF assms] fresh_not_owned [OF assms] None in
        \<open>auto simp: JPC_new_eq put_peer_def owned_def clients_def\<close>)
  ultimately show ?thesis
    using that by (simp add: put_peer_def)
qed

lemma good_after:
  assumes "good s (Inr t)" "a \<in> dom (heap t)" "peer_op a f"
  shows "good s (f t)"
  using good_bind [OF assms(1), of f] peer_op_good [OF assms(3) _ assms(2)] by simp

lemma room_calls_good:
  assumes "janus_wf s"
  shows "good s (JVRM_CreateVideoRoom E r s)" "good s (JVRM_CreateTextRoom E r s)"
    "good s (JVRM_DestoryVideoRoom E r s)" "good s (JVRM_DestoryTextRoom E r s)"
proof -
  obtain a t where v: "need_video_peer E s = Inr (a, t)" "good s (Inr t)" "a \<in> dom (heap t)"
    using need_video_peer_good [OF assms] .
  obtain b u where w: "need_text_peer E s = Inr (b, u)" "good s (Inr u)" "b \<in> dom (heap u)"
    using need_text_peer_good [OF assms] .
  show "good s (JVRM_CreateVideoRoom E r s)"
    using good_after [OF v(2,3) create_video.peer_op_axioms] by (simp add: JVRM_CreateVideoRoom_def v(1))
  show "good s (JVRM_DestoryVideoRoom E r s)"
    using good_after [OF v(2,3) destroy_video.peer_op_axioms] by (simp add: JVRM_DestoryVideoRoom_def v(1))
  show "good s (JVRM_CreateTextRoom E r s)"
    using good_after [OF w(2,3) create_text.peer_op_axioms] by (simp add: JVRM_CreateTextRoom_def w(1))
  show "good s (JVRM_DestoryTextRoom E r s)"
    using good_after [OF w(2,3) destroy_text.peer_op_axioms] by (simp add: JVRM_DestoryTextRoom_def w(1))
qed

text \<open>A peer that is made and put at the end of the list of the video room.\<close>

definition new_video_peer :: "janus_env \<Rightarrow> 'c janus \<Rightarrow> 'c janus" where
  "new_video_peer E s = (let (a, s) = JPC_new E s
     in s\<lparr>mVideoRoomPeerList := mVideoRoomPeerList s @ [a]\<rparr>)"

lemma new_video_peer_good:
  assumes "janus_wf s"
  shows "good s (Inr (new_video_peer E s))" "Addr (next_addr s) \<in> dom (heap (new_video_peer E s))"
proof -
  show "good s (Inr (new_video_peer E s))"
    by (rule fresh_good [OF assms, of _ "JPC_init E (Addr (next_addr s)) (mSessionId s)"])
      (use janus_wfD(1) [OF assms] fresh_not_owned [OF assms] in
        \<open>auto simp: JPC_new_eq new_video_peer_def owned_def clients_def\<close>)
  show "Addr (next_addr s) \<in> dom (heap (new_video_peer E s))"
    by (simp add: new_video_peer_def JPC_new_eq)
qed

lemma JoinVideoRoom_alt:
  "JVRM_JoinVideoRoom E r name s =
     (let t = new_video_peer E (s\<lparr>mVideoRoomID := r\<rparr>)
      in rbind (SetVideoRoomDisplayName (Addr (next_addr s)) name t)
           (JPC_AttachVideoRoom E (Addr (next_addr s)) r))"
  by (simp add: JVRM_JoinVideoRoom_def new_video_peer_def JPC_new_eq Let_def
      SetVideoRoomDisplayName_def update_Some put_peer_def)
    (rule arg_cong [of _ _ "JPC_AttachVideoRoom E (Addr (next_addr s)) r"], rule janus.equality, simp_all)

lemma add_publisher_alt:
  "add_publisher E v s =
     (let i = JsonValueToLongLong (je_json E) v ''id''
      in if 0 < sint i
         then rbind (SetSubscribe (Addr (next_addr s)) i (new_video_peer E s)) (\<lambda>s'.
              rbind (SetPrivateId (Addr (next_addr s)) (mPrivatedId s') s')
                (\<lambda>s'. JPC_AttachVideoRoom E (Addr (next_addr s)) (mVideoRoomID s') s'))
         else Inr s)"
  by (simp add: add_publisher_def new_video_peer_def JPC_new_eq Let_def)

lemma JoinVideoRoom_good: "janus_wf s \<Longrightarrow> good s (JVRM_JoinVideoRoom E r name s)"
proof -
  assume wf: "janus_wf s"
  let ?s = "s\<lparr>mVideoRoomID := r\<rparr>"
  have g: "good s (Inr ?s)"
    by (rule quiet_change_good [OF wf]) (simp_all add: quiet_simps)
  then have wf': "janus_wf ?s" by (simp add: good_def)
  have "good s (Inr (new_video_peer E ?s))"
    by (rule good_from [OF new_video_peer_good(1) [OF wf']])
      (simp_all add: clients_def pending_live_def)
  from good_after [OF this _ peer_op_bind [OF set_video_name.peer_op_axioms attach_video.peer_op_axioms]]
  show ?thesis
    using new_video_peer_good(2) [OF wf', of E] by (simp add: JoinVideoRoom_alt Let_def)
qed

lemma JoinTextRoom_good: "janus_wf s \<Longrightarrow> good s (JVRM_JoinTextRoom E r s)"
proof -
  assume wf: "janus_wf s"
  let ?a = "Addr (next_addr s)"
  let ?t = "(snd (JPC_new E s))\<lparr>mTextRoomPeerList := mTextRoomPeerList s @ [?a]\<rparr>"
  have "good s (Inr ?t)"
    by (rule fresh_good [OF wf, of _ "JPC_init E ?a (mSessionId s)"])
      (use janus_wfD(1) [OF wf] fresh_not_owned [OF wf] in
        \<open>auto simp: JPC_new_eq owned_def clients_def\<close>)
  from good_after [OF this _ attach_text.peer_op_axioms]
  show ?thesis by (simp add: JVRM_JoinTextRoom_def JPC_new_eq Let_def)
qed

lemma find_peer_ok:
  assumes "janus_wf s" "set as \<subseteq> dom (heap s)"
  shows "\<exists>r. find_peer P as s = Inr r \<and> (\<forall>a. r = Some a \<longrightarrow> a \<in> set as)"
  using assms(2)
proof (induction as)
  case Nil
  show ?case by simp
next
  case (Cons a as)
  then obtain p where "heap s a = Some p" by auto
  with Cons show ?case by (auto simp: deref_Some)
qed

lemma find_peer_good:
  assumes wf: "janus_wf s" and as: "set as \<subseteq> set (owned s)"
    and f: "\<And>a. a \<in> set as \<Longrightarrow> a \<in> dom (heap s) \<Longrightarrow> good s (f a)"
  shows "good s (rbind (find_peer P as s) (\<lambda>r. case r of None \<Rightarrow> Inr s | Some a \<Rightarrow> f a))"
proof -
  have "set as \<subseteq> dom (heap s)" using as janus_wfD(2) [OF wf] by blast
  with find_peer_ok [OF wf this, of P] f wf show ?thesis
    by (auto simp: good_Inr subset_iff split: option.splits)
qed

lemma owned_lists: "set (mVideoRoomPeerList s) \<subseteq> set (owned s)" "set (mTextRoomPeerList s) \<subseteq> set (owned s)"
  by (auto simp: owned_def)

lemma SendSDP_good: "janus_wf s \<Longrightarrow> good s (JVRM_SendSDP E i sdp ty s)"
  unfolding JVRM_SendSDP_def
  by (intro good_bind find_peer_good owned_lists peer_op_good)
    (assumption | rule send_sdp.peer_op_axioms send_sdp_text.peer_op_axioms)+

lemma SendCandidate_good: "janus_wf s \<Longrightarrow> good s (JVRM_SendCandidate E i mid idx cand s)"
  unfolding JVRM_SendCandidate_def
  by (intro find_peer_good owned_lists peer_op_good)
    (assumption | rule send_candidate.peer_op_axioms)+

lemma calls_good:
  assumes "janus_wf s" "\<not> leaves c"
  shows "good s (run_call E c s)"
proof -
  have "good s (Inr (ConnectServer srv s))" "good s (Inr (DisConnectServer s))" for srv
    by (rule quiet_change_good [OF assms(1)];
        simp add: ConnectServer_def DisConnectServer_def quiet_simps)+
  with assms show ?thesis
    by (cases c) (simp_all add: leaves_def room_calls_good JoinVideoRoom_good JoinTextRoom_good
        SendSDP_good SendCandidate_good)
qed

end
