(* ===== verification/Janus_Session.thy ===== *)
theory Janus_Session
  imports Janus_Invariants
begin

text \<open>
  Messages of the server. The conference layer enters as the interface \<open>room_client\<close>: three
  functions on its state, an invariant they keep and the faults they may have. Under this
  contract every message of the server has an outcome: the session stays well formed, or
  the fault is one of the client's, or a callback pointed to a deleted peer.
\<close>

section \<open>The interface of the conference layer\<close>

definition bound ::
  "(i64 \<Rightarrow> bool \<Rightarrow> bool \<Rightarrow> bool \<Rightarrow> 'c \<Rightarrow> 'c res) \<Rightarrow> (i64 \<Rightarrow> string \<Rightarrow> string \<Rightarrow> bool \<Rightarrow> 'c \<Rightarrow> 'c res) \<Rightarrow>
   (i64 \<Rightarrow> 'c \<Rightarrow> 'c res) \<Rightarrow> 'c janus \<Rightarrow> bool" where
  "bound connect rsdp rremove s \<longleftrightarrow> OnConnectToPeer s \<in> {None, Some connect}
     \<and> OnRemoteSdp s \<in> {None, Some rsdp} \<and> OnRemoteStreamRemove s \<in> {None, Some rremove}"

text \<open>
  A well-formed session whose callbacks are those of the interface, and what may come of it:
  such a session again, a fault of the client, or a use after free that needs a callback
  registered for a deleted peer.
\<close>

definition session_ready where
  "session_ready connect rsdp rremove I s \<longleftrightarrow>
     janus_wf s \<and> bound connect rsdp rremove s \<and> I (client s)"

definition session_outcome where
  "session_outcome connect rsdp rremove I F s r \<longleftrightarrow> (case r of
       Inl e \<Rightarrow> F e \<or> (\<not> pending_live s \<and> (\<exists>a. e = UseAfterFree a))
     | Inr s' \<Rightarrow> session_ready connect rsdp rremove I s' \<and> (pending_live s \<longrightarrow> pending_live s'))"

locale room_client =
  fixes connect :: "i64 \<Rightarrow> bool \<Rightarrow> bool \<Rightarrow> bool \<Rightarrow> 'c \<Rightarrow> 'c res"
    and rsdp :: "i64 \<Rightarrow> string \<Rightarrow> string \<Rightarrow> bool \<Rightarrow> 'c \<Rightarrow> 'c res"
    and rremove :: "i64 \<Rightarrow> 'c \<Rightarrow> 'c res"
    and I :: "'c \<Rightarrow> bool"
    and F :: "fault \<Rightarrow> bool"
  assumes connect_law: "I c \<Longrightarrow> case connect h show_it conn loc c of Inl e \<Rightarrow> F e | Inr c' \<Rightarrow> I c'"
    and rsdp_law: "I c \<Longrightarrow> case rsdp h ty sdp is_text c of Inl e \<Rightarrow> F e | Inr c' \<Rightarrow> I c'"
    and rremove_law: "I c \<Longrightarrow> case rremove h c of Inl e \<Rightarrow> F e | Inr c' \<Rightarrow> I c'"
begin

abbreviation ready :: "'c janus \<Rightarrow> bool" where
  "ready \<equiv> session_ready connect rsdp rremove I"

abbreviation outcome :: "'c janus \<Rightarrow> 'c janus res \<Rightarrow> bool" where
  "outcome \<equiv> session_outcome connect rsdp rremove I F"

lemmas ready_def = session_ready_def [of connect rsdp rremove I]
lemmas outcome_def = session_outcome_def [of connect rsdp rremove I F]

lemma outcome_Inr: "outcome s (Inr s') \<longleftrightarrow> ready s' \<and> (pending_live s \<longrightarrow> pending_live s')"
  by (simp add: outcome_def)

lemma outcome_refl: "ready s \<Longrightarrow> outcome s (Inr s)"
  by (simp add: outcome_Inr)

lemma outcome_bind:
  assumes "outcome s r" "\<And>t. r = Inr t \<Longrightarrow> ready t \<Longrightarrow> outcome t (g t)"
  shows "outcome s (rbind r g)"
proof (cases r)
  case (Inl e)
  with assms(1) show ?thesis by (simp add: outcome_def)
next
  case (Inr t)
  with assms have "ready t" "pending_live s \<longrightarrow> pending_live t" "outcome t (g t)"
    by (auto simp: outcome_Inr)
  with Inr show ?thesis by (auto simp: outcome_def split: sum.splits)
qed

lemma outcome_rfold:
  assumes "\<And>x t. x \<in> set xs \<Longrightarrow> ready t \<Longrightarrow> outcome t (f x t)" "ready s"
  shows "outcome s (rfold f xs s)"
  using assms
proof (induction xs arbitrary: s)
  case Nil
  then show ?case by (simp add: outcome_refl)
next
  case (Cons x xs)
  then show ?case by (auto intro!: outcome_bind)
qed

lemma good_outcome: "ready s \<Longrightarrow> good s r \<Longrightarrow> outcome s r"
  by (auto simp: good_def outcome_def ready_def bound_def clients_def)

lemma ready_wf: "ready s \<Longrightarrow> janus_wf s"
  by (simp add: ready_def)

text \<open>Any function of the client that keeps to the contract.\<close>

lemma up_call_outcome:
  assumes "ready s" "\<And>c. I c \<Longrightarrow> case f c of Inl e \<Rightarrow> F e | Inr c' \<Rightarrow> I c'"
  shows "outcome s (up_call f s)"
proof -
  have "I (client s)" using assms(1) by (simp add: ready_def)
  then show ?thesis
    using assms(2) [of "client s"] assms(1)
    by (cases "f (client s)")
      (auto simp: up_call_def outcome_def ready_def bound_def janus_wf_def pending_live_def owned_def)
qed

lemma bound_cases:
  assumes "ready s"
  shows "OnConnectToPeer s = None \<or> OnConnectToPeer s = Some connect"
    "OnRemoteSdp s = None \<or> OnRemoteSdp s = Some rsdp"
    "OnRemoteStreamRemove s = None \<or> OnRemoteStreamRemove s = Some rremove"
  using assms by (auto simp: ready_def bound_def)

lemma connect_call: "ready s \<Longrightarrow>
  outcome s (case OnConnectToPeer s of None \<Rightarrow> Inr s | Some f \<Rightarrow> up_call (f h a b c) s)"
  using bound_cases(1) [of s] up_call_outcome [of s "connect h a b c"] connect_law
  by (auto simp: outcome_refl)

lemma rsdp_call: "ready s \<Longrightarrow>
  outcome s (case OnRemoteSdp s of None \<Rightarrow> Inr s | Some f \<Rightarrow> up_call (f h ty sdp x) s)"
  using bound_cases(2) [of s] up_call_outcome [of s "rsdp h ty sdp x"] rsdp_law
  by (auto simp: outcome_refl)

lemma rremove_call: "ready s \<Longrightarrow> heap s a = Some p \<Longrightarrow>
  outcome s (case OnRemoteStreamRemove s of None \<Rightarrow> Inr s
    | Some f \<Rightarrow> rbind (GetVideoRoomHandleID a s) (\<lambda>h. up_call (f h) s))"
  using bound_cases(3) [of s] up_call_outcome [of s "rremove (mVideoRoomHandleID p)"] rremove_law
  by (auto simp: outcome_refl GetVideoRoomHandleID_def deref_Some)

section \<open>Events\<close>

lemma sdp_outcome: "ready s \<Longrightarrow> outcome s (onVideoRoomEventSdp E v isText s)"
  by (simp add: onVideoRoomEventSdp_def Let_def outcome_refl rsdp_call)

lemma add_publisher_good: "janus_wf s \<Longrightarrow> good s (add_publisher E v s)"
proof -
  assume wf: "janus_wf s"
  let ?a = "Addr (next_addr s)" and ?i = "JsonValueToLongLong (je_json E) v ''id''"
  let ?n = "new_video_peer E s"
  note new = new_video_peer_good [OF wf, of E]
  then have wf': "janus_wf ?n" by (simp add: good_def)
  have "good ?n (rbind (SetSubscribe ?a ?i ?n) (\<lambda>s'.
      rbind (SetPrivateId ?a (mPrivatedId s') s') (\<lambda>s'. JPC_AttachVideoRoom E ?a (mVideoRoomID s') s')))"
  proof (rule good_bind [OF peer_op_good [OF set_subscribe.peer_op_axioms wf' new(2)]], goal_cases)
    case (1 t)
    then have a: "?a \<in> dom (heap t)" using new(2) by blast
    show ?case
    proof (rule good_bind [OF peer_op_good [OF set_private.peer_op_axioms 1(2) a]], goal_cases)
      case (1 u)
      then have "?a \<in> dom (heap u)" using a by blast
      then show ?case by (rule peer_op_good [OF attach_video.peer_op_axioms 1(2)])
    qed
  qed
  then show ?thesis
    using good_bind [OF new(1), of "\<lambda>t. rbind (SetSubscribe ?a ?i t) (\<lambda>s'.
      rbind (SetPrivateId ?a (mPrivatedId s') s') (\<lambda>s'. JPC_AttachVideoRoom E ?a (mVideoRoomID s') s'))"] wf
    by (simp add: add_publisher_alt Let_def good_Inr)
qed

lemma publishers_outcome: "ready s \<Longrightarrow> outcome s (onVideoRoomEventPublisher E v s)"
proof -
  assume r: "ready s"
  let ?s = "s\<lparr>mPrivatedId := JsonValueToLongLong (je_json E) v ''private_id''\<rparr>"
  have "outcome s (Inr ?s)"
    by (rule good_outcome [OF r], rule quiet_change_good [OF ready_wf [OF r]]) (simp_all add: quiet_simps)
  then have "outcome s (rbind (Inr ?s) (rfold (add_publisher E) xs))" for xs
    by (rule outcome_bind)
      (rule outcome_rfold, simp_all add: good_outcome add_publisher_good ready_wf)
  then show ?thesis by (simp add: onVideoRoomEventPublisher_def Let_def)
qed

lemma search_outcome:
  assumes "ready s" "\<And>a p. a \<in> set (mVideoRoomPeerList s) \<Longrightarrow> heap s a = Some p \<Longrightarrow> outcome s (f a)"
  shows "outcome s (rbind (find_peer P (mVideoRoomPeerList s) s)
    (\<lambda>r. case r of None \<Rightarrow> Inr s | Some a \<Rightarrow> f a))"
proof -
  have live: "set (mVideoRoomPeerList s) \<subseteq> dom (heap s)"
    using owned_lists(1) [of s] janus_wfD(2) [OF ready_wf [OF assms(1)]] by blast
  obtain r where r: "find_peer P (mVideoRoomPeerList s) s = Inr r"
      "\<forall>a. r = Some a \<longrightarrow> a \<in> set (mVideoRoomPeerList s)"
    using find_peer_ok [OF ready_wf [OF assms(1)] live] by blast
  show ?thesis
  proof (cases r)
    case None
    then show ?thesis by (simp add: r outcome_refl assms(1))
  next
    case (Some a)
    then have a: "a \<in> set (mVideoRoomPeerList s)" using r(2) by blast
    with live obtain p where "heap s a = Some p" by auto
    with assms(2) [OF a] show ?thesis by (simp add: r Some)
  qed
qed

lemma join_outcome: "ready s \<Longrightarrow> outcome s (onVideoRoomEventJoin E v s)"
  unfolding onVideoRoomEventJoin_def Let_def
  by (intro outcome_bind publishers_outcome search_outcome connect_call)

lemma erase_outcome:
  assumes "ready s"
  shows "outcome s (Inr (s\<lparr>mVideoRoomPeerList := erase_first P (mVideoRoomPeerList s)\<rparr>))"
  by (rule good_outcome [OF assms])
    (use janus_wfD [OF ready_wf [OF assms]] set_erase_first [of P "mVideoRoomPeerList s"]
        distinct_erase_first [of "mVideoRoomPeerList s" P] in
      \<open>auto simp: good_def janus_wf_def owned_def pending_live_def clients_def ran_def dest: subsetD\<close>)

lemma unpublish_outcome: "ready s \<Longrightarrow> outcome s (onVideoRoomEventUnpublish E v s)"
  by (simp add: onVideoRoomEventUnpublish_def Let_def outcome_refl)
    (intro impI search_outcome outcome_bind rremove_call erase_outcome)

lemma event_outcome: "ready s \<Longrightarrow> outcome s (run_video_event E ev v s)"
  by (cases ev)
    (auto simp: onVideoRoomEventAttached_def onVideoRoomEventEvent_def
      intro!: join_outcome sdp_outcome outcome_bind publishers_outcome unpublish_outcome)

lemma text_event_outcome: "ready s \<Longrightarrow> outcome s (run_text_event E ev v s)"
  by (cases ev) (simp add: onTextRoomEventEvent_def sdp_outcome)

lemma events_outcome:
  "ready s \<Longrightarrow> outcome s (onVideoRoomEvent E ev v s)"
  "ready s \<Longrightarrow> outcome s (onTextRoomEvent E ev v s)"
  unfolding onVideoRoomEvent_def onTextRoomEvent_def
  by (auto intro!: outcome_rfold event_outcome text_event_outcome simp: outcome_refl)

section \<open>Answers\<close>

lemma success_outcome:
  assumes "ready s"
  shows "outcome s (onMessageSuccess E tran v s)"
proof (cases "mMessage_success_callback s tran")
  case None
  then show ?thesis by (simp add: onMessageSuccess_def outcome_refl assms)
next
  case (Some cb)
  let ?s = "s\<lparr>mMessage_success_callback := (mMessage_success_callback s)(tran := None)\<rparr>"
  have q: "good s (Inr ?s)"
    by (rule quiet_change_good [OF ready_wf [OF assms]]) (simp_all add: quiet_simps)
  then have wf: "janus_wf ?s" by (simp add: good_def)
  have upd: "outcome s r" if "good ?s r" for r
    using good_outcome [OF assms] good_bind [OF q, of "\<lambda>_. r"] that by simp
  have run: "onMessageSuccess E tran v s = run_listener E cb v ?s"
    by (simp add: onMessageSuccess_def Some)
  show ?thesis
  proof (cases cb)
    case ToCreateSessionId
    then show ?thesis unfolding run
      by (auto intro!: upd quiet_change_good [OF wf] simp: onCreateSessionId_def quiet_simps Let_def)
  next
    case ToHeartBeat
    then show ?thesis unfolding run
      by (auto intro!: upd quiet_change_good [OF wf] simp: onHeartBeat_def quiet_simps)
  next
    case (ToPeer a slot)
    show ?thesis
    proof (cases "heap s a")
      case (Some p)
      then have "good ?s (run_peer_slot E slot a v ?s)"
        by (intro peer_op_good [OF slot.peer_op_axioms wf]) auto
      then show ?thesis unfolding run by (simp add: ToPeer upd)
    next
      case None
      then have "\<not> pending_live s"
        using Some ToPeer by (auto simp: pending_live_def ran_def)
      moreover have "run_peer_slot E slot a v ?s = Inl (UseAfterFree a)"
        using None by (intro slot.dangling) simp
      ultimately show ?thesis unfolding run by (simp add: ToPeer outcome_def)
    qed
  qed
qed

lemma ack_outcome:
  assumes "ready s"
  shows "outcome s (onMessageAck E tran v s)"
proof (cases "mMessage_ack_callback s tran")
  case None
  then show ?thesis by (simp add: onMessageAck_def outcome_refl assms)
next
  case (Some cb)
  then have cb: "cb = ToHeartBeat"
    using janus_wfD(5) [OF ready_wf [OF assms]] by (auto simp: ran_def)
  have "good s (onMessageAck E tran v s)"
    by (simp add: onMessageAck_def Some cb onHeartBeat_def)
      (rule quiet_change_good [OF ready_wf [OF assms]], simp_all add: quiet_simps)
  then show ?thesis by (rule good_outcome [OF assms])
qed

lemma message_outcome: "ready s \<Longrightarrow> outcome s (onWebSocketReceivedMessage E message s)"
  by (simp add: onWebSocketReceivedMessage_def Let_def outcome_refl success_outcome ack_outcome
      events_outcome split: option.splits prod.splits)

end

section \<open>Any client\<close>

definition client_fault where
  "client_fault connect rsdp rremove e \<longleftrightarrow>
     (\<exists>h x y z c. connect h x y z c = Inl e) \<or> (\<exists>h ty sdp b c. rsdp h ty sdp b c = Inl e)
     \<or> (\<exists>h c. rremove h c = Inl e)"

interpretation any_client: room_client connect rsdp rremove "\<lambda>_. True" "client_fault connect rsdp rremove"
  for connect rsdp rremove
  by unfold_locales (auto simp: client_fault_def split: sum.splits)

text \<open>
  C8: whatever the server sends to a well-formed session, and whatever the conference layer
  does, the session stays well formed: everything it owns is alive and owned once. If the
  message faults, the fault is the conference layer's own, or it is the use of a deleted
  peer, and then some registered callback pointed to a deleted peer before the message.
\<close>

theorem message_total:
  assumes "janus_wf s" "bound connect rsdp rremove s"
  shows "case onWebSocketReceivedMessage E message s of
      Inl e \<Rightarrow> client_fault connect rsdp rremove e \<or> (\<not> pending_live s \<and> (\<exists>a. e = UseAfterFree a))
    | Inr s' \<Rightarrow> janus_wf s' \<and> bound connect rsdp rremove s' \<and> (pending_live s \<longrightarrow> pending_live s')"
  using any_client.message_outcome [of connect rsdp rremove s E message] assms
  by (simp add: session_ready_def session_outcome_def split: sum.splits)

section \<open>The session in time\<close>

text \<open>The session as its owner sets it up, with the three functions registered.\<close>

definition session_start where
  "session_start connect rsdp rremove sd c =
     RegisterRemoteStreamRemoveCallBack rremove (RegisterRemoteSdpCallBack rsdp
       (RegisterConnectToPeerCallBack connect (JVRM_new Map.empty 0 sd [] c)))"

fun run_socket :: "janus_env \<Rightarrow> socket_slot option \<Rightarrow> string \<Rightarrow> 'c janus \<Rightarrow> 'c janus res" where
  "run_socket E None msg s = Inr s"
| "run_socket E (Some slot) msg s = run_socket_slot E slot msg s"

text \<open>What happens to the socket from outside: time, timers, signals; not its owner's calls.\<close>

fun socket_signal :: "ws_event \<Rightarrow> bool" where
  "socket_signal (DoOpen url) = False"
| "socket_signal DoClose = False"
| "socket_signal (DoSend m) = False"
| "socket_signal DoReset = False"
| "socket_signal _ = True"

datatype session_event = Calls call | Signals ws_event string

inductive session_step :: "janus_env \<Rightarrow> 'c janus \<Rightarrow> session_event \<Rightarrow> 'c janus res \<Rightarrow> bool" where
  calls: "run_call E c s = r \<Longrightarrow> session_step E s (Calls c) r"
| signals: "ws_step (pWebSocket s) e cb w \<Longrightarrow> socket_signal e \<Longrightarrow>
    run_socket E cb msg (s\<lparr>pWebSocket := w\<rparr>) = r \<Longrightarrow> session_step E s (Signals e msg) r"

inductive session_run :: "janus_env \<Rightarrow> 'c janus \<Rightarrow> session_event list \<Rightarrow> 'c janus res \<Rightarrow> bool" where
  nil: "session_run E s [] (Inr s)"
| fault: "session_step E s e (Inl f) \<Longrightarrow> session_run E s (e # es) (Inl f)"
| cons: "session_step E s e (Inr t) \<Longrightarrow> session_run E t es r \<Longrightarrow> session_run E s (e # es) r"

inductive_cases session_run_nilE: "session_run E s [] r"
inductive_cases session_run_consE: "session_run E s (e # es) r"

lemma session_start_wf:
  "janus_wf (session_start connect rsdp rremove sd c)"
  "pending_live (session_start connect rsdp rremove sd c)"
  "bound connect rsdp rremove (session_start connect rsdp rremove sd c)"
  "client (session_start connect rsdp rremove sd c) = c"
  by (simp_all add: session_start_def JVRM_new_def RegisterConnectToPeerCallBack_def bound_def
      RegisterRemoteSdpCallBack_def RegisterRemoteStreamRemoveCallBack_def janus_wf_def
      owned_def pending_live_def)

lemma session_request_good:
  assumes "janus_wf s" "new_transaction E s = (t, u)"
  shows "good s (Inr (AddMessageSuccessCallback t ToCreateSessionId (send_json E m u)))"
    "good s (Inr (AddMessageAckCallback t ToHeartBeat (send_json E m u)))"
proof -
  obtain sd where u: "u = s\<lparr>seed := sd\<rparr>"
    using assms(2) by (auto simp: new_transaction_def split: prod.splits)
  show "good s (Inr (AddMessageSuccessCallback t ToCreateSessionId (send_json E m u)))"
    by (rule quiet_change_good [OF assms(1)])
      (simp_all add: u AddMessageSuccessCallback_def quiet_simps del: fun_upd_apply)
  show "good s (Inr (AddMessageAckCallback t ToHeartBeat (send_json E m u)))"
    by (rule quiet_change_good [OF assms(1)])
      (simp_all add: u AddMessageAckCallback_def quiet_simps del: fun_upd_apply)
qed

lemma socket_slots_good:
  assumes "janus_wf s" "slot \<noteq> SlotReceivedMessage"
  shows "good s (run_socket_slot E slot msg s)"
  using assms session_request_good [OF assms(1)]
  by (cases slot; cases "new_transaction E s")
    (auto simp: onSocketConnected_def onSocketDisConnected_def createSessionId_def good_Inr
      onWebSocketHeartBeatMessage_def split: prod.splits)

lemma socket_state_good: "janus_wf s \<Longrightarrow> good s (Inr (s\<lparr>pWebSocket := w\<rparr>))"
  by (rule quiet_change_good) (simp_all add: quiet_simps)

context room_client
begin

lemma leave_outcome:
  assumes "ready s" "leaves c"
  obtains s' where "run_call E c s = Inr s'" "ready s'"
proof -
  note wf = ready_wf [OF assms(1)]
  consider "c = CallLeaveVideoRoom" | "c = CallLeaveTextRoom"
    using assms(2) by (auto simp: leaves_def)
  then show ?thesis
  proof cases
    case 1
    then show ?thesis
      using that LeaveVideoRoom_eq [OF wf] LeaveVideoRoom_wf [OF wf] assms(1)
      by (simp add: ready_def bound_def)
  next
    case 2
    then show ?thesis
      using that LeaveTextRoom_eq [OF wf] LeaveTextRoom_wf [OF wf] assms(1)
      by (simp add: ready_def bound_def)
  qed
qed

lemma signal_outcome:
  assumes "ready s"
  shows "outcome s (run_socket E cb msg (s\<lparr>pWebSocket := w\<rparr>))"
proof -
  let ?s = "s\<lparr>pWebSocket := w\<rparr>"
  note q = socket_state_good [OF ready_wf [OF assms], of w]
  have "outcome ?s (run_socket E cb msg ?s)" if r: "ready ?s"
  proof (cases cb)
    case None
    then show ?thesis by (simp add: outcome_refl r)
  next
    case (Some slot)
    show ?thesis
    proof (cases "slot = SlotReceivedMessage")
      case True
      then show ?thesis using message_outcome [OF r] by (simp add: Some)
    next
      case False
      then show ?thesis
        using good_outcome [OF r socket_slots_good [OF ready_wf [OF r] False]] by (simp add: Some)
    qed
  qed
  then show ?thesis
    using outcome_bind [OF good_outcome [OF assms q], of "run_socket E cb msg"] by simp
qed

lemma step_outcome:
  assumes "session_step E s e r" "ready s"
  shows "(case r of Inl f \<Rightarrow> (F f \<or> \<not> pending_live s \<and> (\<exists>a. f = UseAfterFree a)) \<and> (\<exists>v m. e = Signals v m)
      | Inr s' \<Rightarrow> ready s' \<and> (pending_live s \<and> (\<forall>c. e = Calls c \<longrightarrow> \<not> leaves c) \<longrightarrow> pending_live s'))"
  using assms
proof (cases rule: session_step.cases)
  case (calls c)
  show ?thesis
  proof (cases "leaves c")
    case True
    from leave_outcome [OF assms(2) True, of E] obtain s' where "r = Inr s'" "ready s'"
      using calls by metis
    with True calls show ?thesis by simp
  next
    case False
    then have "good s r" using calls_good [OF ready_wf [OF assms(2)], of c E] calls by simp
    moreover from this obtain s' where "r = Inr s'" by (auto simp: good_def)
    ultimately show ?thesis
      using good_outcome [OF assms(2), of r] by (simp add: outcome_Inr)
  qed
next
  case (signals v cb w msg)
  with signal_outcome [OF assms(2), of E cb msg w] show ?thesis
    by (auto simp: outcome_def split: sum.splits)
qed

lemma run_outcome:
  "session_run E s es r \<Longrightarrow> ready s \<Longrightarrow> pending_live s \<Longrightarrow>
   \<forall>c. Calls c \<in> set es \<longrightarrow> \<not> leaves c \<Longrightarrow> outcome s r"
proof (induction rule: session_run.induct)
  case (nil E s)
  then show ?case by (simp add: outcome_refl)
next
  case (fault E s e f es)
  then show ?case using step_outcome [OF fault.hyps] by (auto simp: outcome_def)
next
  case (cons E s e t es r)
  then have "ready t \<and> pending_live t" using step_outcome [OF cons.hyps(1)] by auto
  with cons show ?case by (auto simp: outcome_def split: sum.splits)
qed

lemma run_ready:
  "session_run E s es r \<Longrightarrow> ready s \<Longrightarrow> r = Inr s' \<Longrightarrow> ready s'"
proof (induction rule: session_run.induct)
  case (cons E s e t es r)
  then show ?case using step_outcome [OF cons.hyps(1)] by auto
qed simp_all

end

section \<open>A concrete session\<close>

text \<open>An environment that reads one text, draws 0, 1, 2, \<dots> and leaves zeroes in new objects.\<close>

definition ex_env :: "string \<Rightarrow> json \<Rightarrow> janus_env" where
  "ex_env text v = \<lparr>je_json = ref_lib\<lparr>lib_parse := (\<lambda>m. if m = text then Some v else None)\<rparr>,
     je_rand = (\<lambda>n. (n, Suc n)), je_junk = (\<lambda>a n. 0)\<rparr>"

definition ex_connect :: "i64 \<Rightarrow> bool \<Rightarrow> bool \<Rightarrow> bool \<Rightarrow> nat \<Rightarrow> nat res" where
  "ex_connect h a b c n = Inr (Suc n)"

definition ex_rsdp :: "i64 \<Rightarrow> string \<Rightarrow> string \<Rightarrow> bool \<Rightarrow> nat \<Rightarrow> nat res" where
  "ex_rsdp h ty sdp b n = Inr (Suc n)"

definition ex_rremove :: "i64 \<Rightarrow> nat \<Rightarrow> nat res" where
  "ex_rremove h n = Inr n"

text \<open>A client that counts its calls.\<close>

definition ex_session :: "nat janus" where
  "ex_session = session_start ex_connect ex_rsdp ex_rremove 0 0"

lemma ex_session_wf: "janus_wf ex_session" "next_addr ex_session = 0" "seed ex_session = 0"
  "mSessionId ex_session = 0" "mVideoRoomPeerList ex_session = []" "heap ex_session = Map.empty"
  "sent ex_session = []"
proof -
  show "janus_wf ex_session" unfolding ex_session_def by (rule session_start_wf)
qed (simp_all add: ex_session_def session_start_def JVRM_new_def RegisterConnectToPeerCallBack_def
    RegisterRemoteSdpCallBack_def RegisterRemoteStreamRemoveCallBack_def sent_def ws_new_def
    RegisterHeartBeatCallback_def RegisterReceiveMessageCallback_def
    RegisterDisConnectedCallback_def RegisterConnectedCallback_def)

lemma ex_env_simps [simp]: "je_rand (ex_env m v) = (\<lambda>n. (n, Suc n))" "je_junk (ex_env m v) = (\<lambda>a n. 0)"
  "lib_parse (je_json (ex_env m v)) m = Some v"
  by (simp_all add: ex_env_def)

lemma ex_transaction: "fst (new_transaction (ex_env m v) s) = map (\<lambda>i. charSet ! (i mod strLen)) [seed s..<seed s + 12]"
  by (simp add: new_transaction_def GetRandomString_def numeral_eq_Suc Let_def upt_rec split: prod.splits)

lemma session_start_ready:
  "I c \<Longrightarrow> session_ready connect rsdp rremove I (session_start connect rsdp rremove sd c)"
  by (simp add: session_ready_def session_start_wf)

lemma calls_total:
  assumes "janus_wf s"
  shows "\<exists>s'. run_call E c s = Inr s' \<and> janus_wf s'"
proof (cases "leaves c")
  case True
  then show ?thesis
    using LeaveVideoRoom_wf [OF assms] LeaveTextRoom_wf [OF assms]
      LeaveVideoRoom_eq [OF assms] LeaveTextRoom_eq [OF assms]
    unfolding leaves_def by (metis empty_iff insert_iff run_call.simps(9,10))
next
  case False
  then show ?thesis using calls_good [OF assms False, of E] by (auto simp: good_def)
qed

text \<open>
  C7: at every moment of every session, whatever calls were made and whatever the server
  sent, the peers the manager owns are alive and owned once, and whichever call its owner
  makes next returns: a call never faults.
\<close>

theorem session_reachable:
  assumes "session_run E (session_start connect rsdp rremove sd c) es (Inr s)"
  shows "janus_wf s \<and> (\<forall>call. \<exists>s'. run_call E call s = Inr s' \<and> janus_wf s')"
proof -
  have "session_ready connect rsdp rremove (\<lambda>_. True) s"
    using any_client.run_ready [OF assms session_start_ready] by simp
  then have "janus_wf s" by (simp add: session_ready_def)
  then show ?thesis using calls_total by blast
qed

text \<open>
  A session in which no room is left can only fault in the conference layer: no answer
  of the server ever reaches a deleted peer.
\<close>

lemma session_without_leave:
  assumes "session_run E (session_start connect rsdp rremove sd c) es r"
    and "\<forall>call. Calls call \<in> set es \<longrightarrow> \<not> leaves call"
  shows "case r of Inl e \<Rightarrow> client_fault connect rsdp rremove e
    | Inr s \<Rightarrow> janus_wf s \<and> pending_live s"
  using any_client.run_outcome [OF assms(1) session_start_ready _ assms(2)] session_start_wf(2)
  by (auto simp: session_outcome_def session_ready_def session_start_wf split: sum.splits)

lemma AttachVideoRoom_registers:
  assumes "JPC_AttachVideoRoom E a r s = Inr s'"
  shows "mMessage_success_callback s' (fst (new_transaction E s)) = Some (ToPeer a OnAttachVideoRoomJoin)"
  using assms
  by (cases "new_transaction E s")
    (auto simp: JPC_AttachVideoRoom_def attach_with_def Let_def rbind_eq_Inr AddMessageSuccessCallback_def)

lemma JoinVideoRoom_registers:
  assumes "JVRM_JoinVideoRoom E r name s = Inr s'"
  shows "mMessage_success_callback s' (fst (new_transaction E s))
      = Some (ToPeer (Addr (next_addr s)) OnAttachVideoRoomJoin)"
    and "mVideoRoomPeerList s' = mVideoRoomPeerList s @ [Addr (next_addr s)]"
proof -
  let ?a = "Addr (next_addr s)"
  let ?t = "new_video_peer E (s\<lparr>mVideoRoomID := r\<rparr>)"
  obtain p where u: "JPC_AttachVideoRoom E ?a r (put_peer ?a p ?t) = Inr s'"
    using assms by (auto simp: JoinVideoRoom_alt Let_def SetVideoRoomDisplayName_def update_peer_def rbind_eq_Inr)
  have "fst (new_transaction E (put_peer ?a p ?t)) = fst (new_transaction E s)"
    by (simp add: new_transaction_def put_peer_def new_video_peer_def JPC_new_eq split: prod.splits)
  then show "mMessage_success_callback s' (fst (new_transaction E s)) = Some (ToPeer ?a OnAttachVideoRoomJoin)"
    using AttachVideoRoom_registers [OF u] by simp
  show "mVideoRoomPeerList s' = mVideoRoomPeerList s @ [?a]"
    using u by (auto simp: JPC_AttachVideoRoom_def attach_with_def Let_def rbind_eq_Inr new_transaction_def
      AddMessageSuccessCallback_def put_peer_def new_video_peer_def JPC_new_eq split: prod.splits)
qed

text \<open>
  C9: leaving a room forgets the peers but not the answers they wait for. If the video room
  is left while the attach request of a joining peer is unanswered, the answer, when it
  comes, runs a member function of the deleted peer.
\<close>

theorem leave_then_answer:
  assumes "janus_wf s" "JVRM_JoinVideoRoom E r name s = Inr s1" "JVRM_LeaveVideoRoom s1 = Inr s2"
    and "lib_parse (je_json E) message = Some (JObj kvs)"
    and "GetStringFromJsonObject (je_json E) (JObj kvs) ''janus'' [] = (True, ''success'')"
    and "GetStringFromJsonObject (je_json E) (JObj kvs) ''transaction'' [] = (True, fst (new_transaction E s))"
  shows "onWebSocketReceivedMessage E message s2 = Inl (UseAfterFree (Addr (next_addr s)))"
proof -
  let ?a = "Addr (next_addr s)" and ?t = "fst (new_transaction E s)"
  have wf: "janus_wf s1"
    using JoinVideoRoom_good [OF assms(1), of E r name] assms(2) by (simp add: good_def)
  have s2: "s2 = s1\<lparr>heap := heap s1 |` (- set (mVideoRoomPeerList s1)), mVideoRoomPeerList := []\<rparr>"
    using LeaveVideoRoom_eq [OF wf] assms(3) by simp
  note reg = JoinVideoRoom_registers [OF assms(2)]
  have dead: "heap s2 ?a = None" using reg(2) by (simp add: s2)
  have "onMessageSuccess E ?t v s2 = Inl (UseAfterFree ?a)" for v
  proof -
    let ?u = "s2\<lparr>mMessage_success_callback := (mMessage_success_callback s2)(?t := None)\<rparr>"
    have "onMessageSuccess E ?t v s2 = run_peer_slot E OnAttachVideoRoomJoin ?a v ?u"
      using reg(1) by (simp add: onMessageSuccess_def s2 del: run_peer_slot.simps)
    also have "\<dots> = Inl (UseAfterFree ?a)" by (rule slot.dangling) (simp add: dead)
    finally show ?thesis .
  qed
  then show ?thesis
    using assms(4-6) by (simp add: onWebSocketReceivedMessage_def Let_def)
qed

definition ex_answer :: json where
  "ex_answer = JObj [(''janus'', JStr ''success''), (''transaction'', JStr ''ABCDEFGHIJKL'')]"

theorem leave_then_answer_witness:
  "\<exists>s1 s2. JVRM_JoinVideoRoom (ex_env ''m'' ex_answer) 5 ''al'' ex_session = Inr s1
    \<and> JVRM_LeaveVideoRoom s1 = Inr s2
    \<and> onWebSocketReceivedMessage (ex_env ''m'' ex_answer) ''m'' s2 = Inl (UseAfterFree (Addr 0))"
proof -
  let ?E = "ex_env ''m'' ex_answer"
  obtain s1 where s1: "JVRM_JoinVideoRoom ?E 5 ''al'' ex_session = Inr s1" "janus_wf s1"
    using JoinVideoRoom_good [OF ex_session_wf(1), of ?E 5 "''al''"] by (auto simp: good_def)
  obtain s2 where s2: "JVRM_LeaveVideoRoom s1 = Inr s2" using LeaveVideoRoom_eq [OF s1(2)] by blast
  have "fst (new_transaction ?E ex_session) = ''ABCDEFGHIJKL''"
    by (simp add: ex_transaction ex_session_wf upt_rec charSet_def strLen_def)
  then have "onWebSocketReceivedMessage ?E ''m'' s2 = Inl (UseAfterFree (Addr (next_addr ex_session)))"
    by (intro leave_then_answer [OF ex_session_wf(1) s1(1) s2, of _ "members ex_answer"])
      (simp_all add: ex_answer_def GetStringFromJsonObject_def GetValueFromJsonObject_def
        GetStringFromJson_def Let_def isMember_def and_then_get_def)
  with s1 s2 show ?thesis by (auto simp: ex_session_wf)
qed

theorem message_total_witness:
  "case onWebSocketReceivedMessage (ex_env ''m'' ex_answer) ''m'' ex_session of
      Inl e \<Rightarrow> False | Inr s' \<Rightarrow> janus_wf s'"
proof -
  have "bound ex_connect ex_rsdp ex_rremove ex_session" "pending_live ex_session"
    unfolding ex_session_def by (rule session_start_wf)+
  moreover have "\<not> client_fault ex_connect ex_rsdp ex_rremove e" for e
    by (simp add: client_fault_def ex_connect_def ex_rsdp_def ex_rremove_def)
  ultimately show ?thesis
    using message_total [OF ex_session_wf(1), of ex_connect ex_rsdp ex_rremove "ex_env ''m'' ex_answer" "''m''"]
    by (auto split: sum.splits)
qed

lemma ex_run:
  obtains s where "session_run E ex_session [Calls (CallJoinVideoRoom 5 ''al'')] (Inr s)"
proof -
  obtain s where "run_call E (CallJoinVideoRoom 5 ''al'') ex_session = Inr s"
    using calls_total [OF ex_session_wf(1)] by blast
  then show ?thesis
    using that session_run.cons [OF session_step.calls session_run.nil] by blast
qed

theorem session_reachable_witness:
  "\<exists>s. session_run (ex_env [] JNull) ex_session [Calls (CallJoinVideoRoom 5 ''al'')] (Inr s) \<and> janus_wf s"
proof -
  obtain s where "session_run (ex_env [] JNull) ex_session [Calls (CallJoinVideoRoom 5 ''al'')] (Inr s)"
    by (rule ex_run)
  with session_reachable [OF this [unfolded ex_session_def]] show ?thesis by blast
qed

end
