(* ===== verification/Janus_Protocol.thy ===== *)
theory Janus_Protocol
  imports Janus_Session
begin

text \<open>
  What the session says to the server and what it makes of the answers: the join handshake,
  the subscription to publishers, the routing of descriptions and candidates, the reports of
  room requests, the keep-alive.
\<close>

section \<open>Requests in closed form\<close>

text \<open>The transaction of the next request, and the session after drawing it.\<close>

definition tr :: "janus_env \<Rightarrow> 'c janus \<Rightarrow> string" where
  "tr E s = fst (new_transaction E s)"

definition drawn :: "janus_env \<Rightarrow> 'c janus \<Rightarrow> 'c janus" where
  "drawn E s = snd (new_transaction E s)"

lemma new_transaction_eq [msg_simps]: "new_transaction E s = (tr E s, drawn E s)"
  by (simp add: tr_def drawn_def)

lemma drawn_seed: "drawn E s = s\<lparr>seed := snd (GetRandomString (je_rand E) 12 (seed s))\<rparr>"
  by (simp add: drawn_def new_transaction_def split: prod.splits)

lemma sent_updates [simp]:
  "sent (s\<lparr>heap := x1\<rparr>) = sent s" "sent (s\<lparr>next_addr := x2\<rparr>) = sent s" "sent (s\<lparr>seed := x3\<rparr>) = sent s"
  "sent (s\<lparr>mVideoRoomID := x4\<rparr>) = sent s" "sent (s\<lparr>mSessionId := x5\<rparr>) = sent s"
  "sent (s\<lparr>mPrivatedId := x6\<rparr>) = sent s" "sent (s\<lparr>mVideoRoomPeerList := x7\<rparr>) = sent s"
  "sent (s\<lparr>mTextRoomPeerList := x8\<rparr>) = sent s" "sent (s\<lparr>mMessage_success_callback := x9\<rparr>) = sent s"
  "sent (s\<lparr>mMessage_ack_callback := x10\<rparr>) = sent s" "sent (s\<lparr>stdout := x11\<rparr>) = sent s"
  "sent (s\<lparr>client := x12\<rparr>) = sent s" "sent (s\<lparr>pCreateVideoRoomPeer := x13\<rparr>) = sent s"
  "sent (s\<lparr>pCreateTextRoomPeer := x13\<rparr>) = sent s"
  by (simp_all add: sent_def)

lemma drawn_simps [simp]:
  "pWebSocket (drawn E s) = pWebSocket s" "heap (drawn E s) = heap s" "next_addr (drawn E s) = next_addr s"
  "mMessage_success_callback (drawn E s) = mMessage_success_callback s"
  "mMessage_ack_callback (drawn E s) = mMessage_ack_callback s"
  "mVideoRoomPeerList (drawn E s) = mVideoRoomPeerList s" "mTextRoomPeerList (drawn E s) = mTextRoomPeerList s"
  "mSessionId (drawn E s) = mSessionId s" "mVideoRoomID (drawn E s) = mVideoRoomID s"
  "mPrivatedId (drawn E s) = mPrivatedId s" "stdout (drawn E s) = stdout s" "client (drawn E s) = client s"
  "sent (drawn E s) = sent s"
  by (simp_all add: drawn_seed sent_def)

lemma tr_cong: "seed s = seed t \<Longrightarrow> tr E s = tr E t"
  by (simp add: tr_def new_transaction_def split: prod.splits)

lemma tr_simps [simp]:
  "tr E (put_peer a p s) = tr E s" "tr E (s\<lparr>mMessage_success_callback := m\<rparr>) = tr E s"
  "tr E (s\<lparr>mVideoRoomID := r\<rparr>) = tr E s" "tr E (send_json E j s) = tr E s"
  "tr E (AddMessageSuccessCallback t f s) = tr E s"
  by (rule tr_cong, simp add: put_peer_def AddMessageSuccessCallback_def)+

lemma tr_new [simp]: "tr E (new_video_peer E' s) = tr E s"
  by (rule tr_cong) (simp add: new_video_peer_def JPC_new_eq)

lemma sent_put [simp]: "sent (put_peer a p s) = sent s"
  by (simp add: sent_def put_peer_def)

lemma sent_add [simp]: "sent (AddMessageSuccessCallback t f s) = sent s"
  "sent (AddMessageAckCallback t f s) = sent s"
  by (simp_all add: sent_def AddMessageSuccessCallback_def AddMessageAckCallback_def)

lemma put_peer_simps [simp]:
  "heap (put_peer a p s) = (heap s)(a \<mapsto> p)" "seed (put_peer a p s) = seed s"
  "next_addr (put_peer a p s) = next_addr s" "client (put_peer a p s) = client s"
  "mVideoRoomPeerList (put_peer a p s) = mVideoRoomPeerList s" "mSessionId (put_peer a p s) = mSessionId s"
  "mMessage_success_callback (put_peer a p s) = mMessage_success_callback s"
  "mTextRoomPeerList (put_peer a p s) = mTextRoomPeerList s" "mVideoRoomID (put_peer a p s) = mVideoRoomID s"
  "mPrivatedId (put_peer a p s) = mPrivatedId s" "stdout (put_peer a p s) = stdout s"
  by (simp_all add: put_peer_def)

lemma add_success_simps [simp]:
  "heap (AddMessageSuccessCallback t f s) = heap s" "seed (AddMessageSuccessCallback t f s) = seed s"
  "next_addr (AddMessageSuccessCallback t f s) = next_addr s" "client (AddMessageSuccessCallback t f s) = client s"
  "mVideoRoomPeerList (AddMessageSuccessCallback t f s) = mVideoRoomPeerList s"
  "mTextRoomPeerList (AddMessageSuccessCallback t f s) = mTextRoomPeerList s"
  "mVideoRoomID (AddMessageSuccessCallback t f s) = mVideoRoomID s"
  "mPrivatedId (AddMessageSuccessCallback t f s) = mPrivatedId s"
  "mSessionId (AddMessageSuccessCallback t f s) = mSessionId s"
  "stdout (AddMessageSuccessCallback t f s) = stdout s"
  "mMessage_success_callback (AddMessageSuccessCallback t f s) = (mMessage_success_callback s)(t \<mapsto> f)"
  by (simp_all add: AddMessageSuccessCallback_def)

text \<open>The six attach requests on a live peer.\<close>

lemma attach_eq:
  assumes "heap s a = Some p"
  shows "attach_with E a plugin h slot s = Inr (AddMessageSuccessCallback (tr E s) (ToPeer a slot)
    (put_peer a (h p) (send_json E (attach_msg plugin (tr E s) (mSessionID p)) (drawn E s))))"
  using assms by (simp add: attach_with_def deref_Some msg_simps Let_def)

lemma JPC_init_simps [simp]: "mSessionID (JPC_init E a i) = i" "mSubscribeId (JPC_init E a i) = 0"
  "mPrivateId (JPC_init E a i) = 0"
  by (simp_all add: JPC_init_def)

lemmas attach_defs = JPC_AttachVideoRoom_def JPC_AttachTextRoom_def JPC_CreateVideoRoom_def
  JPC_CreateTextRoom_def JPC_DestoryVideoRoom_def JPC_DestoryTextRoom_def

abbreviation wire :: "janus_env \<Rightarrow> json \<Rightarrow> string" where
  "wire E \<equiv> JsonValueToQString (je_json E)"

text \<open>An answer runs the function registered for its transaction, once.\<close>

lemma onMessageSuccess_run:
  assumes "mMessage_success_callback s t = Some f"
  shows "onMessageSuccess E t v s =
    run_listener E f v (s\<lparr>mMessage_success_callback := (mMessage_success_callback s)(t := None)\<rparr>)"
  using assms by (simp add: onMessageSuccess_def)

section \<open>Joining\<close>

lemma JoinVideoRoom_eq:
  fixes s :: "'c janus"
  defines "a \<equiv> Addr (next_addr s)"
  shows "\<exists>s1. JVRM_JoinVideoRoom E r name s = Inr s1
    \<and> heap s1 = (heap s)(a \<mapsto> (JPC_init E a (mSessionId s))\<lparr>mVideoRoomDisplayName := name, mVideoRoomId := r\<rparr>)
    \<and> sent s1 = sent s @ [wire E (attach_msg ''janus.plugin.videoroom'' (tr E s) (mSessionId s))]
    \<and> mVideoRoomPeerList s1 = mVideoRoomPeerList s @ [a]
    \<and> mMessage_success_callback s1 = (mMessage_success_callback s)(tr E s \<mapsto> ToPeer a OnAttachVideoRoomJoin)
    \<and> seed s1 = snd (GetRandomString (je_rand E) 12 (seed s)) \<and> mVideoRoomID s1 = r"
proof -
  let ?p = "JPC_init E a (mSessionId s)"
  let ?t = "put_peer a (?p\<lparr>mVideoRoomDisplayName := name\<rparr>) (new_video_peer E (s\<lparr>mVideoRoomID := r\<rparr>))"
  have h: "heap ?t a = Some (?p\<lparr>mVideoRoomDisplayName := name\<rparr>)"
    by simp
  have "JVRM_JoinVideoRoom E r name s = JPC_AttachVideoRoom E a r ?t"
    by (simp add: JoinVideoRoom_alt Let_def SetVideoRoomDisplayName_def new_video_peer_def JPC_new_eq
        update_Some a_def)
  also have "\<dots> = Inr (AddMessageSuccessCallback (tr E s) (ToPeer a OnAttachVideoRoomJoin)
      (put_peer a (?p\<lparr>mVideoRoomDisplayName := name, mVideoRoomId := r\<rparr>)
        (send_json E (attach_msg ''janus.plugin.videoroom'' (tr E s) (mSessionId s)) (drawn E ?t))))"
    by (simp add: JPC_AttachVideoRoom_def attach_eq [OF h])
  finally show ?thesis
    by (simp add: new_video_peer_def JPC_new_eq a_def drawn_seed)
qed

text \<open>
  C10: joining a video room as a publisher is a two-message conversation. The call attaches a
  handle, with the session identifier of the moment; the answer to that request, and only
  that, makes the new peer store the handle it was given and join the room under its display
  name, on that handle and in the same session.
\<close>

theorem join_video_handshake:
  "\<exists>s1 s2 t2. JVRM_JoinVideoRoom E r name s = Inr s1
    \<and> sent s1 = sent s @ [wire E (attach_msg ''janus.plugin.videoroom'' (tr E s) (mSessionId s))]
    \<and> onMessageSuccess E (tr E s) v s1 = Inr s2
    \<and> map_option mVideoRoomHandleID (heap s2 (Addr (next_addr s))) = Some (attached_id E v)
    \<and> sent s2 = sent s1 @ [wire E (plugin_msg (attached_id E v) t2 (mSessionId s)
        [(''body'', JObj [(''request'', JStr ''join''), (''room'', json_of_uint r),
           (''ptype'', JStr ''publisher''), (''display'', JStr name)])])]
    \<and> mMessage_success_callback s2 = (mMessage_success_callback s)(tr E s := None)"
proof -
  define a where "a = Addr (next_addr s)"
  obtain s1 where s1: "JVRM_JoinVideoRoom E r name s = Inr s1"
    "heap s1 = (heap s)(a \<mapsto> (JPC_init E a (mSessionId s))\<lparr>mVideoRoomDisplayName := name, mVideoRoomId := r\<rparr>)"
    "sent s1 = sent s @ [wire E (attach_msg ''janus.plugin.videoroom'' (tr E s) (mSessionId s))]"
    "mMessage_success_callback s1 = (mMessage_success_callback s)(tr E s \<mapsto> ToPeer a OnAttachVideoRoomJoin)"
    using JoinVideoRoom_eq [where E = E and r = r and name = name and s = s] unfolding a_def by blast
  let ?u = "s1\<lparr>mMessage_success_callback := (mMessage_success_callback s1)(tr E s := None)\<rparr>"
  have h: "heap ?u a = Some ((JPC_init E a (mSessionId s))\<lparr>mVideoRoomDisplayName := name, mVideoRoomId := r\<rparr>)"
    by (simp add: s1)
  have "onMessageSuccess E (tr E s) v s1 = onAttachVideoRoomJoin E a v ?u"
    using onMessageSuccess_run [where s = s1 and t = "tr E s" and E = E and v = v] by (simp add: s1(4))
  moreover obtain s2 where "onAttachVideoRoomJoin E a v ?u = Inr s2"
      "map_option mVideoRoomHandleID (heap s2 a) = Some (attached_id E v)"
      "sent s2 = sent s1 @ [wire E (plugin_msg (attached_id E v) (tr E ?u) (mSessionId s)
        [(''body'', JObj [(''request'', JStr ''join''), (''room'', json_of_uint r),
           (''ptype'', JStr ''publisher''), (''display'', JStr name)])])]"
      "mMessage_success_callback s2 = mMessage_success_callback ?u"
    by (simp add: onAttachVideoRoomJoin_def update_Some [OF h] joinVideoRoom_def deref_Some msg_simps
        joinVideoRoom_body_def)
  ultimately show ?thesis
    using s1 by (intro exI [of _ s1] exI [of _ s2] exI [of _ "tr E ?u"]) (simp add: a_def)
qed

section \<open>Subscribing to publishers\<close>

text \<open>The peer that subscribes to publisher \<open>i\<close>.\<close>

definition subscriber :: "janus_env \<Rightarrow> 'c janus \<Rightarrow> i64 \<Rightarrow> peer" where
  "subscriber E s i = (JPC_init E (Addr (next_addr s)) (mSessionId s))\<lparr>
     mSubscribeId := i, mPrivateId := mPrivatedId s, mVideoRoomId := mVideoRoomID s\<rparr>"

lemma add_publisher_eq:
  fixes s :: "'c janus"
  assumes "0 < sint (JsonValueToLongLong (je_json E) v ''id'')"
  shows "\<exists>s'. add_publisher E v s = Inr s'
    \<and> heap s' = (heap s)(Addr (next_addr s) \<mapsto> subscriber E s (JsonValueToLongLong (je_json E) v ''id''))
    \<and> next_addr s' = Suc (next_addr s) \<and> mVideoRoomPeerList s' = mVideoRoomPeerList s @ [Addr (next_addr s)]
    \<and> sent s' = sent s @ [wire E (attach_msg ''janus.plugin.videoroom'' (tr E s) (mSessionId s))]
    \<and> mPrivatedId s' = mPrivatedId s \<and> mVideoRoomID s' = mVideoRoomID s \<and> mSessionId s' = mSessionId s
    \<and> mTextRoomPeerList s' = mTextRoomPeerList s"
proof -
  define a where "a = Addr (next_addr s)"
  define i where "i = JsonValueToLongLong (je_json E) v ''id''"
  let ?p = "(JPC_init E a (mSessionId s))\<lparr>mSubscribeId := i, mPrivateId := mPrivatedId s\<rparr>"
  let ?t = "put_peer a ?p (new_video_peer E s)"
  have h: "heap ?t a = Some ?p" by simp
  have "add_publisher E v s = JPC_AttachVideoRoom E a (mVideoRoomID s) ?t"
    using assms
    by (simp add: add_publisher_alt Let_def SetSubscribe_def SetPrivateId_def new_video_peer_def
        JPC_new_eq update_Some a_def i_def)
  then show ?thesis
    by (simp add: JPC_AttachVideoRoom_def attach_eq [OF h])
      (simp add: new_video_peer_def JPC_new_eq a_def i_def subscriber_def)
qed

text \<open>The publishers of an event to which the session subscribes.\<close>

definition positive_ids :: "janus_env \<Rightarrow> json list \<Rightarrow> i64 list" where
  "positive_ids E vs = filter (\<lambda>i. 0 < sint i) (map (\<lambda>w. JsonValueToLongLong (je_json E) w ''id'') vs)"

definition publisher_ids :: "janus_env \<Rightarrow> json \<Rightarrow> i64 list" where
  "publisher_ids E v = positive_ids E
     (snd (JsonArrayToValueVector (snd (GetValueFromJsonObject (plugin_data v) ''publishers'' JNull))))"

definition feed_of :: "'c janus \<Rightarrow> addr \<Rightarrow> (i64 \<times> i64 \<times> u32) option" where
  "feed_of s a = map_option (\<lambda>p. (mSubscribeId p, mPrivateId p, mVideoRoomId p)) (heap s a)"

lemma publishers_loop:
  fixes s :: "'c janus"
  shows "\<exists>s' ts. rfold (add_publisher E) vs s = Inr s'
    \<and> mVideoRoomPeerList s' = mVideoRoomPeerList s @ map Addr [next_addr s..<next_addr s + length (positive_ids E vs)]
    \<and> map (\<lambda>k. feed_of s' (Addr k)) [next_addr s..<next_addr s + length (positive_ids E vs)]
        = map (\<lambda>i. Some (i, mPrivatedId s, mVideoRoomID s)) (positive_ids E vs)
    \<and> length ts = length (positive_ids E vs)
    \<and> sent s' = sent s @ map (\<lambda>t. wire E (attach_msg ''janus.plugin.videoroom'' t (mSessionId s))) ts
    \<and> (\<forall>k < next_addr s. heap s' (Addr k) = heap s (Addr k)) \<and> mTextRoomPeerList s' = mTextRoomPeerList s"
proof (induction vs arbitrary: s)
  case Nil
  show ?case by (simp add: positive_ids_def)
next
  case (Cons v vs)
  let ?i = "JsonValueToLongLong (je_json E) v ''id''"
  show ?case
  proof (cases "0 < sint ?i")
    case False
    then have "add_publisher E v s = Inr s" by (simp add: add_publisher_def Let_def)
    moreover have "positive_ids E (v # vs) = positive_ids E vs" using False by (simp add: positive_ids_def)
    ultimately show ?thesis using Cons [of s] by simp
  next
    case True
    then have ids: "positive_ids E (v # vs) = ?i # positive_ids E vs" by (simp add: positive_ids_def)
    obtain u where u: "add_publisher E v s = Inr u"
      "heap u = (heap s)(Addr (next_addr s) \<mapsto> subscriber E s ?i)"
      "next_addr u = Suc (next_addr s)" "mVideoRoomPeerList u = mVideoRoomPeerList s @ [Addr (next_addr s)]"
      "sent u = sent s @ [wire E (attach_msg ''janus.plugin.videoroom'' (tr E s) (mSessionId s))]"
      "mPrivatedId u = mPrivatedId s" "mVideoRoomID u = mVideoRoomID s" "mSessionId u = mSessionId s"
      "mTextRoomPeerList u = mTextRoomPeerList s"
      using add_publisher_eq [OF True, of s] by blast
    obtain s' ts where s': "rfold (add_publisher E) vs u = Inr s'"
      "mVideoRoomPeerList s' = mVideoRoomPeerList u @ map Addr [next_addr u..<next_addr u + length (positive_ids E vs)]"
      "map (\<lambda>k. feed_of s' (Addr k)) [next_addr u..<next_addr u + length (positive_ids E vs)]
        = map (\<lambda>i. Some (i, mPrivatedId u, mVideoRoomID u)) (positive_ids E vs)"
      "length ts = length (positive_ids E vs)"
      "sent s' = sent u @ map (\<lambda>t. wire E (attach_msg ''janus.plugin.videoroom'' t (mSessionId u))) ts"
      "\<forall>k < next_addr u. heap s' (Addr k) = heap u (Addr k)" "mTextRoomPeerList s' = mTextRoomPeerList u"
      using Cons [of u] by blast
    have "feed_of s' (Addr (next_addr s)) = Some (?i, mPrivatedId s, mVideoRoomID s)"
      using s'(6) by (simp add: u feed_of_def subscriber_def)
    moreover have R: "[next_addr s..<next_addr s + length (positive_ids E (v # vs))]
        = next_addr s # [next_addr u..<next_addr u + length (positive_ids E vs)]"
      by (simp add: ids u(3) upt_conv_Cons del: upt_Suc)
    ultimately show ?thesis
      using s' unfolding R
      by (intro exI [of _ s'] exI [of _ "tr E s # ts"]) (simp add: u ids del: upt_Suc)
  qed
qed


text \<open>
  The answer to a subscriber's attach request makes it join as a subscriber: it asks for
  its feed with the private identifier, and never announces a display name.
\<close>

lemma subscriber_joins:
  assumes "heap s a = Some p" "mSubscribeId p \<noteq> 0"
  shows "\<exists>s' t. onAttachVideoRoomJoin E a v s = Inr s'
    \<and> sent s' = sent s @ [wire E (plugin_msg (attached_id E v) t (mSessionID p)
        [(''body'', JObj [(''request'', JStr ''join''), (''room'', json_of_uint (mVideoRoomId p)),
           (''ptype'', JStr ''subscriber''), (''feed'', json_of_id (mSubscribeId p)),
           (''private_id'', json_of_id (mPrivateId p))])])]"
  using assms
  by (simp add: onAttachVideoRoomJoin_def update_Some joinVideoRoom_def deref_Some msg_simps
      joinVideoRoom_body_def) blast

definition ex_peer :: peer where
  "ex_peer = (JPC_init (ex_env [] JNull) (Addr 3) 9)\<lparr>mSubscribeId := 77, mVideoRoomHandleID := 5\<rparr>"

section \<open>Answers are delivered once\<close>

lemma run_report_same [simp]: "mMessage_success_callback (run_report f r s) = mMessage_success_callback s"
proof -
  obtain line where "run_report f r s = s\<lparr>stdout := stdout s @ [line]\<rparr>"
    using run_report_stdout by blast
  then show ?thesis by simp
qed

lemma call_report_same:
  "call_report cb r s = Inr s' \<Longrightarrow> mMessage_success_callback s' = mMessage_success_callback s"
  "call_report_if cb r s = Inr s' \<Longrightarrow> mMessage_success_callback s' = mMessage_success_callback s"
  by (auto simp: call_report_def call_report_if_def split: option.splits if_splits)

lemma slot_registers:
  assumes "run_peer_slot E slot a v s = Inr s'"
  shows "mMessage_success_callback s' = mMessage_success_callback s
    \<or> (\<exists>f. mMessage_success_callback s' = (mMessage_success_callback s)(tr E s \<mapsto> f))"
proof (cases slot)
  case OnAttachVideoRoomJoin
  with assms show ?thesis
    by (auto simp: onAttachVideoRoomJoin_def update_peer_def joinVideoRoom_def msg_simps rbind_eq_Inr)
next
  case OnAttachTextRoomJoin
  with assms show ?thesis
    by (auto simp: onAttachTextRoomJoin_def update_peer_def joinTextRoom_def msg_simps rbind_eq_Inr)
next
  case OnAttachVideoRoomCreate
  with assms show ?thesis
    by (auto simp: onAttachVideoRoomCreate_def update_peer_def createVideoRoom_def msg_simps rbind_eq_Inr Let_def)
next
  case OnAttachTextRoomCreate
  with assms show ?thesis
    by (auto simp: onAttachTextRoomCreate_def update_peer_def createTextRoom_def msg_simps rbind_eq_Inr Let_def)
next
  case OnAttachVideoRoomDestory
  with assms show ?thesis
    by (auto simp: onAttachVideoRoomDestory_def update_peer_def destoryVideoRoom_def msg_simps rbind_eq_Inr Let_def)
next
  case OnAttachTextRoomDestory
  with assms show ?thesis
    by (auto simp: onAttachTextRoomDestory_def update_peer_def destoryTextRoom_def msg_simps rbind_eq_Inr Let_def)
next
  case OnCreateVideoRoom
  with assms show ?thesis
    by (auto simp: onCreateVideoRoom_def rbind_eq_Inr Let_def call_report_same split: if_splits)
next
  case OnCreateTextRoom
  with assms show ?thesis
    by (auto simp: onCreateTextRoom_def rbind_eq_Inr Let_def call_report_same split: if_splits)
next
  case OnDestoryVideoRoom
  with assms show ?thesis
    by (auto simp: onDestoryVideoRoom_def rbind_eq_Inr Let_def call_report_same split: if_splits)
next
  case OnDestoryTextRoom
  with assms show ?thesis
    by (auto simp: onDestoryTextRoom_def rbind_eq_Inr Let_def call_report_same split: if_splits)
qed

text \<open>
  C35: the answer to a request is delivered once: as long as the generator does not repeat
  the transaction in the request that the answer may cause, a second answer with the same
  transaction, whatever its content, changes nothing.
\<close>

theorem answer_once:
  assumes "onMessageSuccess E t v s = Inr s'" "tr E s \<noteq> t"
  shows "onMessageSuccess E t w s' = Inr s'"
proof (cases "mMessage_success_callback s t")
  case None
  then show ?thesis using assms(1) by (simp add: onMessageSuccess_def)
next
  case (Some f)
  let ?u = "s\<lparr>mMessage_success_callback := (mMessage_success_callback s)(t := None)\<rparr>"
  have "run_listener E f v ?u = Inr s'"
    using assms(1) onMessageSuccess_run [OF Some, of E v] by simp
  then have "mMessage_success_callback s' t = None"
  proof (cases f)
    case (ToPeer a slot)
    with \<open>run_listener E f v ?u = Inr s'\<close> have "run_peer_slot E slot a v ?u = Inr s'" by simp
    from slot_registers [OF this] assms(2) show ?thesis by auto
  qed (auto simp: onCreateSessionId_def onHeartBeat_def Let_def)
  then show ?thesis by (simp add: onMessageSuccess_def)
qed

theorem answer_once_witness:
  "\<exists>s'. onMessageSuccess (ex_env [] JNull) ''x'' JNull ex_session = Inr s'
     \<and> onMessageSuccess (ex_env [] JNull) ''x'' JNull s' = Inr s'"
proof -
  have "onMessageSuccess (ex_env [] JNull) ''x'' JNull ex_session = Inr ex_session"
    by (simp add: onMessageSuccess_def ex_session_def session_start_def JVRM_new_def
        RegisterConnectToPeerCallBack_def RegisterRemoteSdpCallBack_def RegisterRemoteStreamRemoveCallBack_def)
  moreover have "tr (ex_env [] JNull) ex_session \<noteq> ''x''"
    by (simp add: tr_def ex_transaction ex_session_wf upt_rec)
  ultimately show ?thesis using answer_once by blast
qed

section \<open>The session and its keep-alive\<close>

text \<open>
  A connected socket makes the manager ask for a session, and the answer to exactly that
  request sets the session identifier.
\<close>

lemma session_created:
  "sent (onSocketConnected E s) = sent s
      @ [wire E (JObj [(''janus'', JStr ''create''), (''transaction'', JStr (tr E s))])]
   \<and> (\<exists>s'. onMessageSuccess E (tr E s) v (onSocketConnected E s) = Inr s'
      \<and> mSessionId s' = attached_id E v \<and> sent s' = sent (onSocketConnected E s)
      \<and> mMessage_success_callback s' = (mMessage_success_callback s)(tr E s := None))"
  by (simp add: onSocketConnected_def createSessionId_def msg_simps Let_def onMessageSuccess_def
      onCreateSessionId_def attached_id_def)

text \<open>
  C36: a keep-alive names the session, and its acknowledgement restarts the watchdog with its
  full interval, once: the registration is used up.
\<close>

theorem keepalive_restarts_watchdog:
  "sent (onWebSocketHeartBeatMessage E s) = sent s
      @ [wire E (JObj [(''janus'', JStr ''keepalive''), (''transaction'', JStr (tr E s)),
           (''session_id'', json_of_id (mSessionId s))])]
   \<and> (\<exists>s'. onMessageAck E (tr E s) v (onWebSocketHeartBeatMessage E s) = Inr s'
      \<and> t_left (pPingTimeOutTimer (pWebSocket s')) = Some (t_interval (pPingTimeOutTimer (pWebSocket s)))
      \<and> mMessage_ack_callback s' = (mMessage_ack_callback s)(tr E s := None))"
  by (simp add: onWebSocketHeartBeatMessage_def msg_simps Let_def onMessageAck_def onHeartBeat_def
      AddMessageAckCallback_def JWS_ResetTimer_def qtimer.left_restart qtimer.interval_stop
      send_json_def JWS_SendMessage_def ws_cmd_def sent_def)

section \<open>Dispatch of events\<close>

lemma dispatch_none:
  "event \<notin> fst ` set table \<Longrightarrow>
   rfold (\<lambda>(key, f) s. if key = event then run f s else Inr s) table s = Inr s"
  by (induction table) auto

lemma dispatch_eq:
  "distinct (map fst table) \<Longrightarrow>
   rfold (\<lambda>(key, f) s. if key = event then run f s else Inr s) table s
     = (case map_of table event of None \<Rightarrow> Inr s | Some f \<Rightarrow> run f s)"
proof (induction table)
  case Nil
  show ?case by simp
next
  case (Cons kf table)
  obtain k f where kf: "kf = (k, f)" by (cases kf)
  show ?case
  proof (cases "k = event")
    case True
    then have "rfold (\<lambda>(key, f) s. if key = event then run f s else Inr s) table u = Inr u" for u
      using Cons.prems kf by (intro dispatch_none) auto
    then show ?thesis using True by (cases "run f s") (simp_all add: kf)
  next
    case False
    then show ?thesis using Cons kf by simp
  qed
qed

text \<open>
  The loop over the event table is a lookup: an event runs the function of its name and
  no other, and an event without an entry changes nothing.
\<close>

lemma onVideoRoomEvent_dispatch:
  assumes "mMessage_event_videoRoom s = mMessage_event_videoRoom (JVRM_new h n sd out c)"
  shows "onVideoRoomEvent E event v s =
    (if event = ''joined'' then onVideoRoomEventJoin E v s
     else if event = ''attached'' then onVideoRoomEventAttached E v s
     else if event = ''event'' then onVideoRoomEventEvent E v s else Inr s)"
  using dispatch_eq [of "mMessage_event_videoRoom s" event "\<lambda>f. run_video_event E f v" s] assms
  by (simp add: onVideoRoomEvent_def JVRM_new_def)

section \<open>Looking up a peer by its handle\<close>

lemma find_peer_first:
  assumes "heap s a = Some p" "P p" "\<And>b. b \<in> set us \<Longrightarrow> \<exists>q. heap s b = Some q \<and> \<not> P q"
  shows "find_peer P (us @ a # vs) s = Inr (Some a)"
  using assms(3)
proof (induction us)
  case Nil
  show ?case using assms(1,2) by (simp add: deref_Some)
next
  case (Cons b us)
  then obtain q where "heap s b = Some q" "\<not> P q" by auto
  with Cons show ?case by (simp add: deref_Some)
qed

lemma find_peer_none:
  "(\<And>b. b \<in> set as \<Longrightarrow> \<exists>q. heap s b = Some q \<and> \<not> P q) \<Longrightarrow> find_peer P as s = Inr None"
proof (induction as)
  case (Cons b as)
  then obtain q where "heap s b = Some q" "\<not> P q" by auto
  with Cons show ?case by (simp add: deref_Some)
qed simp

lemma find_peer_cong: "heap t = heap s \<Longrightarrow> find_peer P as t = find_peer P as s"
  by (induction as) (simp_all add: deref_def cong: if_cong)

lemma other_peers:
  assumes "janus_wf s" "set as \<subseteq> set (owned s)" "\<forall>b \<in> set as. map_option h (heap s b) \<noteq> Some i"
  shows "find_peer (\<lambda>p. h p = i) as s = Inr None"
    "\<And>a p. heap s a = Some p \<Longrightarrow> h p = i \<Longrightarrow> find_peer (\<lambda>p. h p = i) (as @ a # vs) s = Inr (Some a)"
proof -
  have others: "\<exists>q. heap s b = Some q \<and> h q \<noteq> i" if b: "b \<in> set as" for b
  proof -
    obtain q where "heap s b = Some q" using owned_live [OF assms(1) subsetD [OF assms(2) b]] by blast
    with assms(3) b show ?thesis by auto
  qed
  show "find_peer (\<lambda>p. h p = i) as s = Inr None"
    using others by (rule find_peer_none)
  show "find_peer (\<lambda>p. h p = i) (as @ a # vs) s = Inr (Some a)" if "heap s a = Some p" "h p = i" for a p
    using find_peer_first [OF that(1), of "\<lambda>p. h p = i"] that(2) others by blast
qed

lemma SendSDP_sends:
  assumes "janus_wf s" "mVideoRoomPeerList s = us @ a # vs" "heap s a = Some p" "mVideoRoomHandleID p = i"
    and "\<forall>b \<in> set us. map_option mVideoRoomHandleID (heap s b) \<noteq> Some i"
    and "\<forall>b \<in> set (mTextRoomPeerList s). map_option mTextRoomHandleID (heap s b) \<noteq> Some i"
  shows "\<exists>s'. JVRM_SendSDP E i sdp type s = Inr s' \<and> heap s' = heap s
    \<and> sent s' = sent s @ [wire E (plugin_msg i (tr E s) (mSessionID p)
        [(''body'', if mSubscribeId p = 0
            then JObj [(''request'', JStr ''configure''), (''audio'', JBool True), (''video'', JBool True)]
            else JObj [(''request'', JStr ''start''), (''room'', json_of_uint (mVideoRoomId p))]),
         (''jsep'', jsep_obj type sdp)])]"
proof -
  have "set us \<subseteq> set (owned s)" using assms(2) by (auto simp: owned_def)
  from other_peers(2) [OF assms(1) this assms(5,3,4)]
  have v: "find_peer (\<lambda>p. mVideoRoomHandleID p = i) (mVideoRoomPeerList s) s = Inr (Some a)"
    by (simp only: assms(2))
  let ?s = "send_json E (plugin_msg i (tr E s) (mSessionID p)
        [(''body'', if mSubscribeId p = 0
            then JObj [(''request'', JStr ''configure''), (''audio'', JBool True), (''video'', JBool True)]
            else JObj [(''request'', JStr ''start''), (''room'', json_of_uint (mVideoRoomId p))]),
         (''jsep'', jsep_obj type sdp)]) (drawn E s)"
  have "find_peer P as ?s = find_peer P as s" for P as
    by (rule find_peer_cong) simp
  then have t: "find_peer (\<lambda>p. mTextRoomHandleID p = i) (mTextRoomPeerList ?s) ?s = Inr None"
    using other_peers(1) [OF assms(1) owned_lists(2) assms(6)] by simp
  have "JVRM_SendSDP E i sdp type s = Inr ?s"
    using t by (simp add: JVRM_SendSDP_def v JPC_SendSDP_def deref_Some [OF assms(3)] msg_simps assms(4))
  then show ?thesis by simp
qed

text \<open>
  A local description goes to the first peer of the video room with its handle, and to
  no other: a publisher answers with a configure request that offers audio and video, a
  subscriber with a start request for its room; both carry the description unchanged.
\<close>

lemma SendSDP_routed:
  assumes "janus_wf s" "mVideoRoomPeerList s = us @ a # vs" "heap s a = Some p" "mVideoRoomHandleID p = i"
    and "\<forall>b \<in> set us. map_option mVideoRoomHandleID (heap s b) \<noteq> Some i"
    and "\<forall>b \<in> set (mTextRoomPeerList s). map_option mTextRoomHandleID (heap s b) \<noteq> Some i"
  shows "\<exists>s'. JVRM_SendSDP E i sdp type s = Inr s' \<and> heap s' = heap s
    \<and> sent s' = sent s @ [wire E (plugin_msg i (tr E s) (mSessionID p)
        [(''body'', if mSubscribeId p = 0
            then JObj [(''request'', JStr ''configure''), (''audio'', JBool True), (''video'', JBool True)]
            else JObj [(''request'', JStr ''start''), (''room'', json_of_uint (mVideoRoomId p))]),
         (''jsep'', jsep_obj type sdp)])]"
  by (rule SendSDP_sends [OF assms])

text \<open>
  A local candidate is sent for a peer of the video room only. When no peer of the video
  room has the handle the call does nothing, even if a peer of the text room has it: the
  candidates of a data channel never leave the client.
\<close>

lemma SendCandidate_text_dropped:
  assumes "janus_wf s" "\<forall>b \<in> set (mVideoRoomPeerList s). map_option mVideoRoomHandleID (heap s b) \<noteq> Some i"
  shows "JVRM_SendCandidate E i mid idx cand s = Inr s"
proof -
  have "find_peer (\<lambda>p. mVideoRoomHandleID p = i) (mVideoRoomPeerList s) s = Inr None"
    by (rule other_peers(1) [OF assms(1) owned_lists(1) assms(2)])
  then show ?thesis by (simp add: JVRM_SendCandidate_def)
qed

text \<open>A session with a publisher on handle 5 and a text peer on handle 6.\<close>

definition ex_room :: "nat janus" where
  "ex_room = ex_session\<lparr>
     heap := [Addr 0 \<mapsto> (JPC_init (ex_env [] JNull) (Addr 0) 9)\<lparr>mVideoRoomHandleID := 5\<rparr>,
              Addr 1 \<mapsto> (JPC_init (ex_env [] JNull) (Addr 1) 9)\<lparr>mTextRoomHandleID := 6\<rparr>],
     next_addr := 2, mVideoRoomPeerList := [Addr 0], mTextRoomPeerList := [Addr 1]\<rparr>"

lemma ex_room_wf: "janus_wf ex_room"
  by (auto simp: janus_wf_def ex_room_def owned_def ex_session_def session_start_def JVRM_new_def
      RegisterConnectToPeerCallBack_def RegisterRemoteSdpCallBack_def
      RegisterRemoteStreamRemoveCallBack_def less_addr_def ran_def reports_ok_def JPC_init_def split: if_splits)

section \<open>Streams that end\<close>

text \<open>
  C37: an unpublish event tells the conference layer the handle of the first peer that is
  subscribed to the publisher and takes that peer, and only it, out of the room's list; the
  object is not deleted: it stays on the heap, owned by nobody.
\<close>

theorem unpublish_removes_one:
  assumes "janus_wf s" "mVideoRoomPeerList s = us @ a # vs" "heap s a = Some p"
    and "JsonValueToLongLong (je_json E) (plugin_data v) ''unpublished'' = i" "i \<noteq> 0" "mSubscribeId p = i"
    and "\<forall>b \<in> set us. map_option mSubscribeId (heap s b) \<noteq> Some i"
    and "OnRemoteStreamRemove s = Some f" "f (mVideoRoomHandleID p) (client s) = Inr c"
  shows "\<exists>s'. onVideoRoomEventUnpublish E v s = Inr s' \<and> mVideoRoomPeerList s' = us @ vs
    \<and> client s' = c \<and> heap s' a = Some p \<and> a \<notin> set (owned s')"
proof -
  have "set us \<subseteq> set (owned s)" using assms(2) by (auto simp: owned_def)
  from other_peers(2) [OF assms(1) this assms(7,3,6)]
  have find: "find_peer (\<lambda>p. mSubscribeId p = i) (mVideoRoomPeerList s) s = Inr (Some a)"
    by (simp only: assms(2))
  have d: "distinct (us @ a # vs)" "a \<notin> set (mTextRoomPeerList s)"
      "a \<notin> set (opt_list (pCreateVideoRoomPeer s))" "a \<notin> set (opt_list (pCreateTextRoomPeer s))"
    using janus_wfD(1) [OF assms(1)] assms(2) by (auto simp: owned_def)
  have "erase_first ((=) a) (us @ a # vs) = us @ vs"
    using d(1) by (intro erase_first_split) auto
  then show ?thesis
    using d by (simp add: onVideoRoomEventUnpublish_def Let_def assms(2,3,4,5,8,9) find [unfolded assms(2)]
        GetVideoRoomHandleID_def deref_Some up_call_def owned_def)
qed

definition ex_gone :: json where
  "ex_gone = JObj [(''plugindata'', JObj [(''data'', JObj [(''unpublished'', JInt 77)])])]"

definition ex_subscribed :: "nat janus" where
  "ex_subscribed = put_peer (Addr 0)
     ((JPC_init (ex_env [] JNull) (Addr 0) 9)\<lparr>mVideoRoomHandleID := 5, mSubscribeId := 77\<rparr>) ex_room"

lemma ex_subscribed_wf: "janus_wf ex_subscribed"
  unfolding ex_subscribed_def
  by (rule evolves_wf [OF evolves_put [where p = "(JPC_init (ex_env [] JNull) (Addr 0) 9)\<lparr>mVideoRoomHandleID := 5\<rparr>"] ex_room_wf])
    (simp_all add: ex_room_def peer_shape_def)

lemma ex_subscribed_facts:
  "mVideoRoomPeerList ex_subscribed = [] @ Addr 0 # []" "OnRemoteStreamRemove ex_subscribed = Some ex_rremove"
  "heap ex_subscribed (Addr 0)
     = Some ((JPC_init (ex_env [] JNull) (Addr 0) 9)\<lparr>mVideoRoomHandleID := 5, mSubscribeId := 77\<rparr>)"
  by (simp_all add: ex_subscribed_def put_peer_def ex_room_def ex_session_def session_start_def
      RegisterRemoteStreamRemoveCallBack_def)

theorem unpublish_removes_one_witness:
  "\<exists>s'. onVideoRoomEventUnpublish (ex_env [] JNull) ex_gone ex_subscribed = Inr s'
     \<and> mVideoRoomPeerList s' = []"
proof -
  have "JsonValueToLongLong (je_json (ex_env [] JNull)) (plugin_data ex_gone) ''unpublished'' = 77"
    unfolding ex_gone_def
    by (simp add: plugin_data_def GetValueFromJsonObject_def isMember_def Let_def)
      (rule LongLong_int, simp_all add: ex_env_def ref_lib_def ref_writer.json_writer_axioms)
  from unpublish_removes_one [OF ex_subscribed_wf ex_subscribed_facts(1,3) this _ _ _ ex_subscribed_facts(2) ex_rremove_def]
  show ?thesis by auto
qed

section \<open>Rooms\<close>

lemma CreateTextRoom_eq:
  assumes "heap s a = Some p"
  shows "JPC_CreateTextRoom E a r s = Inr (AddMessageSuccessCallback (tr E s) (ToPeer a OnAttachVideoRoomCreate)
    (put_peer a (p\<lparr>mTextRoomId := r\<rparr>)
      (send_json E (attach_msg ''janus.plugin.textroom'' (tr E s) (mSessionID p)) (drawn E s))))"
  by (simp add: JPC_CreateTextRoom_def attach_eq [OF assms])

text \<open>
  Creating a video room is a conversation of two requests: the answer to the attach
  request makes the peer ask for the room on the handle it was given, and the answer to that
  request is reported with the number of the room the server created.
\<close>

lemma create_video_conversation:
  assumes "heap s a = Some p" "onCreateVideoRoomSuccessedCallback p = Some CreateVideoRoomSuccessed"
    and "tr E s \<noteq> tr E (drawn E s)"
    and "GetStringFromJsonObject (je_json E) (plugin_data w) ''videoroom'' [] = (b, ''created'')"
    and "GetUIntFromJsonObject (je_json E) (plugin_data w) ''room'' r = (d, n)"
  shows "\<exists>s1 s2 s3. JPC_CreateVideoRoom E a r s = Inr s1
    \<and> onMessageSuccess E (tr E s) v s1 = Inr s2
    \<and> sent s2 = sent s1 @ [wire E (plugin_msg (attached_id E v) (tr E (drawn E s)) (mSessionID p)
        [(''body'', room_body ''create'' r)])]
    \<and> onMessageSuccess E (tr E (drawn E s)) w s2 = Inr s3
    \<and> stdout s3 = stdout s @ ['' ====== create video room successed. roomID : '' @ show_nat (unat n)]"
proof -
  let ?s1 = "AddMessageSuccessCallback (tr E s) (ToPeer a OnAttachVideoRoomCreate)
    (put_peer a (p\<lparr>mVideoRoomId := r\<rparr>)
      (send_json E (attach_msg ''janus.plugin.videoroom'' (tr E s) (mSessionID p)) (drawn E s)))"
  have s1: "JPC_CreateVideoRoom E a r s = Inr ?s1"
    by (simp add: JPC_CreateVideoRoom_def attach_eq [OF assms(1)])
  let ?u = "?s1\<lparr>mMessage_success_callback := (mMessage_success_callback ?s1)(tr E s := None)\<rparr>"
  let ?q = "p\<lparr>mVideoRoomId := r, mVideoRoomHandleID := attached_id E v\<rparr>"
  let ?s2 = "AddMessageSuccessCallback (tr E (drawn E s)) (ToPeer a OnCreateVideoRoom)
    (send_json E (plugin_msg (attached_id E v) (tr E (drawn E s)) (mSessionID p) [(''body'', room_body ''create'' r)])
      (drawn E (put_peer a ?q ?u)))"
  have t: "tr E ?u = tr E (drawn E s)" by simp
  have s2: "onMessageSuccess E (tr E s) v ?s1 = Inr ?s2"
    by (simp add: onMessageSuccess_def onAttachVideoRoomCreate_def update_peer_def deref_def
        createVideoRoom_def msg_simps Let_def)
  have h: "heap ?s2 a = Some ?q" by simp
  have "\<exists>s3. onMessageSuccess E (tr E (drawn E s)) w ?s2 = Inr s3
      \<and> stdout s3 = stdout s @ ['' ====== create video room successed. roomID : '' @ show_nat (unat n)]"
    using assms(2,4,5)
    by (simp add: onMessageSuccess_def onCreateVideoRoom_def deref_def Let_def call_report_if_def
        call_report_def onCreateVideoRoomSuccessed_def print_line_def)
  moreover have "sent ?s2 = sent ?s1 @ [wire E (plugin_msg (attached_id E v) (tr E (drawn E s)) (mSessionID p)
        [(''body'', room_body ''create'' r)])]"
    by simp
  ultimately show ?thesis using s1 s2 by blast
qed

text \<open>
  Creating a text room goes wrong at the first answer. The function registered for the
  attach request is the video room's: the handle the text plug-in gave is stored as the
  video handle, and the room asked for is the peer's video room number, which nothing has
  set; the number the caller gave and the text handle are not used.
\<close>

lemma create_text_room_asks_for_video_room:
  assumes "heap s a = Some p"
  shows "\<exists>s1 s2 t2. JPC_CreateTextRoom E a r s = Inr s1 \<and> onMessageSuccess E (tr E s) v s1 = Inr s2
    \<and> sent s2 = sent s1 @ [wire E (plugin_msg (attached_id E v) t2 (mSessionID p)
        [(''body'', room_body ''create'' (mVideoRoomId p))])]
    \<and> map_option (\<lambda>q. (mVideoRoomHandleID q, mTextRoomHandleID q)) (heap s2 a)
        = Some (attached_id E v, mTextRoomHandleID p)"
  by (simp add: CreateTextRoom_eq [OF assms] onMessageSuccess_def onAttachVideoRoomCreate_def
      update_peer_def deref_def createVideoRoom_def msg_simps Let_def) blast

text \<open>
  A destroyed video room is reported as a created one: the peers the manager uses have
  all eight reports bound, and the answer \<^verbatim>\<open>destroyed\<close> prints the text of \<^verbatim>\<open>created\<close>.
\<close>

lemma destroy_reports_create:
  assumes "heap s a = Some (with_reports p)"
    and "GetStringFromJsonObject (je_json E) (plugin_data w) ''videoroom'' [] = (b, ''destroyed'')"
    and "GetUIntFromJsonObject (je_json E) (plugin_data w) ''room'' (mVideoRoomId p) = (d, n)"
  shows "onDestoryVideoRoom E a w s =
    Inr (s\<lparr>stdout := stdout s @ ['' ====== create video room successed. roomID : '' @ show_nat (unat n)]\<rparr>)"
  using assms(2,3)
  by (simp add: onDestoryVideoRoom_def deref_def assms(1) Let_def with_reports_def call_report_def
      onCreateVideoRoomSuccessed_def print_line_def)

text \<open>
  The peer for room requests is made once and keeps the session it was made in: after a
  reconnection has given the manager a new session, room requests still name the old one.
\<close>

lemma room_requests_keep_old_session:
  assumes "pCreateVideoRoomPeer s = Some a" "heap s a = Some p"
  shows "\<exists>s'. JVRM_CreateVideoRoom E r (s\<lparr>mSessionId := sid\<rparr>) = Inr s'
    \<and> sent s' = sent s @ [wire E (attach_msg ''janus.plugin.videoroom'' (tr E s) (mSessionID p))]
    \<and> mSessionId s' = sid"
proof -
  have t: "tr E (s\<lparr>mSessionId := sid\<rparr>) = tr E s" by (rule tr_cong) simp
  have h: "heap (s\<lparr>mSessionId := sid\<rparr>) a = Some p" using assms(2) by simp
  show ?thesis
    by (simp add: JVRM_CreateVideoRoom_def need_video_peer_def assms(1) JPC_CreateVideoRoom_def
        attach_eq [OF h] t)
qed

text \<open>A session whose peer for room requests was made in session 9.\<close>

definition ex_rooms :: "nat janus" where
  "ex_rooms = ex_session\<lparr>pCreateVideoRoomPeer := Some (Addr 0), next_addr := 1,
     heap := [Addr 0 \<mapsto> with_reports (JPC_init (ex_env [] JNull) (Addr 0) 9)]\<rparr>"

lemma ex_rooms_facts: "heap ex_rooms (Addr 0) = Some (with_reports (JPC_init (ex_env [] JNull) (Addr 0) 9))"
  "pCreateVideoRoomPeer ex_rooms = Some (Addr 0)" "stdout ex_rooms = []" "seed ex_rooms = 0" "sent ex_rooms = []"
  by (simp_all add: ex_rooms_def ex_session_wf)
    (simp add: ex_session_def session_start_def JVRM_new_def RegisterConnectToPeerCallBack_def
      RegisterRemoteSdpCallBack_def RegisterRemoteStreamRemoveCallBack_def)

definition room_answer :: "string \<Rightarrow> u32 \<Rightarrow> json" where
  "room_answer what n = JObj [(''plugindata'', JObj [(''data'',
     JObj [(''videoroom'', JStr what), (''room'', JUInt (ucast n))])])]"

lemma ex_drawn: "seed (drawn (ex_env m v) s) = seed s + 12"
  by (simp add: drawn_seed GetRandomString_def numeral_eq_Suc Let_def)

lemma room_answer_simps:
  "GetStringFromJsonObject L (plugin_data (room_answer what n)) ''videoroom'' [] = (True, what)"
  "GetUIntFromJsonObject (je_json (ex_env m v)) (plugin_data (room_answer what n)) ''room'' r = (True, n)"
proof -
  have "ref_convertible (JUInt (ucast n)) uintValue"
  proof -
    have n: "uint n < 2 ^ 32" using uint_bounded [of n] by simp
    then have "uint (ucast n :: i64) = uint n"
      by (simp add: unsigned_ucast_eq take_bit_eq_mod)
    with n show ?thesis by (simp add: ref_numbers.uint_in_uint)
  qed
  moreover have "ref_as_word (JUInt (ucast n)) = n"
    by (simp add: ref_numbers.as_uint_uint) (rule bit_word_eqI, simp add: bit_simps)
  ultimately show
    "GetStringFromJsonObject L (plugin_data (room_answer what n)) ''videoroom'' [] = (True, what)"
    "GetUIntFromJsonObject (je_json (ex_env m v)) (plugin_data (room_answer what n)) ''room'' r = (True, n)"
    by (simp_all add: room_answer_def plugin_data_def GetStringFromJsonObject_def GetUIntFromJsonObject_def
        GetValueFromJsonObject_def isMember_def and_then_get_def GetStringFromJson_def GetUIntFromJson_def
        ex_env_def ref_lib_def Let_def)
qed

end
