(* ===== verification/Video_Frames.thy ===== *)
theory Video_Frames
  imports Demo_Prelude
begin

text \<open>
  \<^verbatim>\<open>src/WebrtcVideoFrame.cpp\<close> and \<^verbatim>\<open>src/VideoRender.cpp\<close>: how a decoded frame gets from
  the planes of an I420 buffer into the buffer of the widget, and from there into the three
  textures. Memory is a list of bytes; a copy or a read beyond its end is a fault. Sizes are
  natural numbers (the widths and heights of a frame are positive), and the products are
  checked against the range of \<^verbatim>\<open>int\<close>. The calls of OpenGL are recorded.
\<close>

section \<open>Memory\<close>

type_synonym u8 = "8 word"

definition mul_int :: "nat \<Rightarrow> nat \<Rightarrow> nat res" where
  "mul_int a b = (if int (a * b) \<le> INT_MAX then Inr (a * b) else Inl IntegerOverflow)"

definition memcpy :: "nat \<Rightarrow> u8 list \<Rightarrow> nat \<Rightarrow> u8 list \<Rightarrow> u8 list res" where
  "memcpy off src n dst =
     (if off + n \<le> length dst \<and> n \<le> length src
      then Inr (take off dst @ take n src @ drop (off + n) dst) else Inl BufferOverflow)"

definition read_bytes :: "nat \<Rightarrow> nat \<Rightarrow> u8 list \<Rightarrow> u8 list res" where
  "read_bytes off n mem = (if off + n \<le> length mem then Inr (take n (drop off mem)) else Inl BufferOverflow)"

lemma mul_int_ok: "int (a * b) \<le> INT_MAX \<Longrightarrow> mul_int a b = Inr (a * b)"
  by (simp add: mul_int_def)

lemma memcpy_ok:
  "off + n \<le> length dst \<Longrightarrow> n \<le> length src \<Longrightarrow>
   memcpy off src n dst = Inr (take off dst @ take n src @ drop (off + n) dst)"
  by (simp add: memcpy_def)

text \<open>Consecutive copies into one buffer fill it from the left.\<close>

lemma memcpy_next:
  assumes "length done = off" "n \<le> length src" "off + n \<le> length done + length rest"
  shows "memcpy off src n (done @ rest) = Inr ((done @ take n src) @ drop n rest)"
  using assms by (simp add: memcpy_def)

section \<open>Frames\<close>

datatype rotation = Rotation0 | Rotation90 | Rotation180 | Rotation270

text \<open>\<^verbatim>\<open>I420BufferInterface\<close>: each plane from its pointer to the end of what may be read.\<close>

record i420 =
  fwidth :: nat
  fheight :: nat
  DataY :: "u8 list"
  DataU :: "u8 list"
  DataV :: "u8 list"
  StrideY :: nat
  StrideU :: nat
  StrideV :: nat

record video_frame =
  fr_buffer :: i420            \<comment> \<open>\<^verbatim>\<open>video_frame_buffer()->ToI420()\<close>\<close>
  fr_rotation :: rotation
  fr_timestamp_us :: int
  fr_id :: nat

text \<open>
  What webrtc and the allocator do: \<^verbatim>\<open>I420Buffer::Rotate\<close>, \<^verbatim>\<open>I420Buffer::Copy\<close> (width,
  height, then each plane with its stride), and what \<^verbatim>\<open>malloc\<close> returns (\<open>None\<close> for a null
  pointer).
\<close>

record frame_env =
  fe_rotate :: "i420 \<Rightarrow> rotation \<Rightarrow> i420"
  fe_copy :: "nat \<Rightarrow> nat \<Rightarrow> u8 list \<Rightarrow> nat \<Rightarrow> u8 list \<Rightarrow> nat \<Rightarrow> u8 list \<Rightarrow> nat \<Rightarrow> i420 res"
  fe_malloc :: "nat \<Rightarrow> u8 list option"

text \<open>The documented behaviour of \<^verbatim>\<open>malloc\<close>: as many bytes as were asked for.\<close>

definition malloc_ok :: "frame_env \<Rightarrow> bool" where
  "malloc_ok E \<longleftrightarrow> (\<forall>n. \<exists>m. fe_malloc E n = Some m \<and> length m = n)"

definition upright :: "frame_env \<Rightarrow> video_frame \<Rightarrow> i420" where
  "upright E f = (if fr_rotation f \<noteq> Rotation0 then fe_rotate E (fr_buffer f) (fr_rotation f) else fr_buffer f)"

text \<open>The packed copy of a frame: the three planes, one after the other.\<close>

definition pack_frame :: "frame_env \<Rightarrow> i420 \<Rightarrow> u8 list res" where
  "pack_frame E b =
     rbind (mul_int (fwidth b) (fheight b)) (\<lambda>wh.
     rbind (mul_int wh 3) (\<lambda>wh3.
     let yuvBufferSize = wh3 div 2 in
     rbind (case fe_malloc E yuvBufferSize of None \<Rightarrow> Inl AllocationFailed | Some m \<Rightarrow> Inr m) (\<lambda>yuvBuffer.
     rbind (memcpy 0 (DataY b) wh yuvBuffer) (\<lambda>yuvBuffer.
     rbind (memcpy wh (DataU b) (wh div 4) yuvBuffer) (\<lambda>yuvBuffer.
     memcpy (wh + wh div 4) (DataV b) (wh div 4) yuvBuffer)))))"

section \<open>The widget\<close>

datatype gl_cmd =
    GlEnableDepthTest
  | GlCompileShader bool string              \<comment> \<open>vertex shader or not, source\<close>
  | GlLog string string
  | GlAddShader bool
  | GlBindAttribute string nat
  | GlLink | GlBindProgram
  | GlEnableAttributeArray nat
  | GlSetAttributeBuffer nat nat nat          \<comment> \<open>location, offset, tuple size\<close>
  | GlUniformLocation string
  | GlVertexAttribPointer nat "rat list"
  | GlEnableVertexAttribArray nat
  | GlCreateTexture nat
  | GlClearColor
  | GlViewport int int int int
  | GlActiveTexture nat
  | GlBindTexture nat
  | GlTexImage nat nat "u8 list"             \<comment> \<open>width, height, bytes\<close>
  | GlTexFilterLinear | GlTexClampToEdge      \<comment> \<open>both directions\<close>
  | GlUniform1i nat nat
  | GlDrawTriangleStrip nat

record video_render =
  program :: bool
  textureUniformY :: nat
  textureUniformU :: nat
  textureUniformV :: nat
  idY :: nat
  idU :: nat
  idV :: nat
  pTextures :: bool                           \<comment> \<open>\<^verbatim>\<open>pTextureY\<close>, \<^verbatim>\<open>pTextureU\<close>, \<^verbatim>\<open>pTextureV\<close> are made together\<close>
  pShaders :: bool                            \<comment> \<open>and so are \<^verbatim>\<open>pVShader\<close> and \<^verbatim>\<open>pFShader\<close>\<close>
  mVideoW :: nat
  mVideoH :: nat
  mMaxVideoW :: nat
  mMaxVideoH :: nat
  pBufYuv420p :: "u8 list option"
  viewFlag :: bool
  mMutex :: bool                              \<comment> \<open>locked\<close>
  gl :: "gl_cmd list"
  updates :: nat                              \<comment> \<open>repaints asked for with \<^verbatim>\<open>update()\<close>\<close>
  shown :: bool

text \<open>\<open>junk\<close> is what the new buffer contains.\<close>

definition VR_new :: "(nat \<Rightarrow> u8) \<Rightarrow> video_render" where
  "VR_new junk = \<lparr>program = False,
     textureUniformY = 0, textureUniformU = 0, textureUniformV = 0,
     idY = 0, idU = 0, idV = 0, pTextures = False, pShaders = False,
     mVideoW = 0, mVideoH = 0, mMaxVideoW = 1920, mMaxVideoH = 1280,
     pBufYuv420p = Some (map junk [0..<1920 * 1280 * 3 div 2]),
     viewFlag = False, mMutex = False, gl = [], updates = 0, shown = True\<rparr>"

definition VR_destroy :: "video_render \<Rightarrow> video_render" where
  "VR_destroy r = r\<lparr>pBufYuv420p := None, program := False, pShaders := False\<rparr>"

definition SetVideoSize :: "nat \<Rightarrow> nat \<Rightarrow> video_render \<Rightarrow> video_render" where
  "SetVideoSize width height r = r\<lparr>mVideoW := width, mVideoH := height\<rparr>"

definition lock :: "video_render \<Rightarrow> video_render" where "lock r = r\<lparr>mMutex := True\<rparr>"
definition unlock :: "video_render \<Rightarrow> video_render" where "unlock r = r\<lparr>mMutex := False\<rparr>"

definition SetYUVData :: "u8 list \<Rightarrow> video_render \<Rightarrow> video_render res" where
  "SetYUVData yuvData r =
     (let r = lock r in
      case pBufYuv420p r of None \<Rightarrow> Inl NullDereference
      | Some buf \<Rightarrow>
          rbind (mul_int (mVideoW r) (mVideoH r)) (\<lambda>wh.
          rbind (mul_int wh 3) (\<lambda>wh3.
          rbind (memcpy 0 yuvData (wh3 div 2) buf) (\<lambda>buf.
          Inr (unlock (r\<lparr>pBufYuv420p := Some buf\<rparr>))))))"

definition SetViewStated :: "bool \<Rightarrow> video_render \<Rightarrow> video_render" where
  "SetViewStated flag r =
     (let r = r\<lparr>viewFlag := flag\<rparr>
      in if viewFlag r then r\<lparr>updates := Suc (updates r)\<rparr> else r)"

section \<open>Drawing\<close>

definition emit :: "gl_cmd list \<Rightarrow> video_render \<Rightarrow> video_render" where
  "emit cs r = r\<lparr>gl := gl r @ cs\<rparr>"

definition vsrc :: string where
  "vsrc = ''attribute vec4 vertexIn;'' @ ''attribute vec2 textureIn;'' @ ''varying vec2 textureOut;''
     @ ''void main(void){         '' @ ''    gl_Position = vertexIn;'' @ ''    textureOut = textureIn;'' @ ''}''"

definition fsrc :: string where
  "fsrc = ''varying vec2 textureOut;'' @ ''uniform sampler2D tex_y;'' @ ''uniform sampler2D tex_u;''
     @ ''uniform sampler2D tex_v;'' @ ''void main(void){'' @ ''    vec3 yuv;'' @ ''    vec3 rgb;''
     @ ''    yuv.x = texture2D(tex_y, textureOut).r;''
     @ ''    yuv.y = texture2D(tex_u, textureOut).r - 0.5;''
     @ ''    yuv.z = texture2D(tex_v, textureOut).r - 0.5;''
     @ ''    rgb = mat3(1,         1,         1,     ''
     @ ''               0,        -0.39465,   2.03211,''
     @ ''               1.13983,  -0.58060,   0) * yuv;''
     @ ''    gl_FragColor = vec4(rgb, 1);'' @ ''}''"

definition vertexVertices :: "rat list" where "vertexVertices = [-1, -1, 1, -1, -1, 1, 1, 1]"
definition textureVertices :: "rat list" where "textureVertices = [0, 1, 1, 1, 0, 0, 1, 0]"

text \<open>
  What the driver answers: whether a source compiles, the location of a uniform and the name
  of the \<open>n\<close>-th texture it creates.
\<close>

record gl_env =
  ge_compiles :: "string \<Rightarrow> bool"
  ge_location :: "string \<Rightarrow> nat"
  ge_texture :: "nat \<Rightarrow> nat"

definition initializeGL :: "gl_env \<Rightarrow> video_render \<Rightarrow> video_render" where
  "initializeGL G r =
     (let r = emit [GlEnableDepthTest] r;
          r = emit [GlCompileShader True vsrc] (r\<lparr>pShaders := True\<rparr>);
          r = (if \<not> ge_compiles G vsrc then emit [GlLog ''compileSourceCode vsrc failed!'' vsrc] r else r);
          r = emit [GlCompileShader False fsrc] r;
          r = (if \<not> ge_compiles G fsrc then emit [GlLog ''compileSourceCode fsrc failed!'' fsrc] r else r);
          r = emit [GlAddShader True, GlAddShader False] (r\<lparr>program := True\<rparr>);
          r = emit [GlBindAttribute ''vertexIn'' 0, GlBindAttribute ''textureIn'' 1] r;
          r = emit [GlLink, GlBindProgram] r;
          r = emit [GlEnableAttributeArray 0, GlEnableAttributeArray 1] r;
          r = emit [GlSetAttributeBuffer 0 0 2, GlSetAttributeBuffer 1 0 2] r;
          r = emit [GlUniformLocation ''tex_y'', GlUniformLocation ''tex_u'', GlUniformLocation ''tex_v'']
                (r\<lparr>textureUniformY := ge_location G ''tex_y'', textureUniformU := ge_location G ''tex_u'',
                   textureUniformV := ge_location G ''tex_v''\<rparr>);
          r = emit [GlVertexAttribPointer 0 vertexVertices, GlVertexAttribPointer 1 textureVertices] r;
          r = emit [GlEnableVertexAttribArray 0, GlEnableVertexAttribArray 1] r;
          r = emit [GlCreateTexture 0, GlCreateTexture 1, GlCreateTexture 2] (r\<lparr>pTextures := True\<rparr>);
          r = r\<lparr>idY := ge_texture G 0, idU := ge_texture G 1, idV := ge_texture G 2\<rparr>
      in emit [GlClearColor] r)"

definition resizeGL :: "int \<Rightarrow> int \<Rightarrow> video_render \<Rightarrow> video_render" where
  "resizeGL w h r = emit [GlViewport 0 0 w h] r"

definition upload :: "nat \<Rightarrow> nat \<Rightarrow> nat \<Rightarrow> nat \<Rightarrow> nat \<Rightarrow> u8 list \<Rightarrow> video_render \<Rightarrow> video_render res" where
  "upload texture_unit texture w h off buf r =
     rbind (read_bytes off (w * h) buf) (\<lambda>bytes.
     Inr (emit [GlActiveTexture texture_unit, GlBindTexture texture, GlTexImage w h bytes,
                GlTexFilterLinear, GlTexClampToEdge] r))"

definition paintGL :: "video_render \<Rightarrow> video_render res" where
  "paintGL r =
     (if \<not> viewFlag r then Inr r
      else (let r = lock r in
        case pBufYuv420p r of None \<Rightarrow> Inl NullDereference
        | Some buf \<Rightarrow>
            (let w = mVideoW r; h = mVideoH r in
             rbind (upload 0 (idY r) w h 0 buf r) (\<lambda>r.
             rbind (mul_int w h) (\<lambda>wh.
             rbind (upload 1 (idU r) (w div 2) (h div 2) wh buf r) (\<lambda>r.
             rbind (mul_int wh 5) (\<lambda>wh5.
             rbind (upload 2 (idV r) (w div 2) (h div 2) (wh5 div 4) buf r) (\<lambda>r.
             Inr (unlock (emit [GlUniform1i (textureUniformY r) 0, GlUniform1i (textureUniformU r) 1,
                                GlUniform1i (textureUniformV r) 2, GlDrawTriangleStrip 4] r))))))))))"

section \<open>The sink\<close>

text \<open>A \<^verbatim>\<open>WebrtcVideoFrame\<close> is its window; \<^verbatim>\<open>(WINDOWID)-1\<close> is no window.\<close>

record webrtc_video_frame = wvf_window :: i64

type_synonym widgets = "i64 \<rightharpoonup> video_render"     \<comment> \<open>\<^verbatim>\<open>QWidget::find\<close>\<close>

definition WVF_new :: "i64 \<Rightarrow> webrtc_video_frame" where
  "WVF_new iWindowID = \<lparr>wvf_window = iWindowID\<rparr>"

definition WVF_destroy :: "webrtc_video_frame \<Rightarrow> webrtc_video_frame" where
  "WVF_destroy s = s\<lparr>wvf_window := -1\<rparr>"

definition WVF_GetWindowID :: "webrtc_video_frame \<Rightarrow> i64" where
  "WVF_GetWindowID s = wvf_window s"

definition WVF_SetWindowID :: "i64 \<Rightarrow> webrtc_video_frame \<Rightarrow> webrtc_video_frame" where
  "WVF_SetWindowID iWindowID s = s\<lparr>wvf_window := iWindowID\<rparr>"

text \<open>A frame put into a widget: pack, size, data, repaint.\<close>

definition show_frame :: "frame_env \<Rightarrow> i420 \<Rightarrow> video_render \<Rightarrow> video_render res" where
  "show_frame E buffer r =
     rbind (pack_frame E buffer) (\<lambda>yuvBuffer.
     rbind (SetYUVData yuvBuffer (SetVideoSize (fwidth buffer) (fheight buffer) r)) (\<lambda>r.
     Inr (SetViewStated True r)))"

definition WVF_OnFrame :: "frame_env \<Rightarrow> video_frame \<Rightarrow> webrtc_video_frame \<Rightarrow> widgets \<Rightarrow> widgets res" where
  "WVF_OnFrame E iFrame s ws =
     (let buffer = upright E iFrame in
      case ws (wvf_window s) of
        None \<Rightarrow> Inr ws
      | Some paintWidget \<Rightarrow>
          rbind (show_frame E buffer paintWidget) (\<lambda>r. Inr (ws(wvf_window s \<mapsto> r))))"

section \<open>Packing\<close>

text \<open>The arithmetic of the sizes: what is written fits what is allocated.\<close>

lemma packed_size: "wh + wh div 4 + wh div 4 \<le> wh * 3 div (2 :: nat)"
  by linarith

lemma packed_size_even:
  assumes "even w" "even (h :: nat)"
  shows "w * h + w * h div 4 + w * h div 4 = w * h * 3 div 2" "(w div 2) * (h div 2) = w * h div 4"
    "w * h * 5 div 4 = w * h + w * h div 4"
proof -
  obtain m n where "w = 2 * m" "h = 2 * n" using assms by (auto elim!: evenE)
  then have wh: "w * h = 4 * (m * n)" "(w div 2) * (h div 2) = m * n" by simp_all
  then show "w * h + w * h div 4 + w * h div 4 = w * h * 3 div 2" "(w div 2) * (h div 2) = w * h div 4"
    "w * h * 5 div 4 = w * h + w * h div 4" by simp_all
qed

definition planes_readable :: "i420 \<Rightarrow> bool" where
  "planes_readable b \<longleftrightarrow> fwidth b * fheight b \<le> length (DataY b)
     \<and> fwidth b * fheight b div 4 \<le> length (DataU b) \<and> fwidth b * fheight b div 4 \<le> length (DataV b)"

lemma pack_frame_eq:
  assumes "malloc_ok E" "int (fwidth b * fheight b * 3) \<le> INT_MAX" "planes_readable b"
  shows "\<exists>pad. pack_frame E b = Inr (take (fwidth b * fheight b) (DataY b)
      @ take (fwidth b * fheight b div 4) (DataU b) @ take (fwidth b * fheight b div 4) (DataV b) @ pad)
    \<and> fwidth b * fheight b + 2 * (fwidth b * fheight b div 4) + length pad = fwidth b * fheight b * 3 div 2"
proof -
  define wh where "wh = fwidth b * fheight b"
  have int_ok: "int wh \<le> INT_MAX" "int (wh * 3) \<le> INT_MAX" using assms(2) by (simp_all add: wh_def)
  have read: "wh \<le> length (DataY b)" "wh div 4 \<le> length (DataU b)" "wh div 4 \<le> length (DataV b)"
    using assms(3) by (simp_all add: planes_readable_def wh_def)
  obtain m where m: "fe_malloc E (wh * 3 div 2) = Some m" "length m = wh * 3 div 2"
    using assms(1) by (auto simp: malloc_ok_def)
  let ?Y = "take wh (DataY b)" and ?U = "take (wh div 4) (DataU b)" and ?V = "take (wh div 4) (DataV b)"
  have sz: "wh + wh div 4 + wh div 4 \<le> length m" using packed_size [of wh] m(2) by simp
  have c1: "memcpy 0 (DataY b) wh m = Inr (?Y @ drop wh m)"
    using memcpy_next [of "[]" 0 wh "DataY b" m] read(1) sz by simp
  have c2: "memcpy wh (DataU b) (wh div 4) (?Y @ drop wh m) = Inr ((?Y @ ?U) @ drop (wh div 4) (drop wh m))"
    using read sz by (intro memcpy_next) auto
  have c3: "memcpy (wh + wh div 4) (DataV b) (wh div 4) ((?Y @ ?U) @ drop (wh div 4) (drop wh m))
      = Inr (((?Y @ ?U) @ ?V) @ drop (wh div 4) (drop (wh div 4) (drop wh m)))"
    using read sz by (intro memcpy_next) auto
  have "pack_frame E b = Inr (((?Y @ ?U) @ ?V) @ drop (wh div 4) (drop (wh div 4) (drop wh m)))"
  proof -
    have "mul_int (fwidth b) (fheight b) = Inr wh" "mul_int wh 3 = Inr (wh * 3)"
      using int_ok by (simp_all only: mul_int_def wh_def if_True)
    then show ?thesis
      unfolding pack_frame_def by (simp only: rbind_Inr m(1) option.case Let_def c1 c2 c3)
  qed
  then show ?thesis
    using sz m(2) by (intro exI [of _ "drop (wh div 4) (drop (wh div 4) (drop wh m))"])
      (simp add: wh_def [symmetric])
qed

lemma pack_frame_exact:
  assumes "malloc_ok E" "int (fwidth b * fheight b * 3) \<le> INT_MAX" "even (fwidth b)" "even (fheight b)"
    and "length (DataY b) = fwidth b * fheight b" "length (DataU b) = fwidth b * fheight b div 4"
    "length (DataV b) = fwidth b * fheight b div 4"
  shows "pack_frame E b = Inr (DataY b @ DataU b @ DataV b)"
proof -
  have "planes_readable b" using assms by (simp add: planes_readable_def)
  from pack_frame_eq [OF assms(1,2) this] obtain pad where
    "pack_frame E b = Inr (DataY b @ DataU b @ DataV b @ pad)"
    "fwidth b * fheight b + 2 * (fwidth b * fheight b div 4) + length pad = fwidth b * fheight b * 3 div 2"
    by (auto simp: assms(5-7))
  moreover from this(2) have "length pad = 0"
    using packed_size_even(1) [OF assms(3,4)] by linarith
  ultimately show ?thesis by simp
qed

text \<open>The widget's buffer holds a frame of 1920 by 1280.\<close>

definition capacity :: "video_render \<Rightarrow> nat option" where
  "capacity r = map_option length (pBufYuv420p r)"

lemma capacity_new: "capacity (VR_new junk) = Some 3686400"
  by (simp add: capacity_def VR_new_def)

text \<open>
  C31: showing a frame never writes past its own packed copy; whether it overruns the widget
  depends on the size of the frame alone. With planes that can be read and sizes that do not
  overflow \<^verbatim>\<open>int\<close>, the frame is stored exactly when its 1.5 bytes per pixel fit the
  buffer of the widget, and is a buffer overflow otherwise: nothing checks the size.
\<close>

theorem show_frame_overflow:
  assumes "malloc_ok E" "int (fwidth b * fheight b * 3) \<le> INT_MAX" "planes_readable b"
    and "pBufYuv420p r = Some buf"
  shows "if fwidth b * fheight b * 3 div 2 \<le> length buf
    then \<exists>r'. show_frame E b r = Inr r' \<and> capacity r' = capacity r \<and> \<not> mMutex r' \<and> viewFlag r'
    else show_frame E b r = Inl BufferOverflow"
proof -
  define wh where "wh = fwidth b * fheight b"
  obtain p where p: "pack_frame E b = Inr p" "length p = wh * 3 div 2"
  proof -
    obtain pad where "pack_frame E b = Inr (take wh (DataY b) @ take (wh div 4) (DataU b) @ take (wh div 4) (DataV b) @ pad)"
      "wh + 2 * (wh div 4) + length pad = wh * 3 div 2"
      using pack_frame_eq [OF assms(1-3)] by (auto simp: wh_def)
    moreover have "wh \<le> length (DataY b)" "wh div 4 \<le> length (DataU b)" "wh div 4 \<le> length (DataV b)"
      using assms(3) by (simp_all add: planes_readable_def wh_def)
    ultimately show ?thesis using that by simp
  qed
  have "mul_int (fwidth b) (fheight b) = Inr wh" "mul_int wh 3 = Inr (wh * 3)"
    using assms(2) by (simp_all add: mul_int_def wh_def)
  then show ?thesis
    using p assms(4) by (simp add: show_frame_def SetYUVData_def SetVideoSize_def lock_def unlock_def
        memcpy_def SetViewStated_def capacity_def Let_def wh_def [symmetric])
qed

text \<open>
  What \<^verbatim>\<open>I420Buffer::Copy\<close> documents: it reads, of each plane, rows of the given width at
  the given distance (the chrominance planes have half the width and half the height,
  rounded up), and packs them without gaps.
\<close>

definition plane_bytes :: "nat \<Rightarrow> nat \<Rightarrow> nat \<Rightarrow> nat" where
  "plane_bytes stride w h = (if h = 0 then 0 else (h - 1) * stride + w)"

definition half_up :: "nat \<Rightarrow> nat" where "half_up n = (n + 1) div 2"

fun copy_rows :: "u8 list \<Rightarrow> nat \<Rightarrow> nat \<Rightarrow> nat \<Rightarrow> u8 list" where
  "copy_rows mem stride w 0 = []"
| "copy_rows mem stride w (Suc h) = take w mem @ copy_rows (drop stride mem) stride w h"

locale i420_copy =
  fixes cp :: "nat \<Rightarrow> nat \<Rightarrow> u8 list \<Rightarrow> nat \<Rightarrow> u8 list \<Rightarrow> nat \<Rightarrow> u8 list \<Rightarrow> nat \<Rightarrow> i420 res"
  assumes copies: "plane_bytes sy w h \<le> length y \<Longrightarrow> plane_bytes su (half_up w) (half_up h) \<le> length u \<Longrightarrow>
      plane_bytes sv (half_up w) (half_up h) \<le> length v \<Longrightarrow>
      \<exists>b. cp w h y sy u su v sv = Inr b \<and> fwidth b = w \<and> fheight b = h
        \<and> DataY b = copy_rows y sy w h \<and> DataU b = copy_rows u su (half_up w) (half_up h)
        \<and> DataV b = copy_rows v sv (half_up w) (half_up h)"
    and overruns: "length y < plane_bytes sy w h \<or> length u < plane_bytes su (half_up w) (half_up h)
      \<or> length v < plane_bytes sv (half_up w) (half_up h) \<Longrightarrow> cp w h y sy u su v sv = Inl BufferOverflow"

lemma copy_rows_packed: "w * h \<le> length mem \<Longrightarrow> copy_rows mem w w h = take (w * h) mem"
  by (induction h arbitrary: mem) (simp_all add: take_add [symmetric])

context i420_copy
begin

text \<open>Planes without gaps are copied as they are.\<close>

lemma copies_packed:
  assumes "0 < w" "0 < h" "even w" "even h" "w * h \<le> length y"
    "w div 2 * (h div 2) \<le> length u" "w div 2 * (h div 2) \<le> length v"
  shows "\<exists>b. cp w h y w u (w div 2) v (w div 2) = Inr b \<and> fwidth b = w \<and> fheight b = h
    \<and> DataY b = take (w * h) y \<and> DataU b = take (w div 2 * (h div 2)) u \<and> DataV b = take (w div 2 * (h div 2)) v"
proof -
  have pb: "plane_bytes k k n = k * n" for k n :: nat
    by (cases n) (simp_all add: plane_bytes_def)
  have half: "half_up w = w div 2" "half_up h = h div 2"
    using assms(3,4) by (auto simp: half_up_def elim!: evenE)
  from copies [of w w h y "w div 2" u "w div 2" v] show ?thesis
    using assms by (simp add: half pb copy_rows_packed)
qed

end

definition ref_copy :: "nat \<Rightarrow> nat \<Rightarrow> u8 list \<Rightarrow> nat \<Rightarrow> u8 list \<Rightarrow> nat \<Rightarrow> u8 list \<Rightarrow> nat \<Rightarrow> i420 res" where
  "ref_copy width height data_y stride_y data_u stride_u data_v stride_v =
     (if plane_bytes stride_y width height \<le> length data_y
         \<and> plane_bytes stride_u (half_up width) (half_up height) \<le> length data_u
         \<and> plane_bytes stride_v (half_up width) (half_up height) \<le> length data_v
      then Inr \<lparr>fwidth = width, fheight = height,
         DataY = copy_rows data_y stride_y width height,
         DataU = copy_rows data_u stride_u (half_up width) (half_up height),
         DataV = copy_rows data_v stride_v (half_up width) (half_up height),
         StrideY = width, StrideU = half_up width, StrideV = half_up width\<rparr>
      else Inl BufferOverflow)"

interpretation ref_copy: i420_copy ref_copy
  by unfold_locales (auto simp: ref_copy_def)

definition ex_fenv :: frame_env where
  "ex_fenv = \<lparr>fe_rotate = (\<lambda>b r. b), fe_copy = ref_copy, fe_malloc = (\<lambda>n. Some (replicate n 0))\<rparr>"

definition ex_frame :: i420 where
  "ex_frame = \<lparr>fwidth = 2, fheight = 2, DataY = [1, 2, 3, 4], DataU = [5], DataV = [6],
     StrideY = 2, StrideU = 1, StrideV = 1\<rparr>"

lemma ex_fenv_ok: "malloc_ok ex_fenv"
  by (simp add: malloc_ok_def ex_fenv_def)

theorem show_frame_overflow_witness:
  "\<exists>r'. show_frame ex_fenv ex_frame (VR_new (\<lambda>i. 0)) = Inr r'"
  using show_frame_overflow [OF ex_fenv_ok, of ex_frame "VR_new (\<lambda>i. 0)"]
  by (simp add: ex_frame_def planes_readable_def VR_new_def) blast



section \<open>Strides\<close>

text \<open>The luminance of column \<open>x\<close> in row \<open>y\<close>.\<close>

definition pixelY :: "i420 \<Rightarrow> nat \<Rightarrow> nat \<Rightarrow> u8" where
  "pixelY b x y = DataY b ! (y * StrideY b + x)"

text \<open>
  The copy takes the rows of a plane as if they followed each other without a gap. The
  sample that is shown at \<open>(x, y)\<close> is the right one when the stride is the width; with padded
  rows it is the sample at the same distance from the start of the plane, so the picture is
  sheared.
\<close>

lemma strides_are_ignored:
  assumes "malloc_ok E" "int (fwidth b * fheight b * 3) \<le> INT_MAX" "planes_readable b"
    and "x < fwidth b" "y < fheight b" "0 < StrideY b"
  shows "\<exists>p. pack_frame E b = Inr p
    \<and> p ! (y * fwidth b + x) = pixelY b ((y * fwidth b + x) mod StrideY b) ((y * fwidth b + x) div StrideY b)
    \<and> (StrideY b = fwidth b \<longrightarrow> p ! (y * fwidth b + x) = pixelY b x y)"
proof -
  let ?i = "y * fwidth b + x" and ?wh = "fwidth b * fheight b"
  have "?i < (y + 1) * fwidth b" using assms(4) by simp
  also have "\<dots> \<le> ?wh" using assms(5) by (metis Suc_eq_plus1 Suc_leI mult.commute mult_le_mono2)
  finally have i: "?i < ?wh" .
  obtain rest where p: "pack_frame E b = Inr (take ?wh (DataY b) @ rest)"
    using pack_frame_eq [OF assms(1-3)] by blast
  have "(take ?wh (DataY b) @ rest) ! ?i = DataY b ! ?i"
    using i assms(3) by (simp add: nth_append planes_readable_def)
  moreover have "?i = ?i div StrideY b * StrideY b + ?i mod StrideY b" by simp
  ultimately show ?thesis
    using p by (auto simp: pixelY_def)
qed

end
