(* ===== verification/Webrtc_Streams.thy ===== *)
theory Webrtc_Streams
  imports Video_Frames Text_Numbers
begin

text \<open>
  \<^verbatim>\<open>src/WebrtcStreamBase.cpp\<close>, \<^verbatim>\<open>src/WebrtcStreamDataChannels.cpp\<close> and
  \<^verbatim>\<open>src/WebrtcStreamVideoAudio.cpp\<close>: one connection to the media server and what runs over
  it. The peer connection of webrtc is not under \<^verbatim>\<open>src/\<close>: whether it can be made, whether
  a description parses and whether a channel or a track can be added are arguments of the
  model, and the calls on it are recorded. Signals to the conference layer are recorded too;
  they are delivered later, by the event loop.
\<close>

section \<open>The library\<close>

record desc =
  d_type :: string
  d_sdp :: string

datatype pc_call =
    SetBitrate nat nat nat
  | SetLocalDescription desc | SetRemoteDescription desc
  | CreateOffer | CreateAnswer
  | CreateDataChannelCall string bool
  | AddTrackCall "nat option" string

record pc =
  pc_server :: string
  pc_dtls :: bool
  pc_calls :: "pc_call list"
  pc_senders :: nat

text \<open>
  The arguments of \<open>we_pc\<close> and \<open>we_channel\<close> are the handle of the stream. A track is known
  by its number, as in \<open>Video_Capture\<close>; \<open>None\<close> is a null pointer. \<open>we_junk\<close> is what the
  allocator leaves in the window of a new stream.
\<close>

record webrtc_env =
  we_factory :: bool
  we_pc :: "i64 \<Rightarrow> bool"
  we_parse :: "string \<Rightarrow> string \<Rightarrow> desc option"
  we_channel :: "i64 \<Rightarrow> bool"
  we_add_track :: "nat option \<Rightarrow> bool"
  we_junk :: "i64 \<Rightarrow> i64"

section \<open>The base class\<close>

datatype signal =
    LocalIceCandidate i64 string u32 string
  | LocalSDP i64 string string
  | IceGatheringComplete i64

record stream_base =
  mHandleID :: i64
  mPeerConnection :: "pc option"
  emitted :: "signal list"

definition Stream_new :: "i64 \<Rightarrow> stream_base" where
  "Stream_new inHandleID = \<lparr>mHandleID = inHandleID, mPeerConnection = None, emitted = []\<rparr>"

definition Stream_destroy :: "'m stream_base_scheme \<Rightarrow> 'm stream_base_scheme" where
  "Stream_destroy s = s\<lparr>mPeerConnection := None, mHandleID := -1\<rparr>"

definition GetHandleID :: "'m stream_base_scheme \<Rightarrow> i64" where
  "GetHandleID s = mHandleID s"

definition emit_signal :: "signal \<Rightarrow> 'm stream_base_scheme \<Rightarrow> 'm stream_base_scheme" where
  "emit_signal e s = s\<lparr>emitted := emitted s @ [e]\<rparr>"

text \<open>A call through \<^verbatim>\<open>mPeerConnection\<close>.\<close>

definition pc_do :: "pc_call \<Rightarrow> 'm stream_base_scheme \<Rightarrow> 'm stream_base_scheme res" where
  "pc_do c s = (case mPeerConnection s of None \<Rightarrow> Inl NullDereference
     | Some p \<Rightarrow> Inr (s\<lparr>mPeerConnection := Some (p\<lparr>pc_calls := pc_calls p @ [c]\<rparr>)\<rparr>))"

text \<open>The observers that only write to the log.\<close>

definition OnSignalingChange :: "'m stream_base_scheme \<Rightarrow> 'm stream_base_scheme" where "OnSignalingChange s = s"
definition OnAddStream :: "'m stream_base_scheme \<Rightarrow> 'm stream_base_scheme" where "OnAddStream s = s"
definition OnRemoveStream :: "'m stream_base_scheme \<Rightarrow> 'm stream_base_scheme" where "OnRemoveStream s = s"
definition Base_OnDataChannel :: "'m stream_base_scheme \<Rightarrow> 'm stream_base_scheme" where "Base_OnDataChannel s = s"
definition OnRenegotiationNeeded :: "'m stream_base_scheme \<Rightarrow> 'm stream_base_scheme" where "OnRenegotiationNeeded s = s"
definition OnIceConnectionChange :: "'m stream_base_scheme \<Rightarrow> 'm stream_base_scheme" where "OnIceConnectionChange s = s"
definition OnStandardizedIceConnectionChange :: "'m stream_base_scheme \<Rightarrow> 'm stream_base_scheme" where
  "OnStandardizedIceConnectionChange s = s"
definition OnConnectionChange :: "'m stream_base_scheme \<Rightarrow> 'm stream_base_scheme" where "OnConnectionChange s = s"
definition OnIceCandidatesRemoved :: "'m stream_base_scheme \<Rightarrow> 'm stream_base_scheme" where "OnIceCandidatesRemoved s = s"
definition OnIceConnectionReceivingChange :: "'m stream_base_scheme \<Rightarrow> 'm stream_base_scheme" where
  "OnIceConnectionReceivingChange s = s"
definition Base_OnAddTrack :: "'m stream_base_scheme \<Rightarrow> 'm stream_base_scheme" where "Base_OnAddTrack s = s"
definition OnTrack :: "'m stream_base_scheme \<Rightarrow> 'm stream_base_scheme" where "OnTrack s = s"
definition Base_OnRemoveTrack :: "'m stream_base_scheme \<Rightarrow> 'm stream_base_scheme" where "Base_OnRemoveTrack s = s"
definition OnInterestingUsage :: "'m stream_base_scheme \<Rightarrow> 'm stream_base_scheme" where "OnInterestingUsage s = s"
definition OnFailure :: "string \<Rightarrow> 'm stream_base_scheme \<Rightarrow> 'm stream_base_scheme" where "OnFailure error s = s"

datatype ice_gathering = IceGatheringNew | IceGatheringGathering | IceGatheringDone

fun OnIceGatheringChange :: "ice_gathering \<Rightarrow> 'm stream_base_scheme \<Rightarrow> 'm stream_base_scheme" where
  "OnIceGatheringChange IceGatheringNew s = s"
| "OnIceGatheringChange IceGatheringGathering s = s"
| "OnIceGatheringChange IceGatheringDone s = emit_signal (IceGatheringComplete (mHandleID s)) s"

text \<open>\<open>None\<close> is a candidate that cannot be serialised.\<close>

record candidate =
  ic_text :: "string option"
  ic_sdp_mid :: string
  ic_sdp_mline_index :: u32

definition OnIceCandidate :: "candidate \<Rightarrow> 'm stream_base_scheme \<Rightarrow> 'm stream_base_scheme" where
  "OnIceCandidate c s = (case ic_text c of None \<Rightarrow> s
     | Some sdp \<Rightarrow> emit_signal (LocalIceCandidate (mHandleID s) (ic_sdp_mid c) (ic_sdp_mline_index c) sdp) s)"

definition OnSuccess :: "desc \<Rightarrow> 'm stream_base_scheme \<Rightarrow> 'm stream_base_scheme res" where
  "OnSuccess d s =
     rbind (pc_do (SetLocalDescription d) s) (\<lambda>s.
     Inr (emit_signal (LocalSDP (mHandleID s) (d_sdp d) (d_type d)) s))"

definition DeletePeerConnection :: "'m stream_base_scheme \<Rightarrow> 'm stream_base_scheme" where
  "DeletePeerConnection s = s\<lparr>mPeerConnection := None, mHandleID := -1\<rparr>"

text \<open>The bit rates are set before the connection is tested.\<close>

definition createPeerConnection :: "webrtc_env \<Rightarrow> bool \<Rightarrow> 'm stream_base_scheme \<Rightarrow> (bool \<times> 'm stream_base_scheme) res" where
  "createPeerConnection W dtls s =
     (if \<not> we_factory W then Inl NullDereference
      else (let s = s\<lparr>mPeerConnection := (if we_pc W (mHandleID s)
                  then Some \<lparr>pc_server = ''stun:192.168.1.104'', pc_dtls = dtls, pc_calls = [], pc_senders = 0\<rparr>
                  else None)\<rparr>
            in rbind (pc_do (SetBitrate 128000 256000 512000) s) (\<lambda>s.
               Inr (mPeerConnection s \<noteq> None, s))))"

section \<open>Negotiation\<close>

text \<open>
  Both streams answer a remote description in the same way; they differ in what they set up
  with the connection.
\<close>

definition SetPeerSDP_with ::
  "webrtc_env \<Rightarrow> ('m stream_base_scheme \<Rightarrow> (bool \<times> 'm stream_base_scheme) res) \<Rightarrow> string \<Rightarrow> string
   \<Rightarrow> 'm stream_base_scheme \<Rightarrow> (bool \<times> 'm stream_base_scheme) res" where
  "SetPeerSDP_with W initialize type sdp s =
     rbind (if mPeerConnection s = None then initialize s else Inr (True, s)) (\<lambda>(ready, s).
     if \<not> ready then Inr (False, s)
     else (case we_parse W type sdp of
       None \<Rightarrow> Inr (False, s)
     | Some session_description \<Rightarrow>
         rbind (pc_do (SetRemoteDescription session_description) s) (\<lambda>s.
         rbind (if d_type session_description = ''offer'' then pc_do CreateAnswer s else Inr s) (\<lambda>s.
         Inr (True, s)))))"

text \<open>The calls made on the connection so far; none without a connection.\<close>

definition calls_of :: "'m stream_base_scheme \<Rightarrow> pc_call list" where
  "calls_of s = (case mPeerConnection s of None \<Rightarrow> [] | Some p \<Rightarrow> pc_calls p)"

lemma pc_do_Some:
  "mPeerConnection s = Some p \<Longrightarrow> \<exists>s' p'. pc_do c s = Inr s' \<and> mPeerConnection s' = Some p'
     \<and> pc_calls p' = pc_calls p @ [c] \<and> mHandleID s' = mHandleID s \<and> emitted s' = emitted s"
  by (simp add: pc_do_def)

lemma pc_do_None [simp]: "mPeerConnection s = None \<Longrightarrow> pc_do c s = Inl NullDereference"
  by (simp add: pc_do_def)

text \<open>The calls a description leads to.\<close>

definition answer_calls :: "desc \<Rightarrow> pc_call list" where
  "answer_calls d = SetRemoteDescription d # (if d_type d = ''offer'' then [CreateAnswer] else [])"

locale negotiator =
  fixes W :: webrtc_env
    and initialize :: "'m stream_base_scheme \<Rightarrow> (bool \<times> 'm stream_base_scheme) res"
    and on_connect :: "pc_call list"
  assumes connects: "mPeerConnection s = None \<Longrightarrow> we_factory W \<Longrightarrow> we_pc W (mHandleID s) \<Longrightarrow>
      \<exists>s' p. initialize s = Inr (True, s') \<and> mPeerConnection s' = Some p \<and> pc_calls p = on_connect
        \<and> mHandleID s' = mHandleID s"
    and cannot_connect: "mPeerConnection s = None \<Longrightarrow> \<not> (we_factory W \<and> we_pc W (mHandleID s)) \<Longrightarrow>
      initialize s = Inl NullDereference"
begin

lemma set_peer_sdp:
  assumes "mPeerConnection s \<noteq> None \<or> (we_factory W \<and> we_pc W (mHandleID s))"
  shows "\<exists>s'. SetPeerSDP_with W initialize type sdp s = Inr (we_parse W type sdp \<noteq> None, s')
    \<and> mHandleID s' = mHandleID s \<and> mPeerConnection s' \<noteq> None
    \<and> calls_of s' = (if mPeerConnection s = None then on_connect else calls_of s)
        @ (case we_parse W type sdp of None \<Rightarrow> [] | Some d \<Rightarrow> answer_calls d)"
proof -
  obtain t p where t: "(if mPeerConnection s = None then initialize s else Inr (True, s)) = Inr (True, t)"
    "mPeerConnection t = Some p" "mHandleID t = mHandleID s"
    "pc_calls p = (if mPeerConnection s = None then on_connect else calls_of s)"
  proof (cases "mPeerConnection s")
    case None
    with connects [OF None] assms that show ?thesis by auto
  next
    case (Some q)
    with that [of s q] show ?thesis by (simp add: calls_of_def)
  qed
  have run: "SetPeerSDP_with W initialize type sdp s = (case we_parse W type sdp of
       None \<Rightarrow> Inr (False, t)
     | Some d \<Rightarrow> rbind (pc_do (SetRemoteDescription d) t) (\<lambda>s.
         rbind (if d_type d = ''offer'' then pc_do CreateAnswer s else Inr s) (\<lambda>s. Inr (True, s))))"
    unfolding SetPeerSDP_with_def t(1) by simp
  show ?thesis
  proof (cases "we_parse W type sdp")
    case None
    with run have "SetPeerSDP_with W initialize type sdp s = Inr (False, t)" by simp
    with None t show ?thesis by (simp add: calls_of_def)
  next
    case (Some d)
    with run t show ?thesis by (simp add: calls_of_def answer_calls_def pc_do_def)
  qed
qed

lemma set_peer_sdp_fails:
  "mPeerConnection s = None \<Longrightarrow> \<not> (we_factory W \<and> we_pc W (mHandleID s)) \<Longrightarrow>
   SetPeerSDP_with W initialize type sdp s = Inl NullDereference"
  unfolding SetPeerSDP_with_def by (simp add: cannot_connect)

lemma set_peer_sdp_handle:
  assumes "SetPeerSDP_with W initialize type sdp s = Inr (b, t)"
  shows "mHandleID t = mHandleID s"
proof (cases "mPeerConnection s \<noteq> None \<or> (we_factory W \<and> we_pc W (mHandleID s))")
  case True
  from set_peer_sdp [OF this, of type sdp] assms show ?thesis by (elim exE conjE) simp
next
  case False
  then have "SetPeerSDP_with W initialize type sdp s = Inl NullDereference"
    by (intro set_peer_sdp_fails) simp_all
  with assms show ?thesis by simp
qed

lemma set_peer_sdp_faults:
  "SetPeerSDP_with W initialize type sdp s = Inl e \<Longrightarrow> e = NullDereference"
  using set_peer_sdp [of s type sdp] set_peer_sdp_fails [of s type sdp] by auto

end

section \<open>Data channels\<close>

datatype data_state = Connecting | Open | Closing | Closed

record data_channel =
  dch_label :: string
  dch_state :: data_state
  dch_sent :: "string list"
  dch_observed :: bool

text \<open>\<open>'r\<close> names the functions bound to the two callbacks.\<close>

record 'r dc_stream = stream_base +
  mDataChannel :: "data_channel option"
  OnRecvMessage :: "'r option"
  OnSendLocalInfoWhenOpenDataChannel :: "'r option"
  closed_channels :: "data_channel list"

definition DC_new :: "i64 \<Rightarrow> 'r dc_stream" where
  "DC_new h = \<lparr>mHandleID = h, mPeerConnection = None, emitted = [],
     mDataChannel = None, OnRecvMessage = None, OnSendLocalInfoWhenOpenDataChannel = None, closed_channels = []\<rparr>"

definition CreateDataChannel :: "webrtc_env \<Rightarrow> 'r dc_stream \<Rightarrow> (bool \<times> 'r dc_stream) res" where
  "CreateDataChannel W s =
     rbind (pc_do (CreateDataChannelCall ''UbuntuWebrtcDemo'' True) s) (\<lambda>s.
     if we_channel W (mHandleID s)
     then Inr (True, s\<lparr>mDataChannel := Some \<lparr>dch_label = ''UbuntuWebrtcDemo'', dch_state = Connecting,
            dch_sent = [], dch_observed = True\<rparr>\<rparr>)
     else Inr (False, s\<lparr>mDataChannel := None\<rparr>))"

definition CloseDataChannel :: "'r dc_stream \<Rightarrow> 'r dc_stream" where
  "CloseDataChannel s =
     (let s = (case mDataChannel s of None \<Rightarrow> s
        | Some ch \<Rightarrow> s\<lparr>closed_channels := closed_channels s @ [ch\<lparr>dch_observed := False, dch_state := Closing\<rparr>]\<rparr>)
      in s\<lparr>mDataChannel := None\<rparr>)"

definition DC_destroy :: "'r dc_stream \<Rightarrow> 'r dc_stream" where
  "DC_destroy s = (CloseDataChannel s)\<lparr>mPeerConnection := None, mHandleID := -1\<rparr>"

definition SendDataViaDataChannel :: "string \<Rightarrow> 'r dc_stream \<Rightarrow> bool \<times> 'r dc_stream" where
  "SendDataViaDataChannel data s =
     (case mDataChannel s of None \<Rightarrow> (False, s)
      | Some ch \<Rightarrow> (True, s\<lparr>mDataChannel := Some (ch\<lparr>dch_sent := dch_sent ch @ [data]\<rparr>)\<rparr>))"

definition RegisterRecvMessageCallBack :: "'r \<Rightarrow> 'r dc_stream \<Rightarrow> 'r dc_stream" where
  "RegisterRecvMessageCallBack callback s = s\<lparr>OnRecvMessage := Some callback\<rparr>"

definition RegisterSendLocalInfoWhenOpenDataChannelCallBack :: "'r \<Rightarrow> 'r dc_stream \<Rightarrow> 'r dc_stream" where
  "RegisterSendLocalInfoWhenOpenDataChannelCallBack callback s =
     s\<lparr>OnSendLocalInfoWhenOpenDataChannel := Some callback\<rparr>"

definition DC_initializePeerConnection :: "webrtc_env \<Rightarrow> 'r dc_stream \<Rightarrow> (bool \<times> 'r dc_stream) res" where
  "DC_initializePeerConnection W s =
     rbind (createPeerConnection W True s) (\<lambda>(made, s).
     let s = (if \<not> made then DeletePeerConnection s else s) in
     rbind (CreateDataChannel W s) (\<lambda>(created, s).
     Inr (mPeerConnection s \<noteq> None, s)))"

definition DC_SetPeerSDP :: "webrtc_env \<Rightarrow> string \<Rightarrow> string \<Rightarrow> 'r dc_stream \<Rightarrow> (bool \<times> 'r dc_stream) res" where
  "DC_SetPeerSDP W = SetPeerSDP_with W (DC_initializePeerConnection W)"

interpretation dc: negotiator W "DC_initializePeerConnection W"
    "[SetBitrate 128000 256000 512000, CreateDataChannelCall ''UbuntuWebrtcDemo'' True]"
  for W
  by unfold_locales
    (auto simp: DC_initializePeerConnection_def createPeerConnection_def CreateDataChannel_def pc_do_def Let_def)

text \<open>A channel opened by the other side is observed, but not kept.\<close>

definition DC_OnDataChannel :: "data_channel \<Rightarrow> data_channel" where
  "DC_OnDataChannel ch = ch\<lparr>dch_observed := True\<rparr>"

text \<open>
  The callback runs in the layer above, on its state \<open>w\<close>, and writes the text to be sent.
\<close>

definition DC_OnStateChange ::
  "('r \<Rightarrow> 'w \<Rightarrow> string \<times> 'w) \<Rightarrow> 'r dc_stream \<Rightarrow> 'w \<Rightarrow> 'r dc_stream \<times> 'w" where
  "DC_OnStateChange run s w =
     (case mDataChannel s of None \<Rightarrow> (s, w)
      | Some ch \<Rightarrow>
          (if dch_state ch = Open then
             (case OnSendLocalInfoWhenOpenDataChannel s of None \<Rightarrow> (s, w)
              | Some f \<Rightarrow>
                  (let (sendMessage, w) = run f w;
                       (sent, s) = SendDataViaDataChannel sendMessage s
                   in (s\<lparr>OnSendLocalInfoWhenOpenDataChannel := None\<rparr>, w)))
           else (s, w)))"

text \<open>\<^verbatim>\<open>OnRecvMessage(msg)\<close> converts a \<^verbatim>\<open>char*\<close>: the text ends at the first zero byte.\<close>

definition DC_OnMessage :: "string \<Rightarrow> 'r dc_stream \<Rightarrow> ('r \<times> string) option" where
  "DC_OnMessage buffer s =
     (let msg = buffer @ [nul] in
      case OnRecvMessage s of None \<Rightarrow> None | Some f \<Rightarrow> Some (f, c_str msg))"

section \<open>Video and audio\<close>

text \<open>\<^verbatim>\<open>WebrtcVideoFrame *mRender\<close> is not initialised by the constructor.\<close>

datatype render_ptr = RenderUninitialized | RenderNull | RenderObj webrtc_video_frame

datatype track_call = AddSink nat i64 | RemoveSink nat

record va_stream = stream_base +
  mIsLocal :: bool
  mVideoTrack :: "nat option"
  mRender :: render_ptr
  va_window :: i64                \<comment> \<open>\<^verbatim>\<open>mWindowID\<close>\<close>
  track_calls :: "track_call list"

definition VA_new :: "i64 \<Rightarrow> i64 \<Rightarrow> va_stream" where
  "VA_new junk_window h = \<lparr>mHandleID = h, mPeerConnection = None, emitted = [],
     mIsLocal = False, mVideoTrack = None, mRender = RenderUninitialized, va_window = junk_window, track_calls = []\<rparr>"

definition VA_SetWindowID :: "i64 \<Rightarrow> va_stream \<Rightarrow> va_stream" where
  "VA_SetWindowID iWindowID s = s\<lparr>va_window := iWindowID\<rparr>"

definition VA_GetWindowID :: "va_stream \<Rightarrow> i64" where "VA_GetWindowID s = va_window s"

definition VA_SetIsLocal :: "bool \<Rightarrow> va_stream \<Rightarrow> va_stream" where
  "VA_SetIsLocal inIsLocal s = s\<lparr>mIsLocal := inIsLocal\<rparr>"

definition VA_GetIsLocal :: "va_stream \<Rightarrow> bool" where "VA_GetIsLocal s = mIsLocal s"

definition StartView :: "va_stream \<Rightarrow> va_stream" where
  "StartView s = (case mVideoTrack s of None \<Rightarrow> s
     | Some t \<Rightarrow> s\<lparr>mRender := RenderObj (WVF_new (va_window s)),
                   track_calls := track_calls s @ [AddSink t (va_window s)]\<rparr>)"

definition render_SetWindowID :: "i64 \<Rightarrow> va_stream \<Rightarrow> va_stream res" where
  "render_SetWindowID w s = (case mRender s of
       RenderUninitialized \<Rightarrow> Inl UninitializedPointer
     | RenderNull \<Rightarrow> Inl NullDereference
     | RenderObj r \<Rightarrow> Inr (s\<lparr>mRender := RenderObj (WVF_SetWindowID w r)\<rparr>))"

definition StopView :: "va_stream \<Rightarrow> va_stream res" where
  "StopView s = (case mVideoTrack s of None \<Rightarrow> Inr s
     | Some t \<Rightarrow> render_SetWindowID (-1) (s\<lparr>track_calls := track_calls s @ [RemoveSink t], mVideoTrack := None\<rparr>))"

definition VA_destroy :: "va_stream \<Rightarrow> va_stream res" where
  "VA_destroy s =
     rbind (StopView s) (\<lambda>s.
     let s = s\<lparr>mVideoTrack := None\<rparr> in
     rbind (case mRender s of RenderUninitialized \<Rightarrow> Inl UninitializedPointer | _ \<Rightarrow> Inr s) (\<lambda>s.
     Inr (Stream_destroy (s\<lparr>mRender := RenderNull, va_window := -1\<rparr>))))"

text \<open>
  \<open>tracks\<close> are the audio and the video track of \<^verbatim>\<open>CapturerTrackSource::GetInstall()\<close>. A
  sender is counted when its track is accepted.
\<close>

definition add_track :: "webrtc_env \<Rightarrow> nat option \<Rightarrow> pc \<Rightarrow> pc" where
  "add_track W track p = p\<lparr>pc_calls := pc_calls p @ [AddTrackCall track ''stream_id''],
     pc_senders := pc_senders p + (if we_add_track W track then 1 else 0)\<rparr>"

definition addTracks :: "webrtc_env \<Rightarrow> nat option \<times> nat option \<Rightarrow> va_stream \<Rightarrow> va_stream res" where
  "addTracks W tracks s = (case mPeerConnection s of None \<Rightarrow> Inl NullDereference
     | Some p \<Rightarrow>
         (if pc_senders p \<noteq> 0 then Inr s
          else Inr (s\<lparr>mPeerConnection := Some (add_track W (snd tracks) (add_track W (fst tracks) p))\<rparr>)))"

definition VA_initializePeerConnection ::
  "webrtc_env \<Rightarrow> nat option \<times> nat option \<Rightarrow> va_stream \<Rightarrow> (bool \<times> va_stream) res" where
  "VA_initializePeerConnection W tracks s =
     rbind (createPeerConnection W True s) (\<lambda>(made, s).
     let s = (if \<not> made then DeletePeerConnection s else s) in
     rbind (addTracks W tracks s) (\<lambda>s.
     Inr (mPeerConnection s \<noteq> None, s)))"

definition VA_ConnectToPeer :: "webrtc_env \<Rightarrow> nat option \<times> nat option \<Rightarrow> va_stream \<Rightarrow> va_stream res" where
  "VA_ConnectToPeer W tracks s =
     (if mPeerConnection s \<noteq> None then Inr s
      else rbind (VA_initializePeerConnection W tracks s) (\<lambda>(ok, s).
           if ok then pc_do CreateOffer s else Inr s))"

definition VA_SetPeerSDP ::
  "webrtc_env \<Rightarrow> nat option \<times> nat option \<Rightarrow> string \<Rightarrow> string \<Rightarrow> va_stream \<Rightarrow> (bool \<times> va_stream) res" where
  "VA_SetPeerSDP W tracks = SetPeerSDP_with W (VA_initializePeerConnection W tracks)"

interpretation va: negotiator W "VA_initializePeerConnection W tracks"
    "[SetBitrate 128000 256000 512000, AddTrackCall (fst tracks) ''stream_id'', AddTrackCall (snd tracks) ''stream_id'']"
  for W tracks
  by unfold_locales
    (auto simp: VA_initializePeerConnection_def createPeerConnection_def addTracks_def add_track_def pc_do_def Let_def)

text \<open>A received track: whether it is video, and its number.\<close>

definition VA_OnAddTrack :: "bool \<Rightarrow> nat \<Rightarrow> va_stream \<Rightarrow> va_stream" where
  "VA_OnAddTrack is_video t s =
     (if is_video then (if \<not> mIsLocal s then StartView (s\<lparr>mVideoTrack := Some t\<rparr>) else s) else s)"

definition VA_OnRemoveTrack :: "bool \<Rightarrow> va_stream \<Rightarrow> va_stream res" where
  "VA_OnRemoveTrack is_video s =
     (if \<not> mIsLocal s then (if is_video then StopView s else Inr s) else Inr s)"

section \<open>What a description leads to\<close>

lemmas init_defs = VA_initializePeerConnection_def DC_initializePeerConnection_def createPeerConnection_def
  addTracks_def add_track_def CreateDataChannel_def pc_do_def Let_def

text \<open>
  A remote description makes the connection if there is none, with the two local tracks
  as its only tracks, is handed to it if it parses, and is answered exactly once if it is an
  offer; the result tells whether it parsed. A text that does not parse leaves a fresh
  connection behind, without a description.
\<close>

lemma description_is_answered_once:
  assumes "mPeerConnection s \<noteq> None \<or> (we_factory W \<and> we_pc W (mHandleID s))"
  shows "\<exists>s'. VA_SetPeerSDP W tracks type sdp s = Inr (we_parse W type sdp \<noteq> None, s')
    \<and> mHandleID s' = mHandleID s
    \<and> calls_of s' =
        (if mPeerConnection s = None
         then [SetBitrate 128000 256000 512000, AddTrackCall (fst tracks) ''stream_id'', AddTrackCall (snd tracks) ''stream_id'']
         else calls_of s)
        @ (case we_parse W type sdp of None \<Rightarrow> []
           | Some d \<Rightarrow> SetRemoteDescription d # (if d_type d = ''offer'' then [CreateAnswer] else []))"
  using va.set_peer_sdp [OF assms, of tracks type sdp]
  unfolding VA_SetPeerSDP_def answer_calls_def by blast

text \<open>
  A connection that cannot be made is never reported: the bit rates are set on the null
  pointer first, so \<^verbatim>\<open>initializePeerConnection\<close> returns only true, the branches for its
  failure are never taken, and a description or a request to connect is a null dereference.
\<close>

lemma connection_failure_faults:
  assumes "mPeerConnection s = None" "mPeerConnection t = None"
    and "\<not> (we_factory W \<and> we_pc W (mHandleID s))" "\<not> (we_factory W \<and> we_pc W (mHandleID t))"
  shows "VA_SetPeerSDP W tracks type sdp s = Inl NullDereference \<and> VA_ConnectToPeer W tracks s = Inl NullDereference
    \<and> DC_SetPeerSDP W type sdp t = Inl NullDereference
    \<and> (\<forall>W s b s'. VA_initializePeerConnection W tracks s = Inr (b, s') \<longrightarrow> b)
    \<and> (\<forall>W t b t'. DC_initializePeerConnection W t = Inr (b, t' :: 'r dc_stream) \<longrightarrow> b)"
  using assms va.set_peer_sdp_fails [of s W tracks type sdp] dc.set_peer_sdp_fails [of t W type sdp]
    va.cannot_connect [of s W tracks]
  by (auto simp: VA_SetPeerSDP_def DC_SetPeerSDP_def VA_ConnectToPeer_def init_defs split: if_splits)

section \<open>The local information\<close>

text \<open>The channel goes through some states; each change is told to the stream.\<close>

definition channel_state :: "data_state \<Rightarrow> 'r dc_stream \<Rightarrow> 'r dc_stream" where
  "channel_state st s = s\<lparr>mDataChannel := map_option (\<lambda>ch. ch\<lparr>dch_state := st\<rparr>) (mDataChannel s)\<rparr>"

fun channel_states ::
  "('r \<Rightarrow> 'w \<Rightarrow> string \<times> 'w) \<Rightarrow> data_state list \<Rightarrow> 'r dc_stream \<Rightarrow> 'w \<Rightarrow> 'r dc_stream \<times> 'w" where
  "channel_states run [] s w = (s, w)"
| "channel_states run (st # sts) s w =
     (let (s, w) = DC_OnStateChange run (channel_state st s) w in channel_states run sts s w)"

definition sent_by :: "'r dc_stream \<Rightarrow> string list" where
  "sent_by s = (case mDataChannel s of None \<Rightarrow> [] | Some ch \<Rightarrow> dch_sent ch)"

lemma channel_states_done:
  "OnSendLocalInfoWhenOpenDataChannel s = None \<Longrightarrow> channel_states run sts s w = (s', w') \<Longrightarrow>
   sent_by s' = sent_by s \<and> w' = w"
proof (induction sts arbitrary: s)
  case Nil
  then show ?case by simp
next
  case (Cons st sts)
  have "DC_OnStateChange run (channel_state st s) w = (channel_state st s, w)"
    "OnSendLocalInfoWhenOpenDataChannel (channel_state st s) = None"
    "sent_by (channel_state st s) = sent_by s"
    using Cons.prems(1) by (simp_all add: DC_OnStateChange_def channel_state_def sent_by_def split: option.splits)
  with Cons show ?case by simp
qed

text \<open>
  However often the channel changes its state, the callback runs exactly once, when the
  channel is first open, and its text is sent once; if the channel never opens, nothing is
  sent and the callback does not run.
\<close>

lemma local_info_sent_once:
  assumes "mDataChannel s = Some ch" "OnSendLocalInfoWhenOpenDataChannel s = Some f"
    and "channel_states run sts s w = (s', w')"
  shows "sent_by s' = dch_sent ch @ (if Open \<in> set sts then [fst (run f w)] else [])
    \<and> w' = (if Open \<in> set sts then snd (run f w) else w)"
  using assms
proof (induction sts arbitrary: s ch)
  case Nil
  then show ?case by (auto simp: sent_by_def)
next
  case (Cons st sts)
  let ?ch = "ch\<lparr>dch_state := st\<rparr>"
  have ch: "mDataChannel (channel_state st s) = Some ?ch"
    "OnSendLocalInfoWhenOpenDataChannel (channel_state st s) = Some f"
    using Cons.prems by (simp_all add: channel_state_def)
  show ?case
  proof (cases "st = Open")
    case False
    then have step: "DC_OnStateChange run (channel_state st s) w = (channel_state st s, w)"
      using ch by (simp add: DC_OnStateChange_def)
    have "Open \<in> set (st # sts) \<longleftrightarrow> Open \<in> set sts" using False by simp
    moreover have "channel_states run sts (channel_state st s) w = (s', w')"
      using Cons.prems(3) step by simp
    ultimately show ?thesis using Cons.IH [OF ch] by simp
  next
    case True
    let ?t = "(channel_state st s)\<lparr>mDataChannel := Some (?ch\<lparr>dch_sent := dch_sent ?ch @ [fst (run f w)]\<rparr>),
      OnSendLocalInfoWhenOpenDataChannel := None\<rparr>"
    have "DC_OnStateChange run (channel_state st s) w = (?t, snd (run f w))"
      using ch True by (simp add: DC_OnStateChange_def SendDataViaDataChannel_def split: prod.splits)
    then have "channel_states run sts ?t (snd (run f w)) = (s', w')"
      using Cons.prems(3) by simp
    from channel_states_done [OF _ this] True show ?thesis by (simp add: sent_by_def)
  qed
qed

text \<open>
  A received message is handed on as a C string: it is cut at its first zero byte, and
  it arrives whole exactly when it has none.
\<close>

lemma received_message_is_cut:
  assumes "OnRecvMessage s = Some f"
  shows "DC_OnMessage buffer s = Some (f, takeWhile (\<lambda>c. c \<noteq> nul) buffer)
    \<and> (DC_OnMessage buffer s = Some (f, buffer) \<longleftrightarrow> nul \<notin> set buffer)"
proof (intro conjI)
  have c: "c_str (buffer @ [nul]) = takeWhile (\<lambda>c. c \<noteq> nul) buffer"
    by (induction buffer) (simp_all add: c_str_def)
  show "DC_OnMessage buffer s = Some (f, takeWhile (\<lambda>c. c \<noteq> nul) buffer)"
    by (simp add: DC_OnMessage_def assms c)
  show "DC_OnMessage buffer s = Some (f, buffer) \<longleftrightarrow> nul \<notin> set buffer"
    by (auto simp: DC_OnMessage_def assms c takeWhile_eq_all_conv)
qed

section \<open>The life of a video stream\<close>

datatype va_event =
    SetWindow i64 | SetLocal bool | TrackAdded bool nat | TrackRemoved bool | ViewStopped
  | Connected | Described string string

fun va_do :: "webrtc_env \<Rightarrow> nat option \<times> nat option \<Rightarrow> va_event \<Rightarrow> va_stream \<Rightarrow> va_stream res" where
  "va_do W tr (SetWindow w) s = Inr (VA_SetWindowID w s)"
| "va_do W tr (SetLocal b) s = Inr (VA_SetIsLocal b s)"
| "va_do W tr (TrackAdded v t) s = Inr (VA_OnAddTrack v t s)"
| "va_do W tr (TrackRemoved v) s = VA_OnRemoveTrack v s"
| "va_do W tr ViewStopped s = StopView s"
| "va_do W tr Connected s = VA_ConnectToPeer W tr s"
| "va_do W tr (Described type sdp) s = rbind (VA_SetPeerSDP W tr type sdp s) (\<lambda>(ok, s). Inr s)"

text \<open>A stream with a video track has a renderer.\<close>

definition va_ok :: "va_stream \<Rightarrow> bool" where
  "va_ok s \<longleftrightarrow> mVideoTrack s = None \<or> (\<exists>r. mRender s = RenderObj r)"

text \<open>Connecting leaves the video side of a stream alone.\<close>

definition same_view :: "va_stream \<Rightarrow> va_stream \<Rightarrow> bool" where
  "same_view s t \<longleftrightarrow> mVideoTrack t = mVideoTrack s \<and> mRender t = mRender s \<and> mIsLocal t = mIsLocal s
     \<and> va_window t = va_window s"

lemma initialize_view: "VA_initializePeerConnection W tr s = Inr (b, t) \<Longrightarrow> same_view s t"
  by (auto simp: init_defs same_view_def split: if_splits)

lemma connect_view: "VA_ConnectToPeer W tr s = Inr t \<Longrightarrow> same_view s t"
  using initialize_view [of W tr s]
  by (auto simp: VA_ConnectToPeer_def rbind_eq_Inr pc_do_def same_view_def split: if_splits option.splits)

lemma sdp_view: "VA_SetPeerSDP W tr type sdp s = Inr (ok, t) \<Longrightarrow> same_view s t"
  using initialize_view [of W tr s]
  by (auto simp: VA_SetPeerSDP_def SetPeerSDP_with_def rbind_eq_Inr pc_do_def same_view_def
      split: if_splits option.splits prod.splits)

lemma StopView_ok: "va_ok s \<Longrightarrow> \<exists>t. StopView s = Inr t \<and> mVideoTrack t = None \<and> mIsLocal t = mIsLocal s
    \<and> mHandleID t = mHandleID s \<and> (mRender t = RenderUninitialized \<longleftrightarrow> mRender s = RenderUninitialized)"
  by (auto simp: StopView_def va_ok_def render_SetWindowID_def split: option.splits)

lemma StopView_None [simp]: "mVideoTrack s = None \<Longrightarrow> StopView s = Inr s"
  by (simp add: StopView_def)

lemma VA_destroy_cases:
  assumes "va_ok s"
  shows "(mRender s = RenderUninitialized \<longrightarrow> VA_destroy s = Inl UninitializedPointer)
    \<and> (mRender s \<noteq> RenderUninitialized \<longrightarrow> (\<exists>t. VA_destroy s = Inr t))"
proof -
  obtain t where "StopView s = Inr t" "mRender t = RenderUninitialized \<longleftrightarrow> mRender s = RenderUninitialized"
    using StopView_ok [OF assms] by blast
  then show ?thesis by (cases "mRender t") (auto simp: VA_destroy_def Let_def)
qed

lemma va_do_ok:
  assumes "va_ok s"
  shows "case va_do W tr e s of
      Inl f \<Rightarrow> f = NullDereference
    | Inr t \<Rightarrow> va_ok t \<and> (mRender s \<noteq> RenderUninitialized \<longrightarrow> mRender t \<noteq> RenderUninitialized)
        \<and> (mRender s = RenderUninitialized \<and> (\<forall>n. e \<noteq> TrackAdded True n) \<longrightarrow> mRender t = RenderUninitialized)
        \<and> ((\<forall>b. e \<noteq> SetLocal b) \<longrightarrow> mIsLocal t = mIsLocal s)"
proof (cases e)
  case Connected
  have "va_do W tr e s = Inl f \<Longrightarrow> f = NullDereference" for f
    by (auto simp: Connected VA_ConnectToPeer_def init_defs split: if_splits option.splits)
  with connect_view [of W tr s] assms show ?thesis
    by (auto simp: Connected va_ok_def same_view_def split: sum.splits)
next
  case (Described type sdp)
  have "va_do W tr e s = Inl f \<Longrightarrow> f = NullDereference" for f
    using va.set_peer_sdp_faults [of W tr type sdp s f]
    by (auto simp: Described VA_SetPeerSDP_def rbind_eq_Inl)
  with sdp_view [of W tr type sdp s] assms show ?thesis
    by (auto simp: Described va_ok_def same_view_def rbind_eq_Inr split: sum.splits prod.splits)
qed (use assms StopView_ok [OF assms] in
  \<open>auto simp: va_ok_def VA_SetWindowID_def VA_SetIsLocal_def VA_OnAddTrack_def StartView_def
    VA_OnRemoveTrack_def\<close>)

lemma va_ok_new [simp]: "va_ok (VA_new jw h)" "mRender (VA_new jw h) = RenderUninitialized"
  by (simp_all add: va_ok_def VA_new_def)

lemma va_run_ok:
  assumes "va_ok s" "rfold (va_do W tr) es s = r"
  shows "case r of
      Inl f \<Rightarrow> f = NullDereference
    | Inr t \<Rightarrow> va_ok t \<and> (mRender s \<noteq> RenderUninitialized \<longrightarrow> mRender t \<noteq> RenderUninitialized)
        \<and> (mRender s = RenderUninitialized \<and> (\<forall>n. TrackAdded True n \<notin> set es) \<longrightarrow> mRender t = RenderUninitialized)
        \<and> ((\<forall>b. SetLocal b \<notin> set es) \<longrightarrow> mIsLocal t = mIsLocal s)"
  using assms
proof (induction es arbitrary: s)
  case Nil
  then show ?case by auto
next
  case (Cons e es)
  note step = va_do_ok [OF Cons.prems(1), where W = W and tr = tr and e = e]
  show ?case
  proof (cases "va_do W tr e s")
    case (Inl f)
    with step Cons.prems(2) show ?thesis by auto
  next
    case (Inr t)
    with step have t: "va_ok t" by simp
    have r: "rfold (va_do W tr) es t = r" using Cons.prems(2) Inr by simp
    show ?thesis
      using step Inr Cons.IH [OF t r] by (auto split: sum.splits)
  qed
qed


section \<open>Witnesses\<close>

definition ex_wenv :: webrtc_env where
  "ex_wenv = \<lparr>we_factory = True, we_pc = (\<lambda>h. h \<noteq> 0), we_parse = (\<lambda>ty sdp. Some \<lparr>d_type = ty, d_sdp = sdp\<rparr>),
     we_channel = (\<lambda>h. True), we_add_track = (\<lambda>t. t \<noteq> None), we_junk = (\<lambda>h. 99)\<rparr>"

lemma ex_stream [simp]:
  "we_factory ex_wenv" "we_pc ex_wenv h \<longleftrightarrow> h \<noteq> 0" "we_parse ex_wenv ty sdp = Some \<lparr>d_type = ty, d_sdp = sdp\<rparr>"
  "mPeerConnection (VA_new jw h) = None" "mHandleID (VA_new jw h) = h"
  "mPeerConnection (DC_new h) = None" "mHandleID (DC_new h) = h"
  by (simp_all add: ex_wenv_def VA_new_def DC_new_def)

definition ex_channel :: "unit dc_stream" where
  "ex_channel = (DC_new 5)\<lparr>mDataChannel := Some \<lparr>dch_label = ''c'', dch_state = Connecting, dch_sent = [], dch_observed = True\<rparr>,
     OnSendLocalInfoWhenOpenDataChannel := Some (), OnRecvMessage := Some ()\<rparr>"


end
