(* ===== verification/Shared_Pointers.thy ===== *)
theory Shared_Pointers
  imports Demo_Prelude "HOL-Library.Multiset"
begin

text \<open>
  The shared objects of webrtc, from the headers the program compiles:
  \<^verbatim>\<open>rtc_base/atomic_ops.h\<close>, \<^verbatim>\<open>rtc_base/ref_counter.h\<close>, \<^verbatim>\<open>rtc_base/ref_counted_object.h\<close> and
  \<^verbatim>\<open>api/scoped_refptr.h\<close>. The count is an \<^verbatim>\<open>int\<close> that wraps. Programs that only use the smart
  pointers never touch a deleted object and leave none behind; the operations on shared
  objects in \<open>Conference\<close> are shown to be these operations.
\<close>

section \<open>The counter\<close>

text \<open>The new content of the cell, which is the result too.\<close>

definition AtomicOps_Increment :: "u32 \<Rightarrow> u32" where "AtomicOps_Increment i = i + 1"
definition AtomicOps_Decrement :: "u32 \<Rightarrow> u32" where "AtomicOps_Decrement i = i - 1"
definition AtomicOps_AcquireLoad :: "'a \<Rightarrow> 'a" where "AtomicOps_AcquireLoad i = i"
definition AtomicOps_ReleaseStore :: "'a \<Rightarrow> 'a \<Rightarrow> 'a" where "AtomicOps_ReleaseStore i value = value"

text \<open>The old content, which is the result, and the new one; the cell may hold a pointer.\<close>

definition AtomicOps_CompareAndSwap :: "'a \<Rightarrow> 'a \<Rightarrow> 'a \<Rightarrow> 'a \<times> 'a" where
  "AtomicOps_CompareAndSwap i old_value new_value = (i, if i = old_value then new_value else i)"

datatype RefCountReleaseStatus = kDroppedLastRef | kOtherRefsRemained

definition IncRef :: "u32 \<Rightarrow> u32" where "IncRef ref_count = AtomicOps_Increment ref_count"

definition DecRef :: "u32 \<Rightarrow> RefCountReleaseStatus \<times> u32" where
  "DecRef ref_count = (let ref_count = AtomicOps_Decrement ref_count
     in (if ref_count = 0 then kDroppedLastRef else kOtherRefsRemained, ref_count))"

definition Counter_HasOneRef :: "u32 \<Rightarrow> bool" where
  "Counter_HasOneRef ref_count \<longleftrightarrow> AtomicOps_AcquireLoad ref_count = 1"

section \<open>Counted objects\<close>

text \<open>\<^verbatim>\<open>RefCountedObject<T>\<close> is a \<open>T\<close> with a count; the store holds the ones that are not deleted.\<close>

record 'a counted =
  payload :: 'a
  ref_cell :: u32               \<comment> \<open>\<^verbatim>\<open>ref_count_.ref_count_\<close>\<close>

record 'a store =
  objs :: "addr \<rightharpoonup> 'a counted"
  next_obj :: nat

definition store_empty :: "'a store" where
  "store_empty = \<lparr>objs = Map.empty, next_obj = 0\<rparr>"

definition RefCountedObject_new :: "'a \<Rightarrow> 'a store \<Rightarrow> addr \<times> 'a store" where
  "RefCountedObject_new x s = (let a = Addr (next_obj s)
     in (a, s\<lparr>objs := (objs s)(a \<mapsto> \<lparr>payload = x, ref_cell = 0\<rparr>), next_obj := Suc (next_obj s)\<rparr>))"

definition obj_at :: "addr \<Rightarrow> 'a store \<Rightarrow> 'a counted res" where
  "obj_at a s = (case objs s a of None \<Rightarrow> Inl (UseAfterFree a) | Some ob \<Rightarrow> Inr ob)"

definition set_count :: "addr \<Rightarrow> u32 \<Rightarrow> 'a counted \<Rightarrow> 'a store \<Rightarrow> 'a store" where
  "set_count a n ob s = s\<lparr>objs := (objs s)(a \<mapsto> ob\<lparr>ref_cell := n\<rparr>)\<rparr>"

definition AddRef :: "addr \<Rightarrow> 'a store \<Rightarrow> 'a store res" where
  "AddRef a s = rbind (obj_at a s) (\<lambda>ob. Inr (set_count a (IncRef (ref_cell ob)) ob s))"

text \<open>\<open>dtor\<close> is the destructor of \<open>T\<close>, which may fault.\<close>

definition Release ::
  "('a \<Rightarrow> unit res) \<Rightarrow> addr \<Rightarrow> 'a store \<Rightarrow> (RefCountReleaseStatus \<times> 'a store) res" where
  "Release dtor a s = rbind (obj_at a s) (\<lambda>ob.
     let (status, n) = DecRef (ref_cell ob); s = set_count a n ob s
     in if status = kDroppedLastRef
        then rbind (dtor (payload ob)) (\<lambda>_. Inr (status, s\<lparr>objs := (objs s)(a := None)\<rparr>))
        else Inr (status, s))"

definition HasOneRef :: "addr \<Rightarrow> 'a store \<Rightarrow> bool res" where
  "HasOneRef a s = rbind (obj_at a s) (\<lambda>ob. Inr (Counter_HasOneRef (ref_cell ob)))"

section \<open>Smart pointers\<close>

text \<open>\<^verbatim>\<open>scoped_refptr<T>\<close> is its one member \<^verbatim>\<open>ptr_\<close>; \<open>None\<close> is the null pointer.\<close>

type_synonym refptr = "addr option"

definition refptr_null :: refptr where "refptr_null = None"

definition AddRef_if :: "refptr \<Rightarrow> 'a store \<Rightarrow> 'a store res" where
  "AddRef_if p s = (case p of None \<Rightarrow> Inr s | Some a \<Rightarrow> AddRef a s)"

definition Release_if :: "('a \<Rightarrow> unit res) \<Rightarrow> refptr \<Rightarrow> 'a store \<Rightarrow> 'a store res" where
  "Release_if dtor p s = (case p of None \<Rightarrow> Inr s
     | Some a \<Rightarrow> rbind (Release dtor a s) (\<lambda>(status, s). Inr s))"

definition refptr_of :: "refptr \<Rightarrow> 'a store \<Rightarrow> (refptr \<times> 'a store) res" where
  "refptr_of p s = rbind (AddRef_if p s) (\<lambda>s. Inr (p, s))"

definition refptr_get :: "refptr \<Rightarrow> refptr" where "refptr_get r = r"

definition refptr_copy :: "refptr \<Rightarrow> 'a store \<Rightarrow> (refptr \<times> 'a store) res" where
  "refptr_copy r s = refptr_of (refptr_get r) s"

text \<open>The pointer that is returned, and what is left in the smart pointer.\<close>

definition refptr_release :: "refptr \<Rightarrow> refptr \<times> refptr" where
  "refptr_release ptr = (let retVal = ptr; ptr = None in (retVal, ptr))"

definition refptr_move :: "refptr \<Rightarrow> refptr \<times> refptr" where
  "refptr_move r = refptr_release r"

definition refptr_destroy :: "('a \<Rightarrow> unit res) \<Rightarrow> refptr \<Rightarrow> 'a store \<Rightarrow> 'a store res" where
  "refptr_destroy dtor ptr s = Release_if dtor ptr s"

definition refptr_assign_raw :: "('a \<Rightarrow> unit res) \<Rightarrow> refptr \<Rightarrow> refptr \<Rightarrow> 'a store \<Rightarrow> (refptr \<times> 'a store) res" where
  "refptr_assign_raw dtor ptr p s =
     rbind (AddRef_if p s) (\<lambda>s. rbind (Release_if dtor ptr s) (\<lambda>s. Inr (p, s)))"

definition refptr_assign :: "('a \<Rightarrow> unit res) \<Rightarrow> refptr \<Rightarrow> refptr \<Rightarrow> 'a store \<Rightarrow> (refptr \<times> 'a store) res" where
  "refptr_assign dtor ptr r s = refptr_assign_raw dtor ptr (refptr_get r) s"

definition refptr_swap :: "refptr \<Rightarrow> refptr \<Rightarrow> refptr \<times> refptr" where
  "refptr_swap ptr pp = (let p = ptr; ptr = pp; pp = p in (ptr, pp))"

text \<open>
  The move works on two variables that may be one: the variables of a program are a list,
  and \<open>*this\<close> and \<open>r\<close> are positions in it.
\<close>

definition refptr_assign_move ::
  "('a \<Rightarrow> unit res) \<Rightarrow> nat \<Rightarrow> nat \<Rightarrow> refptr list \<times> 'a store \<Rightarrow> (refptr list \<times> 'a store) res" where
  "refptr_assign_move dtor this r = (\<lambda>(env, s).
     let (tmp, left) = refptr_move (env ! r); env = env[r := left];
         (tmp, ptr) = refptr_swap tmp (env ! this); env = env[this := ptr]
     in rbind (refptr_destroy dtor tmp s) (\<lambda>s. Inr (env, s)))"

text \<open>\<^verbatim>\<open>delete p\<close> of a bare pointer, whatever the count.\<close>

definition delete_raw :: "('a \<Rightarrow> unit res) \<Rightarrow> refptr \<Rightarrow> 'a store \<Rightarrow> 'a store res" where
  "delete_raw dtor p s = (case p of None \<Rightarrow> Inr s | Some a \<Rightarrow>
     (case objs s a of None \<Rightarrow> Inl (DoubleFree a)
      | Some ob \<Rightarrow> rbind (dtor (payload ob)) (\<lambda>_. Inr (s\<lparr>objs := (objs s)(a := None)\<rparr>))))"

section \<open>Exact counts\<close>

text \<open>The pointers that hold an object, as a multiset.\<close>

definition opt_mset :: "'a option \<Rightarrow> 'a multiset" where
  "opt_mset p = (case p of None \<Rightarrow> {#} | Some a \<Rightarrow> {#a#})"

lemma opt_mset_simps [simp]: "opt_mset None = {#}" "opt_mset (Some a) = {#a#}"
  by (simp_all add: opt_mset_def)

definition counted_at :: "nat \<Rightarrow> 'a counted option \<Rightarrow> bool" where
  "counted_at n x \<longleftrightarrow> (case x of None \<Rightarrow> n = 0 | Some ob \<Rightarrow> unat (ref_cell ob) = n \<and> 0 < n)"

lemma counted_at_simps [simp]:
  "counted_at n None \<longleftrightarrow> n = 0" "counted_at n (Some ob) \<longleftrightarrow> unat (ref_cell ob) = n \<and> 0 < n"
  by (simp_all add: counted_at_def)

definition counts_exact :: "addr multiset \<Rightarrow> 'a store \<Rightarrow> bool" where
  "counts_exact H s \<longleftrightarrow> (\<forall>a. counted_at (count H a) (objs s a)) \<and> (\<forall>n \<ge> next_obj s. objs s (Addr n) = None)"

text \<open>The counter is exact below \<open>2 ^ 32\<close>.\<close>

lemma IncRef_exact: "Suc (unat n) < 2 ^ 32 \<Longrightarrow> unat (IncRef n) = Suc (unat n)"
  by (simp add: IncRef_def AtomicOps_Increment_def unat_word_ariths)

lemma DecRef_exact:
  assumes "0 < unat n"
  shows "DecRef n = (if unat n = 1 then kDroppedLastRef else kOtherRefsRemained, n - 1)" "unat (n - 1) = unat n - 1"
proof -
  have n: "n \<noteq> 0" using assms by auto
  show u: "unat (n - 1) = unat n - 1" using unat_minus_one [OF n] .
  have "n - 1 = 0 \<longleftrightarrow> unat n = 1" by (metis One_nat_def assms u diff_is_0_eq' eq_iff_diff_eq_0 less_one not_le_imp_less unat_eq_zero unat_1 nat_less_le)
  then show "DecRef n = (if unat n = 1 then kDroppedLastRef else kOtherRefsRemained, n - 1)"
    by (simp add: DecRef_def AtomicOps_Decrement_def)
qed

lemma counts_exactD:
  assumes "counts_exact H s" "a \<in># H"
  obtains ob where "objs s a = Some ob" "unat (ref_cell ob) = count H a"
proof -
  have "counted_at (count H a) (objs s a)" "count H a \<noteq> 0" using assms by (simp_all add: counts_exact_def)
  with that show ?thesis by (cases "objs s a") auto
qed

lemma counts_exact_upd:
  assumes "counts_exact H s" "\<And>b. b \<noteq> a \<Longrightarrow> count H' b = count H b" "counted_at (count H' a) x" "objs s a \<noteq> None"
  shows "counts_exact H' (s\<lparr>objs := (objs s)(a := x)\<rparr>)"
  using assms by (auto simp: counts_exact_def)

lemma AddRef_exact:
  assumes "counts_exact H s" "a \<in># H" "Suc (size H) < 2 ^ 32"
  shows "\<exists>t. AddRef a s = Inr t \<and> counts_exact (add_mset a H) t"
proof -
  obtain ob where ob: "objs s a = Some ob" "unat (ref_cell ob) = count H a" by (rule counts_exactD [OF assms(1,2)])
  have "Suc (unat (ref_cell ob)) < 2 ^ 32"
    using count_le_size [of H a] assms(3) ob(2) by linarith
  from IncRef_exact [OF this] have "counts_exact (add_mset a H) (set_count a (IncRef (ref_cell ob)) ob s)"
    unfolding set_count_def using ob by (intro counts_exact_upd [OF assms(1)]) auto
  then show ?thesis using ob(1) by (simp add: AddRef_def obj_at_def)
qed

lemma Release_exact:
  assumes "counts_exact (add_mset a H) s" "\<forall>x. dtor x = Inr ()"
  shows "\<exists>st t. Release dtor a s = Inr (st, t) \<and> counts_exact H t \<and> (st = kDroppedLastRef \<longleftrightarrow> a \<notin># H)"
proof -
  obtain ob where ob: "objs s a = Some ob" "unat (ref_cell ob) = Suc (count H a)"
    using counts_exactD [OF assms(1), of a] by auto
  then have dec: "DecRef (ref_cell ob) =
      (if a \<in># H then kOtherRefsRemained else kDroppedLastRef, ref_cell ob - 1)"
    "unat (ref_cell ob - 1) = count H a"
    using DecRef_exact [of "ref_cell ob"] by (simp_all add: not_in_iff)
  show ?thesis
  proof (cases "a \<in># H")
    case False
    then have "Release dtor a s = Inr (kDroppedLastRef, s\<lparr>objs := (objs s)(a := None)\<rparr>)"
      using ob(1) dec(1) assms(2) by (simp add: Release_def obj_at_def set_count_def)
    moreover have "counts_exact H (s\<lparr>objs := (objs s)(a := None)\<rparr>)"
      by (rule counts_exact_upd [OF assms(1)]) (use False ob in \<open>auto simp: not_in_iff\<close>)
    ultimately show ?thesis using False by auto
  next
    case True
    let ?t = "s\<lparr>objs := (objs s)(a \<mapsto> ob\<lparr>ref_cell := ref_cell ob - 1\<rparr>)\<rparr>"
    have "Release dtor a s = Inr (kOtherRefsRemained, ?t)"
      using True ob(1) dec(1) by (simp add: Release_def obj_at_def set_count_def)
    moreover have "counts_exact H ?t"
      by (rule counts_exact_upd [OF assms(1)]) (use True ob dec(2) in auto)
    ultimately show ?thesis using True by auto
  qed
qed

lemma AddRef_if_exact:
  assumes "counts_exact H s" "opt_mset p \<subseteq># H" "Suc (size H) < 2 ^ 32"
  shows "\<exists>t. AddRef_if p s = Inr t \<and> counts_exact (opt_mset p + H) t"
  using assms AddRef_exact [OF assms(1)] by (cases p) (auto simp: AddRef_if_def)

lemma Release_if_exact:
  assumes "counts_exact (opt_mset p + H) s" "\<forall>x. dtor x = Inr ()"
  shows "\<exists>t. Release_if dtor p s = Inr t \<and> counts_exact H t"
  using assms Release_exact [where dtor = dtor and s = s and H = H] by (cases p) (auto simp: Release_if_def, fastforce)

text \<open>A new object is counted for the first time when its first pointer is made.\<close>

lemma new_exact:
  assumes "counts_exact H s" "RefCountedObject_new x s = (a, t)"
  shows "\<exists>u. AddRef a t = Inr u \<and> counts_exact (add_mset a H) u \<and> a \<notin># H"
proof -
  have a: "a = Addr (next_obj s)" and t: "t = s\<lparr>objs := (objs s)(a \<mapsto> \<lparr>payload = x, ref_cell = 0\<rparr>), next_obj := Suc (next_obj s)\<rparr>"
    using assms(2) by (auto simp: RefCountedObject_new_def Let_def)
  have "objs s a = None" using assms(1) a by (simp add: counts_exact_def)
  then have none: "count H a = 0" using assms(1) by (metis counted_at_simps(1) counts_exact_def)
  let ?u = "s\<lparr>objs := (objs s)(a \<mapsto> \<lparr>payload = x, ref_cell = 1\<rparr>), next_obj := Suc (next_obj s)\<rparr>"
  have "AddRef a t = Inr ?u"
    by (simp add: AddRef_def obj_at_def set_count_def t IncRef_def AtomicOps_Increment_def)
  moreover have "counts_exact (add_mset a H) ?u"
    using assms(1) none by (auto simp: counts_exact_def a)
  ultimately show ?thesis using none by (auto simp: count_eq_zero_iff)
qed

section \<open>Programs of smart pointers\<close>

text \<open>
  The statements a program makes with smart pointers: the variables are a list, the
  parameters and local variables of a block are added to it and destroyed at its end.
\<close>

datatype 'a ptr_op =
    Make nat 'a              \<comment> \<open>\<^verbatim>\<open>v = new RefCountedObject<T>(x)\<close>\<close>
  | Assign nat nat | AssignNull nat | MoveTo nat nat | SwapWith nat nat
  | EnterCopy nat | EnterNull | Leave

fun ptr_exec :: "('a \<Rightarrow> unit res) \<Rightarrow> 'a ptr_op \<Rightarrow> refptr list \<times> 'a store \<Rightarrow> (refptr list \<times> 'a store) res" where
  "ptr_exec dtor (Make i x) (env, s) =
     (let (a, s) = RefCountedObject_new x s
      in rbind (refptr_assign_raw dtor (env ! i) (Some a) s) (\<lambda>(p, s). Inr (env[i := p], s)))"
| "ptr_exec dtor (Assign i j) (env, s) =
     rbind (refptr_assign dtor (env ! i) (env ! j) s) (\<lambda>(p, s). Inr (env[i := p], s))"
| "ptr_exec dtor (AssignNull i) (env, s) =
     rbind (refptr_assign_raw dtor (env ! i) None s) (\<lambda>(p, s). Inr (env[i := p], s))"
| "ptr_exec dtor (MoveTo i j) (env, s) = refptr_assign_move dtor i j (env, s)"
| "ptr_exec dtor (SwapWith i j) (env, s) =
     (let (p, q) = refptr_swap (env ! i) (env ! j) in Inr (env[i := p, j := q], s))"
| "ptr_exec dtor (EnterCopy j) (env, s) = rbind (refptr_copy (env ! j) s) (\<lambda>(p, s). Inr (env @ [p], s))"
| "ptr_exec dtor EnterNull (env, s) = Inr (env @ [refptr_null], s)"
| "ptr_exec dtor Leave (env, s) = rbind (refptr_destroy dtor (last env) s) (\<lambda>s. Inr (butlast env, s))"

text \<open>The number of variables after a statement, and the statements that are in scope.\<close>

fun scope_after :: "'a ptr_op \<Rightarrow> nat \<Rightarrow> nat" where
  "scope_after (EnterCopy j) n = Suc n"
| "scope_after EnterNull n = Suc n"
| "scope_after Leave n = n - 1"
| "scope_after op n = n"

fun in_scope :: "nat \<Rightarrow> nat \<Rightarrow> 'a ptr_op \<Rightarrow> bool" where
  "in_scope cap n (Make i x) \<longleftrightarrow> i < n"
| "in_scope cap n (Assign i j) \<longleftrightarrow> i < n \<and> j < n"
| "in_scope cap n (AssignNull i) \<longleftrightarrow> i < n"
| "in_scope cap n (MoveTo i j) \<longleftrightarrow> i < n \<and> j < n"
| "in_scope cap n (SwapWith i j) \<longleftrightarrow> i < n \<and> j < n"
| "in_scope cap n (EnterCopy j) \<longleftrightarrow> j < n \<and> n + 2 < cap"
| "in_scope cap n EnterNull \<longleftrightarrow> n + 2 < cap"
| "in_scope cap n Leave \<longleftrightarrow> 0 < n"

fun scoped :: "nat \<Rightarrow> nat \<Rightarrow> 'a ptr_op list \<Rightarrow> bool" where
  "scoped cap n [] \<longleftrightarrow> True"
| "scoped cap n (op # ops) \<longleftrightarrow> in_scope cap n op \<and> scoped cap (scope_after op n) ops"

text \<open>The pointers of the variables.\<close>

definition held :: "refptr list \<Rightarrow> addr multiset" where
  "held env = sum_list (map opt_mset env)"

lemma held_update: "i < length env \<Longrightarrow> opt_mset (env ! i) + held (env[i := p]) = opt_mset p + held env"
  by (induction env arbitrary: i) (auto simp: held_def nth_Cons' ac_simps split: nat.split)

lemma held_nth: "i < length env \<Longrightarrow> opt_mset (env ! i) \<subseteq># held env"
  unfolding held_def by (metis mset_subset_eq_add_left nth_map length_map nth_mem sum_list.Cons in_set_conv_decomp
      append.assoc mset_subset_eq_add_right sum_list_append subset_mset.add_increasing subset_mset.add_increasing2 subset_mset.order_refl subset_mset.zero_le)

lemma held_size: "size (held env) \<le> length env"
  by (induction env) (auto simp: held_def opt_mset_def split: option.splits)

lemma held_snoc [simp]: "held (env @ [p]) = opt_mset p + held env"
  by (simp add: held_def)

lemma held_count: "count (held env) a = count_list env (Some a)"
  by (induction env) (auto simp: held_def opt_mset_def split: option.splits)

lemma held_butlast: "env \<noteq> [] \<Longrightarrow> held env = opt_mset (last env) + held (butlast env)"
  by (metis append_butlast_last_id held_snoc)

text \<open>\<open>F\<close> are the pointers elsewhere, which the program does not reach.\<close>

definition exact_state :: "addr multiset \<Rightarrow> nat \<Rightarrow> refptr list \<times> 'a store \<Rightarrow> bool" where
  "exact_state F cap x \<longleftrightarrow> counts_exact (F + held (fst x)) (snd x) \<and> length (fst x) + 1 < cap \<and> size F + cap \<le> 2 ^ 32"

lemma assign_exact:
  assumes "counts_exact (F + held env) s" "size F + length env + 1 < 2 ^ 32" "i < length env"
    and "opt_mset p \<subseteq># F + held env" "\<forall>x. dtor x = Inr ()"
  shows "\<exists>t. refptr_assign_raw dtor (env ! i) p s = Inr (p, t) \<and> counts_exact (F + held (env[i := p])) t"
proof -
  have "Suc (size (F + held env)) < 2 ^ 32" using held_size [of env] assms(2) by simp
  from AddRef_if_exact [OF assms(1,4) this] obtain t where
    t: "AddRef_if p s = Inr t" "counts_exact (opt_mset p + (F + held env)) t" by blast
  have "opt_mset (env ! i) + (F + held (env[i := p])) = F + (opt_mset (env ! i) + held (env[i := p]))"
    by (simp add: ac_simps)
  then have "counts_exact (opt_mset (env ! i) + (F + held (env[i := p]))) t"
    using t(2) held_update [OF assms(3), of p] by (simp add: ac_simps)
  from Release_if_exact [OF this, of dtor] assms(5) t(1) show ?thesis
    by (auto simp: refptr_assign_raw_def)
qed

lemma make_exact:
  assumes "counts_exact (F + held env) s" "i < length env" "\<forall>x. dtor x = Inr ()"
  shows "\<exists>a t. ptr_exec dtor (Make i x) (env, s) = Inr (env[i := Some a], t) \<and> counts_exact (F + held (env[i := Some a])) t"
proof -
  obtain a s1 where new: "RefCountedObject_new x s = (a, s1)" by fastforce
  from new_exact [OF assms(1) this] obtain u where
    u: "AddRef a s1 = Inr u" "counts_exact (add_mset a (F + held env)) u" by blast
  have eq: "opt_mset (env ! i) + (F + held (env[i := Some a])) = add_mset a (F + held env)"
    using held_update [OF assms(2), of "Some a"] by (simp add: ac_simps)
  have "counts_exact (opt_mset (env ! i) + (F + held (env[i := Some a]))) u" unfolding eq by (rule u(2))
  from Release_if_exact [OF this, of dtor] assms(3) u(1) show ?thesis
    by (auto simp: new refptr_assign_raw_def AddRef_if_def)
qed

lemma move_exact:
  assumes "counts_exact (F + held env) s" "i < length env" "j < length env" "\<forall>x. dtor x = Inr ()"
  shows "\<exists>env' t. ptr_exec dtor (MoveTo i j) (env, s) = Inr (env', t) \<and> counts_exact (F + held env') t \<and> length env' = length env"
proof -
  define e1 where "e1 = env[j := None]"
  define e2 where "e2 = e1[i := env ! j]"
  have "opt_mset (env ! j) + held e1 = held env"
    using held_update [OF assms(3), of None] by (simp add: e1_def)
  moreover have "opt_mset (e1 ! i) + held e2 = opt_mset (env ! j) + held e1"
    using held_update [of i e1 "env ! j"] assms(2) by (simp add: e1_def e2_def)
  ultimately have eq: "opt_mset (e1 ! i) + (F + held e2) = F + held env" by (simp add: ac_simps)
  have "counts_exact (opt_mset (e1 ! i) + (F + held e2)) s" unfolding eq by (rule assms(1))
  from Release_if_exact [OF this, of dtor] assms(4) obtain t where
    t: "Release_if dtor (e1 ! i) s = Inr t" "counts_exact (F + held e2) t" by blast
  have "ptr_exec dtor (MoveTo i j) (env, s) = Inr (e2, t)"
    using t(1) by (simp add: refptr_assign_move_def refptr_move_def refptr_release_def refptr_swap_def
        refptr_destroy_def e1_def e2_def)
  with t(2) show ?thesis by (simp add: e1_def e2_def)
qed

lemma held_swap:
  assumes "i < length env" "j < length env"
  shows "held (env[i := env ! j, j := env ! i]) = held env"
proof -
  let ?e = "env[i := env ! j]"
  have "?e ! j = env ! j" using assms by (cases "i = j") simp_all
  with held_update [of j ?e "env ! i"] assms held_update [OF assms(1), of "env ! j"] show ?thesis by simp
qed

lemma ptr_exec_exact:
  assumes "exact_state F cap (env, s)" "in_scope cap (length env) op" "\<forall>x. dtor x = Inr ()"
  shows "\<exists>env' t. ptr_exec dtor op (env, s) = Inr (env', t) \<and> exact_state F cap (env', t)
    \<and> length env' = scope_after op (length env)"
proof -
  have ex: "counts_exact (F + held env) s" and len: "length env + 1 < cap" "size F + cap \<le> 2 ^ 32"
    using assms(1) by (simp_all add: exact_state_def)
  then have room: "size F + length env + 1 < 2 ^ 32" by linarith
  have sub: "j < length env \<Longrightarrow> opt_mset (env ! j) \<subseteq># F + held env" for j
    using held_nth [of j env] by (simp add: subset_mset.add_increasing)
  note assign = assign_exact [OF ex room _ _ assms(3)]
  show ?thesis
  proof (cases op)
    case (Make i x)
    with make_exact [OF ex, of i dtor x] assms(2,3) len show ?thesis by (fastforce simp: exact_state_def simp del: ptr_exec.simps)
  next
    case (Assign i j)
    with assign [of i "env ! j"] assms(2) sub len show ?thesis
      by (fastforce simp: exact_state_def refptr_assign_def refptr_get_def)
  next
    case (AssignNull i)
    with assign [of i None] assms(2) len show ?thesis by (fastforce simp: exact_state_def)
  next
    case (MoveTo i j)
    with move_exact [OF ex, of i j dtor] assms(2,3) len show ?thesis by (fastforce simp: exact_state_def simp del: ptr_exec.simps)
  next
    case (SwapWith i j)
    with held_swap [of i env j] assms(2) ex len show ?thesis by (simp add: exact_state_def refptr_swap_def)
  next
    case (EnterCopy j)
    have "Suc (size (F + held env)) < 2 ^ 32" using held_size [of env] room by simp
    moreover have "j < length env" "length env + 2 < cap" using EnterCopy assms(2) by simp_all
    ultimately obtain t where t: "AddRef_if (env ! j) s = Inr t" "counts_exact (opt_mset (env ! j) + (F + held env)) t"
      using AddRef_if_exact [OF ex sub] by blast
    have eq: "F + held (env @ [env ! j]) = opt_mset (env ! j) + (F + held env)" by (simp add: ac_simps)
    have "counts_exact (F + held (env @ [env ! j])) t" unfolding eq by (rule t(2))
    with t(1) EnterCopy \<open>length env + 2 < cap\<close> len(2) show ?thesis
      by (simp add: exact_state_def refptr_copy_def refptr_of_def refptr_get_def)
  next
    case EnterNull
    with assms(2) ex len show ?thesis by (simp add: exact_state_def refptr_null_def)
  next
    case Leave
    then have "env \<noteq> []" using assms(2) by auto
    then have eq: "opt_mset (last env) + (F + held (butlast env)) = F + held env"
      using held_butlast [of env] by (simp add: ac_simps)
    have "counts_exact (opt_mset (last env) + (F + held (butlast env))) s" unfolding eq by (rule ex)
    from Release_if_exact [OF this, of dtor] assms(3) Leave len show ?thesis
      by (auto simp: exact_state_def refptr_destroy_def)
  qed
qed

lemma ptr_run_exact:
  "exact_state F cap (env, s) \<Longrightarrow> scoped cap (length env) ops \<Longrightarrow> \<forall>x. dtor x = Inr () \<Longrightarrow>
   \<exists>env' t. rfold (ptr_exec dtor) ops (env, s) = Inr (env', t) \<and> exact_state F cap (env', t)"
proof (induction ops arbitrary: env s)
  case Nil
  then show ?case by simp
next
  case (Cons op ops)
  from Cons.prems(2) have sc: "in_scope cap (length env) op" "scoped cap (scope_after op (length env)) ops" by simp_all
  obtain e t where t: "ptr_exec dtor op (env, s) = Inr (e, t)" "exact_state F cap (e, t)" "length e = scope_after op (length env)"
    using ptr_exec_exact [OF Cons.prems(1) sc(1) Cons.prems(3)] by blast
  from Cons.IH [OF t(2) _ Cons.prems(3)] t(1,3) sc(2) show ?case by simp
qed

subsection \<open>What a program leaves of the objects and the variables\<close>

text \<open>The pointers of a program depend on the pointers alone, and on the next free address.\<close>

fun env_after :: "'a ptr_op \<Rightarrow> refptr list \<times> nat \<Rightarrow> refptr list \<times> nat" where
  "env_after (Make i x) (env, n) = (env[i := Some (Addr n)], Suc n)"
| "env_after (Assign i j) (env, n) = (env[i := env ! j], n)"
| "env_after (AssignNull i) (env, n) = (env[i := None], n)"
| "env_after (MoveTo i j) (env, n) = (env[j := None, i := env ! j], n)"
| "env_after (SwapWith i j) (env, n) = (env[i := env ! j, j := env ! i], n)"
| "env_after (EnterCopy j) (env, n) = (env @ [env ! j], n)"
| "env_after EnterNull (env, n) = (env @ [None], n)"
| "env_after Leave (env, n) = (butlast env, n)"

definition payloads :: "'a store \<Rightarrow> (addr \<rightharpoonup> 'a)" where
  "payloads s = (\<lambda>a. map_option payload (objs s a))"

fun made :: "'a ptr_op \<Rightarrow> nat \<Rightarrow> (addr \<rightharpoonup> 'a) \<Rightarrow> (addr \<rightharpoonup> 'a)" where
  "made (Make i x) n P = P(Addr n \<mapsto> x)"
| "made op n P = P"

lemma AddRef_if_keeps: "AddRef_if p s = Inr t \<Longrightarrow> payloads t = payloads s \<and> next_obj t = next_obj s"
  by (auto simp: AddRef_if_def AddRef_def obj_at_def set_count_def payloads_def fun_eq_iff split: option.splits)

lemma Release_if_keeps: "Release_if dtor p s = Inr t \<Longrightarrow> payloads t \<subseteq>\<^sub>m payloads s \<and> next_obj t = next_obj s"
  by (auto simp: Release_if_def Release_def obj_at_def set_count_def payloads_def map_le_def rbind_eq_Inr Let_def
      split: option.splits prod.splits if_splits)

lemma assign_raw_keeps:
  assumes "refptr_assign_raw dtor q p s = Inr (p', t)"
  shows "p' = p \<and> payloads t \<subseteq>\<^sub>m payloads s \<and> next_obj t = next_obj s"
proof -
  obtain u where u: "AddRef_if p s = Inr u" "Release_if dtor q u = Inr t" "p' = p"
    using assms by (auto simp: refptr_assign_raw_def rbind_eq_Inr)
  with AddRef_if_keeps [OF u(1)] Release_if_keeps [OF u(2)] show ?thesis by simp
qed

lemma ptr_exec_keeps:
  assumes "ptr_exec dtor op (env, s) = Inr (env', t)"
  shows "(env', next_obj t) = env_after op (env, next_obj s) \<and> payloads t \<subseteq>\<^sub>m made op (next_obj s) (payloads s)"
proof (cases op)
  case (Make i x)
  define s1 where "s1 = s\<lparr>objs := (objs s)(Addr (next_obj s) \<mapsto> \<lparr>payload = x, ref_cell = 0\<rparr>), next_obj := Suc (next_obj s)\<rparr>"
  obtain p where p: "refptr_assign_raw dtor (env ! i) (Some (Addr (next_obj s))) s1 = Inr (p, t)" "env' = env[i := p]"
    using assms Make by (auto simp: RefCountedObject_new_def Let_def s1_def rbind_eq_Inr)
  have "payloads s1 = (payloads s)(Addr (next_obj s) \<mapsto> x)" by (auto simp: payloads_def s1_def)
  with assign_raw_keeps [OF p(1)] p(2) Make show ?thesis by (simp add: s1_def)
next
  case (EnterCopy j)
  with assms show ?thesis
    by (auto simp: refptr_copy_def refptr_of_def refptr_get_def rbind_eq_Inr dest: AddRef_if_keeps)
next
  case (MoveTo i j)
  with assms show ?thesis
    by (auto simp: refptr_assign_move_def refptr_move_def refptr_release_def refptr_swap_def refptr_destroy_def
        rbind_eq_Inr Let_def dest: Release_if_keeps)
next
  case Leave
  with assms show ?thesis by (auto simp: refptr_destroy_def rbind_eq_Inr dest: Release_if_keeps)
qed (use assms in \<open>auto simp: refptr_assign_def refptr_get_def refptr_swap_def refptr_null_def rbind_eq_Inr
  dest: assign_raw_keeps\<close>)

lemma made_mono: "P \<subseteq>\<^sub>m Q \<Longrightarrow> made op n P \<subseteq>\<^sub>m made op n Q"
  by (cases op) (auto simp: map_le_def)

fun made_all :: "'a ptr_op list \<Rightarrow> refptr list \<times> nat \<Rightarrow> (addr \<rightharpoonup> 'a) \<Rightarrow> (addr \<rightharpoonup> 'a)" where
  "made_all [] e P = P"
| "made_all (op # ops) e P = made_all ops (env_after op e) (made op (snd e) P)"

lemma made_all_mono: "P \<subseteq>\<^sub>m Q \<Longrightarrow> made_all ops e P \<subseteq>\<^sub>m made_all ops e Q"
  by (induction ops arbitrary: e P Q) (simp_all add: made_mono)

lemma ptr_run_keeps:
  "rfold (ptr_exec dtor) ops (env, s) = Inr (env', t) \<Longrightarrow> (env', next_obj t) = fold env_after ops (env, next_obj s)
    \<and> payloads t \<subseteq>\<^sub>m made_all ops (env, next_obj s) (payloads s)"
proof (induction ops arbitrary: env s)
  case Nil
  then show ?case by simp
next
  case (Cons op ops)
  then obtain e u where u: "ptr_exec dtor op (env, s) = Inr (e, u)" "rfold (ptr_exec dtor) ops (e, u) = Inr (env', t)"
    by (auto simp: rbind_eq_Inr)
  note step = ptr_exec_keeps [OF u(1)]
  have eu: "(e, next_obj u) = env_after op (env, next_obj s)" using step by blast
  have "payloads t \<subseteq>\<^sub>m made_all ops (e, next_obj u) (made op (next_obj s) (payloads s))"
    using Cons.IH [OF u(2)] made_all_mono step by (blast intro: map_le_trans)
  then show ?case using Cons.IH [OF u(2)] unfolding eu by simp
qed

text \<open>Exact counts and the payloads determine a store.\<close>

lemma store_unique:
  assumes "counts_exact H s" "counts_exact H t" "payloads s \<subseteq>\<^sub>m P" "payloads t \<subseteq>\<^sub>m P"
  shows "objs s = objs t"
proof
  fix a
  have at: "counted_at (count H a) (objs s a)" "counted_at (count H a) (objs t a)"
    using assms(1,2) by (simp_all add: counts_exact_def)
  show "objs s a = objs t a"
  proof (cases "objs s a")
    case None
    with at show ?thesis by (cases "objs t a") auto
  next
    case (Some ob)
    with at have "count H a \<noteq> 0" by simp
    with at(2) obtain ob' where ob': "objs t a = Some ob'" by (cases "objs t a") auto
    with Some at have "unat (ref_cell ob) = unat (ref_cell ob')" by simp
    then have "ref_cell ob = ref_cell ob'" by (simp add: word_unat_eq_iff)
    moreover have "P a = Some (payload ob)" "P a = Some (payload ob')"
      using assms(3,4) Some ob' by (force simp: map_le_def payloads_def dom_def)+
    ultimately show ?thesis using Some ob' by simp
  qed
qed

section \<open>Smart pointers are safe\<close>

text \<open>
  C12: a program that handles objects through smart pointers only, in any order and for as
  long as its variables are fewer than \<open>2 ^ 32 - 1\<close>, never touches a deleted object: it runs
  to its end, and then an object is alive exactly if a variable points to it, and its count
  is the number of these variables. An assignment of a variable to itself, directly or by
  a move, is no exception.
\<close>

theorem smart_pointers_safe:
  assumes "scoped (2 ^ 32) 0 ops" "\<forall>x. dtor x = Inr ()"
  shows "\<exists>env s. rfold (ptr_exec dtor) ops ([], store_empty) = Inr (env, s)
    \<and> (\<forall>a. case objs s a of None \<Rightarrow> Some a \<notin> set env
        | Some ob \<Rightarrow> unat (ref_cell ob) = count_list env (Some a) \<and> Some a \<in> set env)"
proof -
  have "exact_state {#} (2 ^ 32) ([], store_empty)" by (simp add: exact_state_def counts_exact_def store_empty_def held_def)
  from ptr_run_exact [OF this, of ops dtor] assms obtain env s where
    run: "rfold (ptr_exec dtor) ops ([], store_empty) = Inr (env, s)" "exact_state {#} (2 ^ 32) (env, s)" by auto
  then have at: "counted_at (count_list env (Some a)) (objs s a)" for a
    by (simp add: exact_state_def counts_exact_def held_count [symmetric])
  have "case objs s a of None \<Rightarrow> Some a \<notin> set env
      | Some ob \<Rightarrow> unat (ref_cell ob) = count_list env (Some a) \<and> Some a \<in> set env" for a
    using at [of a] by (cases "objs s a") (auto simp: count_list_0_iff intro: ccontr)
  with run(1) show ?thesis by blast
qed

text \<open>An object that two variables share.\<close>

definition ex_pointers :: "string ptr_op list" where
  "ex_pointers = [EnterNull, EnterNull, Make 0 ''a'', Assign 1 0]"

theorem smart_pointers_safe_witness:
  "\<exists>s. rfold (ptr_exec (\<lambda>x. Inr ())) ex_pointers ([], store_empty) = Inr ([Some (Addr 0), Some (Addr 0)], s)
     \<and> map_option (unat \<circ> ref_cell) (objs s (Addr 0)) = Some 2"
proof -
  obtain s where run: "rfold (ptr_exec (\<lambda>x. Inr ())) ex_pointers ([], store_empty) = Inr ([Some (Addr 0), Some (Addr 0)], s)"
    by (simp add: ex_pointers_def refptr_null_def store_empty_def RefCountedObject_new_def refptr_assign_raw_def
        refptr_assign_def refptr_get_def AddRef_if_def Release_if_def AddRef_def Release_def obj_at_def set_count_def
        IncRef_def AtomicOps_Increment_def Let_def)
  have "scoped (2 ^ 32) 0 ex_pointers" by (simp add: ex_pointers_def)
  from smart_pointers_safe [OF this, of "\<lambda>x. Inr ()"] run
  have "\<forall>a. case objs s a of None \<Rightarrow> Some a \<notin> set [Some (Addr 0), Some (Addr 0)]
      | Some ob \<Rightarrow> unat (ref_cell ob) = count_list [Some (Addr 0), Some (Addr 0)] (Some a)
          \<and> Some a \<in> set [Some (Addr 0), Some (Addr 0)]" by simp
  from spec [OF this, of "Addr 0"] have "map_option (unat \<circ> ref_cell) (objs s (Addr 0)) = Some 2"
    by (cases "objs s (Addr 0)") simp_all
  with run show ?thesis by blast
qed

end
