(* ===== verification/Conference.thy ===== *)
theory Conference
  imports Janus_Protocol Webrtc_Streams Shared_Pointers
begin

text \<open>
  \<^verbatim>\<open>src/ConferenceManager.cpp\<close>: the layer between the session and the streams. It keeps one
  stream per handle, gives the windows to the streams that are shown, and carries local
  descriptions and candidates to the session. Its state is the client of the session, so a
  function that calls the session back works on the session as a whole. A video stream has
  one owner and is kept in its table; the objects of the data channels are shared, so they
  live in a store with their reference counts.
\<close>

section \<open>State\<close>

record iceCandidate =
  ice_sdp_mid :: string
  ice_sdp_mline_index :: u32
  ice_sdp :: string

text \<open>\<open>'p\<close> is how the stream is held: the object itself or its address.\<close>

record 'p stream_info =
  si_stream :: 'p
  si_sdp :: string
  si_sdpType :: string
  iceCandidateList :: "iceCandidate list"
  canSendSDP :: bool
  canSendCandidate :: bool

datatype conf_slot = SendLocalInfo      \<comment> \<open>\<^verbatim>\<open>ConferenceManager::onSendLocalInfoWhenOpenDataChannel\<close>\<close>

record dc_object =
  do_stream :: "conf_slot dc_stream"
  do_refs :: nat

text \<open>
  A \<^verbatim>\<open>QHash\<close> is an association list with distinct keys. \<open>tracks\<close> are the audio and the video
  track of the capturer, which belongs to the process.
\<close>

record conf =
  mRemoteStreamInfos_VideoAudio :: "(i64 \<times> va_stream stream_info) list"
  mRemoteStreamInfos_DataChannels :: "(i64 \<times> addr stream_info) list"
  mRemoteWinds :: "(i64 \<times> i64) list"           \<comment> \<open>window, and the stream it shows or 0\<close>
  mLocalWindow :: i64
  LocalStream_DataChannels :: "addr option"
  mTextRoomID :: u32
  mTextRoomDisplayName :: string
  dc_objects :: "addr \<rightharpoonup> dc_object"
  dc_next :: nat
  tracks :: "nat option \<times> nat option"

text \<open>\<open>junk\<close> is what the allocator leaves in the two numbers that no constructor sets.\<close>

definition Conf_new :: "i64 \<Rightarrow> u32 \<Rightarrow> nat option \<times> nat option \<Rightarrow> conf" where
  "Conf_new junk_window junk_room av = \<lparr>mRemoteStreamInfos_VideoAudio = [], mRemoteStreamInfos_DataChannels = [],
     mRemoteWinds = [], mLocalWindow = junk_window, LocalStream_DataChannels = None, mTextRoomID = junk_room,
     mTextRoomDisplayName = [], dc_objects = Map.empty, dc_next = 0, tracks = av\<rparr>"

section \<open>Shared objects\<close>

definition dc_get :: "addr \<Rightarrow> conf \<Rightarrow> dc_object res" where
  "dc_get a c = (case dc_objects c a of None \<Rightarrow> Inl (UseAfterFree a) | Some ob \<Rightarrow> Inr ob)"

definition dc_put :: "addr \<Rightarrow> dc_object \<Rightarrow> conf \<Rightarrow> conf" where
  "dc_put a ob c = c\<lparr>dc_objects := (dc_objects c)(a \<mapsto> ob)\<rparr>"

text \<open>\<^verbatim>\<open>new rtc::RefCountedObject<WebrtcStreamDataChannels>\<close>, held by one \<^verbatim>\<open>scoped_refptr\<close>.\<close>

definition dc_alloc :: "conf_slot dc_stream \<Rightarrow> conf \<Rightarrow> addr \<times> conf" where
  "dc_alloc st c = (let a = Addr (dc_next c)
     in (a, c\<lparr>dc_objects := (dc_objects c)(a \<mapsto> \<lparr>do_stream = st, do_refs = 1\<rparr>), dc_next := Suc (dc_next c)\<rparr>))"

definition dc_add_ref :: "addr \<Rightarrow> conf \<Rightarrow> conf res" where
  "dc_add_ref a c = rbind (dc_get a c) (\<lambda>ob. Inr (dc_put a (ob\<lparr>do_refs := Suc (do_refs ob)\<rparr>) c))"

text \<open>The last release runs the destructor, which always returns.\<close>

definition dc_release :: "addr \<Rightarrow> conf \<Rightarrow> conf res" where
  "dc_release a c = rbind (dc_get a c) (\<lambda>ob.
     if do_refs ob = 1 then Inr (c\<lparr>dc_objects := (dc_objects c)(a := None)\<rparr>)
     else Inr (dc_put a (ob\<lparr>do_refs := do_refs ob - 1\<rparr>) c))"

text \<open>\<^verbatim>\<open>delete\<close> of the bare pointer, whatever the count.\<close>

definition dc_delete :: "addr \<Rightarrow> conf \<Rightarrow> conf res" where
  "dc_delete a c = (case dc_objects c a of None \<Rightarrow> Inl (DoubleFree a)
     | Some ob \<Rightarrow> Inr (c\<lparr>dc_objects := (dc_objects c)(a := None)\<rparr>))"

text \<open>\<^verbatim>\<open>scoped_refptr::operator=\<close>: the new object is taken before the old one is let go.\<close>

definition release_if :: "addr option \<Rightarrow> conf \<Rightarrow> conf res" where
  "release_if p c = (case p of None \<Rightarrow> Inr c | Some a \<Rightarrow> dc_release a c)"

section \<open>Streams and windows\<close>

definition new_info :: "'p \<Rightarrow> 'p stream_info" where
  "new_info p = \<lparr>si_stream = p, si_sdp = [], si_sdpType = [], iceCandidateList = [],
     canSendSDP = True, canSendCandidate = True\<rparr>"

definition put_va :: "i64 \<Rightarrow> va_stream stream_info \<Rightarrow> conf \<Rightarrow> conf" where
  "put_va k i c = c\<lparr>mRemoteStreamInfos_VideoAudio := AList.update k i (mRemoteStreamInfos_VideoAudio c)\<rparr>"

definition put_dc :: "i64 \<Rightarrow> addr stream_info \<Rightarrow> conf \<Rightarrow> conf" where
  "put_dc k i c = c\<lparr>mRemoteStreamInfos_DataChannels := AList.update k i (mRemoteStreamInfos_DataChannels c)\<rparr>"

text \<open>Storing over an entry lets go of the stream that was there, which ends it.\<close>

definition addStreamInfo_VideoAudio :: "va_stream \<Rightarrow> conf \<Rightarrow> conf res" where
  "addStreamInfo_VideoAudio remoteStream c =
     (let peerId = GetHandleID remoteStream in
      rbind (case map_of (mRemoteStreamInfos_VideoAudio c) peerId of None \<Rightarrow> Inr () 
             | Some old \<Rightarrow> rbind (VA_destroy (si_stream old)) (\<lambda>_. Inr ())) (\<lambda>_.
      Inr (put_va peerId (new_info remoteStream) c)))"

definition addStreamInfo_DataChannels :: "addr \<Rightarrow> conf \<Rightarrow> conf res" where
  "addStreamInfo_DataChannels remoteStream c =
     rbind (dc_get remoteStream c) (\<lambda>ob.
     let peerId = GetHandleID (do_stream ob);
         old = map_option si_stream (map_of (mRemoteStreamInfos_DataChannels c) peerId) in
     rbind (dc_add_ref remoteStream c) (\<lambda>c.
     release_if old (put_dc peerId (new_info remoteStream) c)))"

text \<open>The first window that shows nothing, and the windows after it is taken.\<close>

fun take_window :: "i64 \<Rightarrow> (i64 \<times> i64) list \<Rightarrow> i64 option \<times> (i64 \<times> i64) list" where
  "take_window peerId [] = (None, [])"
| "take_window peerId (wind # winds) =
     (if snd wind = 0 then (Some (fst wind), (fst wind, peerId) # winds)
      else (let (w, rest) = take_window peerId winds in (w, wind # rest)))"

text \<open>The first window that shows the stream is set free.\<close>

fun free_window :: "i64 \<Rightarrow> (i64 \<times> i64) list \<Rightarrow> (i64 \<times> i64) list" where
  "free_window streamId [] = []"
| "free_window streamId (wind # winds) =
     (if snd wind = streamId then (fst wind, 0) # winds else wind # free_window streamId winds)"

text \<open>
  The new stream is in its table before the window is chosen and the connection is made;
  the model makes these changes on the stream and stores it once more.
\<close>

definition ConnectToPeer_VideoAudio :: "webrtc_env \<Rightarrow> i64 \<Rightarrow> bool \<Rightarrow> bool \<Rightarrow> bool \<Rightarrow> conf \<Rightarrow> conf res" where
  "ConnectToPeer_VideoAudio W peerId show_it isConnect isLocal c =
     (let remoteStream = VA_SetIsLocal isLocal (VA_new (we_junk W peerId) peerId) in
      rbind (addStreamInfo_VideoAudio remoteStream c) (\<lambda>c.
      let (w, winds) = (if show_it then take_window peerId (mRemoteWinds c) else (None, mRemoteWinds c));
          remoteStream = (case w of None \<Rightarrow> remoteStream | Some w \<Rightarrow> VA_SetWindowID w remoteStream);
          c = put_va peerId (new_info remoteStream) (c\<lparr>mRemoteWinds := winds\<rparr>)
      in if isConnect
         then rbind (VA_ConnectToPeer W (tracks c) remoteStream) (\<lambda>remoteStream.
              Inr (put_va peerId (new_info remoteStream) c))
         else Inr c))"

definition ConnectToPeer_DataChannels :: "i64 \<Rightarrow> conf \<Rightarrow> conf res" where
  "ConnectToPeer_DataChannels peerId c =
     (let (remoteStream, c) = dc_alloc (DC_new peerId) c;
          old = LocalStream_DataChannels c in
      rbind (dc_add_ref remoteStream c) (\<lambda>c.
      rbind (release_if old (c\<lparr>LocalStream_DataChannels := Some remoteStream\<rparr>)) (\<lambda>c.
      rbind (dc_get remoteStream c) (\<lambda>ob.
      let c = dc_put remoteStream
            (ob\<lparr>do_stream := RegisterSendLocalInfoWhenOpenDataChannelCallBack SendLocalInfo (do_stream ob)\<rparr>) c in
      rbind (addStreamInfo_DataChannels remoteStream c) (\<lambda>c.
      dc_release remoteStream c)))))"

section \<open>What the session tells\<close>

definition onRetmoeSDP :: "webrtc_env \<Rightarrow> i64 \<Rightarrow> string \<Rightarrow> string \<Rightarrow> bool \<Rightarrow> conf \<Rightarrow> conf res" where
  "onRetmoeSDP W i type sdp isTextRoom c =
     (if isTextRoom then
        rbind (if map_of (mRemoteStreamInfos_DataChannels c) i = None then ConnectToPeer_DataChannels i c
               else Inr c) (\<lambda>c.
        case map_of (mRemoteStreamInfos_DataChannels c) i of None \<Rightarrow> Inr c
        | Some info \<Rightarrow>
            rbind (dc_get (si_stream info) c) (\<lambda>ob.
            rbind (DC_SetPeerSDP W type sdp (do_stream ob)) (\<lambda>(parsed, st).
            Inr (dc_put (si_stream info) (ob\<lparr>do_stream := st\<rparr>) c))))
      else
        rbind (if map_of (mRemoteStreamInfos_VideoAudio c) i = None
               then ConnectToPeer_VideoAudio W i True False False c else Inr c) (\<lambda>c.
        case map_of (mRemoteStreamInfos_VideoAudio c) i of None \<Rightarrow> Inr c
        | Some info \<Rightarrow>
            rbind (VA_SetPeerSDP W (tracks c) type sdp (si_stream info)) (\<lambda>(parsed, st).
            Inr (put_va i (info\<lparr>si_stream := st\<rparr>) c))))"

text \<open>\<^verbatim>\<open>DisconnectPeer\<close> of the session does nothing; its result is not used.\<close>

definition onRemoteStreamRemove :: "i64 \<Rightarrow> conf \<Rightarrow> conf res" where
  "onRemoteStreamRemove streamId c =
     rbind (case map_of (mRemoteStreamInfos_VideoAudio c) streamId of None \<Rightarrow> Inr c
       | Some info \<Rightarrow>
           (let done = DisconnectPeer (GetHandleID (si_stream info)) in
            rbind (VA_destroy (DeletePeerConnection (si_stream info))) (\<lambda>_.
            Inr (c\<lparr>mRemoteStreamInfos_VideoAudio := AList.delete streamId (mRemoteStreamInfos_VideoAudio c)\<rparr>)))) (\<lambda>c.
     let c = c\<lparr>mRemoteWinds := free_window streamId (mRemoteWinds c)\<rparr> in
     case map_of (mRemoteStreamInfos_DataChannels c) streamId of None \<Rightarrow> Inr c
     | Some info \<Rightarrow>
         rbind (dc_get (si_stream info) c) (\<lambda>ob.
         let done = DisconnectPeer (GetHandleID (do_stream ob));
             c = dc_put (si_stream info) (ob\<lparr>do_stream := DeletePeerConnection (do_stream ob)\<rparr>) c in
         dc_release (si_stream info)
           (c\<lparr>mRemoteStreamInfos_DataChannels := AList.delete streamId (mRemoteStreamInfos_DataChannels c)\<rparr>)))"

section \<open>What the streams tell\<close>

type_synonym session = "conf janus"

abbreviation up_conf :: "(conf \<Rightarrow> conf) \<Rightarrow> session \<Rightarrow> session" where
  "up_conf f s \<equiv> s\<lparr>client := f (client s)\<rparr>"

definition onLocalSDP :: "janus_env \<Rightarrow> i64 \<Rightarrow> string \<Rightarrow> string \<Rightarrow> session \<Rightarrow> session res" where
  "onLocalSDP E i sdp type s =
     rbind (case map_of (mRemoteStreamInfos_VideoAudio (client s)) i of None \<Rightarrow> Inr s
       | Some info \<Rightarrow>
           (let info = info\<lparr>si_sdp := sdp, si_sdpType := type\<rparr>; s = up_conf (put_va i info) s
            in if canSendSDP info then JVRM_SendSDP E i sdp type s else Inr s)) (\<lambda>s.
     case map_of (mRemoteStreamInfos_DataChannels (client s)) i of None \<Rightarrow> Inr s
     | Some info \<Rightarrow>
         (let info = info\<lparr>si_sdp := sdp, si_sdpType := type\<rparr>; s = up_conf (put_dc i info) s
          in if canSendSDP info then JVRM_SendSDP E i sdp type s else Inr s))"

text \<open>The list is passed by reference: the loop empties it from the front.\<close>

fun sendICEs :: "janus_env \<Rightarrow> i64 \<Rightarrow> iceCandidate list \<Rightarrow> session \<Rightarrow> (iceCandidate list \<times> session) res" where
  "sendICEs E i [] s = Inr ([], s)"
| "sendICEs E i (candidate # rest) s =
     rbind (JVRM_SendCandidate E i (ice_sdp_mid candidate) (ice_sdp_mline_index candidate) (ice_sdp candidate) s)
       (sendICEs E i rest)"

definition onLocalIceCandidate :: "janus_env \<Rightarrow> i64 \<Rightarrow> string \<Rightarrow> u32 \<Rightarrow> string \<Rightarrow> session \<Rightarrow> session res" where
  "onLocalIceCandidate E i sdp_mid sdp_mlineindex candidate s =
     (let new = \<lparr>ice_sdp_mid = sdp_mid, ice_sdp_mline_index = sdp_mlineindex, ice_sdp = candidate\<rparr> in
     rbind (case map_of (mRemoteStreamInfos_VideoAudio (client s)) i of None \<Rightarrow> Inr s
       | Some info \<Rightarrow>
           (let pending = iceCandidateList info @ [new] in
            rbind (if canSendCandidate info then sendICEs E (GetHandleID (si_stream info)) pending s
                   else Inr (pending, s)) (\<lambda>(pending, s).
            Inr (up_conf (put_va i (info\<lparr>iceCandidateList := pending\<rparr>)) s)))) (\<lambda>s.
     case map_of (mRemoteStreamInfos_DataChannels (client s)) i of None \<Rightarrow> Inr s
     | Some info \<Rightarrow>
         (let pending = iceCandidateList info @ [new] in
          rbind (dc_get (si_stream info) (client s)) (\<lambda>ob.
          rbind (if canSendCandidate info then sendICEs E (GetHandleID (do_stream ob)) pending s
                 else Inr (pending, s)) (\<lambda>(pending, s).
          Inr (up_conf (put_dc i (info\<lparr>iceCandidateList := pending\<rparr>)) s))))))"

definition onIceGatheringComplete :: "janus_env \<Rightarrow> i64 \<Rightarrow> session \<Rightarrow> session res" where
  "onIceGatheringComplete E i s = onLocalIceCandidate E i ''end'' (-1) ''end'' s"

definition onSendLocalInfoWhenOpenDataChannel :: "janus_env \<Rightarrow> session \<Rightarrow> string \<times> session" where
  "onSendLocalInfoWhenOpenDataChannel E s =
     (let (transaction, s) = new_transaction E s;
          (username, s) = new_transaction E s
      in (JsonValueToString (je_json E) (JObj [
            (''textroom'', JStr ''join''), (''transaction'', JStr transaction),
            (''room'', JInt (scast (mTextRoomID (client s)))), (''username'', JStr username),
            (''display'', JStr (c_str (mTextRoomDisplayName (client s))))]), s))"

fun run_conf_slot :: "janus_env \<Rightarrow> conf_slot \<Rightarrow> session \<Rightarrow> string \<times> session" where
  "run_conf_slot E SendLocalInfo s = onSendLocalInfoWhenOpenDataChannel E s"

text \<open>The signals that \<^verbatim>\<open>ConnectToPeer_VideoAudio\<close> and \<^verbatim>\<open>ConnectToPeer_DataChannels\<close> connect.\<close>

fun run_signal :: "janus_env \<Rightarrow> signal \<Rightarrow> session \<Rightarrow> session res" where
  "run_signal E (LocalSDP i sdp type) s = onLocalSDP E i sdp type s"
| "run_signal E (LocalIceCandidate i mid mlineindex candidate) s = onLocalIceCandidate E i mid mlineindex candidate s"
| "run_signal E (IceGatheringComplete i) s = onIceGatheringComplete E i s"

text \<open>The channel of a stream changes its state.\<close>

definition channel_changed :: "janus_env \<Rightarrow> addr \<Rightarrow> data_state \<Rightarrow> session \<Rightarrow> session res" where
  "channel_changed E a state s =
     rbind (dc_get a (client s)) (\<lambda>ob.
     let (st, s) = DC_OnStateChange (run_conf_slot E) (channel_state state (do_stream ob)) s
     in Inr (up_conf (dc_put a (ob\<lparr>do_stream := st\<rparr>)) s))"

section \<open>What the user asks for\<close>

definition Conf_Login :: "string \<Rightarrow> session \<Rightarrow> session" where
  "Conf_Login server s = ConnectServer server s"

definition Conf_SetVideoWindows :: "i64 \<Rightarrow> i64 list \<Rightarrow> conf \<Rightarrow> conf" where
  "Conf_SetVideoWindows loc remote c = c\<lparr>mLocalWindow := loc, mRemoteWinds := map (\<lambda>wind. (wind, 0)) remote\<rparr>"

definition GetLocalWebrtcStream_DataChannels :: "conf \<Rightarrow> addr option" where
  "GetLocalWebrtcStream_DataChannels c = LocalStream_DataChannels c"

definition SetTextRoomIDAndDisplayName :: "u32 \<Rightarrow> string \<Rightarrow> conf \<Rightarrow> conf" where
  "SetTextRoomIDAndDisplayName inTextRoomID inDisplayName c =
     c\<lparr>mTextRoomID := inTextRoomID, mTextRoomDisplayName := inDisplayName\<rparr>"

definition Conf_GetTextRoomID :: "conf \<Rightarrow> u32" where "Conf_GetTextRoomID c = mTextRoomID c"
definition GetTextRoomDisplayName :: "conf \<Rightarrow> string" where "GetTextRoomDisplayName c = mTextRoomDisplayName c"

fun drop_view :: "i64 \<times> va_stream stream_info \<Rightarrow> conf \<Rightarrow> conf res" where
  "drop_view (k, info) c =
     rbind (StopView (si_stream info)) (\<lambda>st. rbind (VA_destroy st) (\<lambda>_. Inr c))"

definition Conf_LeaveVideoRoom :: "conf \<Rightarrow> conf res" where
  "Conf_LeaveVideoRoom c =
     (let c = c\<lparr>mRemoteWinds := map (\<lambda>wind. (fst wind, 0)) (mRemoteWinds c)\<rparr> in
      rbind (rfold drop_view (mRemoteStreamInfos_VideoAudio c) c) (\<lambda>c.
      Inr (c\<lparr>mRemoteStreamInfos_VideoAudio := []\<rparr>)))"

section \<open>The end\<close>

fun drop_channel :: "i64 \<times> addr stream_info \<Rightarrow> conf \<Rightarrow> conf res" where
  "drop_channel (k, info) c =
     rbind (dc_get (si_stream info) c) (\<lambda>ob.
     dc_delete (si_stream info) (dc_put (si_stream info) (ob\<lparr>do_stream := CloseDataChannel (do_stream ob)\<rparr>) c))"

text \<open>\<^verbatim>\<open>delete x.release()\<close>: the pointer is taken out of its \<^verbatim>\<open>scoped_refptr\<close> and deleted.\<close>

definition Conf_destroy :: "session \<Rightarrow> session res" where
  "Conf_destroy s =
     rbind (JVRM_destroy s) (\<lambda>s.
     let c = client s in
     rbind (rfold drop_view (mRemoteStreamInfos_VideoAudio c) c) (\<lambda>c.
     let c = c\<lparr>mRemoteStreamInfos_VideoAudio := []\<rparr> in
     rbind (rfold drop_channel (mRemoteStreamInfos_DataChannels c) c) (\<lambda>c.
     let c = c\<lparr>mRemoteStreamInfos_DataChannels := [], mRemoteWinds := [], mLocalWindow := 0\<rparr> in
     rbind (case LocalStream_DataChannels c of None \<Rightarrow> Inr c | Some a \<Rightarrow> dc_delete a c) (\<lambda>c.
     Inr (s\<lparr>client := c\<lparr>LocalStream_DataChannels := None\<rparr>\<rparr>)))))"

end
