(* ===== verification/Conference_Invariants.thy ===== *)
theory Conference_Invariants
  imports Conference
begin

text \<open>
  What holds of the conference layer at every moment: each stream is filed under its own
  handle, a video stream with a track has a renderer, and the count of every shared object
  is the number of the pointers to it, so none is deleted too early. With this invariant the
  three functions that the session calls satisfy its interface \<open>room_client\<close>.
\<close>

section \<open>The invariant\<close>

text \<open>Who holds the shared objects: the entries of the table, and the local stream.\<close>

definition holders :: "conf \<Rightarrow> addr multiset" where
  "holders c = mset (map (si_stream \<circ> snd) (mRemoteStreamInfos_DataChannels c))
     + opt_mset (LocalStream_DataChannels c)"

definition refs_at :: "nat \<Rightarrow> dc_object option \<Rightarrow> bool" where
  "refs_at n x \<longleftrightarrow> (case x of None \<Rightarrow> n = 0 | Some ob \<Rightarrow> do_refs ob = n \<and> 0 < n)"

lemma refs_at_simps [simp]: "refs_at n None \<longleftrightarrow> n = 0" "refs_at n (Some ob) \<longleftrightarrow> do_refs ob = n \<and> 0 < n"
  by (simp_all add: refs_at_def)

definition refs_ok :: "addr multiset \<Rightarrow> (addr \<rightharpoonup> dc_object) \<Rightarrow> bool" where
  "refs_ok H m \<longleftrightarrow> (\<forall>a. refs_at (count H a) (m a))"

definition va_table_ok :: "(i64 \<times> va_stream stream_info) list \<Rightarrow> bool" where
  "va_table_ok xs \<longleftrightarrow> distinct (map fst xs)
     \<and> (\<forall>(k, i) \<in> set xs. va_ok (si_stream i) \<and> mHandleID (si_stream i) = k)"

definition dc_table_ok :: "(addr \<rightharpoonup> dc_object) \<Rightarrow> (i64 \<times> addr stream_info) list \<Rightarrow> bool" where
  "dc_table_ok m xs \<longleftrightarrow> distinct (map fst xs)
     \<and> (\<forall>(k, i) \<in> set xs. \<exists>ob. m (si_stream i) = Some ob \<and> mHandleID (do_stream ob) = k)"

definition conf_ok :: "addr multiset \<Rightarrow> conf \<Rightarrow> bool" where
  "conf_ok H c \<longleftrightarrow> refs_ok H (dc_objects c) \<and> (\<forall>n \<ge> dc_next c. dc_objects c (Addr n) = None)
     \<and> va_table_ok (mRemoteStreamInfos_VideoAudio c)
     \<and> dc_table_ok (dc_objects c) (mRemoteStreamInfos_DataChannels c)"

definition conf_wf :: "conf \<Rightarrow> bool" where
  "conf_wf c \<longleftrightarrow> conf_ok (holders c) c"

lemma conf_wf_new: "conf_wf (Conf_new jw jr av)"
  by (simp add: conf_wf_def conf_ok_def refs_ok_def va_table_ok_def dc_table_ok_def holders_def Conf_new_def)

section \<open>Association lists\<close>

lemma set_update_subset: "set (AList.update k v xs) \<subseteq> insert (k, v) (set xs)"
  by (induction xs) auto

lemma mset_update_new:
  "map_of xs k = None \<Longrightarrow> mset (map (f \<circ> snd) (AList.update k v xs)) = add_mset (f v) (mset (map (f \<circ> snd) xs))"
  by (induction xs) (auto split: if_splits)

lemma mset_update_old:
  "map_of xs k = Some u \<Longrightarrow> add_mset (f u) (mset (map (f \<circ> snd) (AList.update k v xs)))
    = add_mset (f v) (mset (map (f \<circ> snd) xs))"
  by (induction xs) (auto split: if_splits)

lemma mset_delete:
  "map_of xs k = Some u \<Longrightarrow> distinct (map fst xs) \<Longrightarrow>
   add_mset (f u) (mset (map (f \<circ> snd) (AList.delete k xs))) = mset (map (f \<circ> snd) xs)"
proof (induction xs)
  case Nil
  then show ?case by simp
next
  case (Cons x xs)
  show ?case
  proof (cases "fst x = k")
    case True
    then have "AList.delete k xs = xs" using Cons.prems(2) by (intro delete_id) auto
    with True Cons.prems show ?thesis by (cases x) auto
  next
    case False
    with Cons show ?thesis by (cases x) auto
  qed
qed

lemma va_table_update:
  "va_table_ok xs \<Longrightarrow> va_ok (si_stream i) \<Longrightarrow> mHandleID (si_stream i) = k \<Longrightarrow> va_table_ok (AList.update k i xs)"
  using set_update_subset [of k i xs] by (fastforce simp: va_table_ok_def distinct_update)

lemma set_delete_subset: "set (AList.delete k xs) \<subseteq> set xs"
  by (auto simp: AList.delete_eq)

lemma va_table_delete: "va_table_ok xs \<Longrightarrow> va_table_ok (AList.delete k xs)"
  using set_delete_subset [of k xs] by (auto simp: va_table_ok_def distinct_delete)

lemma va_table_lookup: "va_table_ok xs \<Longrightarrow> map_of xs k = Some i \<Longrightarrow> va_ok (si_stream i) \<and> mHandleID (si_stream i) = k"
  by (fastforce simp: va_table_ok_def dest: map_of_SomeD)

lemma dc_table_update:
  "dc_table_ok m xs \<Longrightarrow> m (si_stream i) = Some ob \<Longrightarrow> mHandleID (do_stream ob) = k \<Longrightarrow> dc_table_ok m (AList.update k i xs)"
  using set_update_subset [of k i xs] by (fastforce simp: dc_table_ok_def distinct_update)

lemma dc_table_delete: "dc_table_ok m xs \<Longrightarrow> dc_table_ok m (AList.delete k xs)"
  using set_delete_subset [of k xs] by (auto simp: dc_table_ok_def distinct_delete)

lemma dc_table_lookup: "dc_table_ok m xs \<Longrightarrow> map_of xs k = Some i \<Longrightarrow>
  \<exists>ob. m (si_stream i) = Some ob \<and> mHandleID (do_stream ob) = k"
  by (fastforce simp: dc_table_ok_def dest: map_of_SomeD)

text \<open>A table survives a change of the objects that keeps the streams it names.\<close>

lemma dc_table_mono:
  assumes "dc_table_ok m xs"
    and "\<And>k i. (k, i) \<in> set xs \<Longrightarrow> map_option (mHandleID \<circ> do_stream) (m' (si_stream i))
      = map_option (mHandleID \<circ> do_stream) (m (si_stream i))"
  shows "dc_table_ok m' xs"
proof -
  have "\<exists>ob. m' (si_stream i) = Some ob \<and> mHandleID (do_stream ob) = k" if entry: "(k, i) \<in> set xs" for k i
  proof -
    obtain ob where "m (si_stream i) = Some ob" "mHandleID (do_stream ob) = k"
      using assms(1) entry unfolding dc_table_ok_def by blast
    with assms(2) [OF entry] show ?thesis by (cases "m' (si_stream i)") auto
  qed
  then show ?thesis using assms(1) by (auto simp: dc_table_ok_def)
qed

lemma holders_entry:
  assumes "(k, i) \<in> set (mRemoteStreamInfos_DataChannels c)"
  shows "si_stream i \<in># holders c"
  using assms by (force simp: holders_def)

section \<open>Counting references\<close>

lemma refs_ok_upd:
  assumes "refs_ok H m" "\<And>b. b \<noteq> a \<Longrightarrow> count H' b = count H b" "refs_at (count H' a) x"
  shows "refs_ok H' (m(a := x))"
  using assms by (simp add: refs_ok_def)

lemma refs_ok_Some:
  assumes "refs_ok H m" "a \<in># H"
  shows "\<exists>ob. m a = Some ob \<and> do_refs ob = count H a"
proof -
  have "refs_at (count H a) (m a)" "count H a \<noteq> 0" using assms by (simp_all add: refs_ok_def)
  then show ?thesis by (cases "m a") auto
qed

lemma refs_ok_None:
  assumes "refs_ok H m"
  shows "m a = None \<longleftrightarrow> a \<notin># H"
proof -
  have "refs_at (count H a) (m a)" using assms by (simp add: refs_ok_def)
  then show ?thesis by (cases "m a") (auto simp: count_eq_zero_iff)
qed

lemma add_ref_ok:
  assumes "refs_ok H (dc_objects c)" "a \<in># H"
  shows "\<exists>ob. dc_objects c a = Some ob
    \<and> dc_add_ref a c = Inr (dc_put a (ob\<lparr>do_refs := Suc (do_refs ob)\<rparr>) c)
    \<and> refs_ok (add_mset a H) (dc_objects (dc_put a (ob\<lparr>do_refs := Suc (do_refs ob)\<rparr>) c))"
proof -
  obtain ob where ob: "dc_objects c a = Some ob" "do_refs ob = count H a" using refs_ok_Some [OF assms] by blast
  then have "dc_add_ref a c = Inr (dc_put a (ob\<lparr>do_refs := Suc (do_refs ob)\<rparr>) c)"
    by (simp add: dc_add_ref_def dc_get_def)
  moreover have "refs_ok (add_mset a H) (dc_objects (dc_put a (ob\<lparr>do_refs := Suc (do_refs ob)\<rparr>) c))"
    unfolding dc_put_def using refs_ok_upd [OF assms(1)] ob by simp
  ultimately show ?thesis using ob(1) by blast
qed

lemma release_ok:
  assumes "refs_ok (add_mset a H) (dc_objects c)"
  shows "\<exists>m. dc_release a c = Inr (c\<lparr>dc_objects := m\<rparr>) \<and> refs_ok H m
    \<and> (\<forall>b \<in># H. map_option do_stream (m b) = map_option do_stream (dc_objects c b))
    \<and> (\<forall>b. dc_objects c b = None \<longrightarrow> m b = None)"
proof -
  obtain ob where ob: "dc_objects c a = Some ob" "do_refs ob = Suc (count H a)"
    using refs_ok_Some [OF assms, of a] by auto
  show ?thesis
  proof (cases "count H a = 0")
    case True
    then have "dc_release a c = Inr (c\<lparr>dc_objects := (dc_objects c)(a := None)\<rparr>)"
      using ob by (simp add: dc_release_def dc_get_def)
    moreover have "refs_ok H ((dc_objects c)(a := None))"
      by (rule refs_ok_upd [OF assms]) (simp_all add: True)
    moreover have "a \<notin># H" using True by (simp add: count_eq_zero_iff)
    ultimately show ?thesis by (intro exI [of _ "(dc_objects c)(a := None)"]) auto
  next
    case False
    then obtain n where n: "count H a = Suc n" using not0_implies_Suc by blast
    let ?m = "(dc_objects c)(a \<mapsto> ob\<lparr>do_refs := count H a\<rparr>)"
    have "dc_release a c = Inr (c\<lparr>dc_objects := ?m\<rparr>)"
      using ob by (simp add: dc_release_def dc_get_def dc_put_def n)
    moreover have "refs_ok H ?m"
      by (rule refs_ok_upd [OF assms]) (use False in simp_all)
    ultimately show ?thesis using ob by (intro exI [of _ ?m]) auto
  qed
qed

section \<open>Steps that keep the invariant\<close>

lemma conf_okD:
  assumes "conf_ok H c"
  shows "refs_ok H (dc_objects c)" "dc_next c \<le> n \<Longrightarrow> dc_objects c (Addr n) = None"
    "va_table_ok (mRemoteStreamInfos_VideoAudio c)" "dc_table_ok (dc_objects c) (mRemoteStreamInfos_DataChannels c)"
  using assms by (simp_all add: conf_ok_def)

text \<open>Replacing the stream of an object by one with the same handle.\<close>

lemma put_stream_ok:
  assumes "conf_ok H c" "dc_objects c a = Some ob" "mHandleID st = mHandleID (do_stream ob)"
  shows "conf_ok H (dc_put a (ob\<lparr>do_stream := st\<rparr>) c)"
proof -
  let ?m = "(dc_objects c)(a \<mapsto> ob\<lparr>do_stream := st\<rparr>)"
  have "refs_ok H ?m"
    by (rule refs_ok_upd [OF conf_okD(1) [OF assms(1)]])
      (use conf_okD(1) [OF assms(1)] assms(2) in \<open>auto simp: refs_ok_def dest: spec [of _ a]\<close>)
  moreover have "dc_table_ok ?m (mRemoteStreamInfos_DataChannels c)"
    by (rule dc_table_mono [OF conf_okD(4) [OF assms(1)]]) (simp add: assms(2,3))
  ultimately show ?thesis
    using assms(1,2) by (auto simp: conf_ok_def dc_put_def)
qed

lemma conf_add_ref:
  assumes "conf_ok H c" "a \<in># H"
  shows "\<exists>ob. dc_objects c a = Some ob \<and> dc_add_ref a c = Inr (dc_put a (ob\<lparr>do_refs := Suc (do_refs ob)\<rparr>) c)
    \<and> conf_ok (add_mset a H) (dc_put a (ob\<lparr>do_refs := Suc (do_refs ob)\<rparr>) c)"
proof -
  from add_ref_ok [OF conf_okD(1) [OF assms(1)] assms(2)] obtain ob where ob: "dc_objects c a = Some ob"
    "dc_add_ref a c = Inr (dc_put a (ob\<lparr>do_refs := Suc (do_refs ob)\<rparr>) c)"
    "refs_ok (add_mset a H) (dc_objects (dc_put a (ob\<lparr>do_refs := Suc (do_refs ob)\<rparr>) c))"
    by blast
  have "dc_table_ok (dc_objects (dc_put a (ob\<lparr>do_refs := Suc (do_refs ob)\<rparr>) c)) (mRemoteStreamInfos_DataChannels c)"
    by (rule dc_table_mono [OF conf_okD(4) [OF assms(1)]]) (simp add: ob(1) dc_put_def)
  with ob assms(1) show ?thesis by (auto simp: conf_ok_def dc_put_def)
qed

text \<open>Every entry of the table must still be counted after the release.\<close>

lemma conf_release:
  assumes "conf_ok (add_mset a H) c"
    and "\<And>k i. (k, i) \<in> set (mRemoteStreamInfos_DataChannels c) \<Longrightarrow> si_stream i \<in># H"
  shows "\<exists>m. dc_release a c = Inr (c\<lparr>dc_objects := m\<rparr>) \<and> conf_ok H (c\<lparr>dc_objects := m\<rparr>)
    \<and> (\<forall>b \<in># H. map_option do_stream (m b) = map_option do_stream (dc_objects c b))"
proof -
  from release_ok [OF conf_okD(1) [OF assms(1)]] obtain m where m:
    "dc_release a c = Inr (c\<lparr>dc_objects := m\<rparr>)" "refs_ok H m"
    "\<forall>b \<in># H. map_option do_stream (m b) = map_option do_stream (dc_objects c b)"
    "\<forall>b. dc_objects c b = None \<longrightarrow> m b = None" by blast
  have "map_option (mHandleID \<circ> do_stream) (m (si_stream i))
      = map_option (mHandleID \<circ> do_stream) (dc_objects c (si_stream i))"
    if entry: "(k, i) \<in> set (mRemoteStreamInfos_DataChannels c)" for k i
    using m(3) assms(2) [OF entry] by (metis option.map_comp)
  then have "dc_table_ok m (mRemoteStreamInfos_DataChannels c)"
    by (rule dc_table_mono [OF conf_okD(4) [OF assms(1)]])
  with m assms(1) have "conf_ok H (c\<lparr>dc_objects := m\<rparr>)" by (simp add: conf_ok_def)
  with m show ?thesis by blast
qed

lemma conf_release_if:
  assumes "conf_ok (opt_mset p + H) c"
    and "\<And>k i. (k, i) \<in> set (mRemoteStreamInfos_DataChannels c) \<Longrightarrow> si_stream i \<in># H"
  shows "\<exists>m. release_if p c = Inr (c\<lparr>dc_objects := m\<rparr>) \<and> conf_ok H (c\<lparr>dc_objects := m\<rparr>)
    \<and> (\<forall>b \<in># H. map_option do_stream (m b) = map_option do_stream (dc_objects c b))"
proof (cases p)
  case None
  with assms(1) show ?thesis by (intro exI [of _ "dc_objects c"]) (simp add: release_if_def)
next
  case (Some a)
  with assms conf_release [of a H c] show ?thesis by (simp add: release_if_def)
qed

lemma holders_put_dc:
  "opt_mset (map_option si_stream (map_of (mRemoteStreamInfos_DataChannels c) k)) + holders (put_dc k i c)
    = add_mset (si_stream i) (holders c)"
proof (cases "map_of (mRemoteStreamInfos_DataChannels c) k")
  case None
  then show ?thesis
    using mset_update_new [OF None, of si_stream i] by (simp add: holders_def put_dc_def)
next
  case (Some u)
  then show ?thesis
    using mset_update_old [OF Some, of si_stream i] by (simp add: holders_def put_dc_def)
qed

lemma holders_objects [simp]: "holders (c\<lparr>dc_objects := m\<rparr>) = holders c" "holders (dc_put a ob c) = holders c"
  by (simp_all add: holders_def dc_put_def)

text \<open>The stream that is filed is held by its caller as well, before and after.\<close>

lemma add_stream_dc:
  assumes "conf_ok (add_mset a (holders c)) c" "dc_objects c a = Some ob" "mHandleID (do_stream ob) = k"
  shows "\<exists>m. let c' = (put_dc k (new_info a) c)\<lparr>dc_objects := m\<rparr> in
    addStreamInfo_DataChannels a c = Inr c' \<and> conf_ok (add_mset a (holders c')) c'
    \<and> map_option do_stream (m a) = Some (do_stream ob)"
proof -
  from conf_add_ref [OF assms(1), of a] assms(2) have add:
    "dc_add_ref a c = Inr (dc_put a (ob\<lparr>do_refs := Suc (do_refs ob)\<rparr>) c)"
    "conf_ok (add_mset a (add_mset a (holders c))) (dc_put a (ob\<lparr>do_refs := Suc (do_refs ob)\<rparr>) c)"
    by auto
  define old where "old = map_option si_stream (map_of (mRemoteStreamInfos_DataChannels c) k)"
  define c1 where "c1 = dc_put a (ob\<lparr>do_refs := Suc (do_refs ob)\<rparr>) c"
  let ?c2 = "put_dc k (new_info a) c1"
  have tab: "mRemoteStreamInfos_DataChannels c1 = mRemoteStreamInfos_DataChannels c" by (simp add: c1_def dc_put_def)
  have "holders c1 = holders c" by (simp add: c1_def)
  then have h: "opt_mset old + holders ?c2 = add_mset a (holders c)"
    using holders_put_dc [of c1 k "new_info a"] by (simp add: tab old_def new_info_def)
  have obj: "dc_objects ?c2 a = Some (ob\<lparr>do_refs := Suc (do_refs ob)\<rparr>)" by (simp add: c1_def put_dc_def dc_put_def)
  have "conf_ok (add_mset a (add_mset a (holders c))) ?c2"
    using add(2) dc_table_update [of "dc_objects c1" "mRemoteStreamInfos_DataChannels c1" "new_info a"] assms(3)
    by (simp add: conf_ok_def c1_def put_dc_def dc_put_def new_info_def)
  then have "conf_ok (opt_mset old + add_mset a (holders ?c2)) ?c2" using h by (simp add: ac_simps)
  from conf_release_if [OF this] obtain m where m: "release_if old ?c2 = Inr (?c2\<lparr>dc_objects := m\<rparr>)"
    "conf_ok (add_mset a (holders ?c2)) (?c2\<lparr>dc_objects := m\<rparr>)"
    "\<forall>b \<in># add_mset a (holders ?c2). map_option do_stream (m b) = map_option do_stream (dc_objects ?c2 b)"
    using holders_entry by fastforce
  have eq: "?c2\<lparr>dc_objects := m\<rparr> = (put_dc k (new_info a) c)\<lparr>dc_objects := m\<rparr>"
    by (simp add: c1_def put_dc_def dc_put_def)
  have "addStreamInfo_DataChannels a c = release_if old ?c2"
    using add(1) assms(2,3) by (simp add: addStreamInfo_DataChannels_def dc_get_def GetHandleID_def old_def c1_def Let_def)
  then have "addStreamInfo_DataChannels a c = Inr (?c2\<lparr>dc_objects := m\<rparr>)" using m(1) by simp
  moreover have "conf_ok (add_mset a (holders (?c2\<lparr>dc_objects := m\<rparr>))) (?c2\<lparr>dc_objects := m\<rparr>)"
    using m(2) by simp
  moreover have "map_option do_stream (m a) = Some (do_stream ob)" using m(3) obj by simp
  ultimately show ?thesis unfolding eq Let_def by blast
qed

lemma conf_wf_entry_fresh:
  assumes "conf_ok H c" "dc_next c \<le> n"
  shows "Addr n \<notin># H"
  using refs_ok_None [OF conf_okD(1) [OF assms(1)]] conf_okD(2) [OF assms] by blast

lemma conf_alloc:
  assumes "conf_ok H c" "dc_alloc st c = (a, c')"
  shows "conf_ok (add_mset a H) c'" "a = Addr (dc_next c)"
    "c' = c\<lparr>dc_objects := (dc_objects c)(a \<mapsto> \<lparr>do_stream = st, do_refs = 1\<rparr>), dc_next := Suc (dc_next c)\<rparr>"
proof -
  show a: "a = Addr (dc_next c)" and c': "c' = c\<lparr>dc_objects := (dc_objects c)(a \<mapsto> \<lparr>do_stream = st, do_refs = 1\<rparr>), dc_next := Suc (dc_next c)\<rparr>"
    using assms(2) by (auto simp: dc_alloc_def Let_def)
  have new: "a \<notin># H" "dc_objects c a = None"
    using conf_wf_entry_fresh [OF assms(1)] conf_okD(2) [OF assms(1)] by (auto simp: a)
  have "refs_ok (add_mset a H) ((dc_objects c)(a \<mapsto> \<lparr>do_stream = st, do_refs = 1\<rparr>))"
    by (rule refs_ok_upd [OF conf_okD(1) [OF assms(1)]]) (use new(1) in \<open>simp_all add: not_in_iff\<close>)
  moreover have "dc_table_ok ((dc_objects c)(a \<mapsto> \<lparr>do_stream = st, do_refs = 1\<rparr>)) (mRemoteStreamInfos_DataChannels c)"
    using conf_okD(4) [OF assms(1)] new(2)
    by (intro dc_table_mono [OF conf_okD(4) [OF assms(1)]]) (fastforce simp: dc_table_ok_def)
  ultimately show "conf_ok (add_mset a H) c'"
    using assms(1) by (auto simp: conf_ok_def c' a)
qed

text \<open>A new channel replaces the local stream: it is held twice, by the pointer and by its maker.\<close>

lemma local_channel_made:
  assumes "conf_wf c"
  obtains a c1 c2 c3 c4 ob where "dc_alloc (DC_new k) c = (a, c1)" "dc_add_ref a c1 = Inr c2"
    "c3 = c2\<lparr>LocalStream_DataChannels := Some a\<rparr>" "release_if (LocalStream_DataChannels c1) c3 = Inr c4"
    "conf_ok (add_mset a (holders c4)) c4" "dc_objects c4 a = Some ob" "do_stream ob = DC_new k"
    "LocalStream_DataChannels c4 = Some a"
    "mRemoteStreamInfos_DataChannels c4 = mRemoteStreamInfos_DataChannels c"
    "mRemoteStreamInfos_VideoAudio c4 = mRemoteStreamInfos_VideoAudio c" "mRemoteWinds c4 = mRemoteWinds c"
proof -
  let ?D = "mset (map (si_stream \<circ> snd) (mRemoteStreamInfos_DataChannels c))"
  obtain a c1 where al: "dc_alloc (DC_new k) c = (a, c1)" by (cases "dc_alloc (DC_new k) c")
  note new = conf_alloc [OF assms [unfolded conf_wf_def] al]
  define old where "old = LocalStream_DataChannels c"
  have c1: "LocalStream_DataChannels c1 = old" "mRemoteStreamInfos_DataChannels c1 = mRemoteStreamInfos_DataChannels c"
    "dc_objects c1 a = Some \<lparr>do_stream = DC_new k, do_refs = 1\<rparr>"
    "mRemoteStreamInfos_VideoAudio c1 = mRemoteStreamInfos_VideoAudio c" "mRemoteWinds c1 = mRemoteWinds c"
    by (simp_all add: new(3) old_def)
  define c2 where "c2 = dc_put a \<lparr>do_stream = DC_new k, do_refs = Suc 1\<rparr> c1"
  have c2: "dc_add_ref a c1 = Inr c2" "conf_ok (add_mset a (add_mset a (holders c))) c2"
    using conf_add_ref [OF new(1), of a] c1(3) by (auto simp: c2_def)
  define c3 where "c3 = c2\<lparr>LocalStream_DataChannels := Some a\<rparr>"
  have tab3: "mRemoteStreamInfos_DataChannels c3 = mRemoteStreamInfos_DataChannels c"
    "mRemoteStreamInfos_VideoAudio c3 = mRemoteStreamInfos_VideoAudio c" "mRemoteWinds c3 = mRemoteWinds c"
    "LocalStream_DataChannels c3 = Some a"
    "dc_objects c3 a = Some \<lparr>do_stream = DC_new k, do_refs = Suc 1\<rparr>"
    by (simp_all add: c3_def c2_def dc_put_def c1)
  have h3: "holders c3 = add_mset a ?D" "holders c = opt_mset old + ?D"
    by (simp_all add: holders_def tab3 old_def)
  have "conf_ok (add_mset a (add_mset a (holders c))) c3"
    using c2(2) by (simp add: conf_ok_def c3_def)
  then have "conf_ok (opt_mset old + add_mset a (holders c3)) c3" by (simp add: h3)
  from conf_release_if [OF this] obtain m where m: "release_if old c3 = Inr (c3\<lparr>dc_objects := m\<rparr>)"
    "conf_ok (add_mset a (holders c3)) (c3\<lparr>dc_objects := m\<rparr>)"
    "\<forall>b \<in># add_mset a (holders c3). map_option do_stream (m b) = map_option do_stream (dc_objects c3 b)"
    using holders_entry by fastforce
  obtain ob where ob: "m a = Some ob" "do_stream ob = DC_new k" using m(3) tab3(5) by (cases "m a") auto
  show ?thesis
    by (rule that [OF al c2(1) c3_def, of "c3\<lparr>dc_objects := m\<rparr>" ob])
      (use m(1,2) ob tab3 in \<open>simp_all add: c1(1)\<close>)
qed

text \<open>Then it is filed under its handle, and its maker lets go.\<close>

lemma channel_filed:
  assumes "conf_ok (add_mset a (holders c)) c" "dc_objects c a = Some ob" "mHandleID (do_stream ob) = k"
    and "LocalStream_DataChannels c = Some a"
  obtains c1 c2 ob' where "addStreamInfo_DataChannels a c = Inr c1" "dc_release a c1 = Inr c2" "conf_wf c2"
    "dc_objects c2 a = Some ob'" "do_stream ob' = do_stream ob" "LocalStream_DataChannels c2 = Some a"
    "mRemoteStreamInfos_DataChannels c2 = AList.update k (new_info a) (mRemoteStreamInfos_DataChannels c)"
    "mRemoteStreamInfos_VideoAudio c2 = mRemoteStreamInfos_VideoAudio c" "mRemoteWinds c2 = mRemoteWinds c"
proof -
  obtain n where n: "let c' = (put_dc k (new_info a) c)\<lparr>dc_objects := n\<rparr> in
      addStreamInfo_DataChannels a c = Inr c' \<and> conf_ok (add_mset a (holders c')) c'
      \<and> map_option do_stream (n a) = Some (do_stream ob)"
    using add_stream_dc [OF assms(1-3)] by blast
  define c1 where "c1 = (put_dc k (new_info a) c)\<lparr>dc_objects := n\<rparr>"
  have c1: "addStreamInfo_DataChannels a c = Inr c1" "conf_ok (add_mset a (holders c1)) c1"
    "map_option do_stream (dc_objects c1 a) = Some (do_stream ob)"
    using n by (simp_all add: c1_def Let_def)
  have tab: "mRemoteStreamInfos_DataChannels c1 = AList.update k (new_info a) (mRemoteStreamInfos_DataChannels c)"
    "LocalStream_DataChannels c1 = Some a" "mRemoteStreamInfos_VideoAudio c1 = mRemoteStreamInfos_VideoAudio c"
    "mRemoteWinds c1 = mRemoteWinds c"
    by (simp_all add: c1_def put_dc_def assms(4))
  have "\<exists>l. dc_release a c1 = Inr (c1\<lparr>dc_objects := l\<rparr>) \<and> conf_ok (holders c1) (c1\<lparr>dc_objects := l\<rparr>)
      \<and> (\<forall>b \<in># holders c1. map_option do_stream (l b) = map_option do_stream (dc_objects c1 b))"
    by (rule conf_release [OF c1(2)]) (rule holders_entry)
  then obtain l where l: "dc_release a c1 = Inr (c1\<lparr>dc_objects := l\<rparr>)"
    "conf_ok (holders c1) (c1\<lparr>dc_objects := l\<rparr>)"
    "\<forall>b \<in># holders c1. map_option do_stream (l b) = map_option do_stream (dc_objects c1 b)"
    by blast
  have "a \<in># holders c1" using tab(2) by (simp add: holders_def)
  then have "map_option do_stream (l a) = Some (do_stream ob)" using l(3) c1(3) by simp
  then obtain ob' where ob': "l a = Some ob'" "do_stream ob' = do_stream ob" by (cases "l a") auto
  show ?thesis
    by (rule that [OF c1(1) l(1), of ob']) (use l(2) ob' tab in \<open>simp_all add: conf_wf_def\<close>)
qed

lemma connect_dc_ok:
  assumes "conf_wf c"
  shows "\<exists>c' info ob. ConnectToPeer_DataChannels k c = Inr c' \<and> conf_wf c'
    \<and> map_of (mRemoteStreamInfos_DataChannels c') k = Some info \<and> LocalStream_DataChannels c' = Some (si_stream info)
    \<and> dc_objects c' (si_stream info) = Some ob
    \<and> do_stream ob = (DC_new k)\<lparr>OnSendLocalInfoWhenOpenDataChannel := Some SendLocalInfo\<rparr>
    \<and> mRemoteStreamInfos_DataChannels c' = AList.update k info (mRemoteStreamInfos_DataChannels c)
    \<and> mRemoteStreamInfos_VideoAudio c' = mRemoteStreamInfos_VideoAudio c \<and> mRemoteWinds c' = mRemoteWinds c"
proof -
  obtain a c1 c2 c3 c4 ob where al: "dc_alloc (DC_new k) c = (a, c1)" "dc_add_ref a c1 = Inr c2"
    "c3 = c2\<lparr>LocalStream_DataChannels := Some a\<rparr>" "release_if (LocalStream_DataChannels c1) c3 = Inr c4"
    and ok4: "conf_ok (add_mset a (holders c4)) c4" and ob: "dc_objects c4 a = Some ob" "do_stream ob = DC_new k"
    and local4: "LocalStream_DataChannels c4 = Some a"
    and tab4: "mRemoteStreamInfos_DataChannels c4 = mRemoteStreamInfos_DataChannels c"
      "mRemoteStreamInfos_VideoAudio c4 = mRemoteStreamInfos_VideoAudio c" "mRemoteWinds c4 = mRemoteWinds c"
    by (rule local_channel_made [OF assms, of k])
  define st where "st = (DC_new k)\<lparr>OnSendLocalInfoWhenOpenDataChannel := Some SendLocalInfo\<rparr>"
  have h: "mHandleID st = k" "mHandleID (DC_new k) = k" by (simp_all add: st_def DC_new_def)
  define c5 where "c5 = dc_put a (ob\<lparr>do_stream := st\<rparr>) c4"
  have ok5: "conf_ok (add_mset a (holders c5)) c5"
    using put_stream_ok [OF ok4, of a ob st] ob h by (simp add: c5_def)
  have c5: "dc_objects c5 a = Some (ob\<lparr>do_stream := st\<rparr>)" "mHandleID (do_stream (ob\<lparr>do_stream := st\<rparr>)) = k"
    "LocalStream_DataChannels c5 = Some a"
    by (simp_all add: c5_def dc_put_def h local4)
  have tab5: "mRemoteStreamInfos_DataChannels c5 = mRemoteStreamInfos_DataChannels c"
    "mRemoteStreamInfos_VideoAudio c5 = mRemoteStreamInfos_VideoAudio c" "mRemoteWinds c5 = mRemoteWinds c"
    by (simp_all add: c5_def dc_put_def tab4)
  obtain c6 c7 ob' where filed: "addStreamInfo_DataChannels a c5 = Inr c6" "dc_release a c6 = Inr c7" "conf_wf c7"
    "dc_objects c7 a = Some ob'" "do_stream ob' = do_stream (ob\<lparr>do_stream := st\<rparr>)" "LocalStream_DataChannels c7 = Some a"
    "mRemoteStreamInfos_DataChannels c7 = AList.update k (new_info a) (mRemoteStreamInfos_DataChannels c5)"
    "mRemoteStreamInfos_VideoAudio c7 = mRemoteStreamInfos_VideoAudio c5" "mRemoteWinds c7 = mRemoteWinds c5"
    by (rule channel_filed [OF ok5 c5])
  have "RegisterSendLocalInfoWhenOpenDataChannelCallBack SendLocalInfo (do_stream ob) = st"
    by (simp add: RegisterSendLocalInfoWhenOpenDataChannelCallBack_def ob(2) st_def)
  moreover have "dc_get a c4 = Inr ob" by (simp add: dc_get_def ob(1))
  ultimately have "ConnectToPeer_DataChannels k c = Inr c7"
    unfolding ConnectToPeer_DataChannels_def al(1,2) prod.case Let_def rbind_Inr al(3) [symmetric] al(4)
    by (simp only: c5_def [symmetric] filed(1,2) rbind_Inr)
  then show ?thesis
    using filed(3-9) by (intro exI [of _ c7] exI [of _ "new_info a"] exI [of _ ob'])
      (simp add: tab5 st_def new_info_def update_conv)
qed

section \<open>The functions the session calls\<close>

text \<open>
  The faults of the conference layer. A null pointer is used only where webrtc cannot make
  every connection that it is asked for.
\<close>

definition always_connects :: "webrtc_env \<Rightarrow> bool" where
  "always_connects W \<longleftrightarrow> we_factory W \<and> (\<forall>h. we_pc W h)"

definition conf_fault :: "webrtc_env \<Rightarrow> fault \<Rightarrow> bool" where
  "conf_fault W e \<longleftrightarrow> e = UninitializedPointer \<or> e = NullDereference \<and> \<not> always_connects W"

lemma VA_ConnectToPeer_case:
  assumes "va_ok s"
  shows "case VA_ConnectToPeer W tks s of Inl f \<Rightarrow> f = NullDereference \<and> \<not> always_connects W | Inr t \<Rightarrow> va_ok t \<and> mHandleID t = mHandleID s"
proof (cases "VA_ConnectToPeer W tks s")
  case (Inl f)
  then have "\<not> always_connects W"
    by (auto simp: VA_ConnectToPeer_def init_defs always_connects_def split: if_splits option.splits)
  with Inl va_do_ok [OF assms, where W = W and tr = tks and e = Connected] show ?thesis by simp
next
  case (Inr t)
  then have "mHandleID t = mHandleID s"
    by (auto simp: VA_ConnectToPeer_def init_defs split: if_splits option.splits)
  with Inr va_do_ok [OF assms, where W = W and tr = tks and e = Connected] show ?thesis by simp
qed

lemma VA_SetPeerSDP_case:
  assumes "va_ok s"
  shows "case VA_SetPeerSDP W tks type sdp s of Inl f \<Rightarrow> f = NullDereference \<and> \<not> always_connects W
    | Inr (b, t) \<Rightarrow> va_ok t \<and> mHandleID t = mHandleID s"
proof (cases "VA_SetPeerSDP W tks type sdp s")
  case (Inl f)
  then show ?thesis
    using va.set_peer_sdp_faults [of W tks type sdp s f] va.set_peer_sdp [of s W tks type sdp]
    by (auto simp: VA_SetPeerSDP_def always_connects_def)
next
  case (Inr bt)
  then have "va_do W tks (Described type sdp) s = Inr (snd bt)" by (simp add: case_prod_beta)
  with Inr va_do_ok [OF assms, where W = W and tr = tks and e = "Described type sdp"]
    va.set_peer_sdp_handle [of W tks type sdp s "fst bt" "snd bt"]
  show ?thesis by (simp add: VA_SetPeerSDP_def case_prod_beta)
qed

lemma DC_SetPeerSDP_case:
  "case DC_SetPeerSDP W type sdp s of Inl f \<Rightarrow> f = NullDereference \<and> \<not> always_connects W | Inr (b, t) \<Rightarrow> mHandleID t = mHandleID s"
proof (cases "DC_SetPeerSDP W type sdp s")
  case (Inl f)
  with dc.set_peer_sdp_faults [of W type sdp s f] dc.set_peer_sdp [of s W type sdp] show ?thesis
    by (auto simp: DC_SetPeerSDP_def always_connects_def)
next
  case (Inr bt)
  with dc.set_peer_sdp_handle [of W type sdp s "fst bt" "snd bt"] show ?thesis
    by (simp add: DC_SetPeerSDP_def case_prod_beta)
qed

lemma VA_destroy_fault: "va_ok s \<Longrightarrow> VA_destroy s = Inl e \<Longrightarrow> e = UninitializedPointer"
  using VA_destroy_cases [of s] by auto

lemma put_va_wf:
  assumes "conf_wf c" "va_ok (si_stream i)" "mHandleID (si_stream i) = k"
  shows "conf_wf (put_va k i c)"
proof -
  have "holders (put_va k i c) = holders c" by (simp add: holders_def put_va_def)
  with assms va_table_update [of "mRemoteStreamInfos_VideoAudio c" i k] show ?thesis
    by (simp add: conf_wf_def conf_ok_def) (simp add: put_va_def)
qed

lemma conf_wf_winds [simp]: "conf_wf (c\<lparr>mRemoteWinds := ws\<rparr>) \<longleftrightarrow> conf_wf c"
  by (simp add: conf_wf_def conf_ok_def holders_def)

lemma va_ok_setters [simp]:
  "va_ok (VA_SetWindowID w s) = va_ok s" "va_ok (VA_SetIsLocal b s) = va_ok s"
  "va_ok (s\<lparr>mPeerConnection := p, mHandleID := h\<rparr>) = va_ok s"
  "mHandleID (VA_SetWindowID w s) = mHandleID s" "mHandleID (VA_SetIsLocal b s) = mHandleID s"
  by (simp_all add: va_ok_def VA_SetWindowID_def VA_SetIsLocal_def)

lemma addStream_va_case:
  assumes "conf_wf c"
  shows "case addStreamInfo_VideoAudio st c of Inl e \<Rightarrow> e = UninitializedPointer
    | Inr c' \<Rightarrow> c' = put_va (mHandleID st) (new_info st) c"
proof (cases "map_of (mRemoteStreamInfos_VideoAudio c) (mHandleID st)")
  case None
  then show ?thesis by (simp add: addStreamInfo_VideoAudio_def GetHandleID_def)
next
  case (Some old)
  then have "va_ok (si_stream old)"
    using va_table_lookup [OF conf_okD(3) [OF assms [unfolded conf_wf_def]]] by blast
  with Some show ?thesis
    by (cases "VA_destroy (si_stream old)")
      (auto simp: addStreamInfo_VideoAudio_def GetHandleID_def dest: VA_destroy_fault)
qed

lemma connect_va_case:
  assumes "conf_wf c"
  shows "case ConnectToPeer_VideoAudio W k show_it conn loc c of Inl e \<Rightarrow> conf_fault W e | Inr c' \<Rightarrow> conf_wf c'"
proof -
  define s0 where "s0 = VA_SetIsLocal loc (VA_new (we_junk W k) k)"
  have s0: "va_ok s0" "mHandleID s0 = k" by (simp_all add: s0_def)
  show ?thesis
  proof (cases "addStreamInfo_VideoAudio s0 c")
    case (Inl e)
    with addStream_va_case [OF assms, of s0] show ?thesis
      by (simp add: ConnectToPeer_VideoAudio_def s0_def [symmetric] conf_fault_def)
  next
    case (Inr c1)
    then have c1: "c1 = put_va k (new_info s0) c" using addStream_va_case [OF assms, of s0] s0 by simp
    obtain w winds where w: "(if show_it then take_window k (mRemoteWinds c1) else (None, mRemoteWinds c1)) = (w, winds)"
      by fastforce
    define s1 where "s1 = (case w of None \<Rightarrow> s0 | Some w \<Rightarrow> VA_SetWindowID w s0)"
    have s1: "va_ok s1" "mHandleID s1 = k" by (simp_all add: s1_def s0 split: option.splits)
    define c2 where "c2 = put_va k (new_info s1) (c1\<lparr>mRemoteWinds := winds\<rparr>)"
    have "conf_wf c1" unfolding c1 by (rule put_va_wf [OF assms]) (simp_all add: new_info_def s0)
    then have wf: "conf_wf c2" unfolding c2_def by (intro put_va_wf) (simp_all add: new_info_def s1)
    have "conf_wf (put_va k (new_info t) c2)" if "va_ok t" "mHandleID t = k" for t
      by (rule put_va_wf [OF wf]) (simp_all add: new_info_def that)
    moreover have "ConnectToPeer_VideoAudio W k show_it conn loc c = (if conn
        then rbind (VA_ConnectToPeer W (tracks c2) s1) (\<lambda>t. Inr (put_va k (new_info t) c2)) else Inr c2)"
      unfolding ConnectToPeer_VideoAudio_def s0_def [symmetric] Let_def Inr rbind_Inr w prod.case
        s1_def [symmetric] c2_def [symmetric] by (rule refl)
    ultimately show ?thesis
      using wf VA_ConnectToPeer_case [OF s1(1), of W "tracks c2"] s1(2)
      by (cases "VA_ConnectToPeer W (tracks c2) s1") (simp_all add: conf_fault_def)
  qed
qed

lemma conf_wf_dc:
  assumes "conf_wf c" "map_of (mRemoteStreamInfos_DataChannels c) k = Some info"
  shows "\<exists>ob. dc_get (si_stream info) c = Inr ob \<and> dc_objects c (si_stream info) = Some ob \<and> mHandleID (do_stream ob) = k"
  using dc_table_lookup [OF conf_okD(4) [OF assms(1) [unfolded conf_wf_def]] assms(2)] by (auto simp: dc_get_def)

lemma conf_wf_va:
  assumes "conf_wf c" "map_of (mRemoteStreamInfos_VideoAudio c) k = Some info"
  shows "va_ok (si_stream info)" "mHandleID (si_stream info) = k"
  using va_table_lookup [OF conf_okD(3) [OF assms(1) [unfolded conf_wf_def]] assms(2)] by blast+

lemma put_stream_wf:
  "conf_wf c \<Longrightarrow> dc_objects c a = Some ob \<Longrightarrow> mHandleID st = mHandleID (do_stream ob) \<Longrightarrow>
   conf_wf (dc_put a (ob\<lparr>do_stream := st\<rparr>) c)"
  unfolding conf_wf_def by (simp add: put_stream_ok)

lemma text_sdp_case:
  assumes "conf_wf c"
  shows "case onRetmoeSDP W k type sdp True c of Inl e \<Rightarrow> conf_fault W e | Inr c' \<Rightarrow> conf_wf c'"
proof -
  have "\<exists>c1. (if map_of (mRemoteStreamInfos_DataChannels c) k = None then ConnectToPeer_DataChannels k c else Inr c) = Inr c1
      \<and> conf_wf c1"
    using connect_dc_ok [OF assms, of k] assms by auto
  then obtain c1 where c1:
    "(if map_of (mRemoteStreamInfos_DataChannels c) k = None then ConnectToPeer_DataChannels k c else Inr c) = Inr c1"
    "conf_wf c1" by blast
  show ?thesis
  proof (cases "map_of (mRemoteStreamInfos_DataChannels c1) k")
    case None
    with c1 show ?thesis by (simp add: onRetmoeSDP_def)
  next
    case (Some info)
    from conf_wf_dc [OF c1(2) this] obtain ob where ob: "dc_get (si_stream info) c1 = Inr ob"
      "dc_objects c1 (si_stream info) = Some ob" "mHandleID (do_stream ob) = k" by blast
    have "onRetmoeSDP W k type sdp True c = rbind (DC_SetPeerSDP W type sdp (do_stream ob))
        (\<lambda>(parsed, st). Inr (dc_put (si_stream info) (ob\<lparr>do_stream := st\<rparr>) c1))"
      using c1(1) Some ob(1) by (simp add: onRetmoeSDP_def)
    then show ?thesis
      using DC_SetPeerSDP_case [where W = W and type = type and sdp = sdp and s = "do_stream ob"] put_stream_wf [OF c1(2) ob(2)]
      by (cases "DC_SetPeerSDP W type sdp (do_stream ob)") (auto simp: conf_fault_def)
  qed
qed

lemma video_sdp_case:
  assumes "conf_wf c"
  shows "case onRetmoeSDP W k type sdp False c of Inl e \<Rightarrow> conf_fault W e | Inr c' \<Rightarrow> conf_wf c'"
proof (cases "if map_of (mRemoteStreamInfos_VideoAudio c) k = None
    then ConnectToPeer_VideoAudio W k True False False c else Inr c")
  case (Inl e)
  then have "conf_fault W e" using connect_va_case [OF assms, of W k True False False] by (auto split: if_splits)
  with Inl show ?thesis by (simp add: onRetmoeSDP_def)
next
  case (Inr c1)
  then have wf: "conf_wf c1"
    using connect_va_case [OF assms, of W k True False False] assms by (auto split: if_splits)
  show ?thesis
  proof (cases "map_of (mRemoteStreamInfos_VideoAudio c1) k")
    case None
    with Inr wf show ?thesis by (simp add: onRetmoeSDP_def)
  next
    case (Some info)
    note va = conf_wf_va [OF wf Some]
    have "onRetmoeSDP W k type sdp False c = rbind (VA_SetPeerSDP W (tracks c1) type sdp (si_stream info))
        (\<lambda>(parsed, st). Inr (put_va k (info\<lparr>si_stream := st\<rparr>) c1))"
      using Inr Some by (simp add: onRetmoeSDP_def)
    moreover have "conf_wf (put_va k (info\<lparr>si_stream := st\<rparr>) c1)" if "va_ok st" "mHandleID st = k" for st
      by (rule put_va_wf [OF wf]) (simp_all add: that)
    ultimately show ?thesis
      using VA_SetPeerSDP_case [OF va(1), of W "tracks c1" type sdp] va(2)
      by (cases "VA_SetPeerSDP W (tracks c1) type sdp (si_stream info)") (auto simp: conf_fault_def)
  qed
qed

text \<open>An entry of the data channels goes, and with it one pointer to its stream.\<close>

lemma remove_dc_ok:
  assumes "conf_wf c" "map_of (mRemoteStreamInfos_DataChannels c) k = Some info"
    "dc_objects c (si_stream info) = Some ob"
  shows "\<exists>c'. dc_release (si_stream info)
      ((dc_put (si_stream info) (ob\<lparr>do_stream := DeletePeerConnection (do_stream ob)\<rparr>) c)
        \<lparr>mRemoteStreamInfos_DataChannels := AList.delete k (mRemoteStreamInfos_DataChannels c)\<rparr>) = Inr c'
    \<and> conf_wf c'"
proof -
  let ?a = "si_stream info" and ?xs = "mRemoteStreamInfos_DataChannels c"
  let ?m = "(dc_objects c)(?a \<mapsto> ob\<lparr>do_stream := DeletePeerConnection (do_stream ob)\<rparr>)"
  let ?c = "c\<lparr>dc_objects := ?m, mRemoteStreamInfos_DataChannels := AList.delete k ?xs\<rparr>"
  note ok = conf_okD [OF assms(1) [unfolded conf_wf_def]]
  have dist: "distinct (map fst ?xs)" using ok(4) by (simp add: dc_table_ok_def)
  have h: "holders c = add_mset ?a (holders ?c)"
    using mset_delete [OF assms(2) dist, of si_stream] by (simp add: holders_def)
  have "refs_ok (add_mset ?a (holders ?c)) ?m"
    by (rule refs_ok_upd [OF ok(1)]) (use ok(1) assms(3) h in \<open>auto simp: refs_ok_def dest: spec [of _ ?a]\<close>)
  moreover have "dc_table_ok ?m (AList.delete k ?xs)"
  proof (rule dc_table_mono [OF dc_table_delete [OF ok(4)]])
    fix l i assume entry: "(l, i) \<in> set (AList.delete k ?xs)"
    then have "l \<noteq> k" "(l, i) \<in> set ?xs" by (auto simp: AList.delete_eq)
    then have "\<exists>ob. dc_objects c (si_stream i) = Some ob \<and> mHandleID (do_stream ob) = l"
      using ok(4) unfolding dc_table_ok_def by blast
    then have "si_stream i \<noteq> ?a"
      using dc_table_lookup [OF ok(4) assms(2)] \<open>l \<noteq> k\<close> by auto
    then show "map_option (mHandleID \<circ> do_stream) (?m (si_stream i))
        = map_option (mHandleID \<circ> do_stream) (dc_objects c (si_stream i))" by simp
  qed
  moreover have "?m (Addr n) = None" if "dc_next c \<le> n" for n
    using ok(2) [OF that] assms(3) by auto
  ultimately have "conf_ok (add_mset ?a (holders ?c)) ?c"
    using ok(3) by (simp add: conf_ok_def)
  then have "\<exists>l. dc_release ?a ?c = Inr (?c\<lparr>dc_objects := l\<rparr>) \<and> conf_ok (holders ?c) (?c\<lparr>dc_objects := l\<rparr>)
      \<and> (\<forall>b \<in># holders ?c. map_option do_stream (l b) = map_option do_stream (dc_objects ?c b))"
    by (rule conf_release) (rule holders_entry)
  then obtain l where l: "dc_release ?a ?c = Inr (?c\<lparr>dc_objects := l\<rparr>)" "conf_ok (holders ?c) (?c\<lparr>dc_objects := l\<rparr>)"
    by blast
  have "holders (?c\<lparr>dc_objects := l\<rparr>) = holders ?c" by (rule holders_objects)
  with l(2) have "conf_wf (?c\<lparr>dc_objects := l\<rparr>)" by (simp only: conf_wf_def)
  with l(1) show ?thesis by (simp add: dc_put_def)
qed

lemma remove_va_wf:
  assumes "conf_wf c"
  shows "conf_wf (c\<lparr>mRemoteStreamInfos_VideoAudio := AList.delete k (mRemoteStreamInfos_VideoAudio c)\<rparr>)"
  using assms va_table_delete [of "mRemoteStreamInfos_VideoAudio c" k]
  by (simp add: conf_wf_def conf_ok_def holders_def)

lemma dc_put_table: "mRemoteStreamInfos_DataChannels (dc_put a ob c) = mRemoteStreamInfos_DataChannels c"
  by (simp add: dc_put_def)

lemma rremove_case:
  assumes "conf_wf c"
  shows "case onRemoteStreamRemove k c of Inl e \<Rightarrow> conf_fault W e | Inr c' \<Rightarrow> conf_wf c'"
proof -
  define r where "r = (case map_of (mRemoteStreamInfos_VideoAudio c) k of None \<Rightarrow> Inr c
       | Some info \<Rightarrow>
            rbind (VA_destroy (DeletePeerConnection (si_stream info))) (\<lambda>_.
            Inr (c\<lparr>mRemoteStreamInfos_VideoAudio := AList.delete k (mRemoteStreamInfos_VideoAudio c)\<rparr>)))"
  have r: "case r of Inl e \<Rightarrow> conf_fault W e | Inr c' \<Rightarrow> conf_wf c'"
  proof (cases "map_of (mRemoteStreamInfos_VideoAudio c) k")
    case None
    then show ?thesis using assms by (simp add: r_def)
  next
    case (Some info)
    have "va_ok (DeletePeerConnection (si_stream info))"
      using conf_wf_va(1) [OF assms Some] by (simp add: DeletePeerConnection_def)
    then show ?thesis
      using remove_va_wf [OF assms, of k] Some
      by (cases "VA_destroy (DeletePeerConnection (si_stream info))")
        (auto simp: r_def conf_fault_def dest: VA_destroy_fault)
  qed
  have run: "onRemoteStreamRemove k c = rbind r (\<lambda>c.
     let c = c\<lparr>mRemoteWinds := free_window k (mRemoteWinds c)\<rparr> in
     case map_of (mRemoteStreamInfos_DataChannels c) k of None \<Rightarrow> Inr c
     | Some info \<Rightarrow> rbind (dc_get (si_stream info) c) (\<lambda>ob. dc_release (si_stream info)
        ((dc_put (si_stream info) (ob\<lparr>do_stream := DeletePeerConnection (do_stream ob)\<rparr>) c)
          \<lparr>mRemoteStreamInfos_DataChannels := AList.delete k (mRemoteStreamInfos_DataChannels c)\<rparr>)))"
    by (simp only: onRemoteStreamRemove_def r_def Let_def dc_put_table)
  show ?thesis
  proof (cases r)
    case (Inl e)
    with r show ?thesis by (simp add: run)
  next
    case (Inr c1)
    let ?c = "c1\<lparr>mRemoteWinds := free_window k (mRemoteWinds c1)\<rparr>"
    have wf: "conf_wf ?c" using r Inr by simp
    have eq: "onRemoteStreamRemove k c = (case map_of (mRemoteStreamInfos_DataChannels ?c) k of None \<Rightarrow> Inr ?c
     | Some info \<Rightarrow> rbind (dc_get (si_stream info) ?c) (\<lambda>ob. dc_release (si_stream info)
        ((dc_put (si_stream info) (ob\<lparr>do_stream := DeletePeerConnection (do_stream ob)\<rparr>) ?c)
          \<lparr>mRemoteStreamInfos_DataChannels := AList.delete k (mRemoteStreamInfos_DataChannels ?c)\<rparr>)))"
      by (simp only: run Inr rbind_Inr Let_def)
    show ?thesis
    proof (cases "map_of (mRemoteStreamInfos_DataChannels ?c) k")
      case None
      with wf show ?thesis by (simp add: eq)
    next
      case (Some info)
      from conf_wf_dc [OF wf this] obtain ob where ob: "dc_get (si_stream info) ?c = Inr ob"
        "dc_objects ?c (si_stream info) = Some ob" by blast
      from remove_dc_ok [OF wf Some ob(2)] show ?thesis unfolding eq Some option.case ob(1) rbind_Inr by auto
    qed
  qed
qed

text \<open>The conference layer as the client of the session.\<close>

interpretation conference: room_client "ConnectToPeer_VideoAudio W" "onRetmoeSDP W" onRemoteStreamRemove
    conf_wf "conf_fault W" for W
proof
  show "conf_wf c \<Longrightarrow> case ConnectToPeer_VideoAudio W h show_it conn loc c of Inl e \<Rightarrow> conf_fault W e | Inr c' \<Rightarrow> conf_wf c'"
    for c h show_it conn loc by (rule connect_va_case)
  show "conf_wf c \<Longrightarrow> case onRetmoeSDP W h ty sdp is_text c of Inl e \<Rightarrow> conf_fault W e | Inr c' \<Rightarrow> conf_wf c'"
    for c h ty sdp is_text by (cases is_text) (simp_all add: text_sdp_case video_sdp_case)
  show "conf_wf c \<Longrightarrow> case onRemoteStreamRemove h c of Inl e \<Rightarrow> conf_fault W e | Inr c' \<Rightarrow> conf_wf c'" for c h
    by (rule rremove_case)
qed

end
