(* ===== verification/Conference_Session.thy ===== *)
theory Conference_Session
  imports Conference_Invariants
begin

text \<open>
  The session and the conference layer together, in time: messages of the server and calls,
  signals of the streams, tracks that come and go, changes of the data channels and the
  requests of the user, in any order.
\<close>

section \<open>Events\<close>

datatype conf_event =
    Message session_event             \<comment> \<open>of the socket, or a call of the session\<close>
  | Emitted signal
  | ChannelChanged addr data_state
  | TrackCame i64 bool nat | TrackWent i64 bool
  | WindowsSet i64 "i64 list"
  | TextRoomSet u32 string
  | RoomLeft

text \<open>What a stream of the table is told, it is told as an object of the table.\<close>

definition on_stream :: "i64 \<Rightarrow> (va_stream \<Rightarrow> va_stream res) \<Rightarrow> session \<Rightarrow> session res" where
  "on_stream k f s = (case map_of (mRemoteStreamInfos_VideoAudio (client s)) k of None \<Rightarrow> Inr s
     | Some info \<Rightarrow> rbind (f (si_stream info)) (\<lambda>st. Inr (up_conf (put_va k (info\<lparr>si_stream := st\<rparr>)) s)))"

text \<open>\<^verbatim>\<open>WebRTCInterface::LeaveVideoRoom\<close>: first the conference layer, then the session.\<close>

definition leave_video_room :: "session \<Rightarrow> session res" where
  "leave_video_room s = rbind (Conf_LeaveVideoRoom (client s)) (\<lambda>c. JVRM_LeaveVideoRoom (s\<lparr>client := c\<rparr>))"

inductive conf_step :: "janus_env \<Rightarrow> session \<Rightarrow> conf_event \<Rightarrow> session res \<Rightarrow> bool" where
  message: "session_step E s e r \<Longrightarrow> conf_step E s (Message e) r"
| emitted: "run_signal E sg s = r \<Longrightarrow> conf_step E s (Emitted sg) r"
| channel: "a \<in> dom (dc_objects (client s)) \<Longrightarrow> channel_changed E a state s = r \<Longrightarrow>
    conf_step E s (ChannelChanged a state) r"
| came: "on_stream k (\<lambda>st. Inr (VA_OnAddTrack is_video t st)) s = r \<Longrightarrow> conf_step E s (TrackCame k is_video t) r"
| went: "on_stream k (VA_OnRemoveTrack is_video) s = r \<Longrightarrow> conf_step E s (TrackWent k is_video) r"
| windows: "conf_step E s (WindowsSet w ws) (Inr (up_conf (Conf_SetVideoWindows w ws) s))"
| text_room: "conf_step E s (TextRoomSet i name) (Inr (up_conf (SetTextRoomIDAndDisplayName i name) s))"
| left: "leave_video_room s = r \<Longrightarrow> conf_step E s RoomLeft r"

inductive conf_run :: "janus_env \<Rightarrow> session \<Rightarrow> conf_event list \<Rightarrow> session res \<Rightarrow> bool" where
  nil: "conf_run E s [] (Inr s)"
| fault: "conf_step E s e (Inl f) \<Longrightarrow> conf_run E s (e # es) (Inl f)"
| cons: "conf_step E s e (Inr t) \<Longrightarrow> conf_run E t es r \<Longrightarrow> conf_run E s (e # es) r"

inductive_cases conf_stepE: "conf_step E s e r"

definition leaving :: "conf_event \<Rightarrow> bool" where
  "leaving e \<longleftrightarrow> e = RoomLeft \<or> (\<exists>c. e = Message (Calls c) \<and> leaves c)"

text \<open>The events that may fault: the socket reports something, or the video room is left.\<close>

definition served :: "conf_event \<Rightarrow> bool" where
  "served e \<longleftrightarrow> e = RoomLeft \<or> (\<exists>v msg. e = Message (Signals v msg))"

text \<open>The session as \<^verbatim>\<open>ConferenceManager\<close> makes it.\<close>

definition conf_start :: "webrtc_env \<Rightarrow> nat \<Rightarrow> conf \<Rightarrow> session" where
  "conf_start W sd c = session_start (ConnectToPeer_VideoAudio W) (onRetmoeSDP W) onRemoteStreamRemove sd c"

section \<open>Signals\<close>

abbreviation conf_ready :: "webrtc_env \<Rightarrow> session \<Rightarrow> bool" where
  "conf_ready W \<equiv> session_ready (ConnectToPeer_VideoAudio W) (onRetmoeSDP W) onRemoteStreamRemove conf_wf"

abbreviation conf_outcome :: "webrtc_env \<Rightarrow> session \<Rightarrow> session res \<Rightarrow> bool" where
  "conf_outcome W \<equiv> session_outcome (ConnectToPeer_VideoAudio W) (onRetmoeSDP W) onRemoteStreamRemove conf_wf (conf_fault W)"

lemma ready_conf: "conf_ready W s \<Longrightarrow> conf_wf (client s)"
  by (simp add: session_ready_def)

lemma client_outcome:
  assumes "conf_ready W s" "conf_wf c"
  shows "conf_outcome W s (Inr (s\<lparr>client := c\<rparr>))"
  using assms by (auto simp: session_ready_def session_outcome_def bound_def janus_wf_def pending_live_def owned_def)

text \<open>What the streams and channels report never faults.\<close>

definition settled :: "webrtc_env \<Rightarrow> session \<Rightarrow> session res \<Rightarrow> bool" where
  "settled W s r \<longleftrightarrow> (\<exists>s'. r = Inr s' \<and> conf_outcome W s (Inr s'))"

lemma settled_Inr [simp]: "settled W s (Inr t) \<longleftrightarrow> conf_outcome W s (Inr t)"
  by (simp add: settled_def)

lemma good_settled: "conf_ready W s \<Longrightarrow> good s r \<Longrightarrow> settled W s r"
  using conference.good_outcome [of W s r] by (auto simp: good_def settled_def)

lemma settled_bind:
  assumes "settled W s r" "\<And>t. r = Inr t \<Longrightarrow> conf_ready W t \<Longrightarrow> settled W t (g t)"
  shows "settled W s (rbind r g)"
proof -
  obtain t where t: "r = Inr t" "conf_outcome W s (Inr t)" using assms(1) by (auto simp: settled_def)
  then have "conf_ready W t" by (simp add: conference.outcome_Inr)
  from assms(2) [OF t(1) this] obtain u where u: "g t = Inr u" "conf_outcome W t (Inr u)" by (auto simp: settled_def)
  with conference.outcome_bind [OF t(2), of "\<lambda>_. Inr u"] t(1) show ?thesis by (simp add: settled_def)
qed

lemma put_dc_same:
  assumes "conf_wf c" "map_of (mRemoteStreamInfos_DataChannels c) k = Some info" "si_stream i = si_stream info"
  shows "conf_wf (put_dc k i c)"
proof -
  have "holders (put_dc k i c) = holders c"
    using holders_put_dc [of c k i] assms(2,3) by simp
  moreover obtain ob where "dc_objects c (si_stream i) = Some ob" "mHandleID (do_stream ob) = k"
    using conf_wf_dc [OF assms(1,2)] assms(3) by auto
  ultimately show ?thesis
    using assms(1) dc_table_update [of "dc_objects c" "mRemoteStreamInfos_DataChannels c" i ob k]
    by (simp add: conf_wf_def conf_ok_def) (simp add: put_dc_def)
qed

lemma put_va_same:
  assumes "conf_wf c" "map_of (mRemoteStreamInfos_VideoAudio c) k = Some info" "si_stream i = si_stream info"
  shows "conf_wf (put_va k i c)"
  using conf_wf_va [OF assms(1,2)] by (intro put_va_wf [OF assms(1)]) (simp_all add: assms(3))

lemma sendICEs_good:
  "janus_wf s \<Longrightarrow> \<exists>s'. sendICEs E i cs s = Inr ([], s') \<and> good s (Inr s')"
proof (induction cs arbitrary: s)
  case Nil
  then show ?case by (simp add: good_Inr)
next
  case (Cons x cs)
  from SendCandidate_good [OF Cons.prems] obtain t where t:
    "JVRM_SendCandidate E i (ice_sdp_mid x) (ice_sdp_mline_index x) (ice_sdp x) s = Inr t" "good s (Inr t)"
    by (metis good_def)
  then have "janus_wf t" by (simp add: good_def)
  from Cons.IH [OF this] obtain u where u: "sendICEs E i cs t = Inr ([], u)" "good t (Inr u)" by blast
  have "good s (rbind (Inr t) (\<lambda>_. Inr u))" using good_bind [OF t(2), of "\<lambda>_. Inr u"] u(2) by simp
  with t u show ?case by simp
qed

lemma local_sdp_outcome:
  assumes "conf_ready W s"
  shows "settled W s (onLocalSDP E i sdp type s)"
  unfolding onLocalSDP_def
proof (rule settled_bind, goal_cases)
  case 1
  show ?case
  proof (cases "map_of (mRemoteStreamInfos_VideoAudio (client s)) i")
    case None
    then show ?thesis by (simp add: conference.outcome_refl assms)
  next
    case (Some info)
    let ?s = "up_conf (put_va i (info\<lparr>si_sdp := sdp, si_sdpType := type\<rparr>)) s"
    have o: "settled W s (Inr ?s)" unfolding settled_Inr
      by (rule client_outcome [OF assms put_va_same [OF ready_conf [OF assms] Some]]) simp
    then have "conf_ready W ?s" by (simp add: conference.outcome_Inr)
    then have "settled W ?s (JVRM_SendSDP E i sdp type ?s)"
      by (intro good_settled SendSDP_good conference.ready_wf)
    with settled_bind [OF o, of "\<lambda>s. JVRM_SendSDP E i sdp type s"] o Some show ?thesis
      by (simp add: Let_def)
  qed
next
  case (2 t)
  show ?case
  proof (cases "map_of (mRemoteStreamInfos_DataChannels (client t)) i")
    case None
    then show ?thesis by (simp add: conference.outcome_refl 2)
  next
    case (Some info)
    let ?s = "up_conf (put_dc i (info\<lparr>si_sdp := sdp, si_sdpType := type\<rparr>)) t"
    have o: "settled W t (Inr ?s)" unfolding settled_Inr
      by (rule client_outcome [OF 2(2) put_dc_same [OF ready_conf [OF 2(2)] Some]]) simp
    then have "conf_ready W ?s" by (simp add: conference.outcome_Inr)
    then have "settled W ?s (JVRM_SendSDP E i sdp type ?s)"
      by (intro good_settled SendSDP_good conference.ready_wf)
    with settled_bind [OF o, of "\<lambda>s. JVRM_SendSDP E i sdp type s"] o Some show ?thesis
      by (simp add: Let_def)
  qed
qed

lemma ice_sent:
  assumes "conf_ready W s"
  shows "\<exists>rest t. (if b then sendICEs E h pending s else Inr (pending, s)) = Inr (rest, t)
    \<and> conf_outcome W s (Inr t) \<and> client t = client s"
proof (cases b)
  case True
  obtain t where t: "sendICEs E h pending s = Inr ([], t)" "good s (Inr t)"
    using sendICEs_good [OF conference.ready_wf [OF assms]] by blast
  then have "client t = client s" by (simp add: good_def clients_def)
  with t True conference.good_outcome [OF assms t(2)] show ?thesis by simp
next
  case False
  then show ?thesis by (simp add: conference.outcome_refl assms)
qed

lemma ice_outcome:
  assumes "conf_ready W s"
  shows "settled W s (onLocalIceCandidate E i mid mlineindex candidate s)"
  unfolding onLocalIceCandidate_def Let_def
proof (rule settled_bind, goal_cases)
  case 1
  show ?case
  proof (cases "map_of (mRemoteStreamInfos_VideoAudio (client s)) i")
    case None
    then show ?thesis by (simp add: conference.outcome_refl assms)
  next
    case (Some info)
    let ?p = "iceCandidateList info @ [\<lparr>ice_sdp_mid = mid, ice_sdp_mline_index = mlineindex, ice_sdp = candidate\<rparr>]"
    obtain rest t where t: "(if canSendCandidate info then sendICEs E (GetHandleID (si_stream info)) ?p s
        else Inr (?p, s)) = Inr (rest, t)" "conf_outcome W s (Inr t)" "client t = client s"
      using ice_sent [OF assms] by blast
    have r: "conf_ready W t" using t(2) by (simp add: conference.outcome_Inr)
    have "conf_wf (put_va i (info\<lparr>iceCandidateList := rest\<rparr>) (client t))"
      by (rule put_va_same [OF ready_conf [OF r]]) (simp_all add: t(3) Some)
    from client_outcome [OF r this] conference.outcome_bind [OF t(2), of "\<lambda>s. Inr (up_conf (put_va i (info\<lparr>iceCandidateList := rest\<rparr>)) s)"]
    show ?thesis by (simp add: Some t(1))
  qed
next
  case (2 s)
  show ?case
  proof (cases "map_of (mRemoteStreamInfos_DataChannels (client s)) i")
    case None
    then show ?thesis by (simp add: conference.outcome_refl 2)
  next
    case (Some info)
    let ?p = "iceCandidateList info @ [\<lparr>ice_sdp_mid = mid, ice_sdp_mline_index = mlineindex, ice_sdp = candidate\<rparr>]"
    obtain ob where ob: "dc_get (si_stream info) (client s) = Inr ob"
      using conf_wf_dc [OF ready_conf [OF 2(2)] Some] by blast
    obtain rest t where t: "(if canSendCandidate info then sendICEs E (GetHandleID (do_stream ob)) ?p s
        else Inr (?p, s)) = Inr (rest, t)" "conf_outcome W s (Inr t)" "client t = client s"
      using ice_sent [OF 2(2)] by blast
    have r: "conf_ready W t" using t(2) by (simp add: conference.outcome_Inr)
    have "conf_wf (put_dc i (info\<lparr>iceCandidateList := rest\<rparr>) (client t))"
      by (rule put_dc_same [OF ready_conf [OF r]]) (simp_all add: t(3) Some)
    from client_outcome [OF r this] conference.outcome_bind [OF t(2), of "\<lambda>s. Inr (up_conf (put_dc i (info\<lparr>iceCandidateList := rest\<rparr>)) s)"]
    show ?thesis by (simp add: Some ob t(1))
  qed
qed

lemma signal_run_outcome: "conf_ready W s \<Longrightarrow> settled W s (run_signal E sg s)"
  by (cases sg) (simp_all add: local_sdp_outcome ice_outcome onIceGatheringComplete_def)

section \<open>Channels, tracks and windows\<close>

lemma new_transaction_seed: "\<exists>t sd. new_transaction E s = (t, s\<lparr>seed := sd\<rparr>)"
  unfolding new_transaction_def by (auto split: prod.splits)

lemma local_info_seed: "\<exists>m sd. run_conf_slot E f s = (m, s\<lparr>seed := sd\<rparr>)"
proof -
  obtain t sd where t: "new_transaction E s = (t, s\<lparr>seed := sd\<rparr>)" using new_transaction_seed by blast
  obtain u sd' where u: "new_transaction E (s\<lparr>seed := sd\<rparr>) = (u, s\<lparr>seed := sd, seed := sd'\<rparr>)"
    using new_transaction_seed by blast
  from t u show ?thesis by (cases f) (simp add: onSendLocalInfoWhenOpenDataChannel_def, blast)
qed

lemma state_change_keeps:
  assumes "DC_OnStateChange (run_conf_slot E) st s = (st', s')"
  shows "mHandleID st' = mHandleID st \<and> (\<exists>sd. s' = s\<lparr>seed := sd\<rparr>)"
proof (cases "s' = s")
  case True
  moreover have "s = s\<lparr>seed := seed s\<rparr>" by simp
  moreover have "mHandleID st' = mHandleID st"
    using assms by (auto simp: DC_OnStateChange_def SendDataViaDataChannel_def split: option.splits if_splits prod.splits)
  ultimately show ?thesis by metis
next
  case False
  then obtain ch f where ch: "mDataChannel st = Some ch" "dch_state ch = Open"
    "OnSendLocalInfoWhenOpenDataChannel st = Some f"
    using assms by (auto simp: DC_OnStateChange_def split: option.splits if_splits)
  obtain m sd where "run_conf_slot E f s = (m, s\<lparr>seed := sd\<rparr>)" using local_info_seed by blast
  with assms ch show ?thesis by (auto simp: DC_OnStateChange_def SendDataViaDataChannel_def)
qed

lemma channel_outcome:
  assumes "conf_ready W s" "a \<in> dom (dc_objects (client s))"
  shows "settled W s (channel_changed E a state s)"
proof -
  obtain ob where ob: "dc_objects (client s) a = Some ob" using assms(2) by blast
  obtain st' s' where step: "DC_OnStateChange (run_conf_slot E) (channel_state state (do_stream ob)) s = (st', s')"
    by fastforce
  obtain sd where s': "s' = s\<lparr>seed := sd\<rparr>" and h: "mHandleID st' = mHandleID (do_stream ob)"
    using state_change_keeps [OF step] by (auto simp: channel_state_def)
  have "good s (Inr s')"
    unfolding s' by (rule quiet_change_good [OF conference.ready_wf [OF assms(1)]]) (simp_all add: quiet_simps)
  then have o: "conf_outcome W s (Inr s')" by (rule conference.good_outcome [OF assms(1)])
  then have r: "conf_ready W s'" by (simp add: conference.outcome_Inr)
  have "conf_wf (dc_put a (ob\<lparr>do_stream := st'\<rparr>) (client s'))"
    by (rule put_stream_wf [OF ready_conf [OF r] _ h]) (simp add: s' ob)
  from client_outcome [OF r this] have "conf_outcome W s' (Inr (up_conf (dc_put a (ob\<lparr>do_stream := st'\<rparr>)) s'))" .
  then show ?thesis
    using conference.outcome_bind [OF o, of "\<lambda>s. Inr (up_conf (dc_put a (ob\<lparr>do_stream := st'\<rparr>)) s)"]
    by (simp add: channel_changed_def dc_get_def ob step)
qed

lemma on_stream_outcome:
  assumes "conf_ready W s"
    and "\<And>st. va_ok st \<Longrightarrow> \<exists>t. f st = Inr t \<and> va_ok t \<and> mHandleID t = mHandleID st"
  shows "settled W s (on_stream k f s)"
proof (cases "map_of (mRemoteStreamInfos_VideoAudio (client s)) k")
  case None
  then show ?thesis by (simp add: on_stream_def conference.outcome_refl assms(1))
next
  case (Some info)
  note va = conf_wf_va [OF ready_conf [OF assms(1)] Some]
  obtain st where st: "f (si_stream info) = Inr st" "va_ok st" "mHandleID st = mHandleID (si_stream info)"
    using assms(2) [OF va(1)] by blast
  have "conf_wf (put_va k (info\<lparr>si_stream := st\<rparr>) (client s))"
    by (rule put_va_wf [OF ready_conf [OF assms(1)]]) (use st va(2) in simp_all)
  from client_outcome [OF assms(1) this] show ?thesis by (simp add: on_stream_def Some st(1))
qed

lemma tracks_outcome:
  assumes "conf_ready W s"
  shows "settled W s (on_stream k (\<lambda>st. Inr (VA_OnAddTrack v t st)) s)"
    "settled W s (on_stream k (VA_OnRemoveTrack v) s)"
proof -
  show "settled W s (on_stream k (\<lambda>st. Inr (VA_OnAddTrack v t st)) s)"
    by (rule on_stream_outcome [OF assms]) (simp add: VA_OnAddTrack_def StartView_def va_ok_def)
  show "settled W s (on_stream k (VA_OnRemoveTrack v) s)"
  proof (rule on_stream_outcome [OF assms])
    fix st assume "va_ok st"
    then obtain t where t: "StopView st = Inr t" "mVideoTrack t = None" "mHandleID t = mHandleID st"
      using StopView_ok by blast
    then show "\<exists>t. VA_OnRemoveTrack v st = Inr t \<and> va_ok t \<and> mHandleID t = mHandleID st"
      using \<open>va_ok st\<close> by (simp add: VA_OnRemoveTrack_def va_ok_def)
  qed
qed

section \<open>Leaving the room\<close>

lemma drop_view_cases:
  assumes "va_ok (si_stream info)"
  shows "drop_view (k, info) c = (if mRender (si_stream info) = RenderUninitialized
    then Inl UninitializedPointer else Inr c)"
proof -
  obtain t where t: "StopView (si_stream info) = Inr t" "mVideoTrack t = None"
    "mRender t = RenderUninitialized \<longleftrightarrow> mRender (si_stream info) = RenderUninitialized"
    using StopView_ok [OF assms] by blast
  then have "va_ok t" by (simp add: va_ok_def)
  from VA_destroy_cases [OF this] t show ?thesis by (cases "VA_destroy t") auto
qed

text \<open>One stream that was never shown is enough: its renderer was never initialised.\<close>

definition never_shown :: "i64 \<times> va_stream stream_info \<Rightarrow> bool" where
  "never_shown e \<longleftrightarrow> mRender (si_stream (snd e)) = RenderUninitialized"

lemma drop_views:
  "va_table_ok xs \<Longrightarrow> rfold drop_view xs c =
     (if \<exists>e \<in> set xs. never_shown e then Inl UninitializedPointer else Inr c)"
proof (induction xs)
  case (Cons x xs)
  obtain k info where x: "x = (k, info)" by (cases x)
  have "va_ok (si_stream info)" "va_table_ok xs" using Cons.prems x by (auto simp: va_table_ok_def)
  with Cons.IH drop_view_cases [of info k c] show ?case
    by (simp add: x never_shown_def del: drop_view.simps)
qed simp

lemma leave_video_eq:
  assumes "conf_wf c"
  shows "Conf_LeaveVideoRoom c = (if \<exists>e \<in> set (mRemoteStreamInfos_VideoAudio c). never_shown e
    then Inl UninitializedPointer
    else Inr (c\<lparr>mRemoteWinds := map (\<lambda>wind. (fst wind, 0)) (mRemoteWinds c), mRemoteStreamInfos_VideoAudio := []\<rparr>))"
  using drop_views [OF conf_okD(3) [OF assms [unfolded conf_wf_def]]]
  by (simp add: Conf_LeaveVideoRoom_def)

lemma leave_video_wf: "conf_wf c \<Longrightarrow> conf_wf (c\<lparr>mRemoteWinds := ws, mRemoteStreamInfos_VideoAudio := []\<rparr>)"
  by (simp add: conf_wf_def conf_ok_def holders_def va_table_ok_def)

lemma leave_room_outcome:
  assumes "conf_ready W s"
  shows "case leave_video_room s of Inl e \<Rightarrow> e = UninitializedPointer | Inr s' \<Rightarrow> conf_ready W s'"
proof (cases "Conf_LeaveVideoRoom (client s)")
  case (Inl e)
  then show ?thesis
    using leave_video_eq [OF ready_conf [OF assms]] by (auto simp: leave_video_room_def split: if_splits)
next
  case (Inr c)
  then have "conf_wf c"
    using leave_video_eq [OF ready_conf [OF assms]] leave_video_wf [OF ready_conf [OF assms]]
    by (auto split: if_splits)
  from client_outcome [OF assms this] have r: "conf_ready W (s\<lparr>client := c\<rparr>)"
    by (simp add: conference.outcome_Inr)
  have "leaves CallLeaveVideoRoom" by (simp add: leaves_def)
  from conference.leave_outcome [OF r this] show ?thesis
    using Inr by (metis leave_video_room_def rbind_Inr run_call.simps(9) sum.case(2))
qed

section \<open>Every step\<close>

definition step_result :: "webrtc_env \<Rightarrow> session \<Rightarrow> conf_event \<Rightarrow> session res \<Rightarrow> bool" where
  "step_result W s e r \<longleftrightarrow> (case r of
       Inl f \<Rightarrow> (conf_fault W f \<or> (\<not> pending_live s \<and> (\<exists>a. f = UseAfterFree a))) \<and> served e
     | Inr s' \<Rightarrow> conf_ready W s' \<and> (pending_live s \<and> \<not> leaving e \<longrightarrow> pending_live s'))"

lemma settled_result: "settled W s r \<Longrightarrow> step_result W s e r"
  by (auto simp: settled_def step_result_def conference.outcome_def split: sum.splits)

lemma windows_wf: "conf_wf c \<Longrightarrow> conf_wf (Conf_SetVideoWindows w ws c)"
  by (simp add: conf_wf_def conf_ok_def holders_def Conf_SetVideoWindows_def)

lemma text_room_wf: "conf_wf c \<Longrightarrow> conf_wf (SetTextRoomIDAndDisplayName i name c)"
  by (simp add: conf_wf_def conf_ok_def holders_def SetTextRoomIDAndDisplayName_def)

lemma conf_step_result:
  assumes "conf_step E s e r" "conf_ready W s"
  shows "step_result W s e r"
  using assms(1)
proof (cases rule: conf_step.cases)
  case (message e')
  from conference.step_outcome [OF message(2) assms(2)] message(1) show ?thesis
    by (auto simp: step_result_def leaving_def served_def split: sum.splits)
next
  case (emitted sg)
  then show ?thesis using settled_result [OF signal_run_outcome [OF assms(2)]] by blast
next
  case (channel a state)
  then show ?thesis using settled_result [OF channel_outcome [OF assms(2)]] by blast
next
  case (came k v t)
  then show ?thesis using settled_result [OF tracks_outcome(1) [OF assms(2)]] by blast
next
  case (went k v)
  then show ?thesis using settled_result [OF tracks_outcome(2) [OF assms(2)]] by blast
next
  case (windows w ws)
  then show ?thesis
    using settled_result [where r = "Inr t" for t, unfolded settled_Inr, OF client_outcome [OF assms(2) windows_wf [OF ready_conf [OF assms(2)]]]] by simp
next
  case (text_room i name)
  then show ?thesis
    using settled_result [where r = "Inr t" for t, unfolded settled_Inr, OF client_outcome [OF assms(2) text_room_wf [OF ready_conf [OF assms(2)]]]] by simp
next
  case left
  with leave_room_outcome [OF assms(2)] show ?thesis
    by (auto simp: step_result_def leaving_def served_def conf_fault_def split: sum.splits)
qed

lemma conf_run_result:
  "conf_run E s es r \<Longrightarrow> conf_ready W s \<Longrightarrow>
   case r of Inl f \<Rightarrow> (\<exists>e \<in> set es. served e) \<and> (conf_fault W f \<or> (\<not> pending_live s \<or> (\<exists>e \<in> set es. leaving e)) \<and> (\<exists>a. f = UseAfterFree a))
     | Inr s' \<Rightarrow> conf_ready W s' \<and> (pending_live s \<and> (\<forall>e \<in> set es. \<not> leaving e) \<longrightarrow> pending_live s')"
proof (induction rule: conf_run.induct)
  case (nil E s)
  then show ?case by simp
next
  case (fault E s e f es)
  from conf_step_result [OF fault.hyps fault.prems] show ?case by (auto simp: step_result_def)
next
  case (cons E s e t es r)
  from conf_step_result [OF cons.hyps(1) cons.prems]
  have t: "conf_ready W t" "pending_live s \<and> \<not> leaving e \<longrightarrow> pending_live t" by (simp_all add: step_result_def)
  from cons.IH [OF t(1)] t(2) show ?case by (auto split: sum.splits)
qed

lemma conf_start_ready:
  "conf_ready W (conf_start W sd (Conf_new jw jr av))" "pending_live (conf_start W sd (Conf_new jw jr av))"
  unfolding conf_start_def
  by (simp_all add: session_start_ready conf_wf_new session_start_wf(2))

text \<open>
  Whatever the server sends, the streams report and the user asks for, in any order,
  the program's session and conference layer fault in three ways only: a connection to the
  media server that cannot be made (a null dereference), a stream without a video that is
  deleted (an uninitialised pointer), and, if a room was left before, an answer that comes
  to a deleted peer. In particular no shared object is used or deleted after its last
  release.
\<close>

lemma conference_faults:
  assumes "conf_run E (conf_start W sd (Conf_new jw jr av)) es r"
  shows "case r of Inl f \<Rightarrow> f = NullDereference \<and> \<not> always_connects W \<or> f = UninitializedPointer
        \<or> ((\<exists>e \<in> set es. leaving e) \<and> (\<exists>a. f = UseAfterFree a))
    | Inr s \<Rightarrow> janus_wf s \<and> conf_wf (client s)"
  using conf_run_result [OF assms conf_start_ready(1)] conf_start_ready(2)
  by (auto simp: conf_fault_def session_ready_def split: sum.splits)

text \<open>
  C25: at every moment a stream is filed under its own handle, each handle once, and the
  entries of the text rooms point to live objects.
\<close>

theorem streams_filed_under_handle:
  assumes "conf_run E (conf_start W sd (Conf_new jw jr av)) es (Inr s)"
  shows "distinct (map fst (mRemoteStreamInfos_VideoAudio (client s)))
    \<and> distinct (map fst (mRemoteStreamInfos_DataChannels (client s)))
    \<and> (\<forall>k info. map_of (mRemoteStreamInfos_VideoAudio (client s)) k = Some info \<longrightarrow> GetHandleID (si_stream info) = k)
    \<and> (\<forall>k info. map_of (mRemoteStreamInfos_DataChannels (client s)) k = Some info \<longrightarrow>
          (\<exists>ob. dc_get (si_stream info) (client s) = Inr ob \<and> GetHandleID (do_stream ob) = k))"
proof -
  have wf: "conf_wf (client s)"
    using conf_run_result [OF assms conf_start_ready(1)] by (simp add: session_ready_def)
  then have "va_table_ok (mRemoteStreamInfos_VideoAudio (client s))"
    "dc_table_ok (dc_objects (client s)) (mRemoteStreamInfos_DataChannels (client s))"
    by (simp_all add: conf_wf_def conf_ok_def)
  then have "distinct (map fst (mRemoteStreamInfos_VideoAudio (client s)))"
    "distinct (map fst (mRemoteStreamInfos_DataChannels (client s)))"
    by (simp_all add: va_table_ok_def dc_table_ok_def)
  moreover have "\<exists>ob. dc_get (si_stream info) (client s) = Inr ob \<and> GetHandleID (do_stream ob) = k"
    if entry: "map_of (mRemoteStreamInfos_DataChannels (client s)) k = Some info" for k info
    using conf_wf_dc [OF wf entry] by (auto simp: GetHandleID_def)
  ultimately show ?thesis
    using conf_wf_va(2) [OF wf] by (simp add: GetHandleID_def)
qed


section \<open>A concrete run\<close>

definition ex_events :: "conf_event list" where
  "ex_events = [WindowsSet 1 [2, 3], TextRoomSet 7 ''al'', Message (Calls (CallJoinVideoRoom 5 ''al'')),
     Emitted (IceGatheringComplete 9)]"

definition ex_conf_start :: session where
  "ex_conf_start = conf_start ex_wenv 0 (Conf_new 0 0 (None, None))"

lemma ex_conf_run: "\<exists>s. conf_run (ex_env [] JNull) ex_conf_start ex_events (Inr s)
    \<and> mRemoteWinds (client s) = [(2, 0), (3, 0)]
    \<and> mRemoteStreamInfos_VideoAudio (client s) = [] \<and> mRemoteStreamInfos_DataChannels (client s) = []"
proof -
  let ?E = "ex_env [] JNull"
  define s1 where "s1 = up_conf (SetTextRoomIDAndDisplayName 7 ''al'') (up_conf (Conf_SetVideoWindows 1 [2, 3]) ex_conf_start)"
  have "conf_ready ex_wenv ex_conf_start" unfolding ex_conf_start_def by (rule conf_start_ready)
  then have wf: "janus_wf ex_conf_start" by (simp add: session_ready_def)
  then have wf1: "janus_wf s1" by (simp add: s1_def janus_wf_def owned_def)
  have "\<not> leaves (CallJoinVideoRoom 5 ''al'')" by (simp add: leaves_def)
  from calls_good [OF wf1 this, of ?E] obtain s2 where
    s2: "run_call ?E (CallJoinVideoRoom 5 ''al'') s1 = Inr s2" "clients s2 = clients s1" by (auto simp: good_def)
  have c: "client s2 = client s1" using s2(2) by (simp add: clients_def)
  have tabs: "mRemoteStreamInfos_VideoAudio (client s1) = []" "mRemoteStreamInfos_DataChannels (client s1) = []"
    "mRemoteWinds (client s1) = [(2, 0), (3, 0)]"
    by (simp_all add: s1_def Conf_SetVideoWindows_def SetTextRoomIDAndDisplayName_def ex_conf_start_def conf_start_def
        session_start_wf(4) Conf_new_def)
  have "conf_step ?E s2 (Emitted (IceGatheringComplete 9)) (Inr s2)"
    by (rule conf_step.emitted) (simp add: onIceGatheringComplete_def onLocalIceCandidate_def c tabs)
  moreover have "conf_step ?E s1 (Message (Calls (CallJoinVideoRoom 5 ''al''))) (Inr s2)"
    by (intro conf_step.message session_step.calls s2(1))
  ultimately have "conf_run ?E s1 [Message (Calls (CallJoinVideoRoom 5 ''al'')), Emitted (IceGatheringComplete 9)] (Inr s2)"
    by (blast intro: conf_run.intros)
  then have "conf_run ?E ex_conf_start ex_events (Inr s2)"
    unfolding ex_events_def s1_def
    by (rule conf_run.cons [OF conf_step.windows conf_run.cons [OF conf_step.text_room]])
  with c tabs show ?thesis by auto
qed

theorem streams_filed_under_handle_witness:
  "\<exists>s. conf_run (ex_env [] JNull) ex_conf_start ex_events (Inr s)
    \<and> distinct (map fst (mRemoteStreamInfos_VideoAudio (client s)))"
proof -
  obtain s where s: "conf_run (ex_env [] JNull) ex_conf_start ex_events (Inr s)" using ex_conf_run by blast
  from streams_filed_under_handle [OF this [unfolded ex_conf_start_def]] s show ?thesis by auto
qed


end
