(* ===== verification/Conference_Protocol.thy ===== *)
theory Conference_Protocol
  imports Conference_Session
begin

text \<open>
  What the conference layer does for the session and for the user: who gets which window,
  how an offer becomes an answer, how candidates leave, what is left of a room that is left
  and of a program that logs out.
\<close>

section \<open>Windows\<close>

lemma take_window_free:
  "(\<forall>u \<in> set us. snd u \<noteq> 0) \<Longrightarrow> take_window k (us @ (w, 0) # vs) = (Some w, us @ (w, k) # vs)"
  by (induction us) auto

lemma take_window_full: "(\<forall>u \<in> set us. snd u \<noteq> 0) \<Longrightarrow> take_window k us = (None, us)"
  by (induction us) auto

lemma free_window_first:
  "(\<forall>u \<in> set us. snd u \<noteq> k) \<Longrightarrow> free_window k (us @ (w, k) # vs) = us @ (w, 0) # vs"
  by (induction us) auto

lemma free_window_none: "(\<forall>u \<in> set us. snd u \<noteq> k) \<Longrightarrow> free_window k us = us"
  by (induction us) auto

lemma split_free:
  assumes "\<exists>u \<in> set (winds :: (i64 \<times> i64) list). snd u = 0"
  obtains us w vs where "winds = us @ (w, 0) # vs" "\<forall>u \<in> set us. snd u \<noteq> 0"
proof -
  from assms obtain us u vs where "winds = us @ u # vs" "snd u = 0" "\<forall>u \<in> set us. snd u \<noteq> 0"
    using split_list_first_prop [of winds "\<lambda>u. snd u = 0"] by blast
  then show ?thesis using that by (cases u) auto
qed

text \<open>The abstract rule: the first free window of the list, if there is one.\<close>

definition first_free :: "(i64 \<times> i64) list \<Rightarrow> i64 option" where
  "first_free winds = map_option fst (find (\<lambda>wind. snd wind = 0) winds)"

lemma find_first_free:
  "(\<forall>u \<in> set us. snd u \<noteq> 0) \<Longrightarrow> find (\<lambda>wind. snd wind = 0) (us @ (w, 0) # vs) = Some (w, 0)"
  by (induction us) auto

lemma first_free_free: "(\<forall>u \<in> set us. snd u \<noteq> 0) \<Longrightarrow> first_free (us @ (w, 0) # vs) = Some w"
  by (simp add: first_free_def find_first_free)

lemma first_free_None: "first_free winds = None \<longleftrightarrow> (\<forall>u \<in> set winds. snd u \<noteq> 0)"
  by (auto simp: first_free_def find_None_iff)

lemma take_window_fst: "fst (take_window k winds) = first_free winds"
proof (cases "\<exists>u \<in> set winds. snd u = 0")
  case True
  then obtain us w vs where "winds = us @ (w, 0) # vs" "\<forall>u \<in> set us. snd u \<noteq> 0" by (rule split_free)
  then show ?thesis by (simp add: take_window_free first_free_free)
next
  case False
  then have "first_free winds = None" "take_window k winds = (None, winds)"
    by (simp_all add: first_free_None take_window_full)
  then show ?thesis by simp
qed

text \<open>Giving a window and taking it back leaves the windows as they were.\<close>

lemma window_roundtrip:
  assumes "k \<noteq> 0" "\<forall>u \<in> set winds. snd u \<noteq> k"
  shows "free_window k (snd (take_window k winds)) = winds"
proof (cases "\<exists>u \<in> set winds. snd u = 0")
  case True
  then obtain us w vs where "winds = us @ (w, 0) # vs" "\<forall>u \<in> set us. snd u \<noteq> 0" by (rule split_free)
  with assms(2) show ?thesis by (simp add: take_window_free free_window_first)
next
  case False
  with assms(2) show ?thesis by (simp add: take_window_full free_window_none)
qed

section \<open>A stream that comes\<close>

lemma delete_of_update: "AList.delete k (AList.update k v xs) = AList.delete k xs"
  by (induction xs) auto

text \<open>The stream that is made for a handle when no stream is filed under it.\<close>

definition fresh_stream :: "webrtc_env \<Rightarrow> bool \<Rightarrow> bool \<Rightarrow> i64 \<Rightarrow> (i64 \<times> i64) list \<Rightarrow> va_stream" where
  "fresh_stream W show_it loc k winds =
     (VA_new (we_junk W k) k)\<lparr>mIsLocal := loc,
        va_window := (case (if show_it then first_free winds else None) of None \<Rightarrow> we_junk W k | Some w \<Rightarrow> w)\<rparr>"

lemma connect_fresh:
  assumes "map_of (mRemoteStreamInfos_VideoAudio c) k = None"
  shows "ConnectToPeer_VideoAudio W k show_it False loc c = Inr
    (put_va k (new_info (fresh_stream W show_it loc k (mRemoteWinds c)))
      (c\<lparr>mRemoteWinds := (if show_it then snd (take_window k (mRemoteWinds c)) else mRemoteWinds c)\<rparr>))"
proof -
  let ?s = "VA_SetIsLocal loc (VA_new (we_junk W k) k)"
  obtain w winds where w: "(if show_it then take_window k (mRemoteWinds c) else (None, mRemoteWinds c)) = (w, winds)"
    by fastforce
  then have winds: "winds = (if show_it then snd (take_window k (mRemoteWinds c)) else mRemoteWinds c)"
    "w = (if show_it then first_free (mRemoteWinds c) else None)"
    using take_window_fst [of k "mRemoteWinds c"] by (auto split: if_splits)
  have h: "GetHandleID ?s = k" by (simp add: GetHandleID_def VA_SetIsLocal_def)
  have add: "addStreamInfo_VideoAudio ?s c = Inr (put_va k (new_info ?s) c)"
    by (simp add: addStreamInfo_VideoAudio_def h assms)
  have "(case w of None \<Rightarrow> ?s | Some w \<Rightarrow> VA_SetWindowID w ?s) = fresh_stream W show_it loc k (mRemoteWinds c)"
    unfolding winds(2) fresh_stream_def
    by (cases "first_free (mRemoteWinds c)"; cases show_it) (simp_all add: VA_SetWindowID_def VA_SetIsLocal_def VA_new_def)
  moreover have "put_va k i ((put_va k j c)\<lparr>mRemoteWinds := ws\<rparr>) = put_va k i (c\<lparr>mRemoteWinds := ws\<rparr>)" for i j ws
    by (simp add: put_va_def)
  moreover have "mRemoteWinds (put_va k j c) = mRemoteWinds c" for j by (simp add: put_va_def)
  ultimately show ?thesis
    using w unfolding ConnectToPeer_VideoAudio_def Let_def add rbind_Inr
    by (cases show_it; cases "take_window k (mRemoteWinds c)") auto
qed

text \<open>
  C20: a new stream that is to be shown gets the first window that shows nothing, and only
  that window changes: it shows the stream now. If every window is taken, no window changes
  and the stream keeps the window number that its constructor never set.
\<close>

theorem first_free_window_is_given:
  assumes "map_of (mRemoteStreamInfos_VideoAudio c) k = None"
  shows "\<exists>c' info. ConnectToPeer_VideoAudio W k True False loc c = Inr c'
    \<and> map_of (mRemoteStreamInfos_VideoAudio c') k = Some info
    \<and> (case find (\<lambda>wind. snd wind = 0) (mRemoteWinds c) of
        None \<Rightarrow> mRemoteWinds c' = mRemoteWinds c \<and> va_window (si_stream info) = we_junk W k
      | Some wind \<Rightarrow> va_window (si_stream info) = fst wind \<and>
          (\<exists>us vs. mRemoteWinds c = us @ (fst wind, 0) # vs \<and> (\<forall>u \<in> set us. snd u \<noteq> 0)
            \<and> mRemoteWinds c' = us @ (fst wind, k) # vs))"
proof -
  define info where "info = new_info (fresh_stream W True loc k (mRemoteWinds c))"
  define c' where "c' = put_va k info (c\<lparr>mRemoteWinds := snd (take_window k (mRemoteWinds c))\<rparr>)"
  have run: "ConnectToPeer_VideoAudio W k True False loc c = Inr c'"
    using connect_fresh [OF assms, of W True loc] by (simp add: c'_def info_def)
  have tab: "map_of (mRemoteStreamInfos_VideoAudio c') k = Some info"
    "mRemoteWinds c' = snd (take_window k (mRemoteWinds c))"
    "va_window (si_stream info) = (case first_free (mRemoteWinds c) of None \<Rightarrow> we_junk W k | Some w \<Rightarrow> w)"
    by (simp_all add: c'_def put_va_def update_conv info_def new_info_def fresh_stream_def)
  show ?thesis
  proof (cases "\<exists>u \<in> set (mRemoteWinds c). snd u = 0")
    case True
    then obtain us w vs where ws: "mRemoteWinds c = us @ (w, 0) # vs" "\<forall>u \<in> set us. snd u \<noteq> 0" by (rule split_free)
    then have "find (\<lambda>wind. snd wind = 0) (mRemoteWinds c) = Some (w, 0)" by (simp add: find_first_free)
    with run tab ws show ?thesis
      by (intro exI [of _ c'] exI [of _ info]) (auto simp: first_free_free take_window_free)
  next
    case False
    then have "find (\<lambda>wind. snd wind = 0) (mRemoteWinds c) = None" by (auto simp: find_None_iff)
    with run tab False show ?thesis
      by (intro exI [of _ c'] exI [of _ info]) (simp add: first_free_def take_window_full)
  qed
qed

lemma destroy_shown:
  assumes "mRender st = RenderObj r"
  shows "\<exists>t. VA_destroy (DeletePeerConnection st) = Inr t"
proof -
  have "va_ok (DeletePeerConnection st)" "mRender (DeletePeerConnection st) \<noteq> RenderUninitialized"
    by (simp_all add: va_ok_def DeletePeerConnection_def assms)
  with VA_destroy_cases show ?thesis by blast
qed

text \<open>
  C19: a stream that came, was shown and goes leaves the conference layer exactly as it was:
  its window is free again and its entry is gone. A stream that goes before its first video
  track arrived is an uninitialised pointer.
\<close>

theorem stream_comes_and_goes:
  assumes "map_of (mRemoteStreamInfos_VideoAudio c) k = None" "map_of (mRemoteStreamInfos_DataChannels c) k = None"
    and "k \<noteq> 0" "\<forall>wind \<in> set (mRemoteWinds c). snd wind \<noteq> k"
  shows "\<exists>c1 info. ConnectToPeer_VideoAudio W k True False False c = Inr c1
    \<and> map_of (mRemoteStreamInfos_VideoAudio c1) k = Some info
    \<and> onRemoteStreamRemove k (put_va k (info\<lparr>si_stream := VA_OnAddTrack True t (si_stream info)\<rparr>) c1) = Inr c
    \<and> onRemoteStreamRemove k c1 = Inl UninitializedPointer"
proof -
  define ws where "ws = snd (take_window k (mRemoteWinds c))"
  define info where "info = new_info (fresh_stream W True False k (mRemoteWinds c))"
  define c1 where "c1 = put_va k info (c\<lparr>mRemoteWinds := ws\<rparr>)"
  have run: "ConnectToPeer_VideoAudio W k True False False c = Inr c1"
    using connect_fresh [OF assms(1), of W True False] by (simp add: c1_def info_def ws_def)
  have tab: "map_of (mRemoteStreamInfos_VideoAudio c1) k = Some info" by (simp add: c1_def put_va_def update_conv)
  define st where "st = VA_OnAddTrack True t (si_stream info)"
  have "\<exists>r. mRender st = RenderObj r"
    by (simp add: st_def info_def new_info_def fresh_stream_def VA_OnAddTrack_def StartView_def)
  then obtain u where u: "VA_destroy (DeletePeerConnection st) = Inr u" using destroy_shown by blast
  have "VA_destroy (DeletePeerConnection (si_stream info)) = Inl UninitializedPointer"
    by (simp add: VA_destroy_def StopView_def DeletePeerConnection_def info_def new_info_def fresh_stream_def VA_new_def)
  then have bad: "onRemoteStreamRemove k c1 = Inl UninitializedPointer"
    by (simp add: onRemoteStreamRemove_def tab)
  let ?c2 = "put_va k (info\<lparr>si_stream := st\<rparr>) c1"
  have c2: "?c2 = c\<lparr>mRemoteWinds := ws, mRemoteStreamInfos_VideoAudio :=
      AList.update k (info\<lparr>si_stream := st\<rparr>) (mRemoteStreamInfos_VideoAudio c)\<rparr>"
    by (simp add: c1_def put_va_def)
  have "AList.delete k (mRemoteStreamInfos_VideoAudio c) = mRemoteStreamInfos_VideoAudio c"
    using assms(1) by (intro delete_id) (simp add: map_of_eq_None_iff)
  then have "onRemoteStreamRemove k ?c2 = Inr (c\<lparr>mRemoteWinds := free_window k ws\<rparr>)"
    unfolding c2 by (simp add: onRemoteStreamRemove_def update_conv u assms(2) delete_of_update Let_def)
  also have "\<dots> = Inr c" using window_roundtrip [OF assms(3,4)] by (simp add: ws_def)
  finally show ?thesis using run tab bad unfolding st_def by blast
qed

section \<open>Offers, answers and candidates\<close>

lemma remote_sdp_video:
  assumes "map_of (mRemoteStreamInfos_VideoAudio c) k = None"
    and "VA_SetPeerSDP W (tracks c) type sdp (fresh_stream W True False k (mRemoteWinds c)) = Inr (ok, st)"
  shows "\<exists>c'. onRetmoeSDP W k type sdp False c = Inr c'
    \<and> map_of (mRemoteStreamInfos_VideoAudio c') = (map_of (mRemoteStreamInfos_VideoAudio c))(k \<mapsto> new_info st)
    \<and> mRemoteStreamInfos_DataChannels c' = mRemoteStreamInfos_DataChannels c"
proof -
  define info where "info = new_info (fresh_stream W True False k (mRemoteWinds c))"
  define c1 where "c1 = put_va k info (c\<lparr>mRemoteWinds := snd (take_window k (mRemoteWinds c))\<rparr>)"
  have run: "ConnectToPeer_VideoAudio W k True False False c = Inr c1"
    using connect_fresh [OF assms(1), of W True False] by (simp add: c1_def info_def)
  have c1: "map_of (mRemoteStreamInfos_VideoAudio c1) k = Some info" "tracks c1 = tracks c"
    by (simp_all add: c1_def put_va_def update_conv)
  have i: "si_stream info = fresh_stream W True False k (mRemoteWinds c)" "info\<lparr>si_stream := st\<rparr> = new_info st"
    by (simp_all add: info_def new_info_def)
  have "onRetmoeSDP W k type sdp False c = Inr (put_va k (new_info st) c1)"
    using assms(2) by (simp add: onRetmoeSDP_def assms(1) run c1 i)
  then show ?thesis by (simp add: c1_def put_va_def update_conv')
qed

lemma local_sdp_video:
  assumes "janus_wf s" "map_of (mRemoteStreamInfos_VideoAudio (client s)) k = Some info" "canSendSDP info"
    and "map_of (mRemoteStreamInfos_DataChannels (client s)) k = None"
  shows "onLocalSDP E k sdp type s =
    JVRM_SendSDP E k sdp type (up_conf (put_va k (info\<lparr>si_sdp := sdp, si_sdpType := type\<rparr>)) s)"
proof -
  let ?s = "up_conf (put_va k (info\<lparr>si_sdp := sdp, si_sdpType := type\<rparr>)) s"
  have "janus_wf ?s" using assms(1) by (simp add: janus_wf_def owned_def)
  from SendSDP_good [OF this, of E k sdp type] obtain t where
    t: "JVRM_SendSDP E k sdp type ?s = Inr t" "clients t = clients ?s" by (auto simp: good_def)
  then have "mRemoteStreamInfos_DataChannels (client t) = mRemoteStreamInfos_DataChannels (client s)"
    by (simp add: clients_def put_va_def)
  with t(1) assms show ?thesis by (simp add: onLocalSDP_def Let_def)
qed

text \<open>
  An offer for a handle without a stream makes one, with the two local tracks, hands it
  the offer and asks it for an answer, once. When the answer is there, the stream takes it
  as its local description and signals it.
\<close>

lemma answer_made:
  assumes "map_of (mRemoteStreamInfos_VideoAudio c) k = None"
    and "we_factory W" "we_pc W k" "we_parse W ''offer'' sdp = Some d" "d_type d = ''offer''"
  obtains c' u st where "onRetmoeSDP W k ''offer'' sdp False c = Inr c'"
    "map_of (mRemoteStreamInfos_VideoAudio c') k = Some (new_info u)"
    "mRemoteStreamInfos_DataChannels c' = mRemoteStreamInfos_DataChannels c"
    "OnSuccess answer u = Inr st"
    "calls_of st = [SetBitrate 128000 256000 512000, AddTrackCall (fst (tracks c)) ''stream_id'',
        AddTrackCall (snd (tracks c)) ''stream_id'', SetRemoteDescription d, CreateAnswer, SetLocalDescription answer]"
    "last (emitted st) = LocalSDP k (d_sdp answer) (d_type answer)"
proof -
  let ?s = "fresh_stream W True False k (mRemoteWinds c)"
  have f: "mPeerConnection ?s = None" "mHandleID ?s = k" by (simp_all add: fresh_stream_def)
  obtain u where u: "VA_SetPeerSDP W (tracks c) ''offer'' sdp ?s = Inr (True, u)" "mHandleID u = k"
    "mPeerConnection u \<noteq> None" "calls_of u = [SetBitrate 128000 256000 512000,
        AddTrackCall (fst (tracks c)) ''stream_id'', AddTrackCall (snd (tracks c)) ''stream_id'',
        SetRemoteDescription d, CreateAnswer]"
    using va.set_peer_sdp [of ?s W "tracks c" "''offer''" sdp] assms(2-5) f
    by (auto simp: VA_SetPeerSDP_def answer_calls_def)
  obtain p where p: "mPeerConnection u = Some p" using u(3) by blast
  obtain st where st: "OnSuccess answer u = Inr st" "calls_of st = calls_of u @ [SetLocalDescription answer]"
    "last (emitted st) = LocalSDP k (d_sdp answer) (d_type answer)"
    by (simp add: OnSuccess_def pc_do_def p emit_signal_def calls_of_def u(2))
  from remote_sdp_video [OF assms(1) u(1)] that st u(4) show ?thesis by auto
qed


section \<open>Leaving and logging out\<close>

text \<open>
  C23: leaving the video room sets every window free, forgets every stream and every peer of
  the room; but if one of the streams never showed a video, the user's click is the use of an
  uninitialised pointer instead.
\<close>

theorem leaving_the_video_room:
  assumes "conf_ready W s"
  shows "(\<exists>e \<in> set (mRemoteStreamInfos_VideoAudio (client s)). mRender (si_stream (snd e)) = RenderUninitialized)
      \<and> leave_video_room s = Inl UninitializedPointer
    \<or> (\<forall>e \<in> set (mRemoteStreamInfos_VideoAudio (client s)). mRender (si_stream (snd e)) \<noteq> RenderUninitialized)
      \<and> (\<exists>s'. leave_video_room s = Inr s' \<and> conf_ready W s' \<and> mVideoRoomPeerList s' = []
        \<and> mRemoteStreamInfos_VideoAudio (client s') = []
        \<and> mRemoteWinds (client s') = map (\<lambda>wind. (fst wind, 0)) (mRemoteWinds (client s))
        \<and> dc_objects (client s') = dc_objects (client s))"
proof (cases "\<exists>e \<in> set (mRemoteStreamInfos_VideoAudio (client s)). never_shown e")
  case True
  then have "leave_video_room s = Inl UninitializedPointer"
    using leave_video_eq [OF ready_conf [OF assms]] by (simp add: leave_video_room_def)
  with True show ?thesis by (auto simp: never_shown_def)
next
  case False
  define c where "c = (client s)\<lparr>mRemoteWinds := map (\<lambda>wind. (fst wind, 0)) (mRemoteWinds (client s)),
      mRemoteStreamInfos_VideoAudio := []\<rparr>"
  have c: "Conf_LeaveVideoRoom (client s) = Inr c"
    using leave_video_eq [OF ready_conf [OF assms]] False by (simp add: c_def)
  have "conf_wf c" unfolding c_def by (rule leave_video_wf [OF ready_conf [OF assms]])
  from client_outcome [OF assms this] have "conf_ready W (s\<lparr>client := c\<rparr>)" by (simp add: conference.outcome_Inr)
  then have "leave_video_room s = Inr (s\<lparr>client := c,
      heap := heap s |` (- set (mVideoRoomPeerList s)), mVideoRoomPeerList := []\<rparr>)"
    using LeaveVideoRoom_eq [of "s\<lparr>client := c\<rparr>"] by (simp add: leave_video_room_def c session_ready_def)
  with leave_room_outcome [OF assms] False show ?thesis by (auto simp: never_shown_def c_def)
qed

text \<open>The session ends: each object it owns is deleted once.\<close>

lemma delete_if_loop: "delete_if p s = rfold JPC_delete (opt_list p) s"
  by (cases p; cases "JPC_delete (the p) s") (simp_all add: delete_if_def)

lemma destroy_session:
  assumes "janus_wf s"
  shows "\<exists>s'. JVRM_destroy s = Inr s' \<and> client s' = client s \<and> heap s' = heap s |` (- set (owned s))"
proof -
  let ?v = "mVideoRoomPeerList s" and ?t = "mTextRoomPeerList s"
  let ?a = "opt_list (pCreateVideoRoomPeer s)" and ?b = "opt_list (pCreateTextRoomPeer s)"
  have d: "distinct (?v @ ?t @ ?a @ ?b)" "set ?v \<union> set ?t \<union> set ?a \<union> set ?b \<subseteq> dom (heap s)"
    using janus_wfD(1,2) [OF assms] by (auto simp: owned_def)
  define s1 where "s1 = s\<lparr>pWebSocket := JWS_destroy (pWebSocket s)\<rparr>"
  define s2 where "s2 = s1\<lparr>heap := heap s1 |` (- set ?v), mVideoRoomPeerList := []\<rparr>"
  define s3 where "s3 = s2\<lparr>heap := heap s2 |` (- set ?t), mTextRoomPeerList := []\<rparr>"
  define s4 where "s4 = s3\<lparr>heap := heap s3 |` (- set ?a), pCreateVideoRoomPeer := None\<rparr>"
  define s5 where "s5 = s4\<lparr>heap := heap s4 |` (- set ?b)\<rparr>"
  have h: "heap s1 = heap s" "heap s2 = heap s |` (- set ?v)" "heap s3 = heap s |` (- (set ?v \<union> set ?t))"
    "heap s4 = heap s |` (- (set ?v \<union> set ?t \<union> set ?a))" "heap s5 = heap s |` (- (set ?v \<union> set ?t \<union> set ?a \<union> set ?b))"
    by (simp_all add: s1_def s2_def s3_def s4_def s5_def restrict_restrict Int_assoc)
  have l: "mVideoRoomPeerList s1 = ?v" "mTextRoomPeerList s1 = ?t" "mTextRoomPeerList s2 = ?t"
    "pCreateVideoRoomPeer s1 = pCreateVideoRoomPeer s" "pCreateVideoRoomPeer s2 = pCreateVideoRoomPeer s"
    "pCreateVideoRoomPeer s3 = pCreateVideoRoomPeer s" "pCreateTextRoomPeer s1 = pCreateTextRoomPeer s"
    "pCreateTextRoomPeer s2 = pCreateTextRoomPeer s" "pCreateTextRoomPeer s3 = pCreateTextRoomPeer s"
    "pCreateTextRoomPeer s4 = pCreateTextRoomPeer s" "client s5 = client s"
    by (simp_all add: s1_def s2_def s3_def s4_def s5_def)
  have "rfold JPC_delete ?v s1 = Inr (s1\<lparr>heap := heap s1 |` (- set ?v)\<rparr>)"
    by (rule delete_loop) (use d in \<open>auto simp: h\<close>)
  moreover have "rfold JPC_delete ?t s2 = Inr (s2\<lparr>heap := heap s2 |` (- set ?t)\<rparr>)"
    by (rule delete_loop) (use d in \<open>auto simp: h\<close>)
  moreover have "rfold JPC_delete ?a s3 = Inr (s3\<lparr>heap := heap s3 |` (- set ?a)\<rparr>)"
    by (rule delete_loop) (use d in \<open>auto simp: h\<close>)
  moreover have "rfold JPC_delete ?b s4 = Inr s5"
    unfolding s5_def by (rule delete_loop) (use d in \<open>auto simp: h\<close>)
  ultimately have "\<exists>x. JVRM_destroy s = Inr x \<and> client x = client s5 \<and> heap x = heap s5"
    unfolding JVRM_destroy_def rbind_Inr s1_def [symmetric] l Let_def delete_if_loop
    by (simp add: s2_def [symmetric] s3_def [symmetric] s4_def [symmetric] l)
  then show ?thesis by (simp add: l h owned_def Int_assoc)
qed

lemma opt_mset_iff: "a \<in># opt_mset p \<longleftrightarrow> p = Some a"
  by (cases p) auto

text \<open>Distinct handles are distinct streams.\<close>

lemma dc_streams_distinct:
  assumes "dc_table_ok m xs"
  shows "distinct (map (si_stream \<circ> snd) xs)"
proof -
  define g where "g = (\<lambda>a. case m a of None \<Rightarrow> 0 | Some ob \<Rightarrow> mHandleID (do_stream ob))"
  have "fst e = (g \<circ> (si_stream \<circ> snd)) e" if entry: "e \<in> set xs" for e
    using assms entry by (cases e) (fastforce simp: dc_table_ok_def g_def)
  then have "map fst xs = map g (map (si_stream \<circ> snd) xs)"
    unfolding map_map by (intro map_cong refl)
  moreover have "distinct (map fst xs)" using assms by (simp add: dc_table_ok_def)
  ultimately show ?thesis by (simp only: distinct_map)
qed

lemma drop_channels:
  "distinct (map (si_stream \<circ> snd) xs) \<Longrightarrow> (\<forall>e \<in> set xs. si_stream (snd e) \<in> dom (dc_objects c)) \<Longrightarrow>
   rfold drop_channel xs c = Inr (c\<lparr>dc_objects := dc_objects c |` (- (si_stream \<circ> snd) ` set xs)\<rparr>)"
proof (induction xs arbitrary: c)
  case Nil
  then show ?case by simp
next
  case (Cons x xs)
  obtain k info where x: "x = (k, info)" by (cases x)
  let ?a = "si_stream info"
  obtain ob where ob: "dc_objects c ?a = Some ob" using Cons.prems(2) x by auto
  have one: "drop_channel x c = Inr (c\<lparr>dc_objects := (dc_objects c)(?a := None)\<rparr>)"
    by (simp add: x dc_get_def ob dc_delete_def dc_put_def)
  have "(dc_objects c)(?a := None) |` (- (si_stream \<circ> snd) ` set xs) = dc_objects c |` (- (si_stream \<circ> snd) ` set (x # xs))"
    by (rule ext) (auto simp: restrict_map_def x)
  moreover have "rfold drop_channel xs (c\<lparr>dc_objects := (dc_objects c)(?a := None)\<rparr>)
      = Inr (c\<lparr>dc_objects := (dc_objects c)(?a := None) |` (- (si_stream \<circ> snd) ` set xs)\<rparr>)"
  proof (subst Cons.IH)
    show "distinct (map (si_stream \<circ> snd) xs)" using Cons.prems(1) by (simp add: comp_def)
    show "\<forall>e \<in> set xs. si_stream (snd e) \<in> dom (dc_objects (c\<lparr>dc_objects := (dc_objects c)(?a := None)\<rparr>))"
    proof
      fix e assume e: "e \<in> set xs"
      then have "si_stream (snd e) \<noteq> ?a" using Cons.prems(1) by (force simp: x)
      then show "si_stream (snd e) \<in> dom (dc_objects (c\<lparr>dc_objects := (dc_objects c)(?a := None)\<rparr>))"
        using Cons.prems(2) e by auto
    qed
  qed simp
  ultimately show ?case by (simp add: one del: drop_channel.simps)
qed

lemma logout_cases:
  assumes "conf_ready W s"
  shows "if \<exists>e \<in> set (mRemoteStreamInfos_VideoAudio (client s)). mRender (si_stream (snd e)) = RenderUninitialized
    then Conf_destroy s = Inl UninitializedPointer
    else (case LocalStream_DataChannels (client s) of
        None \<Rightarrow> \<exists>s'. Conf_destroy s = Inr s' \<and> dc_objects (client s') = Map.empty
      | Some a \<Rightarrow>
          if a \<in> si_stream ` snd ` set (mRemoteStreamInfos_DataChannels (client s))
          then Conf_destroy s = Inl (DoubleFree a)
          else \<exists>s'. Conf_destroy s = Inr s' \<and> dc_objects (client s') = Map.empty)"
proof -
  let ?c = "client s"
  define D where "D = mRemoteStreamInfos_DataChannels ?c"
  obtain t where t: "JVRM_destroy s = Inr t" "client t = ?c"
    using destroy_session [OF conference.ready_wf [OF assms]] by blast
  note wf = ready_conf [OF assms] note ok = conf_okD [OF wf [unfolded conf_wf_def]]
  note views = drop_views [OF ok(3), of ?c]
  show ?thesis
  proof (cases "\<exists>e \<in> set (mRemoteStreamInfos_VideoAudio ?c). never_shown e")
    case True
    then have "Conf_destroy s = Inl UninitializedPointer" by (simp add: Conf_destroy_def t views)
    with True show ?thesis by (simp add: never_shown_def)
  next
    case False
    define m where "m = dc_objects ?c |` (- (si_stream \<circ> snd) ` set D)"
    have "dc_table_ok (dc_objects ?c) D" using ok(4) by (simp add: D_def)
    then have "rfold drop_channel D (?c\<lparr>mRemoteStreamInfos_VideoAudio := []\<rparr>)
        = Inr (?c\<lparr>mRemoteStreamInfos_VideoAudio := [], dc_objects := m\<rparr>)"
      by (subst drop_channels [OF dc_streams_distinct]) (auto simp: dc_table_ok_def m_def)
    then have run: "Conf_destroy s = (let c = ?c\<lparr>mRemoteStreamInfos_VideoAudio := [], dc_objects := m,
          mRemoteStreamInfos_DataChannels := [], mRemoteWinds := [], mLocalWindow := 0\<rparr>
        in rbind (case LocalStream_DataChannels ?c of None \<Rightarrow> Inr c | Some a \<Rightarrow> dc_delete a c) (\<lambda>c.
        Inr (t\<lparr>client := c\<lparr>LocalStream_DataChannels := None\<rparr>\<rparr>)))"
      using False by (simp add: Conf_destroy_def t views D_def Let_def split: option.splits)
    have holds: "dc_objects ?c a = None \<longleftrightarrow> a \<notin> (si_stream \<circ> snd) ` set D \<and> LocalStream_DataChannels ?c \<noteq> Some a" for a
      using refs_ok_None [OF ok(1), of a] by (simp add: holders_def D_def opt_mset_iff comp_def)
    have m: "m a = None \<longleftrightarrow> a \<in> (si_stream \<circ> snd) ` set D \<or> LocalStream_DataChannels ?c \<noteq> Some a" for a
      using holds by (auto simp: m_def restrict_map_def)
    have img: "(si_stream \<circ> snd) ` set D = si_stream ` snd ` set D" by (rule image_comp [symmetric])
    show ?thesis
    proof (cases "LocalStream_DataChannels ?c")
      case None
      then have "m = Map.empty" using m by auto
      with run None False show ?thesis by (auto simp: never_shown_def Let_def)
    next
      case (Some a)
      show ?thesis
      proof (cases "a \<in> si_stream ` snd ` set D")
        case True
        then have "m a = None" using m img by auto
        with run Some False True show ?thesis by (auto simp: never_shown_def Let_def dc_delete_def D_def)
      next
        case out: False
        then obtain ob where "m a = Some ob" using m [of a] Some img by auto
        moreover have "m(a := None) = Map.empty"
          using m Some by (intro ext) auto
        ultimately show ?thesis
          using run Some False out by (auto simp: never_shown_def Let_def dc_delete_def D_def)
      qed
    qed
  qed
qed

text \<open>
  C22: logging out deletes the session, the streams and the shared objects. It works when
  every video stream was shown and the stream of the text room is no longer in its table;
  then no shared object is left. A video stream that was never shown is an uninitialised
  pointer; and the stream of a text room that is still there is deleted twice, since the
  table and the local pointer are both emptied with \<^verbatim>\<open>delete x.release()\<close>.
\<close>

theorem logout_outcome:
  assumes "conf_ready W s"
  shows "if \<exists>e \<in> set (mRemoteStreamInfos_VideoAudio (client s)). mRender (si_stream (snd e)) = RenderUninitialized
    then Conf_destroy s = Inl UninitializedPointer
    else (case LocalStream_DataChannels (client s) of
        None \<Rightarrow> \<exists>s'. Conf_destroy s = Inr s' \<and> dc_objects (client s') = Map.empty
      | Some a \<Rightarrow>
          if a \<in> si_stream ` snd ` set (mRemoteStreamInfos_DataChannels (client s))
          then Conf_destroy s = Inl (DoubleFree a)
          else \<exists>s'. Conf_destroy s = Inr s' \<and> dc_objects (client s') = Map.empty)"
  by (rule logout_cases [OF assms])

section \<open>Joining the text room\<close>

text \<open>
  When the channel of a text room opens, the program joins the room over it, once: it
  sends a JSON text with two fresh random texts, the number of the room and the name that the
  user last set, and forgets the callback.
\<close>

lemma open_channel_joins_room:
  assumes "dc_objects (client s) a = Some ob" "mDataChannel (do_stream ob) = Some ch"
    and "OnSendLocalInfoWhenOpenDataChannel (do_stream ob) = Some SendLocalInfo"
  shows "\<exists>s' ob' transaction username. channel_changed E a Open s = Inr s'
    \<and> dc_objects (client s') = (dc_objects (client s))(a \<mapsto> ob')
    \<and> OnSendLocalInfoWhenOpenDataChannel (do_stream ob') = None
    \<and> sent_by (do_stream ob') = dch_sent ch @ [JsonValueToString (je_json E) (JObj [
         (''textroom'', JStr ''join''), (''transaction'', JStr transaction),
         (''room'', JInt (scast (mTextRoomID (client s)))), (''username'', JStr username),
         (''display'', JStr (c_str (mTextRoomDisplayName (client s))))])]
    \<and> transaction = fst (new_transaction E s) \<and> username = fst (new_transaction E (snd (new_transaction E s)))"
proof -
  obtain t sd where t: "new_transaction E s = (t, s\<lparr>seed := sd\<rparr>)" using new_transaction_seed by blast
  obtain u sd' where u: "new_transaction E (s\<lparr>seed := sd\<rparr>) = (u, s\<lparr>seed := sd, seed := sd'\<rparr>)"
    using new_transaction_seed by blast
  define data where "data = JsonValueToString (je_json E) (JObj [
         (''textroom'', JStr ''join''), (''transaction'', JStr t),
         (''room'', JInt (scast (mTextRoomID (client s)))), (''username'', JStr u),
         (''display'', JStr (c_str (mTextRoomDisplayName (client s))))])"
  have run: "run_conf_slot E SendLocalInfo s = (data, s\<lparr>seed := sd, seed := sd'\<rparr>)"
    by (simp add: onSendLocalInfoWhenOpenDataChannel_def t u data_def)
  define st where "st = (do_stream ob)\<lparr>mDataChannel := Some (ch\<lparr>dch_state := Open, dch_sent := dch_sent ch @ [data]\<rparr>),
      OnSendLocalInfoWhenOpenDataChannel := None\<rparr>"
  have "DC_OnStateChange (run_conf_slot E) (channel_state Open (do_stream ob)) s = (st, s\<lparr>seed := sd, seed := sd'\<rparr>)"
    using assms(2,3) run
    by (simp add: DC_OnStateChange_def channel_state_def SendDataViaDataChannel_def st_def del: run_conf_slot.simps)
  then have "channel_changed E a Open s
      = Inr (up_conf (dc_put a (ob\<lparr>do_stream := st\<rparr>)) (s\<lparr>seed := sd, seed := sd'\<rparr>))"
    by (simp add: channel_changed_def dc_get_def assms(1))
  then show ?thesis
    by (intro exI [of _ "up_conf (dc_put a (ob\<lparr>do_stream := st\<rparr>)) (s\<lparr>seed := sd, seed := sd'\<rparr>)"]
        exI [of _ "ob\<lparr>do_stream := st\<rparr>"] exI [of _ t] exI [of _ u])
      (simp add: dc_put_def t u st_def sent_by_def data_def)
qed

section \<open>Witnesses\<close>

definition ex_conf :: conf where
  "ex_conf = Conf_SetVideoWindows 1 [2, 3] (Conf_new 0 0 (Some 0, Some 1))"

lemma ex_conf_simps [simp]:
  "mRemoteStreamInfos_VideoAudio ex_conf = []" "mRemoteStreamInfos_DataChannels ex_conf = []"
  "mRemoteWinds ex_conf = [(2, 0), (3, 0)]" "tracks ex_conf = (Some 0, Some 1)" "conf_wf ex_conf"
  by (simp_all add: ex_conf_def windows_wf conf_wf_new) (simp_all add: Conf_SetVideoWindows_def Conf_new_def)

lemma ex_ready: "conf_wf c \<Longrightarrow> conf_ready ex_wenv (ex_conf_start\<lparr>client := c\<rparr>)"
  using client_outcome [OF conf_start_ready(1) [of ex_wenv 0 0 0 "(None, None)"], of c]
  by (simp add: ex_conf_start_def conference.outcome_Inr)

theorem first_free_window_is_given_witness:
  "\<exists>c'. ConnectToPeer_VideoAudio ex_wenv 5 True False False ex_conf = Inr c' \<and> fst (hd (mRemoteWinds c')) = 2
    \<and> snd (hd (mRemoteWinds c')) = 5"
proof -
  obtain c' us vs where "ConnectToPeer_VideoAudio ex_wenv 5 True False False ex_conf = Inr c'"
    "[(2, 0), (3, 0)] = us @ (2, 0) # vs" "\<forall>u \<in> set us. snd u \<noteq> 0" "mRemoteWinds c' = us @ (2, 5) # vs"
    using first_free_window_is_given [where c = ex_conf and k = 5 and W = ex_wenv and loc = False] by auto
  then show ?thesis by (cases us) auto
qed

theorem stream_comes_and_goes_witness:
  "\<exists>c1. ConnectToPeer_VideoAudio ex_wenv 5 True False False ex_conf = Inr c1
    \<and> onRemoteStreamRemove 5 c1 = Inl UninitializedPointer"
  using stream_comes_and_goes [where c = ex_conf and k = 5 and W = ex_wenv and t = 0] by auto

definition ex_candidates :: "iceCandidate list" where
  "ex_candidates = [\<lparr>ice_sdp_mid = ''0'', ice_sdp_mline_index = 0, ice_sdp = ''c''\<rparr>,
     \<lparr>ice_sdp_mid = ''end'', ice_sdp_mline_index = -1, ice_sdp = ''end''\<rparr>]"


theorem leaving_the_video_room_witness:
  "\<exists>c. ConnectToPeer_VideoAudio ex_wenv 5 True False False ex_conf = Inr c
    \<and> leave_video_room (ex_conf_start\<lparr>client := c\<rparr>) = Inl UninitializedPointer"
proof -
  define c where "c = put_va 5 (new_info (fresh_stream ex_wenv True False 5 (mRemoteWinds ex_conf)))
      (ex_conf\<lparr>mRemoteWinds := snd (take_window 5 (mRemoteWinds ex_conf))\<rparr>)"
  have run: "ConnectToPeer_VideoAudio ex_wenv 5 True False False ex_conf = Inr c"
    using connect_fresh [of ex_conf 5 ex_wenv True False] by (simp add: c_def)
  then have "conf_wf c" using connect_va_case [of ex_conf ex_wenv 5 True False False] by simp
  from leaving_the_video_room [OF ex_ready [OF this]] run show ?thesis
    by (auto simp: c_def put_va_def new_info_def fresh_stream_def)
qed

theorem logout_outcome_witness:
  "\<exists>c a. ConnectToPeer_DataChannels 6 ex_conf = Inr c \<and> LocalStream_DataChannels c = Some a
    \<and> Conf_destroy (ex_conf_start\<lparr>client := c\<rparr>) = Inl (DoubleFree a)"
proof -
  obtain c info where c: "ConnectToPeer_DataChannels 6 ex_conf = Inr c" "conf_wf c"
    "LocalStream_DataChannels c = Some (si_stream info)"
    "mRemoteStreamInfos_DataChannels c = AList.update 6 info (mRemoteStreamInfos_DataChannels ex_conf)"
    "mRemoteStreamInfos_VideoAudio c = mRemoteStreamInfos_VideoAudio ex_conf"
    using connect_dc_ok [of ex_conf 6] by auto
  from logout_outcome [OF ex_ready [OF c(2)]] c show ?thesis by simp
qed

lemma ex_text_room:
  obtains c a ob where "conf_wf c" "LocalStream_DataChannels c = Some a" "dc_objects c a = Some ob"
    "mDataChannel (do_stream ob) = Some \<lparr>dch_label = ''c'', dch_state = Open, dch_sent = [], dch_observed = True\<rparr>"
    "OnSendLocalInfoWhenOpenDataChannel (do_stream ob) = Some SendLocalInfo"
proof -
  obtain c ob and info :: "addr stream_info" where c: "conf_wf c" "LocalStream_DataChannels c = Some (si_stream info)"
    "dc_objects c (si_stream info) = Some ob"
    "do_stream ob = (DC_new 6)\<lparr>OnSendLocalInfoWhenOpenDataChannel := Some SendLocalInfo\<rparr>"
    using connect_dc_ok [of ex_conf 6] ex_conf_simps(5) by blast
  define st where "st = (do_stream ob)\<lparr>mDataChannel :=
      Some \<lparr>dch_label = ''c'', dch_state = Open, dch_sent = [], dch_observed = True\<rparr>\<rparr>"
  have "conf_wf (dc_put (si_stream info) (ob\<lparr>do_stream := st\<rparr>) c)"
    by (rule put_stream_wf [OF c(1,3)]) (simp add: st_def)
  then show ?thesis
    by (rule that [where a = "si_stream info" and ob = "ob\<lparr>do_stream := st\<rparr>"])
      (simp_all add: dc_put_def c(2,4) st_def)
qed

end
