(* ===== verification/Video_Capture.thy ===== *)
theory Video_Capture
  imports Video_Frames
begin

text \<open>
  The sending side of the video: \<^verbatim>\<open>src/ConnecttionFactory.cpp\<close>, \<^verbatim>\<open>src/VideoCapture.cpp\<close>,
  \<^verbatim>\<open>src/VcmCapture.cpp\<close> and \<^verbatim>\<open>src/CapturerTrackSource.cpp\<close>. The camera thread cuts its
  buffer into planes, the capturer shows the frame in the local window and hands it to the
  adapter and the broadcaster of webrtc, which are arguments of the model, as is the factory.
\<close>

section \<open>The factory\<close>

text \<open>\<open>create n\<close> tells whether the \<open>n\<close>-th call of \<^verbatim>\<open>CreatePeerConnectionFactory\<close> succeeds.\<close>

record factory_state =
  peer_connection_factory :: "nat option"      \<comment> \<open>\<^verbatim>\<open>_peer_connection_factory\<close>, by the call that made it\<close>
  factory_calls :: nat
  factory_threads :: nat                        \<comment> \<open>threads started for it\<close>

definition factory_start :: factory_state where
  "factory_start = \<lparr>peer_connection_factory = None, factory_calls = 0, factory_threads = 0\<rparr>"

definition Factory_Init :: "(nat \<Rightarrow> bool) \<Rightarrow> factory_state \<Rightarrow> bool \<times> factory_state" where
  "Factory_Init create s =
     (let s = s\<lparr>factory_threads := factory_threads s + 3\<rparr>;
          n = factory_calls s;
          s = s\<lparr>peer_connection_factory := (if create n then Some n else None), factory_calls := Suc n\<rparr>
      in (peer_connection_factory s = None, s))"

definition Factory_Unit :: "factory_state \<Rightarrow> factory_state" where
  "Factory_Unit s = s\<lparr>peer_connection_factory := None\<rparr>"

definition Factory_Get :: "(nat \<Rightarrow> bool) \<Rightarrow> factory_state \<Rightarrow> nat option \<times> factory_state" where
  "Factory_Get create s =
     (let s = (if peer_connection_factory s = None then snd (Factory_Init create s) else s)
      in (peer_connection_factory s, s))"

text \<open>
  The factory is made on the first use and then kept: every further use gives the same
  one and starts no thread, until \<^verbatim>\<open>Unit\<close>. The answer of \<^verbatim>\<open>Init\<close> is the wrong way round: it
  is true exactly when no factory was made.
\<close>

lemma factory_made_once:
  "(create (factory_calls s) \<longrightarrow>
      Factory_Get create (snd (Factory_Get create s)) = Factory_Get create s)
   \<and> (peer_connection_factory s \<noteq> None \<longrightarrow> Factory_Get create s = (peer_connection_factory s, s))
   \<and> fst (Factory_Init create s) = (\<not> create (factory_calls s))"
  by (auto simp: Factory_Get_def Factory_Init_def Let_def)

section \<open>The capturer\<close>

text \<open>
  The broadcaster \<open>'b\<close> and the adapter \<open>'a\<close>, with the operations the code calls:
  \<^verbatim>\<open>ce_adapt\<close> gives whether the frame is kept, the crop and the output size.
\<close>

record ('a, 'b) capture_env =
  ce_add :: "nat \<Rightarrow> nat option \<times> nat \<times> nat \<Rightarrow> 'b \<Rightarrow> 'b"
  ce_remove :: "nat \<Rightarrow> 'b \<Rightarrow> 'b"
  ce_wants :: "'b \<Rightarrow> nat option \<times> nat \<times> nat"            \<comment> \<open>target pixels, maximal pixels, rate\<close>
  ce_broadcast :: "video_frame \<Rightarrow> 'b \<Rightarrow> 'b"
  ce_request :: "nat option \<Rightarrow> nat \<Rightarrow> nat \<Rightarrow> 'a \<Rightarrow> 'a"
  ce_adapt :: "nat \<Rightarrow> nat \<Rightarrow> int \<Rightarrow> 'a \<Rightarrow> (bool \<times> nat \<times> nat \<times> nat \<times> nat) \<times> 'a"
  ce_scale :: "i420 \<Rightarrow> nat \<Rightarrow> nat \<Rightarrow> i420"

record ('a, 'b) video_capture =
  broadcaster :: 'b
  video_adapter :: 'a

definition UpdateVideoAdapter :: "('a, 'b) capture_env \<Rightarrow> ('a, 'b) video_capture \<Rightarrow> ('a, 'b) video_capture" where
  "UpdateVideoAdapter K s =
     (let (target, max_pixels, rate) = ce_wants K (broadcaster s)
      in s\<lparr>video_adapter := ce_request K target max_pixels rate (video_adapter s)\<rparr>)"

definition VC_AddOrUpdateSink ::
  "('a, 'b) capture_env \<Rightarrow> nat \<Rightarrow> nat option \<times> nat \<times> nat \<Rightarrow> ('a, 'b) video_capture \<Rightarrow> ('a, 'b) video_capture" where
  "VC_AddOrUpdateSink K sink wants s =
     UpdateVideoAdapter K (s\<lparr>broadcaster := ce_add K sink wants (broadcaster s)\<rparr>)"

definition VC_RemoveSink :: "('a, 'b) capture_env \<Rightarrow> nat \<Rightarrow> ('a, 'b) video_capture \<Rightarrow> ('a, 'b) video_capture" where
  "VC_RemoveSink K sink s =
     UpdateVideoAdapter K (s\<lparr>broadcaster := ce_remove K sink (broadcaster s)\<rparr>)"

definition VC_GetSinkWants :: "('a, 'b) capture_env \<Rightarrow> ('a, 'b) video_capture \<Rightarrow> nat option \<times> nat \<times> nat" where
  "VC_GetSinkWants K s = ce_wants K (broadcaster s)"

text \<open>Arithmetic on \<^verbatim>\<open>int64_t\<close>.\<close>

definition mul_int64 :: "int \<Rightarrow> int \<Rightarrow> int res" where
  "mul_int64 a b = (if LONG_MIN \<le> a * b \<and> a * b \<le> LONG_MAX then Inr (a * b) else Inl IntegerOverflow)"

text \<open>The rotated buffer is made and dropped: neither branch uses it.\<close>

definition VC_OnFrame ::
  "frame_env \<Rightarrow> ('a, 'b) capture_env \<Rightarrow> video_frame \<Rightarrow> ('a, 'b) video_capture \<Rightarrow> ('a, 'b) video_capture res" where
  "VC_OnFrame E K frame s =
     (let b = fr_buffer frame in
      rbind (mul_int64 (fr_timestamp_us frame) 1000) (\<lambda>timestamp.
      let ((kept, cropped_width, cropped_height, out_width, out_height), a) =
            ce_adapt K (fwidth b) (fheight b) timestamp (video_adapter s);
          s = s\<lparr>video_adapter := a\<rparr>
      in if \<not> kept then Inr s
         else (let buffer = upright E frame in
           if out_height \<noteq> fheight b \<or> out_width \<noteq> fwidth b then
             (let scaled_buffer = ce_scale K b out_width out_height;
                  scaled = \<lparr>fr_buffer = scaled_buffer, fr_rotation = Rotation0,
                            fr_timestamp_us = fr_timestamp_us frame, fr_id = fr_id frame\<rparr>
              in Inr (s\<lparr>broadcaster := ce_broadcast K scaled (broadcaster s)\<rparr>))
           else Inr (s\<lparr>broadcaster := ce_broadcast K frame (broadcaster s)\<rparr>))))"

section \<open>The camera\<close>

record ('a, 'b) vcm_capture = "('a, 'b) video_capture" +
  videoWidth :: nat
  videoHeight :: nat
  pBufYuvI420 :: "u8 list option"      \<comment> \<open>\<open>None\<close> once the buffer is deleted\<close>
  vcm_module :: bool                    \<comment> \<open>\<^verbatim>\<open>vcm_\<close>, which stays null in this build\<close>
  mWindowID :: i64
  cameraThread :: bool                  \<comment> \<open>the thread has been started; nothing ends it\<close>

text \<open>Both branches of the constructor set everything but the window.\<close>

definition Vcm_Init :: "(nat \<Rightarrow> u8) \<Rightarrow> nat \<Rightarrow> nat \<Rightarrow> ('a, 'b) vcm_capture \<Rightarrow> (bool \<times> ('a, 'b) vcm_capture) res" where
  "Vcm_Init junk width height s =
     rbind (mul_int width height) (\<lambda>wh.
     rbind (mul_int wh 3) (\<lambda>wh3.
     Inr (True, s\<lparr>videoWidth := width, videoHeight := height,
        pBufYuvI420 := Some (map junk [0..<wh3 div 2]), cameraThread := True\<rparr>)))"

definition Vcm_new :: "'a \<Rightarrow> 'b \<Rightarrow> (nat \<Rightarrow> u8) \<Rightarrow> i64 \<Rightarrow> nat \<Rightarrow> nat \<Rightarrow> ('a, 'b) vcm_capture res" where
  "Vcm_new a b junk junk_window width height =
     rbind (Vcm_Init junk width height
       \<lparr>broadcaster = b, video_adapter = a, videoWidth = 0, videoHeight = 0, pBufYuvI420 = None,
        vcm_module = False, mWindowID = junk_window, cameraThread = False\<rparr>)
     (\<lambda>(started, s). Inr s)"

definition Vcm_SetWindowID :: "i64 \<Rightarrow> ('a, 'b) vcm_capture \<Rightarrow> ('a, 'b) vcm_capture" where
  "Vcm_SetWindowID inWindowID s = s\<lparr>mWindowID := inWindowID\<rparr>"

definition Vcm_Destroy :: "('a, 'b) vcm_capture \<Rightarrow> ('a, 'b) vcm_capture" where
  "Vcm_Destroy s =
     (let s = s\<lparr>pBufYuvI420 := None\<rparr> in if \<not> vcm_module s then s else s\<lparr>vcm_module := False\<rparr>)"

text \<open>
  A frame of the camera is shown in the local window; only then does the capturer get it.
\<close>

definition Vcm_OnFrame ::
  "frame_env \<Rightarrow> ('a, 'b) capture_env \<Rightarrow> video_frame \<Rightarrow> ('a, 'b) vcm_capture \<Rightarrow> widgets
   \<Rightarrow> (('a, 'b) vcm_capture \<times> widgets) res" where
  "Vcm_OnFrame E K frame s ws =
     (let buffer = upright E frame in
      case ws (mWindowID s) of
        None \<Rightarrow> Inr (s, ws)
      | Some paintWidget \<Rightarrow>
          rbind (show_frame E buffer paintWidget) (\<lambda>r.
          rbind (VC_OnFrame E K frame (video_capture.truncate s)) (\<lambda>c.
          Inr (s\<lparr>broadcaster := broadcaster c, video_adapter := video_adapter c\<rparr>,
               ws(mWindowID s \<mapsto> r)))))"

text \<open>\<open>now\<close> is \<^verbatim>\<open>rtc::TimeMicros()\<close>.\<close>

definition Vcm_SendFrame ::
  "frame_env \<Rightarrow> ('a, 'b) capture_env \<Rightarrow> int \<Rightarrow> nat \<Rightarrow> nat \<Rightarrow> u8 list \<Rightarrow> nat \<Rightarrow> u8 list \<Rightarrow> nat \<Rightarrow> u8 list \<Rightarrow> nat
   \<Rightarrow> nat \<Rightarrow> ('a, 'b) vcm_capture \<Rightarrow> widgets \<Rightarrow> (('a, 'b) vcm_capture \<times> widgets) res" where
  "Vcm_SendFrame E K now width height data_y stride_y data_u stride_u data_v stride_v frame_id s ws =
     rbind (fe_copy E width height data_y stride_y data_u stride_u data_v stride_v) (\<lambda>buffer.
     rbind (mul_int64 now 1000) (\<lambda>timestamp_us.
     Vcm_OnFrame E K \<lparr>fr_buffer = buffer, fr_rotation = Rotation0, fr_timestamp_us = timestamp_us, fr_id = frame_id\<rparr> s ws))"

text \<open>One round of \<^verbatim>\<open>while(1)\<close>; the buffer may be deleted between two rounds.\<close>

definition RunCameraThread_round ::
  "frame_env \<Rightarrow> ('a, 'b) capture_env \<Rightarrow> addr \<Rightarrow> int \<Rightarrow> nat \<Rightarrow> nat \<Rightarrow> ('a, 'b) vcm_capture \<Rightarrow> widgets
   \<Rightarrow> (('a, 'b) vcm_capture \<times> widgets) res" where
  "RunCameraThread_round E K this now width height Vcm ws =
     (let image_size = width * height in
      case pBufYuvI420 Vcm of None \<Rightarrow> Inl (UseAfterFree this)
      | Some buf \<Rightarrow>
          Vcm_SendFrame E K now width height buf width
            (drop image_size buf) (width div 2)
            (drop (image_size + image_size div 4) buf) (width div 2) 0 Vcm ws)"

section \<open>A round of the camera\<close>

lemma VC_OnFrame_returns:
  assumes "mul_int64 (fr_timestamp_us f) 1000 = Inr t"
  shows "\<exists>c. VC_OnFrame E K f s = Inr c"
proof -
  obtain kept cw ch ow oh a where
    "ce_adapt K (fwidth (fr_buffer f)) (fheight (fr_buffer f)) t (video_adapter s) = ((kept, cw, ch, ow, oh), a)"
    by (metis prod.exhaust)
  then show ?thesis using assms by (simp add: VC_OnFrame_def Let_def)
qed

text \<open>The frame that the camera's buffer holds.\<close>

definition camera_frame :: "nat \<Rightarrow> nat \<Rightarrow> u8 list \<Rightarrow> i420 \<Rightarrow> bool" where
  "camera_frame w h buf b \<longleftrightarrow> fwidth b = w \<and> fheight b = h \<and> DataY b @ DataU b @ DataV b = buf
     \<and> length (DataY b) = w * h \<and> length (DataU b) = w * h div 4 \<and> length (DataV b) = w * h div 4"

lemma camera_copy:
  assumes "i420_copy cp" "0 < w" "0 < h" "even w" "even h" "length buf = w * h * 3 div 2"
  shows "\<exists>b. cp w h buf w (drop (w * h) buf) (w div 2) (drop (w * h + w * h div 4) buf) (w div 2) = Inr b
    \<and> camera_frame w h buf b"
proof -
  note ev = packed_size_even [OF assms(4,5)]
  define k where "k = w * h div 4"
  have len: "length buf = w * h + k + k" using assms(6) ev(1) by (simp add: k_def)
  obtain b where b: "cp w h buf w (drop (w * h) buf) (w div 2) (drop (w * h + w * h div 4) buf) (w div 2) = Inr b"
    "fwidth b = w" "fheight b = h" "DataY b = take (w * h) buf" "DataU b = take k (drop (w * h) buf)"
    "DataV b = take k (drop (w * h + k) buf)"
    using i420_copy.copies_packed [OF assms(1-5), of buf "drop (w * h) buf" "drop (w * h + k) buf"] len
    by (auto simp: ev(2) k_def [symmetric])
  have "take (w * h) buf @ take k (drop (w * h) buf) @ take k (drop (w * h + k) buf) = buf"
  proof -
    have "take k (drop (w * h + k) buf) = drop (w * h + k) buf" using len by simp
    moreover have "take k (drop (w * h) buf) @ drop (w * h + k) buf = drop (w * h) buf"
      by (metis add.commute append_take_drop_id drop_drop)
    ultimately show ?thesis by simp
  qed
  with b len show ?thesis by (auto simp: camera_frame_def k_def [symmetric])
qed

text \<open>
  C38: with even sides the camera thread cuts its buffer into planes without a gap or an
  overlap: the frame it sends is its buffer, so the preview, which packs the planes again,
  shows the buffer byte for byte. The capturer and its sinks get the frame only if the
  preview exists: without a window for it, the camera sends nothing at all.
\<close>

theorem camera_round:
  assumes "i420_copy (fe_copy E)" "malloc_ok E" "0 < w" "0 < h" "even w" "even h"
    and "int (w * h * 3) \<le> INT_MAX" "pBufYuvI420 s = Some buf" "length buf = w * h * 3 div 2"
    and "0 \<le> now" "now \<le> 9223372036854"
  shows "case ws (mWindowID s) of
      None \<Rightarrow> RunCameraThread_round E K this now w h s ws = Inr (s, ws)
    | Some r \<Rightarrow> capacity r = Some 3686400 \<and> w * h * 3 div 2 \<le> 3686400 \<longrightarrow>
        (\<exists>b c r'. camera_frame w h buf b
          \<and> VC_OnFrame E K \<lparr>fr_buffer = b, fr_rotation = Rotation0, fr_timestamp_us = now * 1000, fr_id = 0\<rparr>
              (video_capture.truncate s) = Inr c
          \<and> RunCameraThread_round E K this now w h s ws = Inr
              (s\<lparr>broadcaster := broadcaster c, video_adapter := video_adapter c\<rparr>, ws(mWindowID s \<mapsto> r'))
          \<and> map_option (take (w * h * 3 div 2)) (pBufYuv420p r') = Some buf)"
proof -
  obtain b where b: "fe_copy E w h buf w (drop (w * h) buf) (w div 2) (drop (w * h + w * h div 4) buf) (w div 2) = Inr b"
    "camera_frame w h buf b"
    using camera_copy [OF assms(1,3-6,9)] by blast
  let ?f = "\<lparr>fr_buffer = b, fr_rotation = Rotation0, fr_timestamp_us = now * 1000, fr_id = 0\<rparr>"
  have t: "mul_int64 now 1000 = Inr (now * 1000)" "mul_int64 (now * 1000) 1000 = Inr (now * 1000 * 1000)"
    using assms(10,11) by (simp_all add: mul_int64_def)
  have round: "RunCameraThread_round E K this now w h s ws = Vcm_OnFrame E K ?f s ws"
    by (simp add: RunCameraThread_round_def Vcm_SendFrame_def Let_def assms(8) b(1) t)
  have up: "upright E ?f = b" by (simp add: upright_def)
  show ?thesis
  proof (cases "ws (mWindowID s)")
    case None
    then show ?thesis by (simp add: round Vcm_OnFrame_def)
  next
    case (Some r)
    have "\<exists>b c r'. camera_frame w h buf b
          \<and> VC_OnFrame E K \<lparr>fr_buffer = b, fr_rotation = Rotation0, fr_timestamp_us = now * 1000, fr_id = 0\<rparr>
              (video_capture.truncate s) = Inr c
          \<and> RunCameraThread_round E K this now w h s ws = Inr
              (s\<lparr>broadcaster := broadcaster c, video_adapter := video_adapter c\<rparr>, ws(mWindowID s \<mapsto> r'))
          \<and> map_option (take (w * h * 3 div 2)) (pBufYuv420p r') = Some buf"
      if cap: "capacity r = Some 3686400" "w * h * 3 div 2 \<le> 3686400"
    proof -
      obtain m where m: "pBufYuv420p r = Some m" "length m = 3686400"
        using cap(1) by (auto simp: capacity_def)
      have fb: "fwidth b = w" "fheight b = h" "DataY b @ DataU b @ DataV b = buf"
        using b(2) by (simp_all add: camera_frame_def)
      have pack: "pack_frame E b = Inr buf"
        using pack_frame_exact [OF assms(2), of b] b(2) assms(5-7) by (simp add: camera_frame_def)
      have mul: "mul_int w h = Inr (w * h)" "mul_int (w * h) 3 = Inr (w * h * 3)"
        using assms(7) by (simp_all add: mul_int_def)
      have cpy: "memcpy 0 buf (w * h * 3 div 2) m = Inr (buf @ drop (w * h * 3 div 2) m)"
        using cap(2) m(2) assms(9) by (simp add: memcpy_def)
      obtain r' where r': "show_frame E b r = Inr r'" "pBufYuv420p r' = Some (buf @ drop (w * h * 3 div 2) m)"
        by (simp add: show_frame_def pack SetYUVData_def SetVideoSize_def lock_def unlock_def m(1) mul cpy fb
            SetViewStated_def Let_def)
      obtain c where c: "VC_OnFrame E K ?f (video_capture.truncate s) = Inr c"
        using VC_OnFrame_returns [of ?f "now * 1000 * 1000" E K "video_capture.truncate s"] t(2) by auto
      show ?thesis
        using b(2) c r' Some assms(9)
        by (intro exI [of _ b] exI [of _ c] exI [of _ r']) (simp add: round Vcm_OnFrame_def up Let_def)
    qed
    with Some show ?thesis by simp
  qed
qed

text \<open>
  The time stamp is microseconds times a thousand, twice. The product leaves 64 bits
  once the clock has passed 9223372036854 microseconds, some 106 days: from then on every
  frame that has a preview is an overflow of signed arithmetic.
\<close>

lemma camera_clock_overflows:
  assumes "i420_copy (fe_copy E)" "malloc_ok E" "0 < w" "0 < h" "even w" "even h"
    and "int (w * h * 3) \<le> INT_MAX" "pBufYuvI420 s = Some buf" "length buf = w * h * 3 div 2"
    and "ws (mWindowID s) = Some r" "capacity r = Some 3686400" "w * h * 3 div 2 \<le> 3686400"
    and "9223372036854 < now"
  shows "RunCameraThread_round E K this now w h s ws = Inl IntegerOverflow"
proof -
  obtain b where b: "fe_copy E w h buf w (drop (w * h) buf) (w div 2) (drop (w * h + w * h div 4) buf) (w div 2) = Inr b"
    "camera_frame w h buf b"
    using camera_copy [OF assms(1,3-6,9)] by blast
  show ?thesis
  proof (cases "now * 1000 \<le> LONG_MAX")
    case False
    then show ?thesis
      by (simp add: RunCameraThread_round_def Vcm_SendFrame_def Let_def assms(8) b(1) mul_int64_def)
  next
    case True
    let ?f = "\<lparr>fr_buffer = b, fr_rotation = Rotation0, fr_timestamp_us = now * 1000, fr_id = 0\<rparr>"
    have t: "mul_int64 now 1000 = Inr (now * 1000)" "mul_int64 (now * 1000) 1000 = Inl IntegerOverflow"
      using assms(13) True by (simp_all add: mul_int64_def)
    have "planes_readable b" "int (fwidth b * fheight b * 3) \<le> INT_MAX" "fwidth b * fheight b * 3 div 2 \<le> 3686400"
      using b(2) assms(7,12) by (simp_all add: planes_readable_def camera_frame_def)
    moreover obtain m where "pBufYuv420p r = Some m" "length m = 3686400"
      using assms(11) by (auto simp: capacity_def)
    ultimately obtain r' where "show_frame E b r = Inr r'"
      using show_frame_overflow [OF assms(2), of b r m] by auto
    moreover have "VC_OnFrame E K ?f c = Inl IntegerOverflow" for c
      by (simp add: VC_OnFrame_def t Let_def)
    ultimately show ?thesis
      by (simp add: RunCameraThread_round_def Vcm_SendFrame_def Let_def assms(8) b(1) t(1) Vcm_OnFrame_def
          assms(10) upright_def)
  qed
qed

text \<open>
  Destroying the capturer frees the buffer but does not end its thread: the next round
  of the thread reads a deleted buffer.
\<close>

lemma camera_outlives_buffer:
  assumes "Vcm_new a b junk jw width height = Inr s"
  shows "cameraThread (Vcm_Destroy s) \<and>
    RunCameraThread_round E K this now width height (Vcm_Destroy s) ws = Inl (UseAfterFree this)"
  using assms
  by (auto simp: Vcm_new_def Vcm_Init_def rbind_eq_Inr Vcm_Destroy_def RunCameraThread_round_def Let_def)

text \<open>
  A frame that is scaled for the encoder loses its rotation: the pixels are those of the
  frame as it came, but the new frame says that it is upright. A frame that is not scaled
  keeps its rotation.
\<close>

lemma scaling_drops_rotation:
  assumes "ce_adapt K (fwidth (fr_buffer f)) (fheight (fr_buffer f)) (fr_timestamp_us f * 1000) (video_adapter s)
      = ((True, cw, ch, ow, oh), a)"
    and "LONG_MIN \<le> fr_timestamp_us f * 1000" "fr_timestamp_us f * 1000 \<le> LONG_MAX"
  shows "VC_OnFrame E K f s = Inr (s\<lparr>video_adapter := a, broadcaster := ce_broadcast K
    (if oh \<noteq> fheight (fr_buffer f) \<or> ow \<noteq> fwidth (fr_buffer f)
     then f\<lparr>fr_buffer := ce_scale K (fr_buffer f) ow oh, fr_rotation := Rotation0\<rparr> else f) (broadcaster s)\<rparr>)"
proof -
  have "mul_int64 (fr_timestamp_us f) 1000 = Inr (fr_timestamp_us f * 1000)"
    using assms(2,3) by (simp only: mul_int64_def if_True simp_thms)
  moreover have scaled: "f\<lparr>fr_buffer := b, fr_rotation := Rotation0\<rparr>
      = \<lparr>fr_buffer = b, fr_rotation = Rotation0, fr_timestamp_us = fr_timestamp_us f, fr_id = fr_id f\<rparr>" for b
    by (cases f) simp
  ultimately show ?thesis
    using assms(1) by (simp add: VC_OnFrame_def Let_def scaled)
qed

section \<open>Witnesses\<close>

text \<open>A capturer whose adapter halves every frame and whose broadcaster keeps what it gets.\<close>

definition ex_cenv :: "(unit, video_frame list) capture_env" where
  "ex_cenv = \<lparr>ce_add = (\<lambda>i w b. b), ce_remove = (\<lambda>i b. b), ce_wants = (\<lambda>b. (None, 0, 0)),
     ce_broadcast = (\<lambda>f b. b @ [f]), ce_request = (\<lambda>t m r a. a),
     ce_adapt = (\<lambda>w h t a. ((True, w, h, w div 2, h div 2), a)),
     ce_scale = (\<lambda>b w h. b\<lparr>fwidth := w, fheight := h\<rparr>)\<rparr>"

definition ex_camera :: "(unit, video_frame list) vcm_capture" where
  "ex_camera = \<lparr>broadcaster = [], video_adapter = (), videoWidth = 2, videoHeight = 2,
     pBufYuvI420 = Some [1, 2, 3, 4, 5, 6], vcm_module = False, mWindowID = 7, cameraThread = True\<rparr>"

lemma ex_copy_ok: "i420_copy (fe_copy ex_fenv)"
  by (simp add: ex_fenv_def ref_copy.i420_copy_axioms)

theorem camera_round_witness:
  "RunCameraThread_round ex_fenv ex_cenv (Addr 0) 5 2 2 ex_camera Map.empty = Inr (ex_camera, Map.empty)"
  using camera_round [OF ex_copy_ok ex_fenv_ok, where w = 2 and h = 2 and s = ex_camera and ws = Map.empty
      and buf = "[1, 2, 3, 4, 5, 6]" and now = 5 and K = ex_cenv and this = "Addr 0"]
  by (simp add: ex_camera_def)

section \<open>The tracks\<close>

text \<open>
  \<^verbatim>\<open>CapturerTrackSource\<close>: one object for the whole process, with one capturer of 640 by 480.
  A track is known by the call that made it; \<open>make_video n\<close> and \<open>make_audio n\<close> tell whether
  the factory makes it.
\<close>

record ('a, 'b) track_source =
  mVideoTrack_of :: "nat option"
  mAudioTrack_of :: "nat option"
  capturer :: "('a, 'b) vcm_capture"

definition CapturerTrackSourceBase_new :: "'a \<Rightarrow> 'b \<Rightarrow> (nat \<Rightarrow> u8) \<Rightarrow> i64 \<Rightarrow> ('a, 'b) vcm_capture res" where
  "CapturerTrackSourceBase_new a b junk jw = Vcm_new a b junk jw 640 480"

definition CapturerTrackSource_new :: "'a \<Rightarrow> 'b \<Rightarrow> (nat \<Rightarrow> u8) \<Rightarrow> i64 \<Rightarrow> ('a, 'b) track_source res" where
  "CapturerTrackSource_new a b junk jw =
     rbind (CapturerTrackSourceBase_new a b junk jw) (\<lambda>c.
     Inr \<lparr>mVideoTrack_of = None, mAudioTrack_of = None, capturer = c\<rparr>)"

definition Tracks_GetInstall ::
  "'a \<Rightarrow> 'b \<Rightarrow> (nat \<Rightarrow> u8) \<Rightarrow> i64 \<Rightarrow> ('a, 'b) track_source option \<Rightarrow> ('a, 'b) track_source res" where
  "Tracks_GetInstall a b junk jw install =
     (case install of None \<Rightarrow> CapturerTrackSource_new a b junk jw | Some t \<Rightarrow> Inr t)"

definition need_factory :: "(nat \<Rightarrow> bool) \<Rightarrow> factory_state \<Rightarrow> (nat \<times> factory_state) res" where
  "need_factory create s = (case Factory_Get create s of
     (None, s) \<Rightarrow> Inl NullDereference | (Some f, s) \<Rightarrow> Inr (f, s))"

definition CreateVideoTrackAndAudioTrack ::
  "(nat \<Rightarrow> bool) \<Rightarrow> (nat \<Rightarrow> nat option) \<Rightarrow> (nat \<Rightarrow> nat option) \<Rightarrow> factory_state \<Rightarrow> ('a, 'b) track_source
   \<Rightarrow> (factory_state \<times> ('a, 'b) track_source) res" where
  "CreateVideoTrackAndAudioTrack create make_audio make_video s t =
     rbind (need_factory create s) (\<lambda>(f, s).
     let t = t\<lparr>mAudioTrack_of := make_audio f\<rparr> in
     rbind (need_factory create s) (\<lambda>(f, s).
     Inr (s, t\<lparr>mVideoTrack_of := make_video f\<rparr>)))"

definition GetVideoTrack :: "('a, 'b) track_source \<Rightarrow> nat option" where
  "GetVideoTrack t = mVideoTrack_of t"

definition GetAudioTrack :: "('a, 'b) track_source \<Rightarrow> nat option" where
  "GetAudioTrack t = mAudioTrack_of t"

text \<open>
  The two tracks come from one factory, which is made at the latest now and kept; when
  it cannot be made, making the tracks is a null dereference.
\<close>

lemma tracks_share_factory:
  "CreateVideoTrackAndAudioTrack create ma mv s t =
    (case Factory_Get create s of
       (None, s') \<Rightarrow> Inl NullDereference
     | (Some f, s') \<Rightarrow> Inr (s', t\<lparr>mAudioTrack_of := ma f, mVideoTrack_of := mv f\<rparr>))"
  by (simp add: CreateVideoTrackAndAudioTrack_def need_factory_def Factory_Get_def Factory_Init_def Let_def
      split: prod.splits option.splits)

end
