(* ===== verification/Demo_Process.thy ===== *)
theory Demo_Process
  imports Conference_Protocol Video_Capture
begin

text \<open>
  \<^verbatim>\<open>src/WebrtcInterface.cpp\<close> and \<^verbatim>\<open>src/MainWindow.cpp\<close>: the process with its singletons,
  the interface the window uses and the slots of its buttons. The window that Qt's compiler
  generates from the form is not under \<^verbatim>\<open>src/\<close>: the texts of its line edits are fields, and
  how Qt reads a number from a text is an argument.
\<close>

section \<open>The process\<close>

text \<open>
  \<open>pe_create\<close>, \<open>pe_audio\<close> and \<open>pe_video\<close> tell what the factory makes, as in \<open>Video_Capture\<close>;
  \<open>pe_adapter\<close> and \<open>pe_broadcaster\<close> are fresh objects of webrtc; the \<open>junk\<close> fields are
  what the allocator leaves in members that no constructor sets.
\<close>

record ('a, 'b) proc_env =
  pe_janus :: janus_env
  pe_webrtc :: webrtc_env
  pe_create :: "nat \<Rightarrow> bool"
  pe_audio :: "nat \<Rightarrow> nat option"
  pe_video :: "nat \<Rightarrow> nat option"
  pe_adapter :: 'a
  pe_broadcaster :: 'b
  pe_toInt :: "string \<Rightarrow> u32"
  pe_toUInt :: "string \<Rightarrow> u32"
  junk_buffer :: "nat \<Rightarrow> u8"
  junk_capture :: i64
  junk_local :: i64
  junk_text_room :: u32

text \<open>
  The static pointers: \<^verbatim>\<open>WebRTCInterface::Instance\<close>, \<^verbatim>\<open>ConferenceManager::instance\<close>,
  \<^verbatim>\<open>CapturerTrackSource::install\<close>, and the state of \<^verbatim>\<open>ConnecttionFactory\<close>. \<open>qrand_seed\<close> is
  the generator of the process while no session exists; a session carries it along.
\<close>

record ('a, 'b) process =
  wi_Instance :: bool
  cm_instance :: "session option"
  install :: "('a, 'b) track_source option"
  factory :: factory_state
  qrand_seed :: nat

definition process_start :: "nat \<Rightarrow> ('a, 'b) process" where
  "process_start sd = \<lparr>wi_Instance = False, cm_instance = None, install = None, factory = factory_start, qrand_seed = sd\<rparr>"

definition installed_tracks :: "('a, 'b) process \<Rightarrow> nat option \<times> nat option" where
  "installed_tracks p = (case install p of None \<Rightarrow> (None, None) | Some t \<Rightarrow> (GetAudioTrack t, GetVideoTrack t))"

text \<open>\<^verbatim>\<open>ConferenceManager::ConferenceManager\<close>: a session with the three functions registered.\<close>

definition ConferenceManager_new :: "('a, 'b) proc_env \<Rightarrow> ('a, 'b) process \<Rightarrow> session" where
  "ConferenceManager_new K p =
     conf_start (pe_webrtc K) (qrand_seed p) (Conf_new (junk_local K) (junk_text_room K) (installed_tracks p))"

definition Conf_GetInstance :: "('a, 'b) proc_env \<Rightarrow> ('a, 'b) process \<Rightarrow> session" where
  "Conf_GetInstance K p = (case cm_instance p of None \<Rightarrow> ConferenceManager_new K p | Some s \<Rightarrow> s)"

definition WI_GetInstance :: "('a, 'b) process \<Rightarrow> ('a, 'b) process" where
  "WI_GetInstance p = p\<lparr>wi_Instance := True\<rparr>"

text \<open>A call on the conference manager, which is made if there is none.\<close>

definition on_conference :: "('a, 'b) proc_env \<Rightarrow> (session \<Rightarrow> session res) \<Rightarrow> ('a, 'b) process \<Rightarrow> ('a, 'b) process res" where
  "on_conference K f p = rbind (f (Conf_GetInstance K p)) (\<lambda>s. Inr (p\<lparr>cm_instance := Some s\<rparr>))"

section \<open>The interface\<close>

text \<open>\<^verbatim>\<open>QTSTR_TO_STDSTR\<close> makes a C string first.\<close>

definition WI_Login :: "('a, 'b) proc_env \<Rightarrow> string \<Rightarrow> ('a, 'b) process \<Rightarrow> ('a, 'b) process res" where
  "WI_Login K serverUrl = (let url = c_str serverUrl in on_conference K (\<lambda>s. Inr (Conf_Login url s)))"

definition WI_Logout :: "('a, 'b) proc_env \<Rightarrow> ('a, 'b) process \<Rightarrow> ('a, 'b) process res" where
  "WI_Logout K p = rbind (Conf_destroy (Conf_GetInstance K p)) (\<lambda>s.
     Inr (p\<lparr>cm_instance := None, qrand_seed := seed s\<rparr>))"

definition WI_JoinVideoRoom :: "('a, 'b) proc_env \<Rightarrow> u32 \<Rightarrow> string \<Rightarrow> ('a, 'b) process \<Rightarrow> ('a, 'b) process res" where
  "WI_JoinVideoRoom K videoRoomID userName = on_conference K (JVRM_JoinVideoRoom (pe_janus K) videoRoomID userName)"

text \<open>The room number is passed on, but the session does not use it.\<close>

definition WI_LeaveVideoRoom :: "('a, 'b) proc_env \<Rightarrow> u32 \<Rightarrow> ('a, 'b) process \<Rightarrow> ('a, 'b) process res" where
  "WI_LeaveVideoRoom K videoRoomId = on_conference K leave_video_room"

definition WI_CreateVideoRoom :: "('a, 'b) proc_env \<Rightarrow> u32 \<Rightarrow> ('a, 'b) process \<Rightarrow> ('a, 'b) process res" where
  "WI_CreateVideoRoom K roomId = on_conference K (JVRM_CreateVideoRoom (pe_janus K) roomId)"

definition WI_DestoryVideoRoom :: "('a, 'b) proc_env \<Rightarrow> u32 \<Rightarrow> ('a, 'b) process \<Rightarrow> ('a, 'b) process res" where
  "WI_DestoryVideoRoom K roomId = on_conference K (JVRM_DestoryVideoRoom (pe_janus K) roomId)"

definition WI_JoinDataChannelRoom :: "('a, 'b) proc_env \<Rightarrow> u32 \<Rightarrow> string \<Rightarrow> ('a, 'b) process \<Rightarrow> ('a, 'b) process res" where
  "WI_JoinDataChannelRoom K dataChannelRoomID userName = on_conference K (\<lambda>s.
     JVRM_JoinTextRoom (pe_janus K) dataChannelRoomID
       (up_conf (SetTextRoomIDAndDisplayName dataChannelRoomID userName) s))"

definition WI_LeaveDataChannelRoom :: "('a, 'b) process \<Rightarrow> ('a, 'b) process" where
  "WI_LeaveDataChannelRoom p = p"

definition WI_SetVideoWindows :: "('a, 'b) proc_env \<Rightarrow> i64 \<Rightarrow> i64 list \<Rightarrow> ('a, 'b) process \<Rightarrow> ('a, 'b) process res" where
  "WI_SetVideoWindows K localWindow remoteWindowID =
     on_conference K (\<lambda>s. Inr (up_conf (Conf_SetVideoWindows localWindow remoteWindowID) s))"

text \<open>
  The pointer to the stream is returned by value: a reference is taken and, at the end of
  the statement, let go.
\<close>

definition send_on_local :: "string \<Rightarrow> session \<Rightarrow> session res" where
  "send_on_local data s = (case GetLocalWebrtcStream_DataChannels (client s) of
       None \<Rightarrow> Inl NullDereference
     | Some a \<Rightarrow>
         rbind (dc_add_ref a (client s)) (\<lambda>c.
         rbind (dc_get a c) (\<lambda>ob.
         let (sent, st) = SendDataViaDataChannel data (do_stream ob) in
         rbind (dc_release a (dc_put a (ob\<lparr>do_stream := st\<rparr>) c)) (\<lambda>c.
         Inr (s\<lparr>client := c\<rparr>)))))"

definition text_message :: "string \<Rightarrow> u32 \<Rightarrow> string \<Rightarrow> json" where
  "text_message transaction room message = JObj [
     (''textroom'', JStr ''message''), (''transaction'', JStr transaction),
     (''room'', JInt (scast room)), (''text'', JStr message)]"

definition WI_SendMessage :: "('a, 'b) proc_env \<Rightarrow> string \<Rightarrow> ('a, 'b) process \<Rightarrow> ('a, 'b) process res" where
  "WI_SendMessage K message = on_conference K (\<lambda>s.
     let (transaction, s) = new_transaction (pe_janus K) s;
         dataChannelSendMessage = JsonValueToString (je_json (pe_janus K))
           (text_message transaction (Conf_GetTextRoomID (client s)) message)
     in send_on_local dataChannelSendMessage s)"

definition WI_CreateTextRoom :: "('a, 'b) proc_env \<Rightarrow> u32 \<Rightarrow> ('a, 'b) process \<Rightarrow> ('a, 'b) process res" where
  "WI_CreateTextRoom K roomId = on_conference K (JVRM_CreateTextRoom (pe_janus K) roomId)"

definition WI_DestoryTextRoom :: "('a, 'b) proc_env \<Rightarrow> u32 \<Rightarrow> ('a, 'b) process \<Rightarrow> ('a, 'b) process res" where
  "WI_DestoryTextRoom K roomId = on_conference K (JVRM_DestoryTextRoom (pe_janus K) roomId)"

section \<open>The main window\<close>

record main_window =
  Url_LE :: string
  SendMessage_LE :: string
  VideoRoomID_LE :: string
  VRDisplayName_LE :: string
  DataRoomID_LE :: string
  DRDisplayName_LE :: string
  VideoRID_LE :: string
  DataRID_LE :: string
  localWindowID :: i64
  remoteWindowID :: "i64 list"

text \<open>The four native windows get their numbers from Qt; the other texts come from the form.\<close>

definition MW_new :: "i64 \<Rightarrow> i64 \<Rightarrow> i64 \<Rightarrow> i64 \<Rightarrow> main_window \<Rightarrow> main_window" where
  "MW_new Local_W Remote_W1 Remote_W2 Remote_W3 form = form\<lparr>Url_LE := ''ws://192.168.1.91:8188'',
     remoteWindowID := [Remote_W1, Remote_W2, Remote_W3], localWindowID := Local_W\<rparr>"

text \<open>The capturer gets its window, and the tracks are made again at each click.\<close>

definition prepare_tracks :: "('a, 'b) proc_env \<Rightarrow> i64 \<Rightarrow> ('a, 'b) process \<Rightarrow> ('a, 'b) process res" where
  "prepare_tracks K w p =
     rbind (Tracks_GetInstall (pe_adapter K) (pe_broadcaster K) (junk_buffer K) (junk_capture K) (install p)) (\<lambda>t.
     let t = t\<lparr>capturer := Vcm_SetWindowID w (capturer t)\<rparr> in
     rbind (CreateVideoTrackAndAudioTrack (pe_create K) (pe_audio K) (pe_video K) (factory p) t) (\<lambda>(f, t).
     let p = p\<lparr>install := Some t, factory := f\<rparr>
     in Inr (p\<lparr>cm_instance := map_option (up_conf (\<lambda>c. c\<lparr>tracks := installed_tracks p\<rparr>)) (cm_instance p)\<rparr>)))"

definition onLoginButtonClicked :: "('a, 'b) proc_env \<Rightarrow> main_window \<Rightarrow> ('a, 'b) process \<Rightarrow> ('a, 'b) process res" where
  "onLoginButtonClicked K ui p =
     rbind (WI_SetVideoWindows K (localWindowID ui) (remoteWindowID ui) (WI_GetInstance p)) (\<lambda>p.
     let serverUrl = Url_LE ui in
     rbind (prepare_tracks K (localWindowID ui) p) (\<lambda>p.
     WI_Login K serverUrl (WI_GetInstance p)))"

definition onLogoutButtonClicked :: "('a, 'b) proc_env \<Rightarrow> ('a, 'b) process \<Rightarrow> ('a, 'b) process res" where
  "onLogoutButtonClicked K p = WI_Logout K (WI_GetInstance p)"

definition onSendMessageButtonClicked :: "('a, 'b) proc_env \<Rightarrow> main_window \<Rightarrow> ('a, 'b) process \<Rightarrow> ('a, 'b) process res" where
  "onSendMessageButtonClicked K ui p =
     (let sendMessage = SendMessage_LE ui in WI_SendMessage K sendMessage (WI_GetInstance p))"

definition onJoinVRoomButtonClicked :: "('a, 'b) proc_env \<Rightarrow> main_window \<Rightarrow> ('a, 'b) process \<Rightarrow> ('a, 'b) process res" where
  "onJoinVRoomButtonClicked K ui p =
     (let videoroomID = pe_toInt K (VideoRoomID_LE ui); displayName = VRDisplayName_LE ui
      in WI_JoinVideoRoom K videoroomID displayName (WI_GetInstance p))"

definition onLeaveVRoomButtonClicked :: "('a, 'b) proc_env \<Rightarrow> main_window \<Rightarrow> ('a, 'b) process \<Rightarrow> ('a, 'b) process res" where
  "onLeaveVRoomButtonClicked K ui p =
     (let videoroomID = pe_toUInt K (VideoRoomID_LE ui) in WI_LeaveVideoRoom K videoroomID (WI_GetInstance p))"

definition onJoinDRoomButtonClicked :: "('a, 'b) proc_env \<Rightarrow> main_window \<Rightarrow> ('a, 'b) process \<Rightarrow> ('a, 'b) process res" where
  "onJoinDRoomButtonClicked K ui p =
     (let dRoomID = pe_toInt K (DataRoomID_LE ui); displayName = DRDisplayName_LE ui
      in WI_JoinDataChannelRoom K dRoomID displayName (WI_GetInstance p))"

definition onLeaveDRoomButtonClicked :: "('a, 'b) process \<Rightarrow> ('a, 'b) process res" where
  "onLeaveDRoomButtonClicked p = Inr (WI_LeaveDataChannelRoom (WI_GetInstance p))"

definition onCreateVRButtonClicked :: "('a, 'b) proc_env \<Rightarrow> main_window \<Rightarrow> ('a, 'b) process \<Rightarrow> ('a, 'b) process res" where
  "onCreateVRButtonClicked K ui p = WI_CreateVideoRoom K (pe_toInt K (VideoRID_LE ui)) (WI_GetInstance p)"

definition onDestoryVRButtonClicked :: "('a, 'b) proc_env \<Rightarrow> main_window \<Rightarrow> ('a, 'b) process \<Rightarrow> ('a, 'b) process res" where
  "onDestoryVRButtonClicked K ui p = WI_DestoryVideoRoom K (pe_toInt K (VideoRID_LE ui)) (WI_GetInstance p)"

definition onCreateDRButtonClicked :: "('a, 'b) proc_env \<Rightarrow> main_window \<Rightarrow> ('a, 'b) process \<Rightarrow> ('a, 'b) process res" where
  "onCreateDRButtonClicked K ui p = WI_CreateTextRoom K (pe_toInt K (DataRID_LE ui)) (WI_GetInstance p)"

definition onDestoryDRButtonClicked :: "('a, 'b) proc_env \<Rightarrow> main_window \<Rightarrow> ('a, 'b) process \<Rightarrow> ('a, 'b) process res" where
  "onDestoryDRButtonClicked K ui p = WI_DestoryTextRoom K (pe_toInt K (DataRID_LE ui)) (WI_GetInstance p)"

text \<open>The connections of the constructor: a button and the slot its click runs.\<close>

datatype button =
    Login_PB | Logout_PB | Send_PB | JoinVRoom_PB | LeaveVRoom_PB | JoinDRoom_PB | LeaveDRoom_PB
  | CreateVR_PB | DestoryVR_PB | CreateDR_PB | DestoryDR_PB

fun clicked :: "('a, 'b) proc_env \<Rightarrow> main_window \<Rightarrow> button \<Rightarrow> ('a, 'b) process \<Rightarrow> ('a, 'b) process res" where
  "clicked K ui Login_PB p = onLoginButtonClicked K ui p"
| "clicked K ui Logout_PB p = onLogoutButtonClicked K p"
| "clicked K ui Send_PB p = onSendMessageButtonClicked K ui p"
| "clicked K ui JoinVRoom_PB p = onJoinVRoomButtonClicked K ui p"
| "clicked K ui LeaveVRoom_PB p = onLeaveVRoomButtonClicked K ui p"
| "clicked K ui JoinDRoom_PB p = onJoinDRoomButtonClicked K ui p"
| "clicked K ui LeaveDRoom_PB p = onLeaveDRoomButtonClicked p"
| "clicked K ui CreateVR_PB p = onCreateVRButtonClicked K ui p"
| "clicked K ui DestoryVR_PB p = onDestoryVRButtonClicked K ui p"
| "clicked K ui CreateDR_PB p = onCreateDRButtonClicked K ui p"
| "clicked K ui DestoryDR_PB p = onDestoryDRButtonClicked K ui p"

section \<open>The process is sound\<close>

text \<open>The conference manager, if there is one, is well formed; and none of its callbacks dangles.\<close>

definition proc_ok :: "('a, 'b) proc_env \<Rightarrow> ('a, 'b) process \<Rightarrow> bool" where
  "proc_ok K p \<longleftrightarrow> (case cm_instance p of None \<Rightarrow> True | Some s \<Rightarrow> conf_ready (pe_webrtc K) s)"

definition proc_pending :: "('a, 'b) process \<Rightarrow> bool" where
  "proc_pending p \<longleftrightarrow> (case cm_instance p of None \<Rightarrow> True | Some s \<Rightarrow> pending_live s)"

lemma GetInstance_ready:
  "proc_ok K p \<Longrightarrow> conf_ready (pe_webrtc K) (Conf_GetInstance K p)"
  "proc_pending p \<Longrightarrow> pending_live (Conf_GetInstance K p)"
  using conf_start_ready
  by (simp_all add: proc_ok_def proc_pending_def Conf_GetInstance_def ConferenceManager_new_def split: option.splits)

lemma same_instance [simp]:
  "proc_ok K (WI_GetInstance p) = proc_ok K p" "proc_pending (WI_GetInstance p) = proc_pending p"
  "cm_instance (WI_GetInstance p) = cm_instance p" "install (WI_GetInstance p) = install p"
  "factory (WI_GetInstance p) = factory p" "Conf_GetInstance K (WI_GetInstance p) = Conf_GetInstance K p"
  by (simp_all add: proc_ok_def proc_pending_def WI_GetInstance_def Conf_GetInstance_def ConferenceManager_new_def
      installed_tracks_def split: option.splits)

text \<open>What a click may come to: a fault of its kind, or a sound process.\<close>

definition click_result :: "('a, 'b) proc_env \<Rightarrow> (fault \<Rightarrow> bool) \<Rightarrow> ('a, 'b) process \<Rightarrow> ('a, 'b) process res \<Rightarrow> bool" where
  "click_result K F p r \<longleftrightarrow> (case r of Inl e \<Rightarrow> F e
     | Inr p' \<Rightarrow> proc_ok K p' \<and> (proc_pending p \<longrightarrow> proc_pending p'))"

lemma click_result_instance [simp]: "click_result K F (WI_GetInstance p) r = click_result K F p r"
  by (simp add: click_result_def split: sum.splits)

lemma on_conference_good:
  assumes "proc_ok K p" "\<And>s. conf_ready (pe_webrtc K) s \<Longrightarrow> \<exists>s'. f s = Inr s' \<and> conf_outcome (pe_webrtc K) s (Inr s')"
  shows "click_result K F p (on_conference K f p)"
proof -
  obtain s' where s': "f (Conf_GetInstance K p) = Inr s'" "conf_outcome (pe_webrtc K) (Conf_GetInstance K p) (Inr s')"
    using assms(2) GetInstance_ready(1) [OF assms(1)] by blast
  then show ?thesis
    using GetInstance_ready(2) [where p = p and K = K]
    by (auto simp: click_result_def on_conference_def proc_ok_def proc_pending_def conference.outcome_Inr)
qed

lemma good_calls:
  "\<not> leaves c \<Longrightarrow> conf_ready W s \<Longrightarrow> \<exists>s'. run_call E c s = Inr s' \<and> conf_outcome W s (Inr s')"
  using calls_good [OF conference.ready_wf, of W s c E] conference.good_outcome [of W s "run_call E c s"]
  by (auto simp: good_def)

lemma on_call:
  assumes "proc_ok K p" "\<not> leaves c" "\<And>s. f s = run_call (pe_janus K) c s"
  shows "click_result K F p (on_conference K f p)"
  by (rule on_conference_good [OF assms(1)]) (simp add: assms(3) good_calls [OF assms(2)])

lemma on_client:
  assumes "proc_ok K p" "\<And>c. conf_wf c \<Longrightarrow> conf_wf (g c)"
  shows "click_result K F p (on_conference K (\<lambda>s. Inr (up_conf g s)) p)"
  by (rule on_conference_good [OF assms(1)]) (simp add: client_outcome ready_conf assms(2))

lemma join_text_good:
  assumes "proc_ok K p"
  shows "click_result K F p (WI_JoinDataChannelRoom K r name p)"
  unfolding WI_JoinDataChannelRoom_def
proof (rule on_conference_good [OF assms])
  fix s assume r: "conf_ready (pe_webrtc K) s"
  let ?s = "up_conf (SetTextRoomIDAndDisplayName r name) s"
  have o: "conf_outcome (pe_webrtc K) s (Inr ?s)"
    by (rule client_outcome [OF r text_room_wf [OF ready_conf [OF r]]])
  then have "conf_ready (pe_webrtc K) ?s" by (simp add: conference.outcome_Inr)
  moreover have "\<not> leaves (CallJoinTextRoom r)" by (simp add: leaves_def)
  ultimately obtain t where t: "run_call (pe_janus K) (CallJoinTextRoom r) ?s = Inr t"
    "conf_outcome (pe_webrtc K) ?s (Inr t)" using good_calls by blast
  with conference.outcome_bind [OF o, of "\<lambda>_. Inr t"]
  show "\<exists>s'. JVRM_JoinTextRoom (pe_janus K) r ?s = Inr s' \<and> conf_outcome (pe_webrtc K) s (Inr s')" by simp
qed

text \<open>A text that is sent on the stream of the text room changes the stream alone.\<close>

lemma send_on_local_eq:
  assumes "conf_wf (client s)" "LocalStream_DataChannels (client s) = Some a" "dc_objects (client s) a = Some ob"
  shows "send_on_local data s =
    Inr (up_conf (dc_put a (ob\<lparr>do_stream := snd (SendDataViaDataChannel data (do_stream ob))\<rparr>)) s)"
proof -
  have "a \<in># holders (client s)" by (simp add: holders_def assms(2))
  then have "do_refs ob = count (holders (client s)) a" "0 < count (holders (client s)) a"
    using refs_ok_Some [OF conf_okD(1) [OF assms(1) [unfolded conf_wf_def]], of a] assms(3) by auto
  then have "do_refs ob \<noteq> 0" by simp
  then show ?thesis
    using assms(2,3)
    by (simp add: send_on_local_def GetLocalWebrtcStream_DataChannels_def dc_add_ref_def dc_get_def dc_put_def
        dc_release_def Let_def case_prod_beta)
qed

lemma send_handle: "mHandleID (snd (SendDataViaDataChannel data st)) = mHandleID st"
  by (simp add: SendDataViaDataChannel_def split: option.splits)

lemma local_alive:
  assumes "conf_wf c" "LocalStream_DataChannels c = Some a"
  obtains ob where "dc_objects c a = Some ob"
proof -
  have "a \<in># holders c" by (simp add: holders_def assms(2))
  then show ?thesis
    using refs_ok_Some [OF conf_okD(1) [OF assms(1) [unfolded conf_wf_def]], of a] that by auto
qed

lemma seed_outcome: "conf_ready W s \<Longrightarrow> conf_outcome W s (Inr (s\<lparr>seed := sd\<rparr>))"
  by (rule conference.good_outcome) (simp_all add: quiet_change_good conference.ready_wf quiet_simps)

lemma send_good:
  assumes "proc_ok K p"
  shows "click_result K (\<lambda>e. e = NullDereference) p (WI_SendMessage K message p)"
proof -
  let ?s = "Conf_GetInstance K p"
  obtain t sd where t: "new_transaction (pe_janus K) ?s = (t, ?s\<lparr>seed := sd\<rparr>)" using new_transaction_seed by blast
  let ?u = "?s\<lparr>seed := sd\<rparr>"
  note r = GetInstance_ready(1) [OF assms]
  have o: "conf_outcome (pe_webrtc K) ?s (Inr ?u)" by (rule seed_outcome [OF r])
  then have ru: "conf_ready (pe_webrtc K) ?u" by (simp add: conference.outcome_Inr)
  define data where "data = JsonValueToString (je_json (pe_janus K)) (text_message t (Conf_GetTextRoomID (client ?s)) message)"
  have run: "WI_SendMessage K message p = rbind (send_on_local data ?u) (\<lambda>s. Inr (p\<lparr>cm_instance := Some s\<rparr>))"
    by (simp add: WI_SendMessage_def on_conference_def t data_def)
  show ?thesis
  proof (cases "LocalStream_DataChannels (client ?u)")
    case None
    then have "send_on_local data ?u = Inl NullDereference"
      by (simp add: send_on_local_def GetLocalWebrtcStream_DataChannels_def)
    then show ?thesis by (simp add: run click_result_def)
  next
    case (Some a)
    obtain ob where ob: "dc_objects (client ?u) a = Some ob" by (rule local_alive [OF ready_conf [OF ru] Some])
    define v where "v = up_conf (dc_put a (ob\<lparr>do_stream := snd (SendDataViaDataChannel data (do_stream ob))\<rparr>)) ?u"
    have "conf_outcome (pe_webrtc K) ?u (Inr v)"
      unfolding v_def by (rule client_outcome [OF ru put_stream_wf [OF ready_conf [OF ru] ob send_handle]])
    with conference.outcome_bind [OF o, of "\<lambda>_. Inr v"] have "conf_outcome (pe_webrtc K) ?s (Inr v)" by simp
    moreover have "send_on_local data ?u = Inr v"
      unfolding v_def by (rule send_on_local_eq [OF ready_conf [OF ru] Some ob])
    ultimately show ?thesis
      using GetInstance_ready(2) [where p = p and K = K]
      by (auto simp: run click_result_def proc_ok_def proc_pending_def conference.outcome_Inr)
  qed
qed

lemma logout_faults:
  assumes "conf_ready W s"
  shows "case Conf_destroy s of Inl e \<Rightarrow> e = UninitializedPointer \<or> (\<exists>a. e = DoubleFree a) | Inr s' \<Rightarrow> True"
  using logout_cases [OF assms] by (auto split: if_splits option.splits)

lemma logout_good:
  assumes "proc_ok K p"
  shows "click_result K (\<lambda>e. e = UninitializedPointer \<or> (\<exists>a. e = DoubleFree a)) p (WI_Logout K p)"
  using logout_faults [OF GetInstance_ready(1) [OF assms]]
  by (cases "Conf_destroy (Conf_GetInstance K p)") (auto simp: WI_Logout_def click_result_def proc_ok_def proc_pending_def)

lemma source_made:
  "\<exists>t. Tracks_GetInstall (pe_adapter K) (pe_broadcaster K) (junk_buffer K) (junk_capture K) src = Inr t"
  by (cases src) (simp_all add: Tracks_GetInstall_def CapturerTrackSource_new_def
      CapturerTrackSourceBase_new_def Vcm_new_def Vcm_Init_def mul_int_def)

lemma prepare_tracks_eq:
  assumes "Tracks_GetInstall (pe_adapter K) (pe_broadcaster K) (junk_buffer K) (junk_capture K) (install p) = Inr t"
  shows "prepare_tracks K w p = (case Factory_Get (pe_create K) (factory p) of
      (None, fs) \<Rightarrow> Inl NullDereference
    | (Some f, fs) \<Rightarrow> Inr (p\<lparr>install := Some (t\<lparr>capturer := Vcm_SetWindowID w (capturer t),
          mAudioTrack_of := pe_audio K f, mVideoTrack_of := pe_video K f\<rparr>), factory := fs,
          cm_instance := map_option (up_conf (\<lambda>c. c\<lparr>tracks := (pe_audio K f, pe_video K f)\<rparr>)) (cm_instance p)\<rparr>))"
  by (simp add: prepare_tracks_def assms tracks_share_factory Let_def installed_tracks_def GetAudioTrack_def
      GetVideoTrack_def split: prod.splits option.splits)

text \<open>Whether webrtc always makes what it is asked for.\<close>

definition always_served :: "('a, 'b) proc_env \<Rightarrow> bool" where
  "always_served K \<longleftrightarrow> (\<forall>n. pe_create K n) \<and> always_connects (pe_webrtc K)"

definition unserved :: "('a, 'b) proc_env \<Rightarrow> fault \<Rightarrow> bool" where
  "unserved K e \<longleftrightarrow> e = NullDereference \<and> \<not> always_served K"

lemma tracks_case:
  "case prepare_tracks K w p of Inl e \<Rightarrow> unserved K e
   | Inr p' \<Rightarrow> \<exists>av. cm_instance p' = map_option (up_conf (\<lambda>c. c\<lparr>tracks := av\<rparr>)) (cm_instance p)"
proof -
  obtain t where t: "Tracks_GetInstall (pe_adapter K) (pe_broadcaster K) (junk_buffer K) (junk_capture K) (install p) = Inr t"
    using source_made by blast
  obtain x fs where f: "Factory_Get (pe_create K) (factory p) = (x, fs)" by fastforce
  have "\<not> always_served K" if none: "x = None"
    using f none by (auto simp: Factory_Get_def Factory_Init_def Let_def always_served_def split: if_splits)
  then show ?thesis by (cases x) (auto simp: prepare_tracks_eq [OF t] f unserved_def)
qed

lemma tracks_wf: "conf_wf (c\<lparr>tracks := ts\<rparr>) = conf_wf c"
  by (simp add: conf_wf_def conf_ok_def holders_def)

lemma tracks_ready:
  assumes "conf_ready W s"
  shows "conf_ready W (up_conf (\<lambda>c. c\<lparr>tracks := ts\<rparr>) s)"
    "pending_live (up_conf (\<lambda>c. c\<lparr>tracks := ts\<rparr>) s) = pending_live s"
proof -
  have "conf_wf ((client s)\<lparr>tracks := ts\<rparr>)" using ready_conf [OF assms] by (simp add: tracks_wf)
  from client_outcome [OF assms this] show "conf_ready W (up_conf (\<lambda>c. c\<lparr>tracks := ts\<rparr>) s)"
    by (simp add: conference.outcome_Inr)
qed (simp add: pending_live_def)

lemma click_bind:
  assumes "click_result K F p r" "\<And>q. r = Inr q \<Longrightarrow> proc_ok K q \<Longrightarrow> click_result K F q (g q)"
  shows "click_result K F p (rbind r g)"
proof (cases r)
  case (Inl e)
  with assms(1) show ?thesis by (simp add: click_result_def)
next
  case (Inr q)
  with assms have "proc_ok K q" "proc_pending p \<longrightarrow> proc_pending q" "click_result K F q (g q)"
    by (auto simp: click_result_def)
  with Inr show ?thesis by (auto simp: click_result_def split: sum.splits)
qed

lemma tracks_good:
  assumes "proc_ok K p"
  shows "click_result K (unserved K) p (prepare_tracks K w p)"
proof (cases "prepare_tracks K w p")
  case (Inl e)
  with tracks_case [where K = K and w = w and p = p] show ?thesis by (simp add: click_result_def)
next
  case (Inr p')
  with tracks_case [where K = K and w = w and p = p] obtain ts where
    "cm_instance p' = map_option (up_conf (\<lambda>c. c\<lparr>tracks := ts\<rparr>)) (cm_instance p)" by auto
  with assms tracks_ready show ?thesis
    by (auto simp: Inr click_result_def proc_ok_def proc_pending_def split: option.splits)
qed

lemma login_good:
  assumes "proc_ok K p"
  shows "click_result K (unserved K) p (onLoginButtonClicked K ui p)"
  unfolding onLoginButtonClicked_def Let_def
proof (rule click_bind, goal_cases)
  case 1
  have "click_result K (unserved K) (WI_GetInstance p)
      (WI_SetVideoWindows K (localWindowID ui) (remoteWindowID ui) (WI_GetInstance p))"
    unfolding WI_SetVideoWindows_def by (rule on_client) (simp_all add: assms windows_wf)
  then show ?case by simp
next
  case (2 q)
  show ?case
  proof (rule click_bind [OF tracks_good [OF 2(2)]])
    fix u assume "prepare_tracks K (localWindowID ui) q = Inr u" and u: "proc_ok K u"
    have "click_result K (unserved K) (WI_GetInstance u) (WI_Login K (Url_LE ui) (WI_GetInstance u))"
      unfolding WI_Login_def Let_def
      by (rule on_call [where c = "CallConnectServer (c_str (Url_LE ui))"])
        (simp_all add: u leaves_def Conf_Login_def)
    then show "click_result K (unserved K) u (WI_Login K (Url_LE ui) (WI_GetInstance u))"
      by simp
  qed
qed

lemma leave_good:
  assumes "proc_ok K p"
  shows "case WI_LeaveVideoRoom K r p of Inl e \<Rightarrow> e = UninitializedPointer | Inr p' \<Rightarrow> proc_ok K p'"
  using leave_room_outcome [OF GetInstance_ready(1) [OF assms]]
  by (cases "leave_video_room (Conf_GetInstance K p)") (simp_all add: WI_LeaveVideoRoom_def on_conference_def proc_ok_def)

text \<open>The faults that a click on a button can be.\<close>

fun click_fault :: "('a, 'b) proc_env \<Rightarrow> button \<Rightarrow> fault \<Rightarrow> bool" where
  "click_fault K Login_PB e \<longleftrightarrow> unserved K e"
| "click_fault K Send_PB e \<longleftrightarrow> e = NullDereference"
| "click_fault K LeaveVRoom_PB e \<longleftrightarrow> e = UninitializedPointer"
| "click_fault K Logout_PB e \<longleftrightarrow> e = UninitializedPointer \<or> (\<exists>a. e = DoubleFree a)"
| "click_fault K b e \<longleftrightarrow> False"

lemma click_fault_eqs:
  "click_fault K Login_PB = unserved K" "click_fault K Send_PB = (\<lambda>e. e = NullDereference)"
  "click_fault K Logout_PB = (\<lambda>e. e = UninitializedPointer \<or> (\<exists>a. e = DoubleFree a))"
  by (rule ext, simp)+

lemmas click_defs = onLogoutButtonClicked_def onSendMessageButtonClicked_def onJoinVRoomButtonClicked_def
  onLeaveVRoomButtonClicked_def onJoinDRoomButtonClicked_def onLeaveDRoomButtonClicked_def onCreateVRButtonClicked_def
  onDestoryVRButtonClicked_def onCreateDRButtonClicked_def onDestoryDRButtonClicked_def WI_JoinVideoRoom_def
  WI_CreateVideoRoom_def WI_DestoryVideoRoom_def WI_CreateTextRoom_def WI_DestoryTextRoom_def

lemma instance_ok: "proc_ok K p \<Longrightarrow> proc_ok K (WI_GetInstance p)"
  by simp

lemma click_good:
  assumes "proc_ok K p" "b \<noteq> LeaveVRoom_PB"
  shows "click_result K (click_fault K b) p (clicked K ui b p)"
proof (cases b)
  case Login_PB
  then show ?thesis using login_good [OF assms(1), of ui] by (simp add: click_fault_eqs)
next
  case Logout_PB
  then show ?thesis using logout_good [OF instance_ok [OF assms(1)]] by (simp add: click_defs click_fault_eqs)
next
  case Send_PB
  then show ?thesis
    using send_good [OF instance_ok [OF assms(1)], of "SendMessage_LE ui"] by (simp add: click_defs click_fault_eqs)
next
  case JoinVRoom_PB
  then show ?thesis
    using on_call [OF instance_ok [OF assms(1)], where c = "CallJoinVideoRoom (pe_toInt K (VideoRoomID_LE ui)) (VRDisplayName_LE ui)"
        and F = "click_fault K b"]
    by (simp add: click_defs leaves_def)
next
  case JoinDRoom_PB
  then show ?thesis
    using join_text_good [OF instance_ok [OF assms(1)], where F = "click_fault K b"] by (simp add: click_defs Let_def)
next
  case CreateVR_PB
  then show ?thesis
    using on_call [OF instance_ok [OF assms(1)], where c = "CallCreateVideoRoom (pe_toInt K (VideoRID_LE ui))" and F = "click_fault K b"]
    by (simp add: click_defs leaves_def)
next
  case DestoryVR_PB
  then show ?thesis
    using on_call [OF instance_ok [OF assms(1)], where c = "CallDestoryVideoRoom (pe_toInt K (VideoRID_LE ui))" and F = "click_fault K b"]
    by (simp add: click_defs leaves_def)
next
  case CreateDR_PB
  then show ?thesis
    using on_call [OF instance_ok [OF assms(1)], where c = "CallCreateTextRoom (pe_toInt K (DataRID_LE ui))" and F = "click_fault K b"]
    by (simp add: click_defs leaves_def)
next
  case DestoryDR_PB
  then show ?thesis
    using on_call [OF instance_ok [OF assms(1)], where c = "CallDestoryTextRoom (pe_toInt K (DataRID_LE ui))" and F = "click_fault K b"]
    by (simp add: click_defs leaves_def)
next
  case LeaveDRoom_PB
  then show ?thesis using assms(1) by (simp add: click_defs WI_LeaveDataChannelRoom_def click_result_def)
qed (use assms(2) in simp)

lemma click_keeps_ok:
  assumes "proc_ok K p"
  shows "case clicked K ui b p of Inl e \<Rightarrow> click_fault K b e
    | Inr p' \<Rightarrow> proc_ok K p' \<and> (proc_pending p \<and> b \<noteq> LeaveVRoom_PB \<longrightarrow> proc_pending p')"
proof (cases "b = LeaveVRoom_PB")
  case True
  with leave_good [OF instance_ok [OF assms], of "pe_toUInt K (VideoRoomID_LE ui)"] show ?thesis
    by (auto simp: click_defs split: sum.splits)
next
  case False
  with click_good [OF assms False, of ui] show ?thesis by (auto simp: click_result_def split: sum.splits)
qed

section \<open>The process in time\<close>

text \<open>
  The user types and clicks, and between the clicks anything happens to the conference
  manager that is alive. The texts of the window may be other ones at each click.
\<close>

datatype process_event = Clicked main_window button | Happened conf_event

inductive process_step ::
  "('a, 'b) proc_env \<Rightarrow> ('a, 'b) process \<Rightarrow> process_event \<Rightarrow> ('a, 'b) process res \<Rightarrow> bool" where
  click: "clicked K ui b p = r \<Longrightarrow> process_step K p (Clicked ui b) r"
| happened: "cm_instance p = Some s \<Longrightarrow> conf_step (pe_janus K) s e r \<Longrightarrow>
    process_step K p (Happened e) (rbind r (\<lambda>s. Inr (p\<lparr>cm_instance := Some s\<rparr>)))"

inductive process_run ::
  "('a, 'b) proc_env \<Rightarrow> ('a, 'b) process \<Rightarrow> process_event list \<Rightarrow> ('a, 'b) process res \<Rightarrow> bool" where
  nil: "process_run K p [] (Inr p)"
| fault: "process_step K p e (Inl f) \<Longrightarrow> process_run K p (e # es) (Inl f)"
| cons: "process_step K p e (Inr q) \<Longrightarrow> process_run K q es r \<Longrightarrow> process_run K p (e # es) r"

inductive_cases process_stepE: "process_step K p e r"

text \<open>The events after which an answer may find its peer deleted, and the click that may delete twice.\<close>

definition room_left :: "process_event \<Rightarrow> bool" where
  "room_left e \<longleftrightarrow> (\<exists>ui. e = Clicked ui LeaveVRoom_PB) \<or> (\<exists>c. e = Happened c \<and> leaving c)"

definition logged_out :: "process_event \<Rightarrow> bool" where
  "logged_out e \<longleftrightarrow> (\<exists>ui. e = Clicked ui Logout_PB)"

definition message_sent :: "process_event \<Rightarrow> bool" where
  "message_sent e \<longleftrightarrow> (\<exists>ui. e = Clicked ui Send_PB)"

text \<open>The events that may delete a stream: leaving, logging out, or a signal of the socket.\<close>

definition stream_dropped :: "process_event \<Rightarrow> bool" where
  "stream_dropped e \<longleftrightarrow> (\<exists>ui. e = Clicked ui LeaveVRoom_PB \<or> e = Clicked ui Logout_PB) \<or> (\<exists>c. e = Happened c \<and> served c)"

definition process_fault :: "('a, 'b) proc_env \<Rightarrow> process_event set \<Rightarrow> bool \<Rightarrow> fault \<Rightarrow> bool" where
  "process_fault K es live f \<longleftrightarrow> f = UninitializedPointer \<and> (\<exists>e \<in> es. stream_dropped e)
     \<or> f = NullDereference \<and> (\<not> always_served K \<or> (\<exists>e \<in> es. message_sent e))
     \<or> (\<exists>a. f = DoubleFree a) \<and> (\<exists>e \<in> es. logged_out e)
     \<or> (\<exists>a. f = UseAfterFree a) \<and> (\<not> live \<or> (\<exists>e \<in> es. room_left e))"

lemma click_fault_kind:
  "click_fault K b f \<Longrightarrow> process_fault K {Clicked ui b} live f"
  by (cases b) (auto simp: process_fault_def logged_out_def message_sent_def unserved_def stream_dropped_def)

lemma process_step_result:
  assumes "process_step K p e r" "proc_ok K p"
  shows "case r of Inl f \<Rightarrow> process_fault K {e} (proc_pending p) f
    | Inr q \<Rightarrow> proc_ok K q \<and> (proc_pending p \<and> \<not> room_left e \<longrightarrow> proc_pending q)"
  using assms(1)
proof cases
  case (click ui b)
  show ?thesis
  proof (cases r)
    case (Inl f)
    with click click_keeps_ok [OF assms(2), where ui = ui and b = b] have "click_fault K b f" by simp
    from click_fault_kind [OF this] show ?thesis by (simp add: Inl click)
  next
    case (Inr q)
    with click click_keeps_ok [OF assms(2), where ui = ui and b = b] show ?thesis by (auto simp: room_left_def)
  qed
next
  case (happened s c t)
  then have "conf_ready (pe_webrtc K) s" using assms(2) by (simp add: proc_ok_def)
  from conf_step_result [OF happened(4) this] show ?thesis
    using happened(1-3)
    by (cases t)
      (auto simp: step_result_def conf_fault_def process_fault_def room_left_def stream_dropped_def proc_ok_def proc_pending_def always_served_def)
qed

lemma process_fault_mono:
  "process_fault K A live f \<Longrightarrow> A \<subseteq> B \<Longrightarrow> (\<not> live \<Longrightarrow> \<not> live' \<or> (\<exists>e \<in> B. room_left e)) \<Longrightarrow> process_fault K B live' f"
  by (auto simp: process_fault_def)

lemma process_run_result:
  "process_run K p es r \<Longrightarrow> proc_ok K p \<Longrightarrow>
   case r of Inl f \<Rightarrow> process_fault K (set es) (proc_pending p) f | Inr q \<Rightarrow> proc_ok K q"
proof (induction rule: process_run.induct)
  case (nil K p)
  then show ?case by simp
next
  case (fault K p e f es)
  from process_step_result [OF fault.hyps fault.prems] have "process_fault K {e} (proc_pending p) f" by simp
  then have "process_fault K (set (e # es)) (proc_pending p) f" by (rule process_fault_mono) simp_all
  then show ?case by simp
next
  case (cons K p e q es r)
  from process_step_result [OF cons.hyps(1) cons.prems]
  have q: "proc_ok K q" "proc_pending p \<and> \<not> room_left e \<longrightarrow> proc_pending q" by simp_all
  show ?case
  proof (cases r)
    case (Inl f)
    with cons.IH [OF q(1)] have "process_fault K (set es) (proc_pending q) f" by simp
    then have "process_fault K (set (e # es)) (proc_pending p) f"
      by (rule process_fault_mono) (use q(2) in auto)
    then show ?thesis by (simp add: Inl)
  next
    case (Inr u)
    with cons.IH [OF q(1)] show ?thesis by simp
  qed
qed

lemma start_ok [simp]: "proc_ok K (process_start sd)" "proc_pending (process_start sd)"
  by (simp_all add: proc_ok_def proc_pending_def process_start_def)

section \<open>What the buttons do\<close>

lemma login_cases:
  assumes "Factory_Get (pe_create K) (factory p) = (f, fs)"
  shows "case f of
      None \<Rightarrow> clicked K ui Login_PB p = Inl NullDereference
    | Some f \<Rightarrow> \<exists>p' s t. clicked K ui Login_PB p = Inr p' \<and> cm_instance p' = Some s \<and> install p' = Some t
        \<and> mRemoteWinds (client s) = map (\<lambda>wind. (wind, 0)) (remoteWindowID ui)
        \<and> mLocalWindow (client s) = localWindowID ui \<and> mWindowID (capturer t) = localWindowID ui
        \<and> tracks (client s) = (pe_audio K f, pe_video K f)
        \<and> tracks (client s) = (GetAudioTrack t, GetVideoTrack t) \<and> factory p' = fs
        \<and> pWebSocket s = JWS_Open (c_str (Url_LE ui)) (pWebSocket (Conf_GetInstance K p))"
proof -
  obtain t where t: "Tracks_GetInstall (pe_adapter K) (pe_broadcaster K) (junk_buffer K) (junk_capture K) (install p) = Inr t"
    using source_made by blast
  define s where "s = up_conf (Conf_SetVideoWindows (localWindowID ui) (remoteWindowID ui)) (Conf_GetInstance K p)"
  define q where "q = (WI_GetInstance p)\<lparr>cm_instance := Some s\<rparr>"
  have w: "WI_SetVideoWindows K (localWindowID ui) (remoteWindowID ui) (WI_GetInstance p) = Inr q"
    by (simp add: WI_SetVideoWindows_def on_conference_def s_def q_def)
  have q: "install q = install p" "factory q = factory p" "cm_instance q = Some s" by (simp_all add: q_def)
  have t': "Tracks_GetInstall (pe_adapter K) (pe_broadcaster K) (junk_buffer K) (junk_capture K) (install q) = Inr t"
    by (simp add: q t)
  show ?thesis
  proof (cases f)
    case None
    then show ?thesis
      using assms by (simp add: onLoginButtonClicked_def w prepare_tracks_eq [OF t'] q)
  next
    case (Some g)
    define u where "u = q\<lparr>install := Some (t\<lparr>capturer := Vcm_SetWindowID (localWindowID ui) (capturer t),
          mAudioTrack_of := pe_audio K g, mVideoTrack_of := pe_video K g\<rparr>), factory := fs,
          cm_instance := Some (up_conf (\<lambda>c. c\<lparr>tracks := (pe_audio K g, pe_video K g)\<rparr>) s)\<rparr>"
    have u: "prepare_tracks K (localWindowID ui) q = Inr u"
      using assms Some by (simp add: prepare_tracks_eq [OF t'] q u_def)
    have "clicked K ui Login_PB p = WI_Login K (Url_LE ui) (WI_GetInstance u)"
      by (simp add: onLoginButtonClicked_def w u)
    then show ?thesis
      by (simp add: Some WI_Login_def on_conference_def Conf_GetInstance_def u_def Conf_Login_def ConnectServer_def
          s_def Conf_SetVideoWindows_def Vcm_SetWindowID_def GetAudioTrack_def GetVideoTrack_def)
  qed
qed

text \<open>
  C29: the login button gives the three remote windows to the conference manager, all free,
  gives the capturer its preview window, makes the two tracks with one factory and hands them
  to the streams that will be made, and then opens the socket with the address the user
  typed. If there is no factory, the click is a null dereference.
\<close>

theorem login_prepares_everything:
  assumes "Factory_Get (pe_create K) (factory p) = (f, fs)"
  shows "case f of
      None \<Rightarrow> clicked K ui Login_PB p = Inl NullDereference
    | Some f \<Rightarrow> \<exists>p' s t. clicked K ui Login_PB p = Inr p' \<and> cm_instance p' = Some s \<and> install p' = Some t
        \<and> mRemoteWinds (client s) = map (\<lambda>wind. (wind, 0)) (remoteWindowID ui)
        \<and> mLocalWindow (client s) = localWindowID ui \<and> mWindowID (capturer t) = localWindowID ui
        \<and> tracks (client s) = (pe_audio K f, pe_video K f)
        \<and> tracks (client s) = (GetAudioTrack t, GetVideoTrack t) \<and> factory p' = fs
        \<and> pWebSocket s = JWS_Open (c_str (Url_LE ui)) (pWebSocket (Conf_GetInstance K p))"
  by (rule login_cases [OF assms])


section \<open>A concrete process\<close>

definition ex_penv :: "(unit, unit) proc_env" where
  "ex_penv = \<lparr>pe_janus = ex_env [] JNull, pe_webrtc = ex_wenv, pe_create = (\<lambda>n. True), pe_audio = (\<lambda>n. Some 0),
     pe_video = (\<lambda>n. Some 1), pe_adapter = (), pe_broadcaster = (), pe_toInt = (\<lambda>s. 5), pe_toUInt = (\<lambda>s. 5),
     junk_buffer = (\<lambda>n. 0), junk_capture = 0, junk_local = 0, junk_text_room = 0\<rparr>"

definition ex_window :: main_window where
  "ex_window = MW_new 1 2 3 4 \<lparr>Url_LE = [], SendMessage_LE = ''hi'', VideoRoomID_LE = ''5'', VRDisplayName_LE = ''al'',
     DataRoomID_LE = ''6'', DRDisplayName_LE = ''al'', VideoRID_LE = ''7'', DataRID_LE = ''8'', localWindowID = 0,
     remoteWindowID = []\<rparr>"

definition ex_process :: "(unit, unit) process" where "ex_process = process_start 0"

lemma ex_factory: "\<exists>f fs. Factory_Get (pe_create ex_penv) (factory ex_process) = (Some f, fs)"
  by (simp add: ex_penv_def ex_process_def process_start_def factory_start_def Factory_Get_def Factory_Init_def)

theorem login_prepares_everything_witness:
  "\<exists>p' s. clicked ex_penv ex_window Login_PB ex_process = Inr p' \<and> cm_instance p' = Some s
     \<and> mRemoteWinds (client s) = [(2, 0), (3, 0), (4, 0)] \<and> tracks (client s) = (Some 0, Some 1)"
proof -
  obtain f fs where "Factory_Get (pe_create ex_penv) (factory ex_process) = (Some f, fs)" using ex_factory by blast
  from login_prepares_everything [OF this, of ex_window] show ?thesis
    by (auto simp: ex_window_def MW_new_def ex_penv_def)
qed


end
