(* ===== verification/Main_Window.thy ===== *)
theory Main_Window
  imports Demo_Process
begin

text \<open>
  The connections of \<^verbatim>\<open>src/MainWindow.cpp\<close> as Qt keeps them, and \<^verbatim>\<open>src/main.cpp\<close>: the window is
  made, the user clicks until it is closed, the window is destroyed. The slots themselves are
  in \<open>Demo_Process\<close>, whose function \<open>clicked\<close> is shown to be what a click of a connected
  button does.
\<close>

section \<open>Connections\<close>

text \<open>\<^verbatim>\<open>SLOT(...)\<close> names a function of the window.\<close>

datatype win_slot =
    SlotLogin | SlotLogout | SlotSendMessage | SlotJoinVRoom | SlotLeaveVRoom | SlotJoinDRoom | SlotLeaveDRoom
  | SlotCreateVR | SlotDestoryVR | SlotCreateDR | SlotDestoryDR

fun run_win_slot :: "('a, 'b) proc_env \<Rightarrow> main_window \<Rightarrow> win_slot \<Rightarrow> ('a, 'b) process \<Rightarrow> ('a, 'b) process res" where
  "run_win_slot K ui SlotLogin p = onLoginButtonClicked K ui p"
| "run_win_slot K ui SlotLogout p = onLogoutButtonClicked K p"
| "run_win_slot K ui SlotSendMessage p = onSendMessageButtonClicked K ui p"
| "run_win_slot K ui SlotJoinVRoom p = onJoinVRoomButtonClicked K ui p"
| "run_win_slot K ui SlotLeaveVRoom p = onLeaveVRoomButtonClicked K ui p"
| "run_win_slot K ui SlotJoinDRoom p = onJoinDRoomButtonClicked K ui p"
| "run_win_slot K ui SlotLeaveDRoom p = onLeaveDRoomButtonClicked p"
| "run_win_slot K ui SlotCreateVR p = onCreateVRButtonClicked K ui p"
| "run_win_slot K ui SlotDestoryVR p = onDestoryVRButtonClicked K ui p"
| "run_win_slot K ui SlotCreateDR p = onCreateDRButtonClicked K ui p"
| "run_win_slot K ui SlotDestoryDR p = onDestoryDRButtonClicked K ui p"

text \<open>
  Qt runs the slots of a signal in the order in which they were connected, once for each
  connection; \<^verbatim>\<open>disconnect\<close> takes away every connection of the two.
\<close>

type_synonym connections = "(button \<times> win_slot) list"

definition qt_connect :: "button \<times> win_slot \<Rightarrow> connections \<Rightarrow> connections" where
  "qt_connect c conns = conns @ [c]"

definition qt_disconnect :: "button \<times> win_slot \<Rightarrow> connections \<Rightarrow> connections" where
  "qt_disconnect c conns = filter (\<lambda>d. d \<noteq> c) conns"

definition emit_clicked ::
  "('a, 'b) proc_env \<Rightarrow> main_window \<Rightarrow> connections \<Rightarrow> button \<Rightarrow> ('a, 'b) process \<Rightarrow> ('a, 'b) process res" where
  "emit_clicked K ui conns b = rfold (\<lambda>(b', sl) p. if b' = b then run_win_slot K ui sl p else Inr p) conns"

definition MW_connect :: "connections \<Rightarrow> connections" where
  "MW_connect conns = fold qt_connect
     [(Login_PB, SlotLogin), (Logout_PB, SlotLogout), (Send_PB, SlotSendMessage), (JoinVRoom_PB, SlotJoinVRoom),
      (LeaveVRoom_PB, SlotLeaveVRoom), (JoinDRoom_PB, SlotJoinDRoom), (LeaveDRoom_PB, SlotLeaveDRoom),
      (CreateVR_PB, SlotCreateVR), (DestoryVR_PB, SlotDestoryVR), (CreateDR_PB, SlotCreateDR),
      (DestoryDR_PB, SlotDestoryDR)] conns"

text \<open>The destructor; the form goes with it.\<close>

definition MW_destroy :: "connections \<Rightarrow> connections" where
  "MW_destroy conns = fold qt_disconnect
     [(Login_PB, SlotLogin), (Logout_PB, SlotLogout), (Send_PB, SlotSendMessage), (JoinVRoom_PB, SlotJoinVRoom),
      (LeaveVRoom_PB, SlotLeaveVRoom), (JoinDRoom_PB, SlotJoinDRoom), (LeaveDRoom_PB, SlotLeaveDRoom),
      (CreateVR_PB, SlotCreateVR), (DestoryVR_PB, SlotDestoryVR), (CreateDR_PB, SlotCreateDR),
      (DestoryDR_PB, SlotDestoryDR)] conns"

definition MW_showEvent :: "main_window \<Rightarrow> main_window" where "MW_showEvent w = w"

text \<open>Whether the event is accepted; an accepted close event hides the window, which ends \<^verbatim>\<open>exec\<close>.\<close>

definition MW_closeEvent :: "bool \<Rightarrow> bool" where "MW_closeEvent accepted = True"

section \<open>From the start to the end\<close>

text \<open>
  The user edits the texts between the clicks; the numbers of the native windows stay. What
  is left at the end is the connections and the objects that outlive \<^verbatim>\<open>main\<close>.
\<close>

definition edited :: "main_window \<Rightarrow> main_window \<Rightarrow> main_window" where
  "edited w ui = ui\<lparr>localWindowID := localWindowID w, remoteWindowID := remoteWindowID w\<rparr>"

definition demo_main ::
  "('a, 'b) proc_env \<Rightarrow> main_window \<Rightarrow> (main_window \<times> button) list \<Rightarrow> ('a, 'b) process \<Rightarrow> (connections \<times> ('a, 'b) process) res" where
  "demo_main K w clicks p =
     (let w = MW_showEvent w; conns = MW_connect []
      in rbind (rfold (\<lambda>(ui, b). emit_clicked K (edited w ui) conns b) clicks p) (\<lambda>p. Inr (MW_destroy conns, p)))"

lemma emit_matching:
  "emit_clicked K ui conns b p = rfold (\<lambda>(b', sl). run_win_slot K ui sl) (filter (\<lambda>c. fst c = b) conns) p"
  unfolding emit_clicked_def
proof (induction conns arbitrary: p)
  case (Cons c conns)
  then have "rfold (\<lambda>(b', sl) p. if b' = b then run_win_slot K ui sl p else Inr p) conns =
      rfold (\<lambda>(b', sl). run_win_slot K ui sl) (filter (\<lambda>c. fst c = b) conns)" by (intro ext)
  then show ?case by (cases c) simp
qed simp

lemma rfold_one: "rbind r (rfold f []) = r"
  by (cases r) simp_all

lemma emit_connected: "emit_clicked K ui (MW_connect []) b p = clicked K ui b p"
  by (cases b) (simp_all add: emit_matching MW_connect_def qt_connect_def rfold_one)

lemma destroyed: "MW_destroy (MW_connect []) = []"
  by (simp add: MW_destroy_def MW_connect_def qt_connect_def qt_disconnect_def)

text \<open>Each click but two leaves a conference manager behind, and one only takes it away.\<close>

lemma on_conference_instance: "on_conference K f p = Inr p' \<Longrightarrow> cm_instance p' \<noteq> None"
  by (auto simp: on_conference_def rbind_eq_Inr)

lemmas interface_defs = WI_Login_def WI_JoinVideoRoom_def WI_LeaveVideoRoom_def WI_CreateVideoRoom_def
  WI_DestoryVideoRoom_def WI_JoinDataChannelRoom_def WI_SendMessage_def WI_CreateTextRoom_def WI_DestoryTextRoom_def

lemmas slot_defs = onLoginButtonClicked_def onSendMessageButtonClicked_def onJoinVRoomButtonClicked_def
  onLeaveVRoomButtonClicked_def onJoinDRoomButtonClicked_def onLeaveDRoomButtonClicked_def onCreateVRButtonClicked_def
  onDestoryVRButtonClicked_def onCreateDRButtonClicked_def onDestoryDRButtonClicked_def

lemma click_instance:
  assumes "clicked K ui b p = Inr p'" "b \<noteq> Logout_PB"
  shows "cm_instance p' \<noteq> None \<or> (b = LeaveDRoom_PB \<and> cm_instance p' = cm_instance p)"
proof (cases b)
  case LeaveDRoom_PB
  with assms(1) show ?thesis by (auto simp: slot_defs WI_LeaveDataChannelRoom_def WI_GetInstance_def)
qed (use assms in \<open>auto simp: slot_defs interface_defs rbind_eq_Inr Let_def dest!: on_conference_instance\<close>)

lemma clicks_instance:
  "rfold (\<lambda>(ui, b). clicked K (edited w ui) b) clicks p = Inr p' \<Longrightarrow> \<forall>(ui, b) \<in> set clicks. b \<noteq> Logout_PB \<Longrightarrow>
   cm_instance p' = None \<longrightarrow> cm_instance p = None \<and> (\<forall>(ui, b) \<in> set clicks. b = LeaveDRoom_PB)"
proof (induction clicks arbitrary: p)
  case (Cons c clicks)
  obtain ui b where c: "c = (ui, b)" by fastforce
  with Cons.prems(1) obtain q where q: "clicked K (edited w ui) b p = Inr q"
    "rfold (\<lambda>(ui, b). clicked K (edited w ui) b) clicks q = Inr p'" by (auto simp: rbind_eq_Inr)
  from Cons.IH [OF q(2)] click_instance [OF q(1)] Cons.prems(2) show ?case by (auto simp: c)
qed simp



end
