(* ===== verification/Conference_Pointers.thy ===== *)
theory Conference_Pointers
  imports Conference_Protocol
begin

text \<open>
  The shared objects of the conference layer are the counted objects of webrtc: each operation
  on its store is the operation of \<open>Shared_Pointers\<close> on the store with machine counters, and
  the statement that files a new stream, with all its temporary pointers, has the effect
  that \<open>Conference\<close> gives it. No object ever has more than two holders between two events.
\<close>

section \<open>The store of the conference layer\<close>

definition counted_objects :: "conf \<Rightarrow> conf_slot dc_stream store" where
  "counted_objects c = \<lparr>objs = (\<lambda>a. map_option (\<lambda>ob. \<lparr>payload = do_stream ob, ref_cell = of_nat (do_refs ob)\<rparr>)
     (dc_objects c a)), next_obj = dc_next c\<rparr>"

text \<open>The destructor of the stream, whose members are gone with it.\<close>

definition stream_dtor :: "conf_slot dc_stream \<Rightarrow> unit res" where
  "stream_dtor s = (let gone = DC_destroy s in Inr ())"

lemma stream_dtor_returns [simp]: "stream_dtor s = Inr ()"
  by (simp add: stream_dtor_def)

abbreviation on_store :: "conf res \<Rightarrow> conf_slot dc_stream store res" where
  "on_store r \<equiv> rbind r (\<lambda>c. Inr (counted_objects c))"

lemma counted_put:
  "counted_objects (dc_put a ob c) = (counted_objects c)\<lparr>objs := (objs (counted_objects c))
     (a \<mapsto> \<lparr>payload = do_stream ob, ref_cell = of_nat (do_refs ob)\<rparr>)\<rparr>"
  by (auto simp: counted_objects_def dc_put_def)

lemma counted_drop:
  "counted_objects (c\<lparr>dc_objects := (dc_objects c)(a := None)\<rparr>) =
     (counted_objects c)\<lparr>objs := (objs (counted_objects c))(a := None)\<rparr>"
  by (auto simp: counted_objects_def)

lemma obj_at_counted: "obj_at a (counted_objects c) = rbind (dc_get a c)
    (\<lambda>ob. Inr \<lparr>payload = do_stream ob, ref_cell = of_nat (do_refs ob)\<rparr>)"
  by (simp add: obj_at_def dc_get_def counted_objects_def split: option.splits)

lemma add_ref_refines: "AddRef a (counted_objects c) = on_store (dc_add_ref a c)"
  by (simp add: AddRef_def obj_at_counted dc_add_ref_def rbind_assoc set_count_def counted_put IncRef_def
      AtomicOps_Increment_def add.commute)

text \<open>The counts the machine counter can hold.\<close>

definition counts_fit :: "conf \<Rightarrow> bool" where
  "counts_fit c \<longleftrightarrow> (\<forall>a ob. dc_objects c a = Some ob \<longrightarrow> 0 < do_refs ob \<and> do_refs ob < 2 ^ 32)"

lemma release_refines:
  assumes "counts_fit c"
  shows "rbind (Release stream_dtor a (counted_objects c)) (\<lambda>(status, s). Inr s) = on_store (dc_release a c)"
proof (cases "dc_objects c a")
  case None
  then show ?thesis by (simp add: Release_def obj_at_counted dc_release_def dc_get_def)
next
  case (Some ob)
  then have n: "0 < do_refs ob" "do_refs ob < 2 ^ 32" using assms by (auto simp: counts_fit_def)
  then have u: "unat (of_nat (do_refs ob) :: u32) = do_refs ob" by (simp add: unsigned_of_nat take_bit_nat_eq_self)
  have "(of_nat (do_refs ob) :: u32) - 1 = of_nat (do_refs ob - 1)"
    using n(1) by (simp add: of_nat_diff)
  then have dec: "DecRef (of_nat (do_refs ob)) =
      (if do_refs ob = 1 then kDroppedLastRef else kOtherRefsRemained, of_nat (do_refs ob - 1))"
    using DecRef_exact(1) [of "of_nat (do_refs ob)"] u n(1) by simp
  show ?thesis
    by (simp add: Release_def obj_at_counted dc_release_def dc_get_def Some dec Let_def set_count_def counted_put counted_drop)
qed

lemma release_if_refines: "counts_fit c \<Longrightarrow> Release_if stream_dtor p (counted_objects c) = on_store (release_if p c)"
  using release_refines by (simp add: Release_if_def release_if_def split: option.splits)

lemma delete_refines: "delete_raw stream_dtor (Some a) (counted_objects c) = on_store (dc_delete a c)"
proof (cases "dc_objects c a")
  case None
  then show ?thesis by (simp add: delete_raw_def dc_delete_def) (simp add: counted_objects_def)
next
  case (Some ob)
  then show ?thesis by (simp add: delete_raw_def dc_delete_def counted_drop) (simp add: counted_objects_def)
qed

lemma alloc_refines:
  assumes "dc_alloc st c = (a, c')" "RefCountedObject_new st (counted_objects c) = (b, s)"
  shows "b = a \<and> refptr_of (Some a) s = Inr (Some a, counted_objects c')"
  using assms
  by (auto simp: dc_alloc_def RefCountedObject_new_def Let_def refptr_of_def AddRef_if_def AddRef_def obj_at_def
      set_count_def IncRef_def AtomicOps_Increment_def counted_objects_def fun_eq_iff)

text \<open>
  C21: the shared objects of the conference layer are the counted objects of webrtc's headers.
  As long as the counts fit their 32 bits, taking a reference, letting one go, letting go of
  what a pointer holds, deleting a bare pointer and making an object behave on the layer's
  store as the header's code does on the machine counters, faults included.
\<close>

theorem shared_objects_refine:
  assumes "counts_fit c"
  shows "AddRef a (counted_objects c) = rbind (dc_add_ref a c) (\<lambda>c. Inr (counted_objects c))
    \<and> rbind (Release stream_dtor a (counted_objects c)) (\<lambda>(status, s). Inr s)
        = rbind (dc_release a c) (\<lambda>c. Inr (counted_objects c))
    \<and> refptr_destroy stream_dtor p (counted_objects c) = rbind (release_if p c) (\<lambda>c. Inr (counted_objects c))
    \<and> delete_raw stream_dtor (Some a) (counted_objects c) = rbind (dc_delete a c) (\<lambda>c. Inr (counted_objects c))
    \<and> (let (b, s) = RefCountedObject_new st (counted_objects c); (b', c') = dc_alloc st c
       in b = b' \<and> refptr_of (Some b) s = Inr (Some b, counted_objects c'))"
proof -
  have "let (b, s) = RefCountedObject_new st (counted_objects c); (b', c') = dc_alloc st c
      in b = b' \<and> refptr_of (Some b) s = Inr (Some b, counted_objects c')"
    using alloc_refines [of st c] by (auto simp: Let_def split: prod.splits)
  then show ?thesis
    using add_ref_refines release_refines [OF assms] release_if_refines [OF assms] delete_refines
    by (simp add: refptr_destroy_def)
qed

section \<open>Two holders at most\<close>

lemma wf_counts:
  assumes "conf_wf c" "dc_objects c a = Some ob"
  shows "do_refs ob = (if a \<in> si_stream ` snd ` set (mRemoteStreamInfos_DataChannels c) then 1 else 0)
    + (if LocalStream_DataChannels c = Some a then 1 else 0) \<and> 0 < do_refs ob"
proof -
  have "refs_at (count (holders c) a) (Some ob)"
    using assms by (metis conf_ok_def conf_wf_def refs_ok_def)
  then have n: "do_refs ob = count (holders c) a" "0 < do_refs ob" by simp_all
  have "distinct (map (si_stream \<circ> snd) (mRemoteStreamInfos_DataChannels c))"
    using conf_okD(4) [OF assms(1) [unfolded conf_wf_def]] by (rule dc_streams_distinct)
  then have "count (mset (map (si_stream \<circ> snd) (mRemoteStreamInfos_DataChannels c))) a
      = (if a \<in> si_stream ` snd ` set (mRemoteStreamInfos_DataChannels c) then 1 else 0)"
    by (simp add: distinct_count_atmost_1 image_comp [symmetric] image_iff)
  then show ?thesis
    using n by (auto simp: holders_def opt_mset_def split: option.splits)
qed

lemma wf_counts_fit: "conf_wf c \<Longrightarrow> counts_fit c"
  unfolding counts_fit_def by (auto dest!: wf_counts split: if_splits)

text \<open>The machine counters are the numbers of the holders.\<close>

lemma counted_exact:
  assumes "conf_wf c"
  shows "counts_exact (holders c) (counted_objects c)"
proof -
  note ok = conf_okD [OF assms [unfolded conf_wf_def]]
  have "counted_at (count (holders c) a) (objs (counted_objects c) a)" for a
  proof (cases "dc_objects c a")
    case None
    then show ?thesis using refs_ok_None [OF ok(1), of a] by (simp add: counted_objects_def not_in_iff)
  next
    case (Some ob)
    then have "refs_at (count (holders c) a) (Some ob)" using ok(1) by (metis refs_ok_def)
    moreover have "do_refs ob < 2 ^ 32" using wf_counts_fit [OF assms] Some by (simp add: counts_fit_def)
    ultimately show ?thesis
      using Some by (simp add: counted_objects_def unsigned_of_nat take_bit_nat_eq_self)
  qed
  then show ?thesis using ok(2) by (simp add: counts_exact_def) (simp add: counted_objects_def)
qed


section \<open>Making the stream of a text room, pointer by pointer\<close>

text \<open>
  \<^verbatim>\<open>ConnectToPeer_DataChannels\<close> and \<^verbatim>\<open>addStreamInfo_DataChannels\<close> as statements on smart
  pointers. Variable 0 is \<^verbatim>\<open>LocalStream_DataChannels\<close>, 1 the pointer of the entry, null if
  there is none, 2 the new stream, 3 the parameter that is passed by value, 4 the member of
  the structure that is copied into the table. Between the two parts the callback is
  registered.
\<close>

definition connect_first :: "i64 \<Rightarrow> conf_slot dc_stream ptr_op list" where
  "connect_first peerId = [EnterNull, Make 2 (DC_new peerId), Assign 0 2]"

definition connect_rest :: "conf_slot dc_stream ptr_op list" where
  "connect_rest = [EnterCopy 2, EnterNull, Assign 4 3, Assign 1 4, Leave, Leave, Leave]"

definition set_payload :: "addr \<Rightarrow> 'a \<Rightarrow> 'a store \<Rightarrow> 'a store" where
  "set_payload a x s = s\<lparr>objs := (objs s)(a := map_option (\<lambda>ob. ob\<lparr>payload := x\<rparr>) (objs s a))\<rparr>"

text \<open>What the layer's own operations leave of the streams.\<close>

definition streams_of :: "conf \<Rightarrow> (addr \<rightharpoonup> conf_slot dc_stream)" where
  "streams_of c = (\<lambda>a. map_option do_stream (dc_objects c a))"

lemma counted_payloads: "payloads (counted_objects c) = streams_of c"
  by (auto simp: payloads_def counted_objects_def streams_of_def option.map_comp comp_def)

lemma add_ref_streams: "dc_add_ref a c = Inr c' \<Longrightarrow> \<exists>m. c' = c\<lparr>dc_objects := m\<rparr> \<and> streams_of c' = streams_of c"
  by (auto simp: dc_add_ref_def dc_get_def dc_put_def streams_of_def fun_eq_iff split: option.splits)

lemma release_streams: "dc_release a c = Inr c' \<Longrightarrow> \<exists>m. c' = c\<lparr>dc_objects := m\<rparr> \<and> streams_of c' \<subseteq>\<^sub>m streams_of c"
  by (auto simp: dc_release_def dc_get_def dc_put_def streams_of_def map_le_def split: option.splits if_splits)

lemma release_if_streams: "release_if p c = Inr c' \<Longrightarrow> \<exists>m. c' = c\<lparr>dc_objects := m\<rparr> \<and> streams_of c' \<subseteq>\<^sub>m streams_of c"
  by (cases p) (auto simp: release_if_def dest: release_streams intro: exI [of _ "dc_objects c"])

lemma streams_of_table [simp]:
  "streams_of (put_dc k i c) = streams_of c" "streams_of (c\<lparr>LocalStream_DataChannels := p\<rparr>) = streams_of c"
  "streams_of (dc_put a ob c) = (streams_of c)(a \<mapsto> do_stream ob)"
  by (auto simp: streams_of_def put_dc_def dc_put_def)

lemma connect_streams:
  assumes "ConnectToPeer_DataChannels k c = Inr c'"
  defines "a \<equiv> Addr (dc_next c)"
  shows "LocalStream_DataChannels c' = Some a \<and> dc_next c' = Suc (dc_next c)
    \<and> mTextRoomID c' = mTextRoomID c \<and> mTextRoomDisplayName c' = mTextRoomDisplayName c
    \<and> mRemoteStreamInfos_DataChannels c' = AList.update k (new_info a) (mRemoteStreamInfos_DataChannels c)
    \<and> streams_of c' \<subseteq>\<^sub>m (streams_of c)(a \<mapsto> (DC_new k)\<lparr>OnSendLocalInfoWhenOpenDataChannel := Some SendLocalInfo\<rparr>)"
proof -
  let ?st = "(DC_new k)\<lparr>OnSendLocalInfoWhenOpenDataChannel := Some SendLocalInfo\<rparr> :: conf_slot dc_stream"
  define c1 where "c1 = c\<lparr>dc_objects := (dc_objects c)(a \<mapsto> \<lparr>do_stream = DC_new k, do_refs = 1\<rparr>), dc_next := Suc (dc_next c)\<rparr>"
  have al: "dc_alloc (DC_new k) c = (a, c1)" by (simp add: dc_alloc_def a_def c1_def Let_def)
  obtain c2 c4 ob where
    c2: "dc_add_ref a c1 = Inr c2" and
    c4: "release_if (LocalStream_DataChannels c1) (c2\<lparr>LocalStream_DataChannels := Some a\<rparr>) = Inr c4" and
    ob: "dc_get a c4 = Inr ob" and
    rest: "rbind (addStreamInfo_DataChannels a (dc_put a (ob\<lparr>do_stream :=
        RegisterSendLocalInfoWhenOpenDataChannelCallBack SendLocalInfo (do_stream ob)\<rparr>) c4)) (dc_release a) = Inr c'"
    using assms(1) by (auto simp: ConnectToPeer_DataChannels_def al Let_def rbind_eq_Inr)
  have s1: "streams_of c1 = (streams_of c)(a \<mapsto> DC_new k)" by (auto simp: c1_def streams_of_def)
  obtain m2 where m2: "c2 = c1\<lparr>dc_objects := m2\<rparr>" "streams_of c2 = streams_of c1" using add_ref_streams [OF c2] by blast
  obtain m4 where m4: "c4 = c2\<lparr>LocalStream_DataChannels := Some a, dc_objects := m4\<rparr>" "streams_of c4 \<subseteq>\<^sub>m streams_of c2"
    using release_if_streams [OF c4] by auto
  have "do_stream ob = DC_new k"
  proof -
    have "streams_of c4 a = Some (do_stream ob)" using ob by (auto simp: streams_of_def dc_get_def split: option.splits)
    then have "streams_of c1 a = Some (do_stream ob)" using m4(2) m2(2) by (metis domI map_le_def)
    then show ?thesis by (simp add: s1)
  qed
  define c5 where "c5 = dc_put a (ob\<lparr>do_stream := ?st\<rparr>) c4"
  have c5: "addStreamInfo_DataChannels a c5 = rbind (dc_add_ref a c5)
      (\<lambda>c. release_if (map_option si_stream (map_of (mRemoteStreamInfos_DataChannels c5) k)) (put_dc k (new_info a) c))"
    by (simp add: addStreamInfo_DataChannels_def dc_get_def c5_def dc_put_def GetHandleID_def DC_new_def Let_def)
  have reg: "RegisterSendLocalInfoWhenOpenDataChannelCallBack SendLocalInfo (do_stream ob) = ?st"
    by (simp add: RegisterSendLocalInfoWhenOpenDataChannelCallBack_def \<open>do_stream ob = DC_new k\<close>)
  obtain c6 c8 where c6: "dc_add_ref a c5 = Inr c6" and
    c8: "release_if (map_option si_stream (map_of (mRemoteStreamInfos_DataChannels c5) k)) (put_dc k (new_info a) c6) = Inr c8"
    and c9: "dc_release a c8 = Inr c'"
    using rest by (auto simp: reg c5_def [symmetric] c5 rbind_eq_Inr)
  obtain m6 m8 m9 where m: "c6 = c5\<lparr>dc_objects := m6\<rparr>" "streams_of c6 = streams_of c5"
    "c8 = (put_dc k (new_info a) c6)\<lparr>dc_objects := m8\<rparr>" "streams_of c8 \<subseteq>\<^sub>m streams_of c6"
    "c' = c8\<lparr>dc_objects := m9\<rparr>" "streams_of c' \<subseteq>\<^sub>m streams_of c8"
    using add_ref_streams [OF c6] release_if_streams [OF c8] release_streams [OF c9] by auto
  have "streams_of c5 = (streams_of c4)(a \<mapsto> ?st)" by (simp add: c5_def)
  moreover have "(streams_of c4)(a \<mapsto> ?st) \<subseteq>\<^sub>m (streams_of c)(a \<mapsto> ?st)"
    using m4(2) m2(2) s1 by (auto simp: map_le_def dom_def)
  ultimately have "streams_of c' \<subseteq>\<^sub>m (streams_of c)(a \<mapsto> ?st)"
    using m(2,4,6) by (metis map_le_trans)
  moreover have "LocalStream_DataChannels c' = Some a" "dc_next c' = Suc (dc_next c)"
    "mTextRoomID c' = mTextRoomID c" "mTextRoomDisplayName c' = mTextRoomDisplayName c"
    "mRemoteStreamInfos_DataChannels c' = AList.update k (new_info a) (mRemoteStreamInfos_DataChannels c)"
    by (simp_all add: m(1,3,5) put_dc_def c5_def dc_put_def m4(1) m2(1) c1_def)
  ultimately show ?thesis by blast
qed

lemma set_payload_keeps:
  "counts_exact H s \<Longrightarrow> counts_exact H (set_payload a x s)" "next_obj (set_payload a x s) = next_obj s"
  "payloads (set_payload a x s) \<subseteq>\<^sub>m (payloads s)(a \<mapsto> x)"
proof -
  assume ex: "counts_exact H s"
  have "counted_at (count H b) (objs (set_payload a x s) b)" for b
    using ex unfolding counts_exact_def by (cases "objs s b") (auto simp: set_payload_def dest: spec [of _ b])
  moreover have "objs (set_payload a x s) (Addr n) = None" if "next_obj s \<le> n" for n
    using ex that by (auto simp: counts_exact_def set_payload_def)
  ultimately show "counts_exact H (set_payload a x s)" by (simp add: counts_exact_def) (simp add: set_payload_def)
qed (auto simp: set_payload_def payloads_def map_le_def)

text \<open>The pointers of the table but the one of the entry.\<close>

lemma table_pointers:
  fixes xs :: "(i64 \<times> addr stream_info) list" and k :: i64
  assumes "distinct (map fst xs)"
  defines "others \<equiv> mset (map (si_stream \<circ> snd) (AList.delete k xs))"
  shows "mset (map (si_stream \<circ> snd) xs) = others + opt_mset (map_option si_stream (map_of xs k))"
    "mset (map (si_stream \<circ> snd) (AList.update k i xs)) = others + {#si_stream i#}"
    "size others \<le> length xs"
proof -
  show old: "mset (map (si_stream \<circ> snd) xs) = others + opt_mset (map_option si_stream (map_of xs k))"
  proof (cases "map_of xs k")
    case None
    then have "k \<notin> fst ` set xs" by (simp add: map_of_eq_None_iff)
    then have "AList.delete k xs = xs" by (rule delete_id)
    then show ?thesis by (simp add: others_def None)
  next
    case (Some u)
    with mset_delete [OF Some assms(1), of si_stream] show ?thesis by (simp add: others_def)
  qed
  show "mset (map (si_stream \<circ> snd) (AList.update k i xs)) = others + {#si_stream i#}"
  proof (cases "map_of xs k")
    case None
    with mset_update_new [OF None, of si_stream i] old show ?thesis by simp
  next
    case (Some u)
    with mset_update_old [OF Some, of si_stream i] old show ?thesis by simp
  qed
  show "size others \<le> length xs"
    using arg_cong [OF old, of size] by (simp add: comp_def)
qed

text \<open>
  The first half of making a stream: the new object is held by the local pointer and by its
  maker, the old local stream is let go.
\<close>

lemma connect_first_run:
  fixes c :: conf and k :: i64
  assumes "conf_wf c" "length (mRemoteStreamInfos_DataChannels c) < 2 ^ 31"
  defines "others \<equiv> mset (map (si_stream \<circ> snd) (AList.delete k (mRemoteStreamInfos_DataChannels c)))"
    and "entry \<equiv> map_option si_stream (map_of (mRemoteStreamInfos_DataChannels c) k)"
    and "a \<equiv> Addr (dc_next c)"
  obtains s where "rfold (ptr_exec stream_dtor) (connect_first k) ([LocalStream_DataChannels c, entry], counted_objects c)
      = Inr ([Some a, entry, Some a], s)"
    "exact_state others (2 ^ 31) ([Some a, entry, Some a], s)" "next_obj s = Suc (dc_next c)"
    "payloads s \<subseteq>\<^sub>m (streams_of c)(a \<mapsto> DC_new k)"
proof -
  have "distinct (map fst (mRemoteStreamInfos_DataChannels c))"
    using conf_okD(4) [OF assms(1) [unfolded conf_wf_def]] by (simp add: dc_table_ok_def)
  note tab = table_pointers [OF this, of k, folded others_def]
  have nx: "next_obj (counted_objects c) = dc_next c" by (simp add: counted_objects_def)
  have "holders c = others + held [LocalStream_DataChannels c, entry]"
    by (simp only: holders_def tab(1) entry_def) (simp add: held_def ac_simps)
  then have "exact_state others (2 ^ 31) ([LocalStream_DataChannels c, entry], counted_objects c)"
    using counted_exact [OF assms(1)] tab(3) assms(2) by (simp add: exact_state_def)
  moreover have "scoped (2 ^ 31) (length [LocalStream_DataChannels c, entry]) (connect_first k)"
    by (simp add: connect_first_def)
  ultimately obtain env s where s: "rfold (ptr_exec stream_dtor) (connect_first k)
      ([LocalStream_DataChannels c, entry], counted_objects c) = Inr (env, s)" "exact_state others (2 ^ 31) (env, s)"
    using ptr_run_exact by (metis stream_dtor_returns)
  from ptr_run_keeps [OF s(1)] have "env = [Some a, entry, Some a]" "next_obj s = Suc (dc_next c)"
    "payloads s \<subseteq>\<^sub>m (streams_of c)(a \<mapsto> DC_new k)"
    by (simp_all add: connect_first_def nx a_def counted_payloads)
  with s that show ?thesis by blast
qed

text \<open>
  C13: making the stream of a text room, statement by statement on smart pointers with their
  temporaries (the new object, the parameter that is passed by value, the structure that is
  copied into the table), leaves exactly the store, the local pointer and the entry that the
  model gives: the temporaries are gone, and an object that was held only by the pointers that
  were overwritten is deleted. A table has fewer than \<open>2 ^ 31\<close> entries, as \<^verbatim>\<open>QHash\<close> counts
  them in an \<^verbatim>\<open>int\<close>.
\<close>

theorem connect_pointers_refine:
  fixes c :: conf and k :: i64
  assumes "conf_wf c" "length (mRemoteStreamInfos_DataChannels c) < 2 ^ 31"
  defines "entry \<equiv> map_option si_stream (map_of (mRemoteStreamInfos_DataChannels c) k)"
    and "a \<equiv> Addr (dc_next c)"
  shows "\<exists>c' s. ConnectToPeer_DataChannels k c = Inr c'
    \<and> rfold (ptr_exec stream_dtor) (connect_first k) ([LocalStream_DataChannels c, entry], counted_objects c)
        = Inr ([Some a, entry, Some a], s)
    \<and> rfold (ptr_exec stream_dtor) connect_rest ([Some a, entry, Some a],
          set_payload a (RegisterSendLocalInfoWhenOpenDataChannelCallBack SendLocalInfo (DC_new k)) s)
        = Inr ([LocalStream_DataChannels c', map_option si_stream (map_of (mRemoteStreamInfos_DataChannels c') k)],
            counted_objects c')"
proof -
  let ?st = "(DC_new k)\<lparr>OnSendLocalInfoWhenOpenDataChannel := Some SendLocalInfo\<rparr> :: conf_slot dc_stream"
  define F where "F = mset (map (si_stream \<circ> snd) (AList.delete k (mRemoteStreamInfos_DataChannels c)))"
  have "distinct (map fst (mRemoteStreamInfos_DataChannels c))"
    using conf_okD(4) [OF assms(1) [unfolded conf_wf_def]] by (simp add: dc_table_ok_def)
  note tab = table_pointers [OF this, of k, folded F_def]
  obtain c' where c': "ConnectToPeer_DataChannels k c = Inr c'" "conf_wf c'" using connect_dc_ok [OF assms(1), of k] by blast
  note after = connect_streams [OF c'(1), folded a_def]
  obtain s where s: "rfold (ptr_exec stream_dtor) (connect_first k)
      ([LocalStream_DataChannels c, entry], counted_objects c) = Inr ([Some a, entry, Some a], s)"
    "exact_state F (2 ^ 31) ([Some a, entry, Some a], s)"
    and keep: "next_obj s = Suc (dc_next c)" "payloads s \<subseteq>\<^sub>m (streams_of c)(a \<mapsto> DC_new k)"
    by (rule connect_first_run [OF assms(1,2), of k, folded F_def a_def entry_def])
  define s1 where "s1 = set_payload a ?st s"
  have ex1: "exact_state F (2 ^ 31) ([Some a, entry, Some a], s1)"
    using s(2) set_payload_keeps(1) by (auto simp: exact_state_def s1_def)
  have "scoped (2 ^ 31) (length [Some a, entry, Some a]) connect_rest" by (simp add: connect_rest_def)
  with ex1 obtain env' t where t: "rfold (ptr_exec stream_dtor) connect_rest ([Some a, entry, Some a], s1) = Inr (env', t)"
    "exact_state F (2 ^ 31) (env', t)"
    using ptr_run_exact by (metis stream_dtor_returns)
  from ptr_run_keeps [OF t(1)] have keep': "env' = [Some a, Some a]" "next_obj t = Suc (dc_next c)"
    "payloads t \<subseteq>\<^sub>m payloads s1"
    by (simp_all add: connect_rest_def keep(1) s1_def set_payload_keeps(2))
  let ?P = "(streams_of c)(a \<mapsto> ?st)"
  have "payloads s1 \<subseteq>\<^sub>m (payloads s)(a \<mapsto> ?st)" unfolding s1_def by (rule set_payload_keeps(3))
  moreover have "(payloads s)(a \<mapsto> ?st) \<subseteq>\<^sub>m ?P" using keep(2) by (auto simp: map_le_def dom_def)
  ultimately have P: "payloads t \<subseteq>\<^sub>m ?P" using keep'(3) by (blast intro: map_le_trans)
  have "mset (map (si_stream \<circ> snd) (mRemoteStreamInfos_DataChannels c')) = F + {#a#}"
    using after tab(2) [of "new_info a"] by (simp only: new_info_def stream_info.simps)
  then have "holders c' = F + held env'"
    using after by (simp only: holders_def keep'(1)) (simp add: held_def)
  then have "counts_exact (F + held env') (counted_objects c')" using counted_exact [OF c'(2)] by simp
  moreover have "counts_exact (F + held env') t" using t(2) by (simp add: exact_state_def)
  moreover have "payloads (counted_objects c') \<subseteq>\<^sub>m ?P" using after by (simp add: counted_payloads)
  ultimately have "objs t = objs (counted_objects c')" using store_unique P by blast
  then have "t = counted_objects c'" using keep'(2) after by (cases t) (simp add: counted_objects_def)
  moreover have "map_option si_stream (map_of (mRemoteStreamInfos_DataChannels c') k) = Some a"
    using after by (simp add: update_conv new_info_def)
  ultimately show ?thesis
    using c'(1) s(1) t(1) after
    by (auto simp: keep'(1) s1_def RegisterSendLocalInfoWhenOpenDataChannelCallBack_def)
qed

section \<open>Concrete states\<close>

definition ex_text_conf :: conf where
  "ex_text_conf = ex_conf\<lparr>dc_objects := [Addr 0 \<mapsto> \<lparr>do_stream = DC_new 6, do_refs = 1\<rparr>], dc_next := 1,
     LocalStream_DataChannels := Some (Addr 0)\<rparr>"

lemma ex_conf_objects: "dc_objects ex_conf = Map.empty" "dc_next ex_conf = 0" "LocalStream_DataChannels ex_conf = None"
  by (simp_all add: ex_conf_def Conf_SetVideoWindows_def Conf_new_def)

lemma ex_text_conf_simps [simp]:
  "dc_objects ex_text_conf = [Addr 0 \<mapsto> \<lparr>do_stream = DC_new 6, do_refs = 1\<rparr>]"
  "dc_next ex_text_conf = 1" "mRemoteStreamInfos_DataChannels ex_text_conf = []"
  by (simp_all add: ex_text_conf_def)

text \<open>The last reference is let go, and the object is gone.\<close>

theorem shared_objects_refine_witness:
  "refptr_destroy stream_dtor (Some (Addr 0)) (counted_objects ex_text_conf)
     = Inr (counted_objects (ex_text_conf\<lparr>dc_objects := Map.empty\<rparr>))"
proof -
  have "counts_fit ex_text_conf" by (simp add: counts_fit_def)
  from shared_objects_refine [OF this, of "Addr 0" "Some (Addr 0)" "DC_new 7"] show ?thesis
    by (simp add: release_if_def dc_release_def dc_get_def)
qed


theorem connect_pointers_refine_witness:
  "\<exists>c' s. ConnectToPeer_DataChannels 6 ex_conf = Inr c'
    \<and> rfold (ptr_exec stream_dtor) (connect_first 6) ([None, None], counted_objects ex_conf)
        = Inr ([Some (Addr 0), None, Some (Addr 0)], s)
    \<and> rfold (ptr_exec stream_dtor) connect_rest ([Some (Addr 0), None, Some (Addr 0)],
          set_payload (Addr 0) (RegisterSendLocalInfoWhenOpenDataChannelCallBack SendLocalInfo (DC_new 6)) s)
        = Inr ([Some (Addr 0), Some (Addr 0)], counted_objects c')"
proof -
  obtain c' where c': "ConnectToPeer_DataChannels 6 ex_conf = Inr c'" using connect_dc_ok [of ex_conf 6] by auto
  from connect_streams [OF c'] have "LocalStream_DataChannels c' = Some (Addr 0)"
    "map_option si_stream (map_of (mRemoteStreamInfos_DataChannels c') 6) = Some (Addr 0)"
    by (simp_all add: ex_conf_objects update_conv new_info_def)
  with connect_pointers_refine [of ex_conf 6] c' show ?thesis by (auto simp: ex_conf_objects)
qed

end
