(* ===== verification/Conference_Flow.thy ===== *)
theory Conference_Flow
  imports Conference_Pointers
begin

text \<open>
  Nothing is held back: the flags that would stop a stream from sending are never cleared, so
  between two events no candidate waits, and each candidate leaves at once. The invariant is
  a second one of the layer; the session keeps it by the same interface \<open>room_client\<close>.
\<close>

section \<open>The invariant\<close>

definition unheld_info :: "'p stream_info \<Rightarrow> bool" where
  "unheld_info i \<longleftrightarrow> iceCandidateList i = [] \<and> canSendSDP i \<and> canSendCandidate i"

definition unheld :: "conf \<Rightarrow> bool" where
  "unheld c \<longleftrightarrow> (\<forall>e \<in> set (mRemoteStreamInfos_VideoAudio c). unheld_info (snd e))
     \<and> (\<forall>e \<in> set (mRemoteStreamInfos_DataChannels c). unheld_info (snd e))"

lemma unheld_info_simps [simp]:
  "unheld_info (new_info p)" "unheld_info (i\<lparr>si_stream := st\<rparr>) = unheld_info i"
  "unheld_info (i\<lparr>si_sdp := sdp, si_sdpType := type\<rparr>) = unheld_info i"
  by (simp_all add: unheld_info_def new_info_def)

lemma unheld_put:
  "unheld c \<Longrightarrow> unheld_info i \<Longrightarrow> unheld (put_va k i c)"
  "unheld c \<Longrightarrow> unheld_info j \<Longrightarrow> unheld (put_dc k j c)"
  using set_update_subset [of k i "mRemoteStreamInfos_VideoAudio c"]
    set_update_subset [of k j "mRemoteStreamInfos_DataChannels c"]
  by (fastforce simp: unheld_def put_va_def put_dc_def)+

lemma unheld_other [simp]:
  "unheld (c\<lparr>mRemoteWinds := ws\<rparr>) = unheld c" "unheld (c\<lparr>dc_objects := m\<rparr>) = unheld c"
  "unheld (dc_put a ob c) = unheld c" "unheld (Conf_SetVideoWindows w ws' c) = unheld c"
  "unheld (SetTextRoomIDAndDisplayName r name c) = unheld c" "unheld (c\<lparr>tracks := ts\<rparr>) = unheld c"
  by (simp_all add: unheld_def dc_put_def Conf_SetVideoWindows_def SetTextRoomIDAndDisplayName_def)

lemma unheld_lookup:
  "unheld c \<Longrightarrow> map_of (mRemoteStreamInfos_VideoAudio c) k = Some i \<Longrightarrow> unheld_info i"
  "unheld c \<Longrightarrow> map_of (mRemoteStreamInfos_DataChannels c) k = Some j \<Longrightarrow> unheld_info j"
  by (force simp: unheld_def dest: map_of_SomeD)+

lemma unheld_delete:
  "unheld c \<Longrightarrow> unheld (c\<lparr>mRemoteStreamInfos_VideoAudio := AList.delete k (mRemoteStreamInfos_VideoAudio c)\<rparr>)"
  "unheld c \<Longrightarrow> unheld (c\<lparr>mRemoteStreamInfos_DataChannels := AList.delete k (mRemoteStreamInfos_DataChannels c)\<rparr>)"
  using set_delete_subset [of k "mRemoteStreamInfos_VideoAudio c"] set_delete_subset [of k "mRemoteStreamInfos_DataChannels c"]
  by (auto simp: unheld_def)

lemma unheld_new: "unheld (Conf_new jw jr av)"
  by (simp add: unheld_def Conf_new_def)

section \<open>The functions the session calls\<close>

lemma connect_va_unheld:
  assumes "unheld c" "ConnectToPeer_VideoAudio W k show_it conn loc c = Inr c'"
  shows "unheld c'"
proof -
  define s0 where "s0 = VA_SetIsLocal loc (VA_new (we_junk W k) k)"
  obtain c1 where c1: "addStreamInfo_VideoAudio s0 c = Inr c1"
    using assms(2) by (auto simp: ConnectToPeer_VideoAudio_def s0_def [symmetric] Let_def rbind_eq_Inr)
  then have u1: "unheld c1" using assms(1) by (auto simp: addStreamInfo_VideoAudio_def Let_def rbind_eq_Inr unheld_put)
  obtain w winds where w: "(if show_it then take_window k (mRemoteWinds c1) else (None, mRemoteWinds c1)) = (w, winds)"
    by fastforce
  define s1 where "s1 = (case w of None \<Rightarrow> s0 | Some w \<Rightarrow> VA_SetWindowID w s0)"
  define c2 where "c2 = put_va k (new_info s1) (c1\<lparr>mRemoteWinds := winds\<rparr>)"
  have u2: "unheld c2" using u1 by (simp add: c2_def unheld_put)
  have eq: "ConnectToPeer_VideoAudio W k show_it conn loc c = (if conn
      then rbind (VA_ConnectToPeer W (tracks c2) s1) (\<lambda>t. Inr (put_va k (new_info t) c2)) else Inr c2)"
    unfolding ConnectToPeer_VideoAudio_def s0_def [symmetric] Let_def c1 rbind_Inr w prod.case
      s1_def [symmetric] c2_def [symmetric] by (rule refl)
  show ?thesis using assms(2) u2 unfolding eq by (auto simp: unheld_put rbind_eq_Inr split: if_splits)
qed

lemma connect_dc_unheld:
  assumes "conf_wf c" "unheld c" "ConnectToPeer_DataChannels k c = Inr c'"
  shows "unheld c'"
proof -
  obtain info where "mRemoteStreamInfos_DataChannels c' = AList.update k info (mRemoteStreamInfos_DataChannels c)"
    "mRemoteStreamInfos_VideoAudio c' = mRemoteStreamInfos_VideoAudio c"
    using connect_dc_ok [OF assms(1), of k] assms(3) by auto
  moreover have "mRemoteStreamInfos_DataChannels c'
      = AList.update k (new_info (Addr (dc_next c))) (mRemoteStreamInfos_DataChannels c)"
    using connect_streams [OF assms(3)] by blast
  ultimately show ?thesis
    using unheld_put(2) [OF assms(2), of "new_info (Addr (dc_next c))" k] by (simp add: unheld_def put_dc_def)
qed

lemma rsdp_unheld:
  assumes "conf_wf c" "unheld c" "onRetmoeSDP W k type sdp is_text c = Inr c'"
  shows "unheld c'"
proof (cases is_text)
  case True
  obtain c1 where c1: "(if map_of (mRemoteStreamInfos_DataChannels c) k = None then ConnectToPeer_DataChannels k c
      else Inr c) = Inr c1"
    using assms(3) True by (cases "if map_of (mRemoteStreamInfos_DataChannels c) k = None
      then ConnectToPeer_DataChannels k c else Inr c") (simp_all add: onRetmoeSDP_def)
  then have "unheld c1" using assms(1,2) connect_dc_unheld by (auto split: if_splits)
  then show ?thesis
    using assms(3) True c1
    by (cases "map_of (mRemoteStreamInfos_DataChannels c1) k") (auto simp: onRetmoeSDP_def rbind_eq_Inr)
next
  case False
  obtain c1 where c1: "(if map_of (mRemoteStreamInfos_VideoAudio c) k = None
      then ConnectToPeer_VideoAudio W k True False False c else Inr c) = Inr c1"
    using assms(3) False by (cases "if map_of (mRemoteStreamInfos_VideoAudio c) k = None
      then ConnectToPeer_VideoAudio W k True False False c else Inr c") (simp_all add: onRetmoeSDP_def)
  then have u: "unheld c1" using assms(2) connect_va_unheld by (auto split: if_splits)
  show ?thesis
  proof (cases "map_of (mRemoteStreamInfos_VideoAudio c1) k")
    case None
    with assms(3) False c1 u show ?thesis by (simp add: onRetmoeSDP_def)
  next
    case (Some info)
    obtain st where "c' = put_va k (info\<lparr>si_stream := st\<rparr>) c1"
      using assms(3) False c1 Some by (auto simp: onRetmoeSDP_def rbind_eq_Inr)
    with u unheld_lookup(1) [OF u Some] show ?thesis by (simp add: unheld_put)
  qed
qed

lemma release_unheld: "dc_release a c = Inr c' \<Longrightarrow> unheld c' = unheld c"
  by (auto dest!: release_streams)

lemma rremove_unheld:
  assumes "unheld c" "onRemoteStreamRemove k c = Inr c'"
  shows "unheld c'"
proof -
  define r where "r = (case map_of (mRemoteStreamInfos_VideoAudio c) k of None \<Rightarrow> Inr c
       | Some info \<Rightarrow>
           (let done = DisconnectPeer (GetHandleID (si_stream info)) in
            rbind (VA_destroy (DeletePeerConnection (si_stream info))) (\<lambda>_.
            Inr (c\<lparr>mRemoteStreamInfos_VideoAudio := AList.delete k (mRemoteStreamInfos_VideoAudio c)\<rparr>))))"
  obtain c1 where c1: "r = Inr c1"
    using assms(2) unfolding onRemoteStreamRemove_def r_def [symmetric] by (cases r) simp_all
  then have u: "unheld (c1\<lparr>mRemoteWinds := free_window k (mRemoteWinds c1)\<rparr>)"
    using assms(1) unheld_delete(1) [OF assms(1), of k] by (auto simp: r_def rbind_eq_Inr split: option.splits)
  let ?c = "c1\<lparr>mRemoteWinds := free_window k (mRemoteWinds c1)\<rparr>"
  show ?thesis
  proof (cases "map_of (mRemoteStreamInfos_DataChannels ?c) k")
    case None
    then have "c' = ?c"
      using assms(2) unfolding onRemoteStreamRemove_def r_def [symmetric] c1 by simp
    with u show ?thesis by simp
  next
    case (Some info)
    then obtain ob where "dc_release (si_stream info)
        ((dc_put (si_stream info) (ob\<lparr>do_stream := DeletePeerConnection (do_stream ob)\<rparr>) ?c)
          \<lparr>mRemoteStreamInfos_DataChannels := AList.delete k (mRemoteStreamInfos_DataChannels ?c)\<rparr>) = Inr c'"
      using assms(2) unfolding onRemoteStreamRemove_def r_def [symmetric] c1
      by (auto simp: rbind_eq_Inr Let_def dc_put_def)
    from release_unheld [OF this] unheld_delete(2) [OF u, of k] show ?thesis
      by (simp add: dc_put_def unheld_def)
  qed
qed

text \<open>The layer with both invariants is a client of the session too.\<close>

definition conf_flows :: "conf \<Rightarrow> bool" where
  "conf_flows c \<longleftrightarrow> conf_wf c \<and> unheld c"

lemma flows_case:
  assumes "case r of Inl e \<Rightarrow> F e | Inr c \<Rightarrow> conf_wf c" "\<And>c. r = Inr c \<Longrightarrow> unheld c"
  shows "case r of Inl e \<Rightarrow> F e | Inr c \<Rightarrow> conf_flows c"
  using assms by (cases r) (simp_all add: conf_flows_def)

interpretation flowing: room_client "ConnectToPeer_VideoAudio W" "onRetmoeSDP W" onRemoteStreamRemove
    conf_flows "conf_fault W" for W
proof
  fix c assume "conf_flows c"
  then have c: "conf_wf c" "unheld c" by (simp_all add: conf_flows_def)
  show "case ConnectToPeer_VideoAudio W h show_it conn loc c of Inl e \<Rightarrow> conf_fault W e | Inr c' \<Rightarrow> conf_flows c'"
    for h show_it conn loc
    by (rule flows_case [OF conference.connect_law [OF c(1)] connect_va_unheld [OF c(2)]])
  show "case onRetmoeSDP W h ty sdp is_text c of Inl e \<Rightarrow> conf_fault W e | Inr c' \<Rightarrow> conf_flows c'"
    for h ty sdp is_text
    by (rule flows_case [OF conference.rsdp_law [OF c(1)] rsdp_unheld [OF c]])
  show "case onRemoteStreamRemove h c of Inl e \<Rightarrow> conf_fault W e | Inr c' \<Rightarrow> conf_flows c'" for h
    by (rule flows_case [OF conference.rremove_law [OF c(1)] rremove_unheld [OF c(2)]])
qed

section \<open>Every step\<close>

abbreviation flow_ready :: "webrtc_env \<Rightarrow> session \<Rightarrow> bool" where
  "flow_ready W \<equiv> session_ready (ConnectToPeer_VideoAudio W) (onRetmoeSDP W) onRemoteStreamRemove conf_flows"

lemma flow_ready_iff: "flow_ready W s \<longleftrightarrow> conf_ready W s \<and> unheld (client s)"
  by (auto simp: session_ready_def conf_flows_def)

text \<open>What a signal may leave: a well-formed session with nothing held back.\<close>

definition flows_on :: "session res \<Rightarrow> bool" where
  "flows_on r \<longleftrightarrow> (\<forall>t. r = Inr t \<longrightarrow> janus_wf t \<and> unheld (client t))"

lemma flows_on_Inr [simp]: "flows_on (Inr t) \<longleftrightarrow> janus_wf t \<and> unheld (client t)"
  by (simp add: flows_on_def)

lemma flows_bind:
  "flows_on r \<Longrightarrow> (\<And>t. janus_wf t \<Longrightarrow> unheld (client t) \<Longrightarrow> flows_on (g t)) \<Longrightarrow> flows_on (rbind r g)"
  by (cases r) (auto simp: flows_on_def)

lemma good_flows: "good s r \<Longrightarrow> unheld (client s) \<Longrightarrow> flows_on r"
  by (auto simp: good_def clients_def)

lemma wf_up_conf [simp]: "janus_wf (s\<lparr>client := c\<rparr>) = janus_wf s"
  by (simp add: janus_wf_def owned_def)

lemma local_sdp_flows:
  assumes "janus_wf s" "unheld (client s)"
  shows "flows_on (onLocalSDP E i sdp type s)"
proof -
  have send: "flows_on (if b then JVRM_SendSDP E i sdp type t else Inr t)"
    if "janus_wf t" "unheld (client t)" for b t
    using that good_flows [OF SendSDP_good [OF that(1)]] by simp
  show ?thesis
    unfolding onLocalSDP_def Let_def
  proof (rule flows_bind)
    show "flows_on (case map_of (mRemoteStreamInfos_VideoAudio (client s)) i of None \<Rightarrow> Inr s
      | Some info \<Rightarrow> if canSendSDP (info\<lparr>si_sdp := sdp, si_sdpType := type\<rparr>)
          then JVRM_SendSDP E i sdp type (up_conf (put_va i (info\<lparr>si_sdp := sdp, si_sdpType := type\<rparr>)) s)
          else Inr (up_conf (put_va i (info\<lparr>si_sdp := sdp, si_sdpType := type\<rparr>)) s))"
    proof (cases "map_of (mRemoteStreamInfos_VideoAudio (client s)) i")
      case (Some info)
      then have "unheld (client (up_conf (put_va i (info\<lparr>si_sdp := sdp, si_sdpType := type\<rparr>)) s))"
        using unheld_lookup(1) [OF assms(2) Some] assms(2) by (simp add: unheld_put)
      with Some send assms(1) show ?thesis by simp
    qed (simp add: assms)
    show "flows_on (case map_of (mRemoteStreamInfos_DataChannels (client t)) i of None \<Rightarrow> Inr t
      | Some info \<Rightarrow> if canSendSDP (info\<lparr>si_sdp := sdp, si_sdpType := type\<rparr>)
          then JVRM_SendSDP E i sdp type (up_conf (put_dc i (info\<lparr>si_sdp := sdp, si_sdpType := type\<rparr>)) t)
          else Inr (up_conf (put_dc i (info\<lparr>si_sdp := sdp, si_sdpType := type\<rparr>)) t))"
      if t: "janus_wf t" "unheld (client t)" for t
    proof (cases "map_of (mRemoteStreamInfos_DataChannels (client t)) i")
      case (Some info)
      then have "unheld (client (up_conf (put_dc i (info\<lparr>si_sdp := sdp, si_sdpType := type\<rparr>)) t))"
        using unheld_lookup(2) [OF t(2) Some] t(2) by (simp add: unheld_put)
      with Some send t(1) show ?thesis by simp
    qed (simp add: t)
  qed
qed

text \<open>A candidate is sent as it comes, and leaves no trace in the layer.\<close>

lemma update_same: "map_of xs k = Some v \<Longrightarrow> AList.update k v xs = xs"
  by (induction xs) auto

lemma put_same:
  "map_of (mRemoteStreamInfos_VideoAudio c) k = Some i \<Longrightarrow> put_va k i c = c"
  "map_of (mRemoteStreamInfos_DataChannels c) k = Some j \<Longrightarrow> put_dc k j c = c"
  by (simp_all add: put_va_def put_dc_def update_same)

lemma keep_list: "iceCandidateList i = [] \<Longrightarrow> i\<lparr>iceCandidateList := []\<rparr> = i"
  by (cases i) simp

lemma send_candidate_client:
  assumes "janus_wf s"
  obtains t where "JVRM_SendCandidate E i mid idx cand s = Inr t" "janus_wf t" "client t = client s"
  using SendCandidate_good [OF assms, of E i mid idx cand] that by (auto simp: good_def clients_def)

lemma video_candidate_at_once:
  assumes "conf_ready W s" "unheld (client s)"
  obtains t where "(case map_of (mRemoteStreamInfos_VideoAudio (client s)) i of None \<Rightarrow> Inr s
       | Some info \<Rightarrow> rbind (if canSendCandidate info
            then sendICEs E (GetHandleID (si_stream info))
              (iceCandidateList info @ [\<lparr>ice_sdp_mid = mid, ice_sdp_mline_index = idx, ice_sdp = cand\<rparr>]) s
            else Inr (iceCandidateList info @ [\<lparr>ice_sdp_mid = mid, ice_sdp_mline_index = idx, ice_sdp = cand\<rparr>], s))
          (\<lambda>(pending, s). Inr (up_conf (put_va i (info\<lparr>iceCandidateList := pending\<rparr>)) s))) = Inr t"
    "(case map_of (mRemoteStreamInfos_VideoAudio (client s)) i of None \<Rightarrow> Inr s
      | Some _ \<Rightarrow> JVRM_SendCandidate E i mid idx cand s) = Inr t" "janus_wf t" "client t = client s"
proof (cases "map_of (mRemoteStreamInfos_VideoAudio (client s)) i")
  case None
  with that [of s] conference.ready_wf [OF assms(1)] show ?thesis by simp
next
  case (Some info)
  let ?new = "\<lparr>ice_sdp_mid = mid, ice_sdp_mline_index = idx, ice_sdp = cand\<rparr>"
  obtain t where t: "JVRM_SendCandidate E i mid idx cand s = Inr t" "janus_wf t" "client t = client s"
    by (rule send_candidate_client [OF conference.ready_wf [OF assms(1)]])
  have f: "iceCandidateList info = []" "canSendCandidate info" "GetHandleID (si_stream info) = i"
    using unheld_lookup(1) [OF assms(2) Some] conf_wf_va(2) [OF ready_conf [OF assms(1)] Some]
    by (simp_all add: unheld_info_def GetHandleID_def)
  have "rbind (sendICEs E i [?new] s) (\<lambda>(pending, s).
      Inr (up_conf (put_va i (info\<lparr>iceCandidateList := pending\<rparr>)) s))
    = Inr (up_conf (put_va i (info\<lparr>iceCandidateList := []\<rparr>)) t)" by (simp add: t(1))
  also have "\<dots> = Inr t" using keep_list [OF f(1)] put_same(1) Some t(3) by simp
  finally show ?thesis
    by (intro that [of t]) (use t in \<open>simp_all add: Some f del: sendICEs.simps\<close>)
qed

lemma candidate_at_once:
  assumes "conf_ready W s" "unheld (client s)"
  shows "onLocalIceCandidate E i mid idx cand s =
    rbind (case map_of (mRemoteStreamInfos_VideoAudio (client s)) i of None \<Rightarrow> Inr s
        | Some _ \<Rightarrow> JVRM_SendCandidate E i mid idx cand s) (\<lambda>t.
    case map_of (mRemoteStreamInfos_DataChannels (client s)) i of None \<Rightarrow> Inr t
      | Some _ \<Rightarrow> JVRM_SendCandidate E i mid idx cand t)"
proof -
  note wf = ready_conf [OF assms(1)]
  let ?new = "\<lparr>ice_sdp_mid = mid, ice_sdp_mline_index = idx, ice_sdp = cand\<rparr>"
  define first where "first = (case map_of (mRemoteStreamInfos_VideoAudio (client s)) i of None \<Rightarrow> Inr s
       | Some info \<Rightarrow> rbind (if canSendCandidate info
            then sendICEs E (GetHandleID (si_stream info)) (iceCandidateList info @ [?new]) s
            else Inr (iceCandidateList info @ [?new], s)) (\<lambda>(pending, s).
            Inr (up_conf (put_va i (info\<lparr>iceCandidateList := pending\<rparr>)) s)))"
  obtain t where t: "first = Inr t" "(case map_of (mRemoteStreamInfos_VideoAudio (client s)) i of None \<Rightarrow> Inr s
      | Some _ \<Rightarrow> JVRM_SendCandidate E i mid idx cand s) = Inr t" "janus_wf t" "client t = client s"
    unfolding first_def by (rule video_candidate_at_once [OF assms])
  have run: "onLocalIceCandidate E i mid idx cand s = (case map_of (mRemoteStreamInfos_DataChannels (client t)) i of
      None \<Rightarrow> Inr t | Some info \<Rightarrow> rbind (dc_get (si_stream info) (client t)) (\<lambda>ob.
        rbind (if canSendCandidate info then sendICEs E (GetHandleID (do_stream ob)) (iceCandidateList info @ [?new]) t
            else Inr (iceCandidateList info @ [?new], t)) (\<lambda>(pending, s).
          Inr (up_conf (put_dc i (info\<lparr>iceCandidateList := pending\<rparr>)) s))))"
    unfolding onLocalIceCandidate_def Let_def first_def [symmetric] t(1) rbind_Inr by (rule refl)
  show ?thesis
  proof (cases "map_of (mRemoteStreamInfos_DataChannels (client s)) i")
    case None
    then show ?thesis by (simp add: run t)
  next
    case (Some info)
    note u = unheld_lookup(2) [OF assms(2) Some]
    obtain ob where ob: "dc_get (si_stream info) (client t) = Inr ob" "mHandleID (do_stream ob) = i"
      using conf_wf_dc [OF wf Some] t(4) by auto
    obtain v where v: "JVRM_SendCandidate E i mid idx cand t = Inr v" "client v = client t"
      by (rule send_candidate_client [OF t(3)])
    have f: "iceCandidateList info = []" "canSendCandidate info" "GetHandleID (do_stream ob) = i"
      using u ob(2) by (simp_all add: unheld_info_def GetHandleID_def)
    have "onLocalIceCandidate E i mid idx cand s = rbind (sendICEs E i [?new] t) (\<lambda>(pending, s).
        Inr (up_conf (put_dc i (info\<lparr>iceCandidateList := pending\<rparr>)) s))"
      by (simp add: run t(4) Some ob(1) [unfolded t(4)] f del: sendICEs.simps)
    also have "\<dots> = Inr (up_conf (put_dc i (info\<lparr>iceCandidateList := []\<rparr>)) v)" by (simp add: v(1))
    also have "\<dots> = Inr v" using keep_list [OF f(1)] put_same(2) Some v(2) t(4) by simp
    finally have "onLocalIceCandidate E i mid idx cand s = Inr v" .
    then show ?thesis by (simp add: t(2) Some v(1))
  qed
qed

lemma candidate_flows:
  assumes "flow_ready W s"
  shows "flows_on (onLocalIceCandidate E i mid idx cand s)"
proof -
  have r: "conf_ready W s" "unheld (client s)" using assms by (simp_all add: flow_ready_iff)
  have send: "flows_on (JVRM_SendCandidate E i mid idx cand t)" if "janus_wf t" "unheld (client t)" for t
    using good_flows [OF SendCandidate_good [OF that(1)] that(2)] .
  show ?thesis
    unfolding candidate_at_once [OF r]
    by (rule flows_bind) (auto simp: send conference.ready_wf [OF r(1)] r(2) split: option.splits)
qed

lemma signal_flows:
  assumes "flow_ready W s"
  shows "flows_on (run_signal E sg s)"
proof -
  have "janus_wf s" "unheld (client s)" using assms by (auto simp: flow_ready_iff conference.ready_wf)
  then show ?thesis
    by (cases sg) (simp_all add: candidate_flows [OF assms] onIceGatheringComplete_def local_sdp_flows)
qed

lemma channel_flows:
  assumes "unheld (client s)" "channel_changed E a state s = Inr s'"
  shows "unheld (client s')"
proof -
  obtain ob where ob: "dc_get a (client s) = Inr ob" using assms(2) by (auto simp: channel_changed_def rbind_eq_Inr)
  obtain st t where step: "DC_OnStateChange (run_conf_slot E) (channel_state state (do_stream ob)) s = (st, t)"
    by fastforce
  have "s' = up_conf (dc_put a (ob\<lparr>do_stream := st\<rparr>)) t"
    using assms(2) by (simp add: channel_changed_def ob step)
  note step = step this
  have "client t = client s" using state_change_keeps [OF step(1)] by auto
  with step(2) assms(1) show ?thesis by simp
qed

lemma on_stream_flows:
  assumes "unheld (client s)" "on_stream k f s = Inr s'"
  shows "unheld (client s')"
proof (cases "map_of (mRemoteStreamInfos_VideoAudio (client s)) k")
  case None
  with assms show ?thesis by (simp add: on_stream_def)
next
  case (Some info)
  with assms(2) obtain st where "s' = up_conf (put_va k (info\<lparr>si_stream := st\<rparr>)) s"
    by (auto simp: on_stream_def rbind_eq_Inr)
  with unheld_lookup(1) [OF assms(1) Some] assms(1) show ?thesis by (simp add: unheld_put)
qed

lemma leave_flows:
  assumes "flow_ready W s" "leave_video_room s = Inr s'"
  shows "unheld (client s')"
proof -
  have r: "conf_ready W s" "unheld (client s)" using assms(1) by (simp_all add: flow_ready_iff)
  obtain c where c: "Conf_LeaveVideoRoom (client s) = Inr c" "JVRM_LeaveVideoRoom (s\<lparr>client := c\<rparr>) = Inr s'"
    using assms(2) by (auto simp: leave_video_room_def rbind_eq_Inr)
  from c(1) have eq: "c = (client s)\<lparr>mRemoteWinds := map (\<lambda>wind. (fst wind, 0)) (mRemoteWinds (client s)), mRemoteStreamInfos_VideoAudio := []\<rparr>"
    using leave_video_eq [OF ready_conf [OF r(1)]] by (auto split: if_splits)
  have "conf_wf c" unfolding eq by (rule leave_video_wf [OF ready_conf [OF r(1)]])
  moreover have "unheld c" using r(2) by (simp add: eq unheld_def)
  ultimately have "flow_ready W (s\<lparr>client := c\<rparr>)"
    using client_outcome [OF r(1), of c] by (simp add: flow_ready_iff conference.outcome_Inr)
  moreover have "leaves CallLeaveVideoRoom" by (simp add: leaves_def)
  ultimately obtain t where "JVRM_LeaveVideoRoom (s\<lparr>client := c\<rparr>) = Inr t" "flow_ready W t"
    using flowing.leave_outcome [of W "s\<lparr>client := c\<rparr>" CallLeaveVideoRoom] by auto
  with c(2) show ?thesis by (simp add: flow_ready_iff)
qed

lemma step_flows:
  assumes "conf_step E s e (Inr s')" "flow_ready W s"
  shows "flow_ready W s'"
proof -
  have r: "conf_ready W s" "unheld (client s)" using assms(2) by (simp_all add: flow_ready_iff)
  have "conf_ready W s'" using conf_step_result [OF assms(1) r(1)] by (simp add: step_result_def)
  moreover have "unheld (client s')"
    using assms(1)
  proof (cases rule: conf_step.cases)
    case (message e')
    from flowing.step_outcome [OF message(2) assms(2)] show ?thesis by (simp add: flow_ready_iff)
  next
    case (emitted sg)
    with signal_flows [OF assms(2), of E sg] show ?thesis by simp
  next
    case (channel a state)
    with channel_flows [OF r(2)] show ?thesis by blast
  next
    case (left)
    with leave_flows [OF assms(2)] show ?thesis by blast
  qed (use on_stream_flows [OF r(2)] r(2) in auto)
  ultimately show ?thesis by (simp add: flow_ready_iff)
qed

lemma run_flows: "conf_run E s es r \<Longrightarrow> r = Inr s' \<Longrightarrow> flow_ready W s \<Longrightarrow> flow_ready W s'"
  by (induction rule: conf_run.induct) (auto dest: step_flows)

lemma start_flows: "flow_ready W (conf_start W sd (Conf_new jw jr av))"
  by (simp add: flow_ready_iff conf_start_ready) (simp add: conf_start_def session_start_wf(4) unheld_new)

text \<open>
  C18: at every moment the streams may send and no candidate waits; so a candidate a stream
  reports is handed to the session at once, once for each table that has its handle, and
  the conference layer is left as it was.
\<close>

theorem no_candidate_waits:
  assumes "conf_run E (conf_start W sd (Conf_new jw jr av)) es (Inr s)"
  shows "(\<forall>(k, i) \<in> set (mRemoteStreamInfos_VideoAudio (client s)). iceCandidateList i = [] \<and> canSendSDP i \<and> canSendCandidate i)
    \<and> (\<forall>(k, i) \<in> set (mRemoteStreamInfos_DataChannels (client s)). iceCandidateList i = [] \<and> canSendSDP i \<and> canSendCandidate i)
    \<and> run_signal E' (LocalIceCandidate h mid idx cand) s =
        rbind (if map_of (mRemoteStreamInfos_VideoAudio (client s)) h = None then Inr s
            else JVRM_SendCandidate E' h mid idx cand s) (\<lambda>t.
        if map_of (mRemoteStreamInfos_DataChannels (client s)) h = None then Inr t
        else JVRM_SendCandidate E' h mid idx cand t)"
proof -
  have r: "conf_ready W s" "unheld (client s)"
    using run_flows [OF assms refl start_flows] by (simp_all add: flow_ready_iff)
  have "run_signal E' (LocalIceCandidate h mid idx cand) s =
      rbind (if map_of (mRemoteStreamInfos_VideoAudio (client s)) h = None then Inr s
            else JVRM_SendCandidate E' h mid idx cand s) (\<lambda>t.
        if map_of (mRemoteStreamInfos_DataChannels (client s)) h = None then Inr t
        else JVRM_SendCandidate E' h mid idx cand t)"
    using candidate_at_once [OF r, of E' h mid idx cand]
    by (cases "map_of (mRemoteStreamInfos_VideoAudio (client s)) h";
        cases "map_of (mRemoteStreamInfos_DataChannels (client s)) h") simp_all
  then show ?thesis using r(2) by (auto simp: unheld_def unheld_info_def)
qed

theorem no_candidate_waits_witness:
  "\<exists>s. conf_run (ex_env [] JNull) ex_conf_start ex_events (Inr s)
    \<and> run_signal (ex_env [] JNull) (LocalIceCandidate 9 ''0'' 0 ''c'') s = Inr s"
proof -
  obtain s where s: "conf_run (ex_env [] JNull) ex_conf_start ex_events (Inr s)"
    "mRemoteStreamInfos_VideoAudio (client s) = []" "mRemoteStreamInfos_DataChannels (client s) = []"
    using ex_conf_run by blast
  from no_candidate_waits [OF s(1) [unfolded ex_conf_start_def], of "ex_env [] JNull" 9 "''0''" 0 "''c''"] s
  show ?thesis by auto
qed

end
