(* ===== verification/Remote_Tracks.thy ===== *)
theory Remote_Tracks
  imports Webrtc_Streams Shared_Pointers
begin

text \<open>
  \<^verbatim>\<open>WebrtcStreamVideoAudio::OnAddTrack\<close>, \<^verbatim>\<open>OnRemoveTrack\<close> and \<^verbatim>\<open>StopView\<close> with the references
  they take. \<open>Webrtc_Streams\<close> keeps the number of the track; here the track is a counted
  object of webrtc besides, which its receiver holds too.
  \<^verbatim>\<open>receiver->track()\<close> gives a copy of the receiver's pointer, and \<^verbatim>\<open>release()\<close> takes the
  bare pointer out of that copy without giving its reference back.
\<close>

section \<open>The pointers\<close>

text \<open>
  A track is a counted object that tells whether it is video; \<open>dtor\<close> is its destructor, which
  is webrtc's. The number of a track is its address.
\<close>

definition track_ptr :: "va_stream \<Rightarrow> refptr" where
  "track_ptr st = map_option Addr (mVideoTrack st)"

definition set_track ::
  "(bool \<Rightarrow> unit res) \<Rightarrow> refptr \<Rightarrow> va_stream \<times> bool store \<Rightarrow> (va_stream \<times> bool store) res" where
  "set_track dtor p = (\<lambda>(st, s). rbind (refptr_assign_raw dtor (track_ptr st) p s) (\<lambda>(p, s).
     Inr (st\<lparr>mVideoTrack := map_option addr_index p\<rparr>, s)))"

definition released_track :: "refptr \<Rightarrow> bool store \<Rightarrow> (refptr \<times> bool store) res" where
  "released_track track s = rbind (refptr_copy track s) (\<lambda>(tmp, s).
     let (retVal, tmp) = refptr_release tmp in Inr (retVal, s))"

definition bare_kind :: "refptr \<Rightarrow> bool store \<Rightarrow> bool res" where
  "bare_kind p s = (case p of None \<Rightarrow> Inl NullDereference | Some a \<Rightarrow> rbind (obj_at a s) (\<lambda>ob. Inr (payload ob)))"

definition OnAddTrack_refs ::
  "(bool \<Rightarrow> unit res) \<Rightarrow> refptr \<Rightarrow> va_stream \<times> bool store \<Rightarrow> (va_stream \<times> bool store) res" where
  "OnAddTrack_refs dtor track = (\<lambda>(st, s).
     rbind (released_track track s) (\<lambda>(p, s).
     rbind (bare_kind p s) (\<lambda>is_video.
     if is_video then
       if \<not> mIsLocal st then
         rbind (released_track track s) (\<lambda>(video_track, s).
         rbind (set_track dtor video_track (st, s)) (\<lambda>(st, s). Inr (StartView st, s)))
       else Inr (st, s)
     else Inr (st, s))))"

definition StopView_refs :: "(bool \<Rightarrow> unit res) \<Rightarrow> va_stream \<times> bool store \<Rightarrow> (va_stream \<times> bool store) res" where
  "StopView_refs dtor = (\<lambda>(st, s). case mVideoTrack st of None \<Rightarrow> Inr (st, s)
     | Some t \<Rightarrow>
         rbind (set_track dtor None (st\<lparr>track_calls := track_calls st @ [RemoveSink t]\<rparr>, s)) (\<lambda>(st, s).
         rbind (render_SetWindowID (-1) st) (\<lambda>st. Inr (st, s))))"

definition OnRemoveTrack_refs ::
  "(bool \<Rightarrow> unit res) \<Rightarrow> refptr \<Rightarrow> va_stream \<times> bool store \<Rightarrow> (va_stream \<times> bool store) res" where
  "OnRemoveTrack_refs dtor track = (\<lambda>(st, s).
     if \<not> mIsLocal st then
       rbind (released_track track s) (\<lambda>(p, s).
       rbind (bare_kind p s) (\<lambda>is_video.
       rbind (if is_video
              then rbind (released_track track s) (\<lambda>(video_track, s). StopView_refs dtor (st, s))
              else Inr (st, s)) (\<lambda>(st, s).
       rbind (released_track track s) (\<lambda>(p, s).
       case p of None \<Rightarrow> Inl NullDereference
       | Some a \<Rightarrow> rbind (Release dtor a s) (\<lambda>(status, s). Inr (st, s))))))
     else Inr (st, s))"

section \<open>What is left of the references\<close>

text \<open>A pointer that is taken out of a temporary is one more holder, for ever.\<close>

lemma released_exact:
  assumes "counts_exact H s" "a \<in># H" "Suc (size H) < 2 ^ 32" "payloads s a = Some v"
  shows "\<exists>t. released_track (Some a) s = Inr (Some a, t) \<and> counts_exact (add_mset a H) t
    \<and> payloads t = payloads s \<and> bare_kind (Some a) t = Inr v"
proof -
  obtain t where t: "AddRef a s = Inr t" "counts_exact (add_mset a H) t" using AddRef_exact [OF assms(1-3)] by blast
  then have "payloads t = payloads s" using AddRef_if_keeps [of "Some a" s t] by (simp add: AddRef_if_def)
  moreover from this assms(4) have "payloads t a = Some v" by simp
  then have "bare_kind (Some a) t = Inr v"
    by (auto simp: bare_kind_def obj_at_def payloads_def)
  ultimately show ?thesis
    using t by (simp add: released_track_def refptr_copy_def refptr_of_def refptr_get_def AddRef_if_def refptr_release_def)
qed

lemma add_track_exact:
  assumes "counts_exact H s" "a \<in># H" "size H + 3 < 2 ^ 32" "payloads s a = Some v" "\<forall>x. dtor x = Inr ()"
    and "mVideoTrack st = None"
  shows "\<exists>t. OnAddTrack_refs dtor (Some a) (st, s) = Inr (VA_OnAddTrack v (addr_index a) st, t)
    \<and> payloads t = payloads s
    \<and> counts_exact (replicate_mset (if v \<and> \<not> mIsLocal st then 3 else 1) a + H) t"
proof -
  have "Suc (size H) < 2 ^ 32" using assms(3) by simp
  from released_exact [OF assms(1,2) this assms(4)] obtain t1 where t1:
    "released_track (Some a) s = Inr (Some a, t1)" "counts_exact (add_mset a H) t1"
    "payloads t1 = payloads s" "bare_kind (Some a) t1 = Inr v" by blast
  show ?thesis
  proof (cases "v \<and> \<not> mIsLocal st")
    case False
    then show ?thesis using t1 by (auto simp: OnAddTrack_refs_def VA_OnAddTrack_def)
  next
    case True
    have in1: "a \<in># add_mset a H" "Suc (size (add_mset a H)) < 2 ^ 32" "payloads t1 a = Some v"
      using assms(3,4) by (simp_all add: t1(3))
    from released_exact [OF t1(2) in1] obtain t2 where t2:
      "released_track (Some a) t1 = Inr (Some a, t2)" "counts_exact (add_mset a (add_mset a H)) t2" "payloads t2 = payloads s"
      using t1(3) by auto
    have "Suc (size (add_mset a (add_mset a H))) < 2 ^ 32" using assms(3) by simp
    from AddRef_exact [OF t2(2) _ this, of a] obtain t3 where t3:
      "AddRef a t2 = Inr t3" "counts_exact (add_mset a (add_mset a (add_mset a H))) t3" by auto
    then have "payloads t3 = payloads s" using AddRef_if_keeps [of "Some a" t2 t3] t2(3) by (simp add: AddRef_if_def)
    then show ?thesis
      using True t1 t2 t3 assms(6)
      by (simp add: OnAddTrack_refs_def VA_OnAddTrack_def set_track_def track_ptr_def refptr_assign_raw_def
          AddRef_if_def Release_if_def numeral_3_eq_3)
  qed
qed

text \<open>What the two functions of a track that comes and goes leave behind.\<close>

definition left_behind :: "bool \<Rightarrow> bool \<Rightarrow> nat" where
  "left_behind isLocal is_video = (if isLocal then 1 else if is_video then 4 else 2)"

lemma remove_track_exact:
  assumes "counts_exact (opt_mset (track_ptr st) + H) s" "a \<in># H" "size H + 5 < 2 ^ 32" "payloads s a = Some v"
    and "\<forall>x. dtor x = Inr ()" "track_ptr st = (if v \<and> \<not> mIsLocal st then Some a else None)"
    and "VA_OnRemoveTrack v st = Inr st'"
  shows "\<exists>t. OnRemoveTrack_refs dtor (Some a) (st, s) = Inr (st', t)
    \<and> counts_exact (replicate_mset (if mIsLocal st then 0 else if v then 2 else 1) a + H) t"
proof (cases "mIsLocal st")
  case True
  with assms show ?thesis by (simp add: OnRemoveTrack_refs_def VA_OnRemoveTrack_def)
next
  case remote: False
  let ?K = "opt_mset (track_ptr st) + H"
  have room: "size ?K + 4 < 2 ^ 32" using assms(3) by (cases "track_ptr st") auto
  have "Suc (size ?K) < 2 ^ 32" "a \<in># ?K" using room assms(2) by auto
  from released_exact [OF assms(1) this(2,1) assms(4)] obtain t1 where t1:
    "released_track (Some a) s = Inr (Some a, t1)" "counts_exact (add_mset a ?K) t1"
    "payloads t1 = payloads s" "bare_kind (Some a) t1 = Inr v" by blast
  define K2 where "K2 = (if v then add_mset a (add_mset a H) else add_mset a H)"
  obtain t2 where t2: "counts_exact K2 t2" "payloads t2 a = Some v"
    "(if v then rbind (released_track (Some a) t1) (\<lambda>(video_track, s). StopView_refs dtor (st, s)) else Inr (st, t1)) = Inr (st', t2)"
  proof (cases v)
    case False
    with that [of t1] t1 assms(4,6,7) remote show ?thesis by (simp add: K2_def VA_OnRemoveTrack_def)
  next
    case True
    then have p: "track_ptr st = Some a" using remote assms(6) by simp
    then have n: "mVideoTrack st = Some (addr_index a)" by (auto simp: track_ptr_def)
    have in1: "a \<in># add_mset a ?K" "Suc (size (add_mset a ?K)) < 2 ^ 32" "payloads t1 a = Some v"
      using room assms(4) by (simp_all add: t1(3))
    from released_exact [OF t1(2) in1] obtain u where u:
      "released_track (Some a) t1 = Inr (Some a, u)" "counts_exact (add_mset a (add_mset a ?K)) u" "payloads u a = Some v"
      using in1(3) by auto
    have "counts_exact (opt_mset (Some a) + K2) u" using u(2) True by (simp add: K2_def p)
    from Release_if_exact [OF this assms(5)] obtain w where w: "Release_if dtor (Some a) u = Inr w" "counts_exact K2 w"
      by blast
    from w(2) have "objs w a \<noteq> None" by (auto simp: K2_def True elim: counts_exactD [where a = a])
    then have "payloads w a = Some v" using Release_if_keeps [OF w(1)] u(3)
      by (auto simp: payloads_def map_le_def dom_def)
    with that [of w] w True u(1) show ?thesis
      using assms(7) p n remote
      by (simp add: StopView_refs_def set_track_def track_ptr_def refptr_assign_raw_def AddRef_if_def
          VA_OnRemoveTrack_def StopView_def)
  qed
  have in2: "a \<in># K2" "Suc (size K2) < 2 ^ 32" using assms(3) by (auto simp: K2_def)
  from released_exact [OF t2(1) in2 t2(2)] obtain t3 where t3:
    "released_track (Some a) t2 = Inr (Some a, t3)" "counts_exact (add_mset a K2) t3" by blast
  from Release_exact [OF t3(2) assms(5)] obtain st t4 where t4: "Release dtor a t3 = Inr (st, t4)" "counts_exact K2 t4"
    by blast
  have "K2 = replicate_mset (if v then 2 else 1) a + H" by (simp add: K2_def numeral_2_eq_2)
  then show ?thesis
    using remote t1(1,4) t2(3) t3(1) t4 by (auto simp: OnRemoveTrack_refs_def)
qed

text \<open>Everyone else lets go.\<close>

lemma release_all_exact:
  "counts_exact (K + mset as) s \<Longrightarrow> \<forall>x. dtor x = Inr () \<Longrightarrow>
   \<exists>t. rfold (refptr_destroy dtor) (map Some as) s = Inr t \<and> counts_exact K t"
proof (induction as arbitrary: s)
  case (Cons a as)
  then have "counts_exact (opt_mset (Some a) + (K + mset as)) s" by simp
  from Release_if_exact [OF this Cons.prems(2)] obtain u where
    u: "Release_if dtor (Some a) s = Inr u" "counts_exact (K + mset as) u" by blast
  from Cons.IH [OF u(2) Cons.prems(2)] u(1) show ?case by (simp add: refptr_destroy_def)
qed simp

text \<open>A stream that takes a track and loses it again holds none.\<close>

lemma track_comes_and_goes:
  assumes "mVideoTrack st = None"
  shows "track_ptr (VA_OnAddTrack v (addr_index a) st) = (if v \<and> \<not> mIsLocal st then Some a else None)"
    "mIsLocal (VA_OnAddTrack v n st) = mIsLocal st"
    "\<exists>st'. VA_OnRemoveTrack v (VA_OnAddTrack v n st) = Inr st' \<and> mVideoTrack st' = None"
  using assms
  by (auto simp: VA_OnAddTrack_def VA_OnRemoveTrack_def StartView_def StopView_def render_SetWindowID_def track_ptr_def)

text \<open>
  C14: a track that comes and goes is never freed. After \<^verbatim>\<open>OnAddTrack\<close> and \<^verbatim>\<open>OnRemoveTrack\<close> the
  stream holds no track any more, but the count of the track is four too high for a remote
  video track, two for a remote audio track and one for a track of a local stream: each
  \<^verbatim>\<open>receiver->track().release()\<close> takes a reference, and one of them is given back. When all
  others that hold the track let go of it, it is still alive.
\<close>

theorem tracks_are_leaked:
  assumes "counts_exact (mset as) s" "a \<in> set as" "length as + 8 < 2 ^ 32" "payloads s a = Some is_video"
    and "\<forall>x. dtor x = Inr ()" "mVideoTrack st = None"
  shows "\<exists>st' t u. rbind (OnAddTrack_refs dtor (Some a) (st, s)) (OnRemoveTrack_refs dtor (Some a)) = Inr (st', t)
    \<and> VA_OnRemoveTrack is_video (VA_OnAddTrack is_video (addr_index a) st) = Inr st' \<and> mVideoTrack st' = None
    \<and> map_option (unat \<circ> ref_cell) (objs t a) = Some (count_list as a + left_behind (mIsLocal st) is_video)
    \<and> rfold (refptr_destroy dtor) (map Some as) t = Inr u
    \<and> map_option (unat \<circ> ref_cell) (objs u a) = Some (left_behind (mIsLocal st) is_video)"
proof -
  let ?st = "VA_OnAddTrack is_video (addr_index a) st"
  let ?L = "replicate_mset (if is_video \<and> \<not> mIsLocal st then 2 else 1) a"
  let ?R = "replicate_mset (if mIsLocal st then 0 else if is_video then 2 else 1) a"
  let ?left = "replicate_mset (left_behind (mIsLocal st) is_video) a"
  note goes = track_comes_and_goes [OF assms(6), of is_video]
  obtain st' where st': "VA_OnRemoveTrack is_video ?st = Inr st'" "mVideoTrack st' = None" using goes(3) by blast
  have ptr: "track_ptr ?st = (if is_video \<and> \<not> mIsLocal ?st then Some a else None)" using goes by simp
  have a: "a \<in># mset as" and room: "size (mset as) + 3 < 2 ^ 32" using assms(2,3) by simp_all
  obtain t1 where t1: "OnAddTrack_refs dtor (Some a) (st, s) = Inr (?st, t1)" "payloads t1 a = Some is_video"
    "counts_exact (replicate_mset (if is_video \<and> \<not> mIsLocal st then 3 else 1) a + mset as) t1"
    using add_track_exact [OF assms(1) a room assms(4-6)] assms(4) by auto
  have eq: "replicate_mset (if is_video \<and> \<not> mIsLocal st then 3 else 1) a + mset as = opt_mset (track_ptr ?st) + (?L + mset as)"
    by (simp add: multiset_eq_iff ptr goes(2))
  from t1(3) have ex: "counts_exact (opt_mset (track_ptr ?st) + (?L + mset as)) t1" unfolding eq .
  have "a \<in># ?L + mset as" "size (?L + mset as) + 5 < 2 ^ 32" using a assms(3) by auto
  from remove_track_exact [OF ex this t1(2) assms(5) ptr st'(1)] obtain t where
    t: "OnRemoveTrack_refs dtor (Some a) (?st, t1) = Inr (st', t)" "counts_exact (?R + (?L + mset as)) t"
    unfolding goes(2) by blast
  have eq: "?R + (?L + mset as) = ?left + mset as"
    by (simp add: left_behind_def multiset_eq_iff)
  from t(2) have ex2: "counts_exact (?left + mset as) t" unfolding eq .
  obtain u where u: "rfold (refptr_destroy dtor) (map Some as) t = Inr u" "counts_exact ?left u"
    using release_all_exact [OF ex2 assms(5)] by blast
  have in_left: "a \<in># ?left" by (simp add: left_behind_def)
  obtain ob ob' where "objs t a = Some ob" "unat (ref_cell ob) = count (?left + mset as) a"
    "objs u a = Some ob'" "unat (ref_cell ob') = count ?left a"
    using counts_exactD [OF ex2, of a] counts_exactD [OF u(2), of a] in_left a by (metis union_iff)
  then show ?thesis using t1(1) t(1) u(1) st' by (simp add: count_mset add.commute)
qed

text \<open>A remote video track that only its receiver holds.\<close>

definition ex_track :: "bool store" where
  "ex_track = \<lparr>objs = [Addr 0 \<mapsto> \<lparr>payload = True, ref_cell = 1\<rparr>], next_obj = 1\<rparr>"

theorem tracks_are_leaked_witness:
  "\<exists>st' t u. rbind (OnAddTrack_refs (\<lambda>x. Inr ()) (Some (Addr 0)) (VA_new 99 7, ex_track))
        (OnRemoveTrack_refs (\<lambda>x. Inr ()) (Some (Addr 0))) = Inr (st', t) \<and> mVideoTrack st' = None
    \<and> map_option (unat \<circ> ref_cell) (objs t (Addr 0)) = Some 5
    \<and> rfold (refptr_destroy (\<lambda>x. Inr ())) [Some (Addr 0)] t = Inr u
    \<and> map_option (unat \<circ> ref_cell) (objs u (Addr 0)) = Some 4"
proof -
  have "counts_exact (mset [Addr 0]) ex_track" by (simp add: counts_exact_def ex_track_def)
  from tracks_are_leaked [OF this, of "Addr 0" True "\<lambda>x. Inr ()" "VA_new 99 7"] show ?thesis
    by (auto simp: ex_track_def payloads_def left_behind_def VA_new_def)
qed

end
