(* ===== verification/Janus_Feeds.thy ===== *)
theory Janus_Feeds
  imports Janus_Protocol
begin

text \<open>
  What the video room looks like from outside: the roster, the list of the publishers that
  the session subscribes to, in the order of its peers, with a zero for each peer of its own.
  The peers, their addresses, the heap and the callbacks refine this list: each operation of
  the session does to the roster what the abstract operation does.
\<close>

section \<open>The roster\<close>

datatype roster_op =
    Joined                  \<comment> \<open>the session joins the room itself\<close>
  | Listed "i64 list"       \<comment> \<open>the server lists publishers\<close>
  | Gone i64                \<comment> \<open>a publisher stops\<close>
  | RoomClosed

fun roster_do :: "roster_op \<Rightarrow> i64 list \<Rightarrow> i64 list" where
  "roster_do Joined xs = xs @ [0]"
| "roster_do (Listed ids) xs = xs @ filter (\<lambda>i. 0 < sint i) ids"
| "roster_do (Gone i) xs = (if i = 0 then xs else remove1 i xs)"
| "roster_do RoomClosed xs = []"

text \<open>The abstraction.\<close>

definition subscribed :: "'c janus \<Rightarrow> addr \<Rightarrow> i64" where
  "subscribed s a = (case heap s a of None \<Rightarrow> 0 | Some p \<Rightarrow> mSubscribeId p)"

definition roster :: "'c janus \<Rightarrow> i64 list" where
  "roster s = map (subscribed s) (mVideoRoomPeerList s)"

text \<open>The identifiers of the publishers that a message lists, and the one it says is gone.\<close>

definition listed_ids :: "janus_env \<Rightarrow> json \<Rightarrow> i64 list" where
  "listed_ids E v = map (\<lambda>w. JsonValueToLongLong (je_json E) w ''id'')
     (snd (JsonArrayToValueVector (snd (GetValueFromJsonObject (plugin_data v) ''publishers'' JNull))))"

definition gone_id :: "janus_env \<Rightarrow> json \<Rightarrow> i64" where
  "gone_id E v = JsonValueToLongLong (je_json E) (plugin_data v) ''unpublished''"

lemma publisher_ids_listed: "publisher_ids E v = filter (\<lambda>i. 0 < sint i) (listed_ids E v)"
  by (simp add: publisher_ids_def positive_ids_def listed_ids_def)

section \<open>Each operation\<close>

lemma roster_cong:
  "mVideoRoomPeerList s' = mVideoRoomPeerList s \<Longrightarrow>
   (\<And>a. a \<in> set (mVideoRoomPeerList s) \<Longrightarrow> subscribed s' a = subscribed s a) \<Longrightarrow> roster s' = roster s"
  by (simp add: roster_def)

text \<open>The session appends peers at fresh addresses and leaves the others as they are.\<close>

lemma roster_append:
  assumes "janus_wf s" "mVideoRoomPeerList s' = mVideoRoomPeerList s @ as"
    and "\<And>k. k < next_addr s \<Longrightarrow> heap s' (Addr k) = heap s (Addr k)"
  shows "roster s' = roster s @ map (subscribed s') as"
proof -
  have "subscribed s' a = subscribed s a" if a: "a \<in> set (mVideoRoomPeerList s)" for a
  proof -
    obtain p where "heap s a = Some p" using owned_live [OF assms(1)] owned_lists(1) a by blast
    then have "a < Addr (next_addr s)" using janus_wfD(3) [OF assms(1)] by blast
    then have "heap s' a = heap s a" using assms(3) by (cases a) (simp add: less_addr_def)
    then show ?thesis by (simp add: subscribed_def)
  qed
  with assms(2) show ?thesis by (simp add: roster_def)
qed

lemma roster_join:
  assumes "janus_wf s" "JVRM_JoinVideoRoom E r name s = Inr s'"
  shows "roster s' = roster_do Joined (roster s)"
proof -
  obtain t where t: "JVRM_JoinVideoRoom E r name s = Inr t"
    "heap t = (heap s)(Addr (next_addr s) \<mapsto>
       (JPC_init E (Addr (next_addr s)) (mSessionId s))\<lparr>mVideoRoomDisplayName := name, mVideoRoomId := r\<rparr>)"
    "mVideoRoomPeerList t = mVideoRoomPeerList s @ [Addr (next_addr s)]"
    using JoinVideoRoom_eq [of E r name s] by blast
  then have "t = s'" using assms(2) by simp
  moreover have "roster t = roster s @ map (subscribed t) [Addr (next_addr s)]"
    by (rule roster_append [OF assms(1) t(3)]) (simp add: t(2))
  moreover have "subscribed t (Addr (next_addr s)) = 0" by (simp add: subscribed_def t(2))
  ultimately show ?thesis by simp
qed

lemma map_subscribed:
  "map (\<lambda>k. feed_of s (Addr k)) ks = map (\<lambda>i. Some (f i)) ids \<Longrightarrow> (\<And>i. fst (f i) = i) \<Longrightarrow>
   map (subscribed s) (map Addr ks) = ids"
proof (induction ks arbitrary: ids)
  case (Cons k ks)
  then obtain i js where ids: "ids = i # js" by (cases ids) auto
  with Cons.prems have "feed_of s (Addr k) = Some (f i)" by simp
  with Cons.prems(2) have "subscribed s (Addr k) = i"
    by (auto simp: feed_of_def subscribed_def) (metis fst_conv)
  with Cons ids show ?case by simp
qed simp

lemma roster_listed:
  assumes "janus_wf s" "onVideoRoomEventPublisher E v s = Inr s'"
  shows "roster s' = roster_do (Listed (listed_ids E v)) (roster s)"
proof -
  let ?vs = "snd (JsonArrayToValueVector (snd (GetValueFromJsonObject (plugin_data v) ''publishers'' JNull)))"
  let ?s = "s\<lparr>mPrivatedId := JsonValueToLongLong (je_json E) v ''private_id''\<rparr>"
  let ?ks = "[next_addr s..<next_addr s + length (publisher_ids E v)]"
  obtain t where t: "rfold (add_publisher E) ?vs ?s = Inr t"
    "mVideoRoomPeerList t = mVideoRoomPeerList s @ map Addr ?ks"
    "map (\<lambda>k. feed_of t (Addr k)) ?ks = map (\<lambda>i. Some (i, mPrivatedId ?s, mVideoRoomID s)) (publisher_ids E v)"
    "\<forall>k < next_addr s. heap t (Addr k) = heap s (Addr k)"
    using publishers_loop [of E ?vs ?s] unfolding publisher_ids_def by auto
  have "t = s'" using t(1) assms(2) by (simp add: onVideoRoomEventPublisher_def Let_def)
  have "roster t = roster s @ map (subscribed t) (map Addr ?ks)"
    by (rule roster_append [OF assms(1) t(2)]) (use t(4) in blast)
  also have "map (subscribed t) (map Addr ?ks) = publisher_ids E v"
    by (rule map_subscribed [OF t(3)]) simp
  finally show ?thesis by (simp add: \<open>t = s'\<close> publisher_ids_listed)
qed

lemma find_subscribed:
  assumes "set as \<subseteq> dom (heap s)"
  shows "(find_peer (\<lambda>p. mSubscribeId p = i) as s = Inr None \<and> i \<notin> subscribed s ` set as)
    \<or> (\<exists>us a vs. as = us @ a # vs \<and> find_peer (\<lambda>p. mSubscribeId p = i) as s = Inr (Some a)
        \<and> subscribed s a = i \<and> i \<notin> subscribed s ` set us)"
  using assms
proof (induction as)
  case (Cons b as)
  then obtain p where p: "heap s b = Some p" by auto
  show ?case
  proof (cases "mSubscribeId p = i")
    case True
    with p show ?thesis by (intro disjI2 exI [of _ "[]"]) (simp add: deref_Some subscribed_def)
  next
    case False
    have step: "find_peer (\<lambda>p. mSubscribeId p = i) (b # as) s = find_peer (\<lambda>p. mSubscribeId p = i) as s"
      using p False by (simp add: deref_Some)
    have b: "subscribed s b \<noteq> i" using p False by (simp add: subscribed_def)
    from Cons have "(find_peer (\<lambda>p. mSubscribeId p = i) as s = Inr None \<and> i \<notin> subscribed s ` set as)
      \<or> (\<exists>us a vs. as = us @ a # vs \<and> find_peer (\<lambda>p. mSubscribeId p = i) as s = Inr (Some a)
          \<and> subscribed s a = i \<and> i \<notin> subscribed s ` set us)" by auto
    then show ?thesis
    proof
      assume "find_peer (\<lambda>p. mSubscribeId p = i) as s = Inr None \<and> i \<notin> subscribed s ` set as"
      with step b show ?thesis by auto
    next
      assume "\<exists>us a vs. as = us @ a # vs \<and> find_peer (\<lambda>p. mSubscribeId p = i) as s = Inr (Some a)
          \<and> subscribed s a = i \<and> i \<notin> subscribed s ` set us"
      then obtain us a vs where "as = us @ a # vs" "find_peer (\<lambda>p. mSubscribeId p = i) as s = Inr (Some a)"
        "subscribed s a = i" "i \<notin> subscribed s ` set us" by blast
      with step b show ?thesis
        by (intro disjI2 exI [of _ "b # us"] exI [of _ a] exI [of _ vs]) auto
    qed
  qed
qed simp

lemma up_call_same:
  "up_call f s = Inr s' \<Longrightarrow> heap s' = heap s \<and> mVideoRoomPeerList s' = mVideoRoomPeerList s
    \<and> mTextRoomPeerList s' = mTextRoomPeerList s"
  by (auto simp: up_call_def rbind_eq_Inr)

lemma remove_called:
  assumes "(case OnRemoteStreamRemove s of None \<Rightarrow> Inr s
      | Some f \<Rightarrow> rbind (GetVideoRoomHandleID a s) (\<lambda>h. up_call (f h) s)) = Inr s'"
  shows "heap s' = heap s \<and> mVideoRoomPeerList s' = mVideoRoomPeerList s"
  using assms up_call_same by (auto simp: rbind_eq_Inr split: option.splits)

lemma roster_gone:
  assumes "janus_wf s" "onVideoRoomEventUnpublish E v s = Inr s'"
  shows "roster s' = roster_do (Gone (gone_id E v)) (roster s)"
proof (cases "gone_id E v = 0")
  case True
  with assms(2) show ?thesis by (simp add: onVideoRoomEventUnpublish_def gone_id_def Let_def)
next
  case False
  let ?as = "mVideoRoomPeerList s" and ?i = "gone_id E v"
  have live: "set ?as \<subseteq> dom (heap s)"
    using owned_lists(1) [of s] janus_wfD(2) [OF assms(1)] by blast
  have run: "onVideoRoomEventUnpublish E v s = rbind (find_peer (\<lambda>p. mSubscribeId p = ?i) ?as s)
       (\<lambda>r. case r of None \<Rightarrow> Inr s | Some a \<Rightarrow>
          rbind (case OnRemoteStreamRemove s of None \<Rightarrow> Inr s
                 | Some f \<Rightarrow> rbind (GetVideoRoomHandleID a s) (\<lambda>h. up_call (f h) s))
            (\<lambda>s. Inr (s\<lparr>mVideoRoomPeerList := erase_first ((=) a) (mVideoRoomPeerList s)\<rparr>)))"
    using False by (simp add: onVideoRoomEventUnpublish_def gone_id_def Let_def)
  from find_subscribed [OF live, of ?i] show ?thesis
  proof
    assume none: "find_peer (\<lambda>p. mSubscribeId p = ?i) ?as s = Inr None \<and> ?i \<notin> subscribed s ` set ?as"
    then have "s' = s" using assms(2) by (simp add: run)
    moreover have "remove1 ?i (roster s) = roster s" using none by (intro remove1_idem) (auto simp: roster_def)
    ultimately show ?thesis using False by simp
  next
    assume "\<exists>us a vs. ?as = us @ a # vs \<and> find_peer (\<lambda>p. mSubscribeId p = ?i) ?as s = Inr (Some a)
        \<and> subscribed s a = ?i \<and> ?i \<notin> subscribed s ` set us"
    then obtain us a vs where a: "?as = us @ a # vs" "find_peer (\<lambda>p. mSubscribeId p = ?i) ?as s = Inr (Some a)"
      "subscribed s a = ?i" "?i \<notin> subscribed s ` set us" by blast
    obtain t where t: "heap t = heap s" "mVideoRoomPeerList t = ?as"
      "s' = t\<lparr>mVideoRoomPeerList := erase_first ((=) a) (mVideoRoomPeerList t)\<rparr>"
    proof -
      obtain t where "(case OnRemoteStreamRemove s of None \<Rightarrow> Inr s
          | Some f \<Rightarrow> rbind (GetVideoRoomHandleID a s) (\<lambda>h. up_call (f h) s)) = Inr t"
        "s' = t\<lparr>mVideoRoomPeerList := erase_first ((=) a) (mVideoRoomPeerList t)\<rparr>"
        using assms(2) unfolding run a(2) rbind_Inr option.case rbind_eq_Inr by blast
      with remove_called show ?thesis using that by blast
    qed
    have "distinct (us @ a # vs)" using janus_wfD(1) [OF assms(1)] a(1) by (auto simp: owned_def)
    then have "erase_first ((=) a) (us @ a # vs) = us @ vs" by (intro erase_first_split) auto
    then have "roster s' = map (subscribed s) us @ map (subscribed s) vs"
      by (simp add: roster_def t a(1) subscribed_def)
    moreover have "roster s = map (subscribed s) us @ ?i # map (subscribed s) vs" by (simp add: roster_def a(1,3))
    ultimately show ?thesis using a(4) False by (auto simp: remove1_append)
  qed
qed

section \<open>What leaves the roster alone\<close>

text \<open>No answer changes what a peer subscribes to, or which peers there are.\<close>

lemma subscribed_report [simp]: "subscribed (run_report f r s) = subscribed s"
  using run_report_stdout [of f r s] by (auto simp: subscribed_def fun_eq_iff)

lemma call_report_subscribed:
  "call_report cb r s = Inr s' \<Longrightarrow> subscribed s' = subscribed s"
  "call_report_if cb r s = Inr s' \<Longrightarrow> subscribed s' = subscribed s"
  by (auto simp: call_report_def call_report_if_def split: option.splits if_splits)

lemma subscribed_updates [simp]:
  "subscribed (s\<lparr>seed := x\<rparr>) = subscribed s" "subscribed (send_json E m s) = subscribed s"
  "subscribed (drawn E s) = subscribed s" "subscribed (AddMessageSuccessCallback t f s) = subscribed s"
  "subscribed (s\<lparr>mMessage_success_callback := m'\<rparr>) = subscribed s"
  by (simp_all add: subscribed_def fun_eq_iff)

lemma subscribed_update_peer:
  assumes "update_peer a h s = Inr s'" "\<And>p. mSubscribeId (h p) = mSubscribeId p"
  shows "subscribed s' = subscribed s"
proof -
  obtain p where "heap s a = Some p" "s' = put_peer a (h p) s"
    using assms(1) by (auto simp: update_peer_def deref_def rbind_eq_Inr split: option.splits)
  then have "subscribed s' b = subscribed s b" for b
    by (cases "b = a") (simp_all add: subscribed_def put_peer_def assms(2))
  then show ?thesis by (rule ext)
qed

lemma set_handle_subscribed:
  "update_peer a (\<lambda>p. p\<lparr>mVideoRoomHandleID := h\<rparr>) s = Inr s' \<Longrightarrow> subscribed s' = subscribed s"
  "update_peer a (\<lambda>p. p\<lparr>mTextRoomHandleID := h\<rparr>) s = Inr s' \<Longrightarrow> subscribed s' = subscribed s"
  by (erule subscribed_update_peer, simp)+

lemma deref_Inr: "deref a s = Inr p \<longleftrightarrow> heap s a = Some p"
  by (auto simp: deref_def split: option.splits)

lemma peer_requests_subscribed:
  "joinVideoRoom E a s = Inr s' \<Longrightarrow> subscribed s' = subscribed s"
  "joinTextRoom E a s = Inr s' \<Longrightarrow> subscribed s' = subscribed s"
  "createVideoRoom E a s = Inr s' \<Longrightarrow> subscribed s' = subscribed s"
  "createTextRoom E a s = Inr s' \<Longrightarrow> subscribed s' = subscribed s"
  "destoryVideoRoom E a s = Inr s' \<Longrightarrow> subscribed s' = subscribed s"
  "destoryTextRoom E a s = Inr s' \<Longrightarrow> subscribed s' = subscribed s"
  by (auto simp: joinVideoRoom_def joinTextRoom_def createVideoRoom_def createTextRoom_def destoryVideoRoom_def
      destoryTextRoom_def rbind_eq_Inr msg_simps Let_def)

lemmas attach_slots = onAttachVideoRoomJoin_def onAttachTextRoomJoin_def onAttachVideoRoomCreate_def
  onAttachTextRoomCreate_def onAttachVideoRoomDestory_def onAttachTextRoomDestory_def

lemmas outcome_slots = onCreateVideoRoom_def onCreateTextRoom_def onDestoryVideoRoom_def onDestoryTextRoom_def

lemma slot_subscribed:
  assumes "run_peer_slot E slot a v s = Inr s'"
  shows "subscribed s' = subscribed s"
  using assms
  by (cases slot)
    (auto simp: outcome_slots attach_slots rbind_eq_Inr Let_def split: if_splits
      dest!: set_handle_subscribed peer_requests_subscribed call_report_subscribed)

lemma roster_success:
  assumes "janus_wf s" "onMessageSuccess E t v s = Inr s'"
  shows "roster s' = roster s"
proof (cases "mMessage_success_callback s t")
  case None
  with assms(2) show ?thesis by (simp add: onMessageSuccess_def)
next
  case (Some cb)
  let ?s = "s\<lparr>mMessage_success_callback := (mMessage_success_callback s)(t := None)\<rparr>"
  have run: "run_listener E cb v ?s = Inr s'" using assms(2) onMessageSuccess_run [OF Some] by metis
  have wf: "janus_wf ?s" using assms(1) by (simp add: janus_wf_def owned_def)
  show ?thesis
  proof (cases cb)
    case (ToPeer a slot)
    with run have r: "run_peer_slot E slot a v ?s = Inr s'" by simp
    have "mVideoRoomPeerList s' = mVideoRoomPeerList s"
      using slot.frame [OF r wf] by (simp add: evolves_def)
    moreover have "subscribed s' = subscribed s" using slot_subscribed [OF r] by simp
    ultimately show ?thesis by (simp add: roster_def)
  qed (use run in \<open>auto simp: onCreateSessionId_def onHeartBeat_def Let_def roster_def subscribed_def\<close>)
qed

section \<open>Messages\<close>

lemma roster_sdp:
  assumes "onVideoRoomEventSdp E v b s = Inr s'"
  shows "roster s' = roster s" "janus_wf s \<Longrightarrow> janus_wf s'"
proof -
  have "s' = s \<or> (\<exists>f. up_call f s = Inr s')"
    using assms by (auto simp: onVideoRoomEventSdp_def Let_def split: if_splits option.splits)
  then obtain c where "s' = s \<or> s' = s\<lparr>client := c\<rparr>"
    by (auto simp: up_call_def rbind_eq_Inr)
  then show "roster s' = roster s" "janus_wf s \<Longrightarrow> janus_wf s'"
    by (auto simp: roster_def subscribed_def janus_wf_def owned_def)
qed

lemma publishers_wf:
  assumes "janus_wf s" "onVideoRoomEventPublisher E v s = Inr s'"
  shows "janus_wf s'"
proof -
  let ?s = "s\<lparr>mPrivatedId := JsonValueToLongLong (je_json E) v ''private_id''\<rparr>"
  have "janus_wf ?s" using assms(1) by (simp add: janus_wf_def owned_def)
  then have "good ?s (onVideoRoomEventPublisher E v s)"
    unfolding onVideoRoomEventPublisher_def Let_def by (intro good_rfold any_client.add_publisher_good)
  with assms(2) show ?thesis by (simp add: good_def)
qed

text \<open>
  C6: the session refines a list of publishers. Joining appends the session itself, a message
  of a publisher event appends the publishers it lists and then removes the one that is gone,
  a joined message appends those it lists, leaving empties the list, and no answer to a
  request changes it: the peers, their addresses and callbacks implement exactly this.
\<close>

theorem session_refines_roster:
  assumes "janus_wf s"
  shows "(JVRM_JoinVideoRoom E r name s = Inr s' \<longrightarrow> roster s' = roster_do Joined (roster s))
    \<and> (onVideoRoomEventEvent E v s = Inr s' \<longrightarrow>
        roster s' = roster_do (Gone (gone_id E v)) (roster_do (Listed (listed_ids E v)) (roster s)))
    \<and> (onVideoRoomEventJoin E v s = Inr s' \<longrightarrow> roster s' = roster_do (Listed (listed_ids E v)) (roster s))
    \<and> (JVRM_LeaveVideoRoom s = Inr s' \<longrightarrow> roster s' = roster_do RoomClosed (roster s))
    \<and> (onMessageSuccess E t v s = Inr s' \<longrightarrow> roster s' = roster s)"
proof (intro conjI impI)
  show "roster s' = roster_do Joined (roster s)" if "JVRM_JoinVideoRoom E r name s = Inr s'"
    by (rule roster_join [OF assms that])
  show "roster s' = roster s" if "onMessageSuccess E t v s = Inr s'"
    by (rule roster_success [OF assms that])
  show "roster s' = roster_do RoomClosed (roster s)" if "JVRM_LeaveVideoRoom s = Inr s'"
    using that LeaveVideoRoom_eq [OF assms] by (auto simp: roster_def)
next
  assume "onVideoRoomEventEvent E v s = Inr s'"
  then obtain t u where t: "onVideoRoomEventSdp E v False s = Inr t"
    and u: "onVideoRoomEventPublisher E v t = Inr u" "onVideoRoomEventUnpublish E v u = Inr s'"
    by (auto simp: onVideoRoomEventEvent_def rbind_eq_Inr)
  note wf = roster_sdp(2) [OF t assms]
  show "roster s' = roster_do (Gone (gone_id E v)) (roster_do (Listed (listed_ids E v)) (roster s))"
    using roster_gone [OF publishers_wf [OF wf u(1)] u(2)] roster_listed [OF wf u(1)] roster_sdp(1) [OF t] by simp
next
  assume "onVideoRoomEventJoin E v s = Inr s'"
  then obtain t and r :: "addr option" where t: "onVideoRoomEventPublisher E v s = Inr t"
    and u: "(case r of None \<Rightarrow> Inr t | Some a \<Rightarrow> (case OnConnectToPeer t of None \<Rightarrow> Inr t
      | Some f \<Rightarrow> up_call (f (JsonValueToLongLong (je_json E) v ''sender'') False True False) t)) = Inr s'"
    unfolding onVideoRoomEventJoin_def Let_def rbind_eq_Inr by blast
  have "roster s' = roster t"
    using u by (auto simp: up_call_def rbind_eq_Inr roster_def subscribed_def split: option.splits)
  with roster_listed [OF assms t] show "roster s' = roster_do (Listed (listed_ids E v)) (roster s)" by simp
qed

theorem session_refines_roster_witness:
  "\<exists>s'. JVRM_JoinVideoRoom (ex_env [] JNull) 5 ''al'' ex_session = Inr s' \<and> roster s' = [0]"
proof -
  obtain s' where s': "JVRM_JoinVideoRoom (ex_env [] JNull) 5 ''al'' ex_session = Inr s'"
    using JoinVideoRoom_eq [of "ex_env [] JNull" 5 "''al''" ex_session] by blast
  with session_refines_roster [OF ex_session_wf(1), of "ex_env [] JNull" 5 "''al''" s'] show ?thesis
    by (simp add: roster_def ex_session_wf)
qed

end
