(* ===== verification/Room_Publishing.thy ===== *)
theory Room_Publishing
  imports Janus_Feeds Conference_Protocol
begin

text \<open>
  How a user becomes visible in a video room: the server's answer to the join request makes
  the local stream, its offer is sent, and the server's answer is taken. Session, conference
  layer and stream together; \<open>Spec2Isabelle\<close> has the other direction.
\<close>

section \<open>The session\<close>

lemma publishers_event:
  assumes "janus_wf s"
  obtains s' ts where "onVideoRoomEventPublisher E v s = Inr s'" "janus_wf s'" "clients s' = clients s"
    "mVideoRoomPeerList s' = mVideoRoomPeerList s @ map Addr [next_addr s..<next_addr s + length (publisher_ids E v)]"
    "mTextRoomPeerList s' = mTextRoomPeerList s" "\<And>a p. heap s a = Some p \<Longrightarrow> heap s' a = Some p"
    "length ts = length (publisher_ids E v)"
    "sent s' = sent s @ map (\<lambda>t. wire E (attach_msg ''janus.plugin.videoroom'' t (mSessionId s))) ts"
proof -
  let ?vs = "snd (JsonArrayToValueVector (snd (GetValueFromJsonObject (plugin_data v) ''publishers'' JNull)))"
  let ?s = "s\<lparr>mPrivatedId := JsonValueToLongLong (je_json E) v ''private_id''\<rparr>"
  obtain s' ts where s': "rfold (add_publisher E) ?vs ?s = Inr s'"
    "mVideoRoomPeerList s' = mVideoRoomPeerList s @ map Addr [next_addr s..<next_addr s + length (publisher_ids E v)]"
    "length ts = length (publisher_ids E v)"
    "sent s' = sent s @ map (\<lambda>t. wire E (attach_msg ''janus.plugin.videoroom'' t (mSessionId s))) ts"
    "\<forall>k < next_addr s. heap s' (Addr k) = heap s (Addr k)" "mTextRoomPeerList s' = mTextRoomPeerList s"
    using publishers_loop [of E ?vs ?s] unfolding publisher_ids_def by auto
  have run: "onVideoRoomEventPublisher E v s = Inr s'" using s'(1) by (simp add: onVideoRoomEventPublisher_def Let_def)
  have "janus_wf ?s" using assms by (simp add: janus_wf_def owned_def)
  then have "good ?s (Inr s')"
    unfolding run [symmetric] onVideoRoomEventPublisher_def Let_def by (intro good_rfold any_client.add_publisher_good)
  then have "janus_wf s'" "clients s' = clients s" by (simp_all add: good_def clients_def)
  moreover have "heap s' a = Some p" if "heap s a = Some p" for a p
  proof -
    have "a < Addr (next_addr s)" using assms that by (auto simp: janus_wf_def)
    then have "addr_index a < next_addr s" by (simp add: less_addr_def)
    then show ?thesis using s'(5) that by (metis addr.collapse)
  qed
  ultimately show ?thesis using that run s'(2-4,6) by blast
qed

lemma no_publishers_event:
  assumes "publisher_ids E v = []"
  shows "onVideoRoomEventPublisher E v s = Inr (s\<lparr>mPrivatedId := JsonValueToLongLong (je_json E) v ''private_id''\<rparr>)"
proof -
  have "rfold (add_publisher E) vs t = Inr t" if "positive_ids E vs = []" for vs and t :: "'a janus"
    using that by (induction vs) (auto simp: positive_ids_def add_publisher_def Let_def split: if_splits)
  with assms show ?thesis by (simp add: onVideoRoomEventPublisher_def Let_def publisher_ids_def)
qed

text \<open>The answer to a join request connects the stream of the peer that joined.\<close>

lemma joined_event:
  assumes "janus_wf s" "OnConnectToPeer s = Some f" "f h False True False (client s) = Inr c"
    and "mVideoRoomPeerList s = us @ a # vs" "heap s a = Some p" "mVideoRoomHandleID p = h"
    and "\<forall>b \<in> set us. map_option mVideoRoomHandleID (heap s b) \<noteq> Some h"
    and "\<forall>b \<in> set (mTextRoomPeerList s). map_option mTextRoomHandleID (heap s b) \<noteq> Some h"
    and "JsonValueToLongLong (je_json E) v ''sender'' = h"
  obtains s' ts vs' where "run_video_event E EventJoin v s = Inr s'" "janus_wf s'" "client s' = c"
    "OnRemoteSdp s' = OnRemoteSdp s" "mVideoRoomPeerList s' = us @ a # vs'" "heap s' a = Some p"
    "\<forall>b \<in> set us. map_option mVideoRoomHandleID (heap s' b) \<noteq> Some h"
    "\<forall>b \<in> set (mTextRoomPeerList s'). map_option mTextRoomHandleID (heap s' b) \<noteq> Some h"
    "length ts = length (publisher_ids E v)"
    "sent s' = sent s @ map (\<lambda>t. wire E (attach_msg ''janus.plugin.videoroom'' t (mSessionId s))) ts"
proof -
  obtain t ts where t: "onVideoRoomEventPublisher E v s = Inr t" "janus_wf t" "clients t = clients s"
    "mVideoRoomPeerList t = mVideoRoomPeerList s @ map Addr [next_addr s..<next_addr s + length (publisher_ids E v)]"
    "mTextRoomPeerList t = mTextRoomPeerList s" "\<And>a p. heap s a = Some p \<Longrightarrow> heap t a = Some p"
    "length ts = length (publisher_ids E v)"
    "sent t = sent s @ map (\<lambda>t. wire E (attach_msg ''janus.plugin.videoroom'' t (mSessionId s))) ts"
    by (rule publishers_event [OF assms(1), of E v]) blast
  have live: "heap t b = heap s b" if b: "b \<in> set us \<union> set (mTextRoomPeerList s)" for b
  proof -
    have "b \<in> set (owned s)" using b assms(4) by (auto simp: owned_def)
    with owned_live [OF assms(1)] t(6) show ?thesis by force
  qed
  define vs' where "vs' = vs @ map Addr [next_addr s..<next_addr s + length (publisher_ids E v)]"
  have peers: "mVideoRoomPeerList t = us @ a # vs'" "heap t a = Some p"
    "\<forall>b \<in> set us. map_option mVideoRoomHandleID (heap t b) \<noteq> Some h"
    "\<forall>b \<in> set (mTextRoomPeerList t). map_option mTextRoomHandleID (heap t b) \<noteq> Some h"
    using t(4-6) assms(4,5,7,8) by (simp_all add: vs'_def live)
  have "set us \<subseteq> set (owned t)" using peers(1) by (auto simp: owned_def)
  from other_peers(2) [OF t(2) this peers(3,2) assms(6)]
  have find: "find_peer (\<lambda>p. mVideoRoomHandleID p = h) (mVideoRoomPeerList t) t = Inr (Some a)"
    by (simp only: peers(1))
  have cl: "client t = client s" "OnConnectToPeer t = Some f" "OnRemoteSdp t = OnRemoteSdp s"
    using t(3) assms(2) by (simp_all add: clients_def)
  have "run_video_event E EventJoin v s = Inr (t\<lparr>client := c\<rparr>)"
    using find by (simp add: onVideoRoomEventJoin_def t(1) assms(9) cl up_call_def assms(3))
  moreover have "janus_wf (t\<lparr>client := c\<rparr>)" using t(2) by (simp add: janus_wf_def owned_def)
  ultimately show ?thesis using that [of "t\<lparr>client := c\<rparr>" vs' ts] t(7,8) peers cl(3) by simp
qed

section \<open>The stream\<close>

lemma offer_made:
  assumes "map_of (mRemoteStreamInfos_VideoAudio c) k = None" "we_factory W" "we_pc W k"
  obtains c' u st where "ConnectToPeer_VideoAudio W k False True False c = Inr c'"
    "map_of (mRemoteStreamInfos_VideoAudio c') k = Some (new_info u)"
    "mRemoteStreamInfos_DataChannels c' = mRemoteStreamInfos_DataChannels c"
    "OnSuccess offer u = Inr st" "mPeerConnection st \<noteq> None"
    "calls_of st = [SetBitrate 128000 256000 512000, AddTrackCall (fst (tracks c)) ''stream_id'',
        AddTrackCall (snd (tracks c)) ''stream_id'', CreateOffer, SetLocalDescription offer]"
    "last (emitted st) = LocalSDP k (d_sdp offer) (d_type offer)"
proof -
  let ?s = "VA_SetIsLocal False (VA_new (we_junk W k) k)"
  have f: "mPeerConnection ?s = None" "mHandleID ?s = k" by (simp_all add: VA_SetIsLocal_def VA_new_def)
  obtain t p where t: "VA_initializePeerConnection W (tracks c) ?s = Inr (True, t)" "mPeerConnection t = Some p"
    "pc_calls p = [SetBitrate 128000 256000 512000, AddTrackCall (fst (tracks c)) ''stream_id'',
        AddTrackCall (snd (tracks c)) ''stream_id'']" "mHandleID t = k"
    using va.connects [of ?s W "tracks c"] assms(2,3) f by auto
  obtain u q where u: "pc_do CreateOffer t = Inr u" "mPeerConnection u = Some q" "pc_calls q = pc_calls p @ [CreateOffer]"
    "mHandleID u = k"
    using pc_do_Some [OF t(2), of CreateOffer] t(4) by auto
  have conn: "VA_ConnectToPeer W (tracks c) ?s = Inr u"
    using t(1) u(1) f(1) by (simp add: VA_ConnectToPeer_def)
  obtain st where st: "OnSuccess offer u = Inr st" "mPeerConnection st \<noteq> None"
    "calls_of st = pc_calls q @ [SetLocalDescription offer]" "last (emitted st) = LocalSDP k (d_sdp offer) (d_type offer)"
    by (simp add: OnSuccess_def pc_do_def u(2,4) emit_signal_def calls_of_def)
  have "ConnectToPeer_VideoAudio W k False True False c = Inr (put_va k (new_info u) (put_va k (new_info ?s) (put_va k (new_info ?s) c)))"
    using conn by (simp add: ConnectToPeer_VideoAudio_def addStreamInfo_VideoAudio_def GetHandleID_def f(2) assms(1) put_va_def)
  moreover have "map_of (mRemoteStreamInfos_VideoAudio (put_va k (new_info u) d)) k = Some (new_info u)"
    "mRemoteStreamInfos_DataChannels (put_va k i d) = mRemoteStreamInfos_DataChannels d" for d i
    by (simp_all add: put_va_def update_conv)
  ultimately show ?thesis using that st t(3) u(3) by simp
qed

lemma answer_taken:
  assumes "map_of (mRemoteStreamInfos_VideoAudio c) k = Some info" "mPeerConnection (si_stream info) \<noteq> None"
    and "we_parse W type sdp = Some d" "d_type d \<noteq> ''offer''"
  obtains c' st where "onRetmoeSDP W k type sdp False c = Inr c'"
    "map_of (mRemoteStreamInfos_VideoAudio c') k = Some (info\<lparr>si_stream := st\<rparr>)"
    "calls_of st = calls_of (si_stream info) @ [SetRemoteDescription d]"
proof -
  obtain st where st: "VA_SetPeerSDP W (tracks c) type sdp (si_stream info) = Inr (True, st)"
    "calls_of st = calls_of (si_stream info) @ [SetRemoteDescription d]"
    using va.set_peer_sdp [of "si_stream info" W "tracks c" type sdp] assms(2-4)
    by (auto simp: VA_SetPeerSDP_def answer_calls_def)
  have "onRetmoeSDP W k type sdp False c = Inr (put_va k (info\<lparr>si_stream := st\<rparr>) c)"
    using assms(1) st(1) by (simp add: onRetmoeSDP_def)
  with that st(2) show ?thesis by (simp add: put_va_def update_conv)
qed

section \<open>From the stream to the server\<close>

text \<open>A stream has signalled its description: it is filed, and one request carries it.\<close>

lemma description_sent:
  assumes "janus_wf s" "mVideoRoomPeerList s = us @ a # vs" "heap s a = Some p" "mVideoRoomHandleID p = h"
    and "\<forall>b \<in> set us. map_option mVideoRoomHandleID (heap s b) \<noteq> Some h"
    and "\<forall>b \<in> set (mTextRoomPeerList s). map_option mTextRoomHandleID (heap s b) \<noteq> Some h"
    and "canSendSDP info" "map_of (mRemoteStreamInfos_DataChannels (client s)) h = None"
  obtains s' where "run_signal E (LocalSDP h sdp type) (up_conf (put_va h info) s) = Inr s'"
    "OnRemoteSdp s' = OnRemoteSdp s"
    "client s' = put_va h (info\<lparr>si_sdp := sdp, si_sdpType := type\<rparr>) (put_va h info (client s))"
    "sent s' = sent s @ [wire E (plugin_msg h (tr E s) (mSessionID p)
        [(''body'', if mSubscribeId p = 0
            then JObj [(''request'', JStr ''configure''), (''audio'', JBool True), (''video'', JBool True)]
            else JObj [(''request'', JStr ''start''), (''room'', json_of_uint (mVideoRoomId p))]),
         (''jsep'', jsep_obj type sdp)])]"
proof -
  define u where "u = up_conf (put_va h info) s"
  define w where "w = up_conf (put_va h (info\<lparr>si_sdp := sdp, si_sdpType := type\<rparr>)) u"
  have wf: "janus_wf u" "janus_wf w" using assms(1) by (simp_all add: u_def w_def janus_wf_def owned_def)
  have "map_of (mRemoteStreamInfos_VideoAudio (client u)) h = Some info" "map_of (mRemoteStreamInfos_DataChannels (client u)) h = None"
    using assms(8) by (simp_all add: u_def put_va_def update_conv)
  from local_sdp_video [OF wf(1) this(1) assms(7) this(2), of E sdp type]
  have run: "run_signal E (LocalSDP h sdp type) u = JVRM_SendSDP E h sdp type w" by (simp add: w_def)
  have same: "mVideoRoomPeerList w = us @ a # vs" "heap w = heap s" "mTextRoomPeerList w = mTextRoomPeerList s" "sent w = sent s"
    "OnRemoteSdp w = OnRemoteSdp s"
    by (simp_all add: w_def u_def assms(2))
  have "tr E w = tr E s" by (rule tr_cong) (simp add: w_def u_def)
  with SendSDP_sends [OF wf(2) same(1), of p h E sdp type] assms(3-6) obtain s' where
    s': "JVRM_SendSDP E h sdp type w = Inr s'" "sent s' = sent s @ [wire E (plugin_msg h (tr E s) (mSessionID p)
        [(''body'', if mSubscribeId p = 0
            then JObj [(''request'', JStr ''configure''), (''audio'', JBool True), (''video'', JBool True)]
            else JObj [(''request'', JStr ''start''), (''room'', json_of_uint (mVideoRoomId p))]),
         (''jsep'', jsep_obj type sdp)])]"
    unfolding same(2-4) by auto
  have "clients s' = clients w" using SendSDP_good [OF wf(2), of E h sdp type] s'(1) by (simp add: good_def)
  then have "OnRemoteSdp s' = OnRemoteSdp s" "client s' = client w" using same(5) by (simp_all add: clients_def)
  with that [of s'] run s' show ?thesis by (simp add: u_def w_def)
qed

section \<open>A publisher is made\<close>

text \<open>An event that carries a description and lists no publisher hands it over, and that is all.\<close>

lemma description_event:
  assumes "OnRemoteSdp s = Some f" "f (JsonValueToLongLong (je_json E) v ''sender'') type sdp False (client s) = Inr c"
    and "GetValueFromJsonObject v ''jsep'' JNull = (b1, j)" "GetStringFromJsonObject (je_json E) j ''type'' [] = (b2, type)"
    and "GetStringFromJsonObject (je_json E) j ''sdp'' [] = (b3, sdp)" "sdp \<noteq> []"
    and "publisher_ids E v = []" "JsonValueToLongLong (je_json E) (plugin_data v) ''unpublished'' = 0"
  shows "\<exists>n. run_video_event E EventEvent v s = Inr (s\<lparr>client := c, mPrivatedId := n\<rparr>)"
  using assms(1-6,8)
  by (simp add: onVideoRoomEventEvent_def onVideoRoomEventSdp_def Let_def up_call_def no_publishers_event [OF assms(7)]
      onVideoRoomEventUnpublish_def) blast

text \<open>
  C3: a user who joins becomes a publisher. The server's answer to the join request, on the
  handle of a peer without a feed, subscribes to the publishers that are there and makes the
  local stream, which adds the two local tracks and makes an offer; the offer is set as the
  local description, signalled, and sent to the server in a configure request on the same
  handle, unchanged. When the server answers it, the stream takes the answer as its remote
  description, makes no answer of its own, and nothing more is sent.
\<close>

theorem publisher_is_made:
  assumes "conf_ready W s" "OnConnectToPeer s = Some (ConnectToPeer_VideoAudio W)" "OnRemoteSdp s = Some (onRetmoeSDP W)"
    and "always_connects W"
    and "mVideoRoomPeerList s = us @ a # vs" "heap s a = Some p" "mVideoRoomHandleID p = h" "mSubscribeId p = 0"
    and "\<forall>b \<in> set us. map_option mVideoRoomHandleID (heap s b) \<noteq> Some h"
    and "\<forall>b \<in> set (mTextRoomPeerList s). map_option mTextRoomHandleID (heap s b) \<noteq> Some h"
    and "map_of (mRemoteStreamInfos_VideoAudio (client s)) h = None"
    and "map_of (mRemoteStreamInfos_DataChannels (client s)) h = None"
    and "JsonValueToLongLong (je_json E) v ''sender'' = h" "JsonValueToLongLong (je_json E) w ''sender'' = h"
    and "GetValueFromJsonObject w ''jsep'' JNull = (b1, j)" "GetStringFromJsonObject (je_json E) j ''type'' [] = (b2, ''answer'')"
    and "GetStringFromJsonObject (je_json E) j ''sdp'' [] = (b3, sdp)" "sdp \<noteq> []"
    and "publisher_ids E w = []" "JsonValueToLongLong (je_json E) (plugin_data w) ''unpublished'' = 0"
    and "we_parse W ''answer'' sdp = Some d" "d_type d \<noteq> ''offer''"
  shows "\<exists>s1 info st s2 ts t s3. run_video_event E EventJoin v s = Inr s1
    \<and> map_of (mRemoteStreamInfos_VideoAudio (client s1)) h = Some info
    \<and> OnSuccess offer (si_stream info) = Inr st
    \<and> calls_of st = [SetBitrate 128000 256000 512000,
        AddTrackCall (fst (tracks (client s))) ''stream_id'', AddTrackCall (snd (tracks (client s))) ''stream_id'',
        CreateOffer, SetLocalDescription offer]
    \<and> run_signal E (last (emitted st)) (up_conf (put_va h (info\<lparr>si_stream := st\<rparr>)) s1) = Inr s2
    \<and> length ts = length (publisher_ids E v)
    \<and> sent s2 = sent s @ map (\<lambda>t. wire E (attach_msg ''janus.plugin.videoroom'' t (mSessionId s))) ts
        @ [wire E (plugin_msg h t (mSessionID p)
            [(''body'', JObj [(''request'', JStr ''configure''), (''audio'', JBool True), (''video'', JBool True)]),
             (''jsep'', jsep_obj (d_type offer) (d_sdp offer))])]
    \<and> run_video_event E EventEvent w s2 = Inr s3 \<and> sent s3 = sent s2
    \<and> map_option (\<lambda>info. calls_of (si_stream info)) (map_of (mRemoteStreamInfos_VideoAudio (client s3)) h)
        = Some (calls_of st @ [SetRemoteDescription d])"
proof -
  have we: "we_factory W" "we_pc W h" using assms(4) by (simp_all add: always_connects_def)
  obtain c1 u st where c1: "ConnectToPeer_VideoAudio W h False True False (client s) = Inr c1"
    "map_of (mRemoteStreamInfos_VideoAudio c1) h = Some (new_info u)"
    "mRemoteStreamInfos_DataChannels c1 = mRemoteStreamInfos_DataChannels (client s)"
    "OnSuccess offer u = Inr st" "mPeerConnection st \<noteq> None"
    "calls_of st = [SetBitrate 128000 256000 512000, AddTrackCall (fst (tracks (client s))) ''stream_id'',
        AddTrackCall (snd (tracks (client s))) ''stream_id'', CreateOffer, SetLocalDescription offer]"
    "last (emitted st) = LocalSDP h (d_sdp offer) (d_type offer)"
    by (rule offer_made [OF assms(11) we, of offer]) blast
  obtain s1 ts vs' where s1: "run_video_event E EventJoin v s = Inr s1" "janus_wf s1" "client s1 = c1"
    "OnRemoteSdp s1 = OnRemoteSdp s" "mVideoRoomPeerList s1 = us @ a # vs'" "heap s1 a = Some p"
    "\<forall>b \<in> set us. map_option mVideoRoomHandleID (heap s1 b) \<noteq> Some h"
    "\<forall>b \<in> set (mTextRoomPeerList s1). map_option mTextRoomHandleID (heap s1 b) \<noteq> Some h"
    "length ts = length (publisher_ids E v)"
    "sent s1 = sent s @ map (\<lambda>t. wire E (attach_msg ''janus.plugin.videoroom'' t (mSessionId s))) ts"
    by (rule joined_event [where v = v and E = E, OF conference.ready_wf [OF assms(1)] assms(2) c1(1) assms(5-7,9,10,13)]) blast
  define info where "info = (new_info u)\<lparr>si_stream := st\<rparr>"
  define info' where "info' = info\<lparr>si_sdp := d_sdp offer, si_sdpType := d_type offer\<rparr>"
  have "canSendSDP info" "map_of (mRemoteStreamInfos_DataChannels (client s1)) h = None"
    using assms(12) by (simp_all add: info_def new_info_def s1(3) c1(3))
  note send = description_sent [OF s1(2,5,6) assms(7) s1(7,8) this, of E "d_sdp offer" "d_type offer"]
  obtain s2 where raw: "run_signal E (LocalSDP h (d_sdp offer) (d_type offer)) (up_conf (put_va h info) s1) = Inr s2"
    "OnRemoteSdp s2 = OnRemoteSdp s1" "client s2 = put_va h info' (put_va h info (client s1))"
    "sent s2 = sent s1 @ [wire E (plugin_msg h (tr E s1) (mSessionID p)
        [(''body'', if mSubscribeId p = 0
            then JObj [(''request'', JStr ''configure''), (''audio'', JBool True), (''video'', JBool True)]
            else JObj [(''request'', JStr ''start''), (''room'', json_of_uint (mVideoRoomId p))]),
         (''jsep'', jsep_obj (d_type offer) (d_sdp offer))])]"
    unfolding info'_def by (rule send) blast
  note s2 = raw [unfolded c1(7) [symmetric] s1(3,4) assms(3) assms(8) if_P [OF refl]]
  have st': "map_of (mRemoteStreamInfos_VideoAudio (client s2)) h = Some info'" "mPeerConnection (si_stream info') \<noteq> None"
    "si_stream info' = st"
    using c1(5) by (simp_all add: s2(3) put_va_def update_conv info'_def info_def)
  obtain c3 st3 where c3: "onRetmoeSDP W h ''answer'' sdp False (client s2) = Inr c3"
    "map_of (mRemoteStreamInfos_VideoAudio c3) h = Some (info'\<lparr>si_stream := st3\<rparr>)"
    "calls_of st3 = calls_of st @ [SetRemoteDescription d]"
    using answer_taken [OF st'(1,2) assms(21,22)] unfolding st'(3) by blast
  obtain n where s3: "run_video_event E EventEvent w s2 = Inr (s2\<lparr>client := c3, mPrivatedId := n\<rparr>)"
    using description_event [OF s2(2) _ assms(15-20), of c3] c3(1) by (auto simp: assms(14))
  show ?thesis
    using s1(1,9,10) c1(2,4,6) s2(1,4) s3 c3(2,3)
    by (intro exI [of _ s1] exI [of _ "new_info u"] exI [of _ st] exI [of _ s2] exI [of _ ts] exI [of _ "tr E s1"]
        exI [of _ "s2\<lparr>client := c3, mPrivatedId := n\<rparr>"])
      (simp add: s1(3) info_def new_info_def del: run_video_event.simps run_signal.simps)
qed

section \<open>A concrete room\<close>

definition ex_connected :: webrtc_env where
  "ex_connected = ex_wenv\<lparr>we_pc := (\<lambda>h. True)\<rparr>"

lemma ex_connected_facts:
  "always_connects ex_connected" "we_parse ex_connected type sdp = Some \<lparr>d_type = type, d_sdp = sdp\<rparr>"
  by (simp_all add: always_connects_def ex_connected_def ex_wenv_def)

text \<open>A session with one peer, on handle 5, for the feed \<open>i\<close>; a publisher has feed 0.\<close>

definition ex_member :: "i64 \<Rightarrow> session" where
  "ex_member i = (conf_start ex_connected 0 ex_conf)\<lparr>
     heap := [Addr 0 \<mapsto> (JPC_init (ex_env [] JNull) (Addr 0) 9)\<lparr>mVideoRoomHandleID := 5, mSubscribeId := i\<rparr>],
     next_addr := 1, mVideoRoomPeerList := [Addr 0]\<rparr>"

lemma ex_member_facts:
  "conf_ready ex_connected (ex_member i)" "OnConnectToPeer (ex_member i) = Some (ConnectToPeer_VideoAudio ex_connected)"
  "OnRemoteSdp (ex_member i) = Some (onRetmoeSDP ex_connected)"
  "mVideoRoomPeerList (ex_member i) = [] @ Addr 0 # []" "mTextRoomPeerList (ex_member i) = []"
  "heap (ex_member i) (Addr 0) = Some ((JPC_init (ex_env [] JNull) (Addr 0) 9)\<lparr>mVideoRoomHandleID := 5, mSubscribeId := i\<rparr>)"
  "client (ex_member i) = ex_conf"
proof -
  note start = conf_start_def session_start_def JVRM_new_def RegisterConnectToPeerCallBack_def
    RegisterRemoteSdpCallBack_def RegisterRemoteStreamRemoveCallBack_def
  show "conf_ready ex_connected (ex_member i)"
    by (auto simp: session_ready_def bound_def ex_member_def start janus_wf_def owned_def less_addr_def ran_def
        reports_ok_def JPC_init_def split: if_splits)
qed (simp_all add: ex_member_def conf_start_def session_start_def JVRM_new_def RegisterConnectToPeerCallBack_def
    RegisterRemoteSdpCallBack_def RegisterRemoteStreamRemoveCallBack_def)

text \<open>A message for handle 5 with a description.\<close>

definition ex_jsep :: "string \<Rightarrow> string \<Rightarrow> json" where
  "ex_jsep type sdp = JObj [(''sender'', JInt 5), (''jsep'', JObj [(''type'', JStr type), (''sdp'', JStr sdp)])]"

lemma ex_lib: "json_writer (lib_write (je_json (ex_env [] JNull)))"
  by (simp add: ex_env_def ref_lib_def ref_writer.json_writer_axioms)

lemma ex_jsep_facts:
  "GetValueFromJsonObject (ex_jsep type sdp) ''jsep'' JNull = (True, JObj [(''type'', JStr type), (''sdp'', JStr sdp)])"
  "GetStringFromJsonObject L (JObj [(''type'', JStr type), (''sdp'', JStr sdp)]) ''type'' [] = (True, type)"
  "GetStringFromJsonObject L (JObj [(''type'', JStr type), (''sdp'', JStr sdp)]) ''sdp'' [] = (True, sdp)"
  "JsonValueToLongLong (je_json (ex_env [] JNull)) (ex_jsep type sdp) ''sender'' = 5"
  "plugin_data (ex_jsep type sdp) = JNull"
  "publisher_ids (ex_env [] JNull) (ex_jsep type sdp) = []"
proof -
  show "JsonValueToLongLong (je_json (ex_env [] JNull)) (ex_jsep type sdp) ''sender'' = 5"
    unfolding ex_jsep_def by (rule LongLong_int [OF ex_lib]) simp_all
  show "plugin_data (ex_jsep type sdp) = JNull"
    by (simp add: plugin_data_def ex_jsep_def GetValueFromJsonObject_def isMember_def Let_def)
  then show "publisher_ids (ex_env [] JNull) (ex_jsep type sdp) = []"
    by (simp add: publisher_ids_def positive_ids_def GetValueFromJsonObject_def JsonArrayToValueVector_def JsonArrayToVector_def)
qed (simp_all add: ex_jsep_def GetStringFromJsonObject_def GetValueFromJsonObject_def GetStringFromJson_def Let_def
    isMember_def and_then_get_def)

theorem publisher_is_made_witness:
  "\<exists>s1 s2 s3 reported s'. run_video_event (ex_env [] JNull) EventJoin (ex_jsep ''none'' []) (ex_member 0) = Inr s1
     \<and> run_signal (ex_env [] JNull) reported s' = Inr s2 \<and> length (sent s2) = Suc (length (sent (ex_member 0)))
     \<and> run_video_event (ex_env [] JNull) EventEvent (ex_jsep ''answer'' ''v=1'') s2 = Inr s3 \<and> sent s3 = sent s2"
proof -
  define offer where "offer = \<lparr>d_type = ''offer'', d_sdp = ''v=0''\<rparr>"
  have gone: "JsonValueToLongLong (je_json (ex_env [] JNull)) (plugin_data (ex_jsep type sdp)) ''unpublished'' = 0" for type sdp
    unfolding ex_jsep_facts(5) by (rule LongLong_no_object [OF ex_lib]) simp
  obtain s1 info st s2 s3 where
    "run_video_event (ex_env [] JNull) EventJoin (ex_jsep ''none'' []) (ex_member 0) = Inr s1"
    "run_signal (ex_env [] JNull) (last (emitted st)) (up_conf (put_va 5 (info\<lparr>si_stream := st\<rparr>)) s1) = Inr s2"
    "length (sent s2) = Suc (length (sent (ex_member 0)))"
    "run_video_event (ex_env [] JNull) EventEvent (ex_jsep ''answer'' ''v=1'') s2 = Inr s3" "sent s3 = sent s2"
    using publisher_is_made [OF ex_member_facts(1-3) ex_connected_facts(1) ex_member_facts(4,6), where h = 5
        and E = "ex_env [] JNull" and v = "ex_jsep ''none'' []" and offer = offer and d = "\<lparr>d_type = ''answer'', d_sdp = ''v=1''\<rparr>",
        OF _ _ _ _ _ _ ex_jsep_facts(4,4,1,2,3) _ ex_jsep_facts(6) gone ex_connected_facts(2)]
    by (auto simp: ex_member_facts ex_jsep_facts(6) simp del: run_video_event.simps)
  then show ?thesis by blast
qed

end
