(* ===== verification/Text_Room.thy ===== *)
theory Text_Room
  imports Room_Publishing Conference_Pointers
begin

text \<open>
  How a user gets into a text room: the server's offer makes a data channel and an answer, the
  answer is sent, the channel opens, and the join request goes over it. Session, conference
  layer, shared stream and channel together.
\<close>

section \<open>The stream\<close>

lemma channel_answer:
  fixes f :: 'r
  assumes "we_factory W" "we_pc W k" "we_channel W k" "we_parse W ''offer'' sdp = Some d" "d_type d = ''offer''"
  obtains st st' where
    "DC_SetPeerSDP W ''offer'' sdp ((DC_new k)\<lparr>OnSendLocalInfoWhenOpenDataChannel := Some f\<rparr>) = Inr (True, st)"
    "OnSuccess answer st = Inr st'" "mHandleID st = k" "mHandleID st' = k"
    "calls_of st' = [SetBitrate 128000 256000 512000, CreateDataChannelCall ''UbuntuWebrtcDemo'' True,
        SetRemoteDescription d, CreateAnswer, SetLocalDescription answer]"
    "mDataChannel st' = Some \<lparr>dch_label = ''UbuntuWebrtcDemo'', dch_state = Connecting, dch_sent = [], dch_observed = True\<rparr>"
    "OnSendLocalInfoWhenOpenDataChannel st' = Some f"
    "emitted st' = [LocalSDP k (d_sdp answer) (d_type answer)]"
proof -
  let ?s = "(DC_new k)\<lparr>OnSendLocalInfoWhenOpenDataChannel := Some f\<rparr>"
  obtain st where st: "DC_SetPeerSDP W ''offer'' sdp ?s = Inr (True, st)"
    "st = ?s\<lparr>mPeerConnection := mPeerConnection st, mDataChannel := mDataChannel st\<rparr>"
    "mDataChannel st = Some \<lparr>dch_label = ''UbuntuWebrtcDemo'', dch_state = Connecting, dch_sent = [], dch_observed = True\<rparr>"
    "calls_of st = [SetBitrate 128000 256000 512000, CreateDataChannelCall ''UbuntuWebrtcDemo'' True,
        SetRemoteDescription d, CreateAnswer]" "mPeerConnection st \<noteq> None"
    using assms
    by (simp add: DC_SetPeerSDP_def SetPeerSDP_with_def DC_initializePeerConnection_def createPeerConnection_def
        CreateDataChannel_def pc_do_def Let_def calls_of_def DC_new_def)
  then obtain p where p: "mPeerConnection st = Some p" by blast
  have e: "emitted st = []" "mHandleID st = k" "OnSendLocalInfoWhenOpenDataChannel st = Some f"
    by (subst st(2), simp add: DC_new_def)+
  have "OnSuccess answer st = Inr (emit_signal (LocalSDP k (d_sdp answer) (d_type answer))
      (st\<lparr>mPeerConnection := Some (p\<lparr>pc_calls := pc_calls p @ [SetLocalDescription answer]\<rparr>)\<rparr>))"
    by (simp add: OnSuccess_def pc_do_def p e(2))
  from that [OF st(1) this] show ?thesis
    using st(3,4) p e by (simp add: emit_signal_def calls_of_def)
qed

section \<open>The session\<close>

lemma SendSDP_text:
  assumes "janus_wf s" "mTextRoomPeerList s = us @ a # vs" "heap s a = Some p" "mTextRoomHandleID p = i"
    and "\<forall>b \<in> set us. map_option mTextRoomHandleID (heap s b) \<noteq> Some i"
    and "\<forall>b \<in> set (mVideoRoomPeerList s). map_option mVideoRoomHandleID (heap s b) \<noteq> Some i"
  shows "\<exists>s'. JVRM_SendSDP E i sdp type s = Inr s' \<and> clients s' = clients s
    \<and> sent s' = sent s @ [wire E (plugin_msg i (tr E s) (mSessionID p)
        [(''body'', JObj [(''request'', JStr ''ack'')]), (''jsep'', jsep_obj type sdp)])]"
proof -
  have none: "find_peer (\<lambda>p. mVideoRoomHandleID p = i) (mVideoRoomPeerList s) s = Inr None"
    by (rule other_peers(1) [OF assms(1) owned_lists(1) assms(6)])
  have "set us \<subseteq> set (owned s)" using assms(2) by (auto simp: owned_def)
  from other_peers(2) [OF assms(1) this assms(5,3,4)]
  have some: "find_peer (\<lambda>p. mTextRoomHandleID p = i) (mTextRoomPeerList s) s = Inr (Some a)"
    by (simp only: assms(2))
  have "JVRM_SendSDP E i sdp type s = Inr (send_json E (plugin_msg i (tr E s) (mSessionID p)
        [(''body'', JObj [(''request'', JStr ''ack'')]), (''jsep'', jsep_obj type sdp)]) (drawn E s))"
    by (simp add: JVRM_SendSDP_def none some JPC_SendSDPText_def deref_Some [OF assms(3)] msg_simps assms(4))
  with SendSDP_good [OF assms(1), of E i sdp type] show ?thesis by (simp add: good_def)
qed

lemma local_sdp_text:
  assumes "map_of (mRemoteStreamInfos_DataChannels (client s)) k = Some info" "canSendSDP info"
    and "map_of (mRemoteStreamInfos_VideoAudio (client s)) k = None"
  shows "onLocalSDP E k sdp type s =
    JVRM_SendSDP E k sdp type (up_conf (put_dc k (info\<lparr>si_sdp := sdp, si_sdpType := type\<rparr>)) s)"
  using assms by (simp add: onLocalSDP_def Let_def)

text \<open>A local description for a text peer goes out at once; the stream's entry remembers it.\<close>

lemma text_description_sent:
  assumes "janus_wf s" "mTextRoomPeerList s = us @ a # vs" "heap s a = Some p" "mTextRoomHandleID p = k"
    and "\<forall>b \<in> set us. map_option mTextRoomHandleID (heap s b) \<noteq> Some k"
    and "\<forall>b \<in> set (mVideoRoomPeerList s). map_option mVideoRoomHandleID (heap s b) \<noteq> Some k"
    and "map_of (mRemoteStreamInfos_DataChannels (client s)) k = Some info" "canSendSDP info"
    and "map_of (mRemoteStreamInfos_VideoAudio (client s)) k = None"
  obtains s' t where "onLocalSDP E k sdp type s = Inr s'"
    "client s' = put_dc k (info\<lparr>si_sdp := sdp, si_sdpType := type\<rparr>) (client s)"
    "sent s' = sent s @ [wire E (plugin_msg k t (mSessionID p)
        [(''body'', JObj [(''request'', JStr ''ack'')]), (''jsep'', jsep_obj type sdp)])]"
proof -
  define u where "u = up_conf (put_dc k (info\<lparr>si_sdp := sdp, si_sdpType := type\<rparr>)) s"
  have u: "janus_wf u" "mTextRoomPeerList u = us @ a # vs" "heap u = heap s"
    "mVideoRoomPeerList u = mVideoRoomPeerList s" "sent u = sent s"
    "client u = put_dc k (info\<lparr>si_sdp := sdp, si_sdpType := type\<rparr>) (client s)"
    using assms(1,2) by (simp_all add: u_def janus_wf_def owned_def)
  obtain s' where s': "JVRM_SendSDP E k sdp type u = Inr s'" "clients s' = clients u"
    "sent s' = sent u @ [wire E (plugin_msg k (tr E u) (mSessionID p)
        [(''body'', JObj [(''request'', JStr ''ack'')]), (''jsep'', jsep_obj type sdp)])]"
    using SendSDP_text [OF u(1,2), of p k E sdp type] assms(3-6) unfolding u(3,4) by blast
  show ?thesis
    by (rule that [of s'])
      (use local_sdp_text [OF assms(7-9), of E sdp type] s' u(5,6) in \<open>simp_all add: u_def clients_def\<close>)
qed

section \<open>The conference layer\<close>

lemma text_offer:
  assumes "conf_wf c" "map_of (mRemoteStreamInfos_DataChannels c) k = None"
    and "we_factory W" "we_pc W k" "we_channel W k" "we_parse W ''offer'' sdp = Some d" "d_type d = ''offer''"
  obtains c' info ob st where "onRetmoeSDP W k ''offer'' sdp True c = Inr c'"
    "map_of (mRemoteStreamInfos_DataChannels c') k = Some info" "canSendSDP info"
    "LocalStream_DataChannels c' = Some (si_stream info)" "dc_objects c' (si_stream info) = Some ob"
    "mRemoteStreamInfos_VideoAudio c' = mRemoteStreamInfos_VideoAudio c"
    "mTextRoomID c' = mTextRoomID c" "mTextRoomDisplayName c' = mTextRoomDisplayName c"
    "OnSuccess answer (do_stream ob) = Inr st"
    "calls_of st = [SetBitrate 128000 256000 512000, CreateDataChannelCall ''UbuntuWebrtcDemo'' True,
        SetRemoteDescription d, CreateAnswer, SetLocalDescription answer]"
    "mDataChannel st = Some \<lparr>dch_label = ''UbuntuWebrtcDemo'', dch_state = Connecting, dch_sent = [], dch_observed = True\<rparr>"
    "OnSendLocalInfoWhenOpenDataChannel st = Some SendLocalInfo"
    "emitted st = [LocalSDP k (d_sdp answer) (d_type answer)]"
proof -
  obtain c1 info ob where c1: "ConnectToPeer_DataChannels k c = Inr c1"
    "map_of (mRemoteStreamInfos_DataChannels c1) k = Some info" "LocalStream_DataChannels c1 = Some (si_stream info)"
    "dc_objects c1 (si_stream info) = Some ob"
    "do_stream ob = (DC_new k)\<lparr>OnSendLocalInfoWhenOpenDataChannel := Some SendLocalInfo\<rparr>"
    "mRemoteStreamInfos_VideoAudio c1 = mRemoteStreamInfos_VideoAudio c"
    using connect_dc_ok [OF assms(1), of k] by blast
  note keep = connect_streams [OF c1(1)]
  then have "info = new_info (Addr (dc_next c))" using c1(2) by (simp add: update_conv)
  then have can: "canSendSDP info" by (simp add: new_info_def)
  obtain st st' where st: "DC_SetPeerSDP W ''offer'' sdp (do_stream ob) = Inr (True, st)" "OnSuccess answer st = Inr st'"
    "calls_of st' = [SetBitrate 128000 256000 512000, CreateDataChannelCall ''UbuntuWebrtcDemo'' True,
        SetRemoteDescription d, CreateAnswer, SetLocalDescription answer]"
    "mDataChannel st' = Some \<lparr>dch_label = ''UbuntuWebrtcDemo'', dch_state = Connecting, dch_sent = [], dch_observed = True\<rparr>"
    "OnSendLocalInfoWhenOpenDataChannel st' = Some SendLocalInfo" "emitted st' = [LocalSDP k (d_sdp answer) (d_type answer)]"
    unfolding c1(5) by (rule channel_answer [OF assms(3-7), where f = SendLocalInfo and answer = answer]) blast
  let ?ob = "ob\<lparr>do_stream := st\<rparr>"
  have "onRetmoeSDP W k ''offer'' sdp True c = Inr (dc_put (si_stream info) ?ob c1)"
    by (simp add: onRetmoeSDP_def assms(2) c1(1,2) dc_get_def c1(4) st(1))
  then show ?thesis
    by (rule that [of _ info ?ob st']) (use c1(2,3,6) can keep st(2-6) in \<open>simp_all add: dc_put_def\<close>)
qed

section \<open>A text room is joined\<close>

text \<open>
  C4: a user gets into a text room. The server's offer on the handle of a text peer makes the
  local stream with a connection and a channel and asks for an answer; the answer is set as
  the local description, signalled, and sent to the server in an acknowledgement on the same
  handle, unchanged. When the channel opens, the join request goes over it, once, for the
  room and with the name the user last set, and the callback is forgotten.
\<close>

theorem text_room_is_joined:
  assumes "conf_ready W s" "OnRemoteSdp s = Some (onRetmoeSDP W)" "always_connects W" "we_channel W h"
    and "mTextRoomPeerList s = us @ a # vs" "heap s a = Some p" "mTextRoomHandleID p = h"
    and "\<forall>b \<in> set us. map_option mTextRoomHandleID (heap s b) \<noteq> Some h"
    and "\<forall>b \<in> set (mVideoRoomPeerList s). map_option mVideoRoomHandleID (heap s b) \<noteq> Some h"
    and "map_of (mRemoteStreamInfos_VideoAudio (client s)) h = None"
    and "map_of (mRemoteStreamInfos_DataChannels (client s)) h = None"
    and "GetStringFromJsonObject (je_json E) j ''type'' [] = (b1, ''offer'')"
    and "GetStringFromJsonObject (je_json E) j ''sdp'' [] = (b2, sdp)" "sdp \<noteq> []"
    and "GetValueFromJsonObject v ''jsep'' JNull = (b3, j)" "JsonValueToLongLong (je_json E) v ''sender'' = h"
    and "we_parse W ''offer'' sdp = Some d" "d_type d = ''offer''"
  shows "\<exists>s1 k ob st s2 t s3 ob' t1 t2. run_text_event E TextEventEvent v s = Inr s1
    \<and> LocalStream_DataChannels (client s1) = Some k \<and> dc_objects (client s1) k = Some ob
    \<and> OnSuccess answer (do_stream ob) = Inr st
    \<and> calls_of st = [SetBitrate 128000 256000 512000, CreateDataChannelCall ''UbuntuWebrtcDemo'' True,
        SetRemoteDescription d, CreateAnswer, SetLocalDescription answer]
    \<and> run_signal E (last (emitted st)) (up_conf (dc_put k (ob\<lparr>do_stream := st\<rparr>)) s1) = Inr s2
    \<and> sent s2 = sent s @ [wire E (plugin_msg h t (mSessionID p)
        [(''body'', JObj [(''request'', JStr ''ack'')]), (''jsep'', jsep_obj (d_type answer) (d_sdp answer))])]
    \<and> channel_changed E k Open s2 = Inr s3 \<and> dc_objects (client s3) k = Some ob'
    \<and> OnSendLocalInfoWhenOpenDataChannel (do_stream ob') = None
    \<and> sent_by (do_stream ob') = [JsonValueToString (je_json E) (JObj [
         (''textroom'', JStr ''join''), (''transaction'', JStr t1),
         (''room'', JInt (scast (mTextRoomID (client s)))), (''username'', JStr t2),
         (''display'', JStr (c_str (mTextRoomDisplayName (client s))))])]"
proof -
  have we: "we_factory W" "we_pc W h" using assms(3) by (simp_all add: always_connects_def)
  obtain c info ob st where c: "onRetmoeSDP W h ''offer'' sdp True (client s) = Inr c"
    "map_of (mRemoteStreamInfos_DataChannels c) h = Some info" "canSendSDP info"
    "LocalStream_DataChannels c = Some (si_stream info)" "dc_objects c (si_stream info) = Some ob"
    "mRemoteStreamInfos_VideoAudio c = mRemoteStreamInfos_VideoAudio (client s)"
    "mTextRoomID c = mTextRoomID (client s)" "mTextRoomDisplayName c = mTextRoomDisplayName (client s)"
    and st: "OnSuccess answer (do_stream ob) = Inr st"
    "calls_of st = [SetBitrate 128000 256000 512000, CreateDataChannelCall ''UbuntuWebrtcDemo'' True,
        SetRemoteDescription d, CreateAnswer, SetLocalDescription answer]"
    "mDataChannel st = Some \<lparr>dch_label = ''UbuntuWebrtcDemo'', dch_state = Connecting, dch_sent = [], dch_observed = True\<rparr>"
    "OnSendLocalInfoWhenOpenDataChannel st = Some SendLocalInfo"
    "emitted st = [LocalSDP h (d_sdp answer) (d_type answer)]"
    by (rule text_offer [OF ready_conf [OF assms(1)] assms(11) we assms(4,17,18), where answer = answer]) blast
  define k where "k = si_stream info"
  define s1 where "s1 = s\<lparr>client := c\<rparr>"
  have run: "run_text_event E TextEventEvent v s = Inr s1"
    using assms(2,12-16) c(1) by (simp add: onTextRoomEventEvent_def onVideoRoomEventSdp_def Let_def up_call_def s1_def)
  define u where "u = up_conf (dc_put k (ob\<lparr>do_stream := st\<rparr>)) s1"
  have tabs: "map_of (mRemoteStreamInfos_DataChannels (client u)) h = Some info"
    "map_of (mRemoteStreamInfos_VideoAudio (client u)) h = None"
    using c(2,6) assms(10) by (simp_all add: u_def s1_def dc_put_def)
  have "janus_wf s" by (rule conference.ready_wf [OF assms(1)])
  then have same: "janus_wf u" "mTextRoomPeerList u = us @ a # vs" "heap u = heap s"
    "mVideoRoomPeerList u = mVideoRoomPeerList s" "sent u = sent s"
    using assms(5) by (simp_all add: u_def s1_def janus_wf_def owned_def)
  obtain s2 t where s2: "onLocalSDP E h (d_sdp answer) (d_type answer) u = Inr s2"
    "client s2 = put_dc h (info\<lparr>si_sdp := d_sdp answer, si_sdpType := d_type answer\<rparr>) (client u)"
    "sent s2 = sent u @ [wire E (plugin_msg h t (mSessionID p)
        [(''body'', JObj [(''request'', JStr ''ack'')]), (''jsep'', jsep_obj (d_type answer) (d_sdp answer))])]"
    by (rule text_description_sent [OF same(1,2), of p h info E "d_sdp answer" "d_type answer"])
      (use assms(6-9) c(3) tabs in \<open>simp_all add: same(3,4)\<close>)
  have sig: "run_signal E (last (emitted st)) u = Inr s2" by (simp add: st(5) s2(1))
  have ob2: "dc_objects (client s2) k = Some (ob\<lparr>do_stream := st\<rparr>)" "mTextRoomID (client s2) = mTextRoomID (client s)"
    "mTextRoomDisplayName (client s2) = mTextRoomDisplayName (client s)"
    using c(7,8) by (simp_all add: s2(2) u_def s1_def dc_put_def put_dc_def)
  from open_channel_joins_room [OF ob2(1), of _ E] st(3,4) obtain s3 ob' t1 t2 where
    s3: "channel_changed E k Open s2 = Inr s3" "dc_objects (client s3) k = Some ob'"
    "OnSendLocalInfoWhenOpenDataChannel (do_stream ob') = None"
    "sent_by (do_stream ob') = [JsonValueToString (je_json E) (JObj [
         (''textroom'', JStr ''join''), (''transaction'', JStr t1),
         (''room'', JInt (scast (mTextRoomID (client s)))), (''username'', JStr t2),
         (''display'', JStr (c_str (mTextRoomDisplayName (client s))))])]"
    by (auto simp: ob2)
  show ?thesis
    using run c(4,5) st(1,2) sig s2(3) s3 same(5)
    by (intro exI [of _ s1] exI [of _ k] exI [of _ ob] exI [of _ st] exI [of _ s2] exI [of _ t]
        exI [of _ s3] exI [of _ ob'] exI [of _ t1] exI [of _ t2]) (simp add: s1_def u_def k_def)
qed

text \<open>A session with a text peer on handle 5.\<close>

definition ex_text_member :: session where
  "ex_text_member = (conf_start ex_connected 0 ex_conf)\<lparr>
     heap := [Addr 0 \<mapsto> (JPC_init (ex_env [] JNull) (Addr 0) 9)\<lparr>mTextRoomHandleID := 5\<rparr>],
     next_addr := 1, mTextRoomPeerList := [Addr 0]\<rparr>"

lemma ex_text_member_facts:
  "conf_ready ex_connected ex_text_member" "OnRemoteSdp ex_text_member = Some (onRetmoeSDP ex_connected)"
  "mTextRoomPeerList ex_text_member = [] @ Addr 0 # []" "mVideoRoomPeerList ex_text_member = []"
  "heap ex_text_member (Addr 0) = Some ((JPC_init (ex_env [] JNull) (Addr 0) 9)\<lparr>mTextRoomHandleID := 5\<rparr>)"
  "client ex_text_member = ex_conf"
proof -
  note start = conf_start_def session_start_def JVRM_new_def RegisterConnectToPeerCallBack_def
    RegisterRemoteSdpCallBack_def RegisterRemoteStreamRemoveCallBack_def
  show "conf_ready ex_connected ex_text_member"
    by (auto simp: session_ready_def bound_def ex_text_member_def start janus_wf_def owned_def less_addr_def ran_def
        reports_ok_def JPC_init_def split: if_splits)
qed (simp_all add: ex_text_member_def conf_start_def session_start_def JVRM_new_def RegisterConnectToPeerCallBack_def
    RegisterRemoteSdpCallBack_def RegisterRemoteStreamRemoveCallBack_def)

theorem text_room_is_joined_witness:
  "\<exists>s1 s2 s3 reported s' k ob'. run_text_event (ex_env [] JNull) TextEventEvent (ex_jsep ''offer'' ''v=0'') ex_text_member = Inr s1
     \<and> run_signal (ex_env [] JNull) reported s' = Inr s2 \<and> length (sent s2) = Suc (length (sent ex_text_member))
     \<and> channel_changed (ex_env [] JNull) k Open s2 = Inr s3 \<and> dc_objects (client s3) k = Some ob'
     \<and> length (sent_by (do_stream ob')) = 1"
proof -
  have "we_channel ex_connected 5" by (simp add: ex_connected_def ex_wenv_def)
  then obtain s1 k ob st s2 s3 ob' where
    "run_text_event (ex_env [] JNull) TextEventEvent (ex_jsep ''offer'' ''v=0'') ex_text_member = Inr s1"
    "run_signal (ex_env [] JNull) (last (emitted st)) (up_conf (dc_put k (ob\<lparr>do_stream := st\<rparr>)) s1) = Inr s2"
    "length (sent s2) = Suc (length (sent ex_text_member))"
    "channel_changed (ex_env [] JNull) k Open s2 = Inr s3" "dc_objects (client s3) k = Some ob'"
    "length (sent_by (do_stream ob')) = 1"
    using text_room_is_joined [OF ex_text_member_facts(1,2) ex_connected_facts(1) _ ex_text_member_facts(3,5), where h = 5
        and E = "ex_env [] JNull" and v = "ex_jsep ''offer'' ''v=0''" and answer = "\<lparr>d_type = ''answer'', d_sdp = ''v=1''\<rparr>",
        OF _ _ _ _ _ _ ex_jsep_facts(2,3) _ ex_jsep_facts(1,4) ex_connected_facts(2)]
    by (auto simp: ex_text_member_facts simp del: run_text_event.simps)
  then show ?thesis by blast
qed

end
