(* ===== verification/Video_Threads.thy ===== *)
theory Video_Threads
  imports Video_Frames
begin

text \<open>
  \<^verbatim>\<open>VideoRender\<close> between its two threads: the decoder (or the camera) calls
  \<^verbatim>\<open>SetVideoSize\<close>, \<^verbatim>\<open>SetYUVData\<close> and \<^verbatim>\<open>SetViewStated\<close> for every frame, the
  thread of the interface runs \<^verbatim>\<open>paintGL\<close>. Each call is cut into the steps between which
  the other thread can run: a store to a member, taking or releasing \<^verbatim>\<open>mMutex\<close>, the copy,
  the test of \<^verbatim>\<open>viewFlag\<close>, one upload of a plane. A schedule says which thread moves; a
  thread in front of a locked mutex waits.
\<close>

section \<open>Steps\<close>

datatype vop =
    StoreWidth nat
  | StoreHeight nat
  | LockMutex
  | CopyBytes "u8 list"
  | UnlockMutex
  | StoreFlag bool
  | SkipUnlessShown nat          \<comment> \<open>\<^verbatim>\<open>if(viewFlag)\<close>: how many steps depend on it\<close>
  | AskRepaint
  | UploadY | UploadU | UploadV
  | DrawPicture

text \<open>The plane that is uploaded next, from the members as they are at that moment.\<close>

definition upload_Y :: "video_render \<Rightarrow> video_render res" where
  "upload_Y r = (case pBufYuv420p r of None \<Rightarrow> Inl NullDereference
     | Some buf \<Rightarrow> upload 0 (idY r) (mVideoW r) (mVideoH r) 0 buf r)"

definition upload_U :: "video_render \<Rightarrow> video_render res" where
  "upload_U r = (case pBufYuv420p r of None \<Rightarrow> Inl NullDereference
     | Some buf \<Rightarrow> rbind (mul_int (mVideoW r) (mVideoH r)) (\<lambda>wh.
         upload 1 (idU r) (mVideoW r div 2) (mVideoH r div 2) wh buf r))"

definition upload_V :: "video_render \<Rightarrow> video_render res" where
  "upload_V r = (case pBufYuv420p r of None \<Rightarrow> Inl NullDereference
     | Some buf \<Rightarrow> rbind (mul_int (mVideoW r) (mVideoH r)) (\<lambda>wh. rbind (mul_int wh 5) (\<lambda>wh5.
         upload 2 (idV r) (mVideoW r div 2) (mVideoH r div 2) (wh5 div 4) buf r)))"

definition draw_picture :: "video_render \<Rightarrow> video_render" where
  "draw_picture r = emit [GlUniform1i (textureUniformY r) 0, GlUniform1i (textureUniformU r) 1,
     GlUniform1i (textureUniformV r) 2, GlDrawTriangleStrip 4] r"

definition copy_bytes :: "u8 list \<Rightarrow> video_render \<Rightarrow> video_render res" where
  "copy_bytes yuvData r = (case pBufYuv420p r of None \<Rightarrow> Inl NullDereference
     | Some buf \<Rightarrow> rbind (mul_int (mVideoW r) (mVideoH r)) (\<lambda>wh. rbind (mul_int wh 3) (\<lambda>wh3.
         rbind (memcpy 0 yuvData (wh3 div 2) buf) (\<lambda>buf. Inr (r\<lparr>pBufYuv420p := Some buf\<rparr>)))))"

text \<open>One step of a thread that has the steps \<open>k\<close> after it: what is left of it, and the widget.\<close>

fun vop_exec :: "vop \<Rightarrow> vop list \<Rightarrow> video_render \<Rightarrow> (vop list \<times> video_render) res" where
  "vop_exec (StoreWidth w) k r = Inr (k, r\<lparr>mVideoW := w\<rparr>)"
| "vop_exec (StoreHeight h) k r = Inr (k, r\<lparr>mVideoH := h\<rparr>)"
| "vop_exec LockMutex k r = Inr (if mMutex r then (LockMutex # k, r) else (k, lock r))"
| "vop_exec (CopyBytes bs) k r = rbind (copy_bytes bs r) (\<lambda>r. Inr (k, r))"
| "vop_exec UnlockMutex k r = Inr (k, unlock r)"
| "vop_exec (StoreFlag b) k r = Inr (k, r\<lparr>viewFlag := b\<rparr>)"
| "vop_exec (SkipUnlessShown n) k r = Inr (if viewFlag r then k else drop n k, r)"
| "vop_exec AskRepaint k r = Inr (k, r\<lparr>updates := Suc (updates r)\<rparr>)"
| "vop_exec UploadY k r = rbind (upload_Y r) (\<lambda>r. Inr (k, r))"
| "vop_exec UploadU k r = rbind (upload_U r) (\<lambda>r. Inr (k, r))"
| "vop_exec UploadV k r = rbind (upload_V r) (\<lambda>r. Inr (k, r))"
| "vop_exec DrawPicture k r = Inr (k, draw_picture r)"

section \<open>Calls\<close>

datatype vcall = SizeCall nat nat | DataCall "u8 list" | ShowCall bool | PaintCall

text \<open>The member functions as sequences of steps.\<close>

definition SetVideoSize_ops :: "nat \<Rightarrow> nat \<Rightarrow> vop list" where
  "SetVideoSize_ops w h = [StoreWidth w, StoreHeight h]"

definition SetYUVData_ops :: "u8 list \<Rightarrow> vop list" where
  "SetYUVData_ops yuvData = [LockMutex, CopyBytes yuvData, UnlockMutex]"

definition SetViewStated_ops :: "bool \<Rightarrow> vop list" where
  "SetViewStated_ops flag = [StoreFlag flag, SkipUnlessShown 1, AskRepaint]"

definition paintGL_ops :: "vop list" where
  "paintGL_ops = [SkipUnlessShown 6, LockMutex, UploadY, UploadU, UploadV, DrawPicture, UnlockMutex]"

lemmas ops_defs [simp] = SetVideoSize_ops_def SetYUVData_ops_def SetViewStated_ops_def paintGL_ops_def

text \<open>A call as its steps, and as the operation of \<open>Video_Frames\<close>.\<close>

fun call_ops :: "vcall \<Rightarrow> vop list" where
  "call_ops (SizeCall w h) = SetVideoSize_ops w h"
| "call_ops (DataCall bs) = SetYUVData_ops bs"
| "call_ops (ShowCall b) = SetViewStated_ops b"
| "call_ops PaintCall = paintGL_ops"

fun call_run :: "vcall \<Rightarrow> video_render \<Rightarrow> video_render res" where
  "call_run (SizeCall w h) r = Inr (SetVideoSize w h r)"
| "call_run (DataCall bs) r = SetYUVData bs r"
| "call_run (ShowCall b) r = Inr (SetViewStated b r)"
| "call_run PaintCall r = paintGL r"

definition frame_calls :: "nat \<Rightarrow> nat \<Rightarrow> u8 list \<Rightarrow> vcall list" where
  "frame_calls w h bs = [SizeCall w h, DataCall bs, ShowCall True]"

definition stream_calls :: "nat \<Rightarrow> nat \<Rightarrow> u8 list list \<Rightarrow> vcall list" where
  "stream_calls w h fs = concat (map (frame_calls w h) fs)"

definition steps_of :: "vcall list \<Rightarrow> vop list" where
  "steps_of cs = concat (map call_ops cs)"

section \<open>Two threads\<close>

record two_threads =
  decoder :: "vop list"
  painter :: "vop list"
  widget :: video_render

definition threads :: "vcall list \<Rightarrow> vcall list \<Rightarrow> video_render \<Rightarrow> two_threads" where
  "threads ds ps r = \<lparr>decoder = steps_of ds, painter = steps_of ps, widget = r\<rparr>"

fun vt_move :: "bool \<Rightarrow> two_threads \<Rightarrow> two_threads res" where
  "vt_move True c = (case decoder c of [] \<Rightarrow> Inr c
     | x # k \<Rightarrow> rbind (vop_exec x k (widget c)) (\<lambda>(k, r). Inr (c\<lparr>decoder := k, widget := r\<rparr>)))"
| "vt_move False c = (case painter c of [] \<Rightarrow> Inr c
     | x # k \<Rightarrow> rbind (vop_exec x k (widget c)) (\<lambda>(k, r). Inr (c\<lparr>painter := k, widget := r\<rparr>)))"

text \<open>\<open>True\<close> in a schedule is a turn of the decoder, \<open>False\<close> one of the painter.\<close>

definition vt_run :: "bool list \<Rightarrow> two_threads \<Rightarrow> two_threads res" where
  "vt_run = rfold vt_move"

definition finished :: "two_threads \<Rightarrow> bool" where
  "finished c \<longleftrightarrow> decoder c = [] \<and> painter c = []"

lemma vt_run_simps [simp]:
  "vt_run [] c = Inr c" "vt_run (t # ts) c = rbind (vt_move t c) (vt_run ts)"
  by (simp_all add: vt_run_def)

lemma vt_run_append: "vt_run (ts @ us) c = rbind (vt_run ts c) (vt_run us)"
  by (simp add: vt_run_def rfold_append)

section \<open>A thread that is alone\<close>

lemma steps_of_simps [simp]:
  "steps_of [] = []" "steps_of (c # cs) = call_ops c @ steps_of cs"
  by (simp_all add: steps_of_def)

text \<open>Without the other thread, the steps of a call have the effect of the call, faults included.\<close>

definition alone :: "bool \<Rightarrow> vcall list \<Rightarrow> video_render \<Rightarrow> two_threads" where
  "alone t cs r = threads (if t then cs else []) (if t then [] else cs) r"

text \<open>Painting is its three uploads and the drawing, under the lock.\<close>

lemma upload_unchanged:
  "rbind (upload n t w h off buf r) f
   = rbind (read_bytes off (w * h) buf) (\<lambda>bytes. f (emit [GlActiveTexture n, GlBindTexture t,
       GlTexImage w h bytes, GlTexFilterLinear, GlTexClampToEdge] r))"
  by (simp add: upload_def rbind_assoc)

lemma emit_fields [simp]:
  "pBufYuv420p (emit cs r) = pBufYuv420p r" "mVideoW (emit cs r) = mVideoW r" "mVideoH (emit cs r) = mVideoH r"
  "idY (emit cs r) = idY r" "idU (emit cs r) = idU r" "idV (emit cs r) = idV r"
  "textureUniformY (emit cs r) = textureUniformY r" "textureUniformU (emit cs r) = textureUniformU r"
  "textureUniformV (emit cs r) = textureUniformV r"
  by (simp_all add: emit_def)

lemma paintGL_by_steps:
  "viewFlag r \<Longrightarrow> paintGL r = rbind (upload_Y (lock r)) (\<lambda>r. rbind (upload_U r) (\<lambda>r. rbind (upload_V r)
     (\<lambda>r. Inr (unlock (draw_picture r)))))"
  by (cases "pBufYuv420p (lock r)"; cases "mul_int (mVideoW (lock r)) (mVideoH (lock r))")
    (simp_all add: paintGL_def upload_Y_def upload_U_def upload_V_def draw_picture_def upload_unchanged
      rbind_assoc Let_def)

lemma SetYUVData_by_steps: "SetYUVData bs r = rbind (copy_bytes bs (lock r)) (\<lambda>r. Inr (unlock r))"
  by (cases "pBufYuv420p (lock r)") (simp_all add: SetYUVData_def copy_bytes_def rbind_assoc Let_def)

lemma alone_eq: "alone t cs r = \<lparr>decoder = if t then steps_of cs else [],
    painter = if t then [] else steps_of cs, widget = r\<rparr>"
  by (simp add: alone_def threads_def)

lemma move_alone:
  "vt_move t \<lparr>decoder = if t then x # k else [], painter = if t then [] else x # k, widget = r\<rparr>
   = rbind (vop_exec x k r) (\<lambda>(k, r). Inr \<lparr>decoder = if t then k else [], painter = if t then [] else k, widget = r\<rparr>)"
  by (cases t; cases "vop_exec x k r") auto

lemma stay_alone:
  "vt_move t \<lparr>decoder = if t then [] else [], painter = if t then [] else [], widget = r\<rparr>
   = Inr \<lparr>decoder = [], painter = [], widget = r\<rparr>"
  by (cases t) simp_all

lemma steps_of_call_alone:
  assumes "\<not> mMutex r"
  shows "vt_run (replicate (length (call_ops a)) t) (alone t [a] r)
    = rbind (call_run a r) (\<lambda>r'. Inr (alone t [] r'))"
proof (cases a)
  case (SizeCall w h)
  then show ?thesis
    by (simp add: alone_eq move_alone stay_alone SetVideoSize_def numeral_eq_Suc)
next
  case (DataCall bs)
  then show ?thesis
    using assms by (simp add: alone_eq move_alone SetYUVData_by_steps rbind_assoc numeral_eq_Suc)
next
  case (ShowCall b)
  then show ?thesis
    by (cases b) (simp_all add: alone_eq move_alone stay_alone SetViewStated_def numeral_eq_Suc)
next
  case PaintCall
  show ?thesis
  proof (cases "viewFlag r")
    case True
    then show ?thesis
      using assms PaintCall
      by (simp add: alone_eq move_alone paintGL_by_steps rbind_assoc numeral_eq_Suc)
  next
    case False
    then show ?thesis
      using PaintCall by (simp add: alone_eq move_alone stay_alone paintGL_def numeral_eq_Suc)
  qed
qed

section \<open>The calls behind an interleaving\<close>

text \<open>Where the decoder is in its frame, and what is left of the frame, in steps and in calls.\<close>

datatype dphase = D_next | D_wide "u8 list" | D_sized "u8 list" | D_held "u8 list" | D_copied | D_free | D_flag | D_ask

fun d_left :: "nat \<Rightarrow> dphase \<Rightarrow> vop list" where
  "d_left h D_next = []"
| "d_left h (D_wide bs) = StoreHeight h # call_ops (DataCall bs) @ call_ops (ShowCall True)"
| "d_left h (D_sized bs) = call_ops (DataCall bs) @ call_ops (ShowCall True)"
| "d_left h (D_held bs) = CopyBytes bs # UnlockMutex # call_ops (ShowCall True)"
| "d_left h D_copied = UnlockMutex # call_ops (ShowCall True)"
| "d_left h D_free = call_ops (ShowCall True)"
| "d_left h D_flag = [SkipUnlessShown 1, AskRepaint]"
| "d_left h D_ask = [AskRepaint]"

fun d_calls :: "nat \<Rightarrow> nat \<Rightarrow> dphase \<Rightarrow> vcall list" where
  "d_calls w h (D_wide bs) = frame_calls w h bs"
| "d_calls w h (D_sized bs) = [DataCall bs, ShowCall True]"
| "d_calls w h (D_held bs) = [DataCall bs, ShowCall True]"
| "d_calls w h D_copied = [ShowCall True]"
| "d_calls w h D_free = [ShowCall True]"
| "d_calls w h dp = []"

fun d_bytes :: "dphase \<Rightarrow> u8 list set" where
  "d_bytes (D_wide bs) = {bs}"
| "d_bytes (D_sized bs) = {bs}"
| "d_bytes (D_held bs) = {bs}"
| "d_bytes dp = {}"

fun d_holds :: "dphase \<Rightarrow> bool" where
  "d_holds (D_held bs) = True" | "d_holds D_copied = True" | "d_holds dp = False"

fun d_owes :: "dphase \<Rightarrow> nat" where
  "d_owes D_flag = 1" | "d_owes D_ask = 1" | "d_owes dp = 0"

fun d_width :: "nat \<Rightarrow> dphase \<Rightarrow> nat \<Rightarrow> nat" where
  "d_width w (D_wide bs) v = w" | "d_width w dp v = v"

fun d_sized :: "dphase \<Rightarrow> bool" where
  "d_sized D_next = False" | "d_sized (D_wide bs) = False" | "d_sized dp = True"

text \<open>The same for the painter, and what it has drawn of the picture it is at.\<close>

datatype pphase = P_rest | P_shown | P_locked | P_Y | P_U | P_V | P_drawn

fun p_left :: "pphase \<Rightarrow> vop list" where
  "p_left P_rest = []"
| "p_left P_shown = [LockMutex, UploadY, UploadU, UploadV, DrawPicture, UnlockMutex]"
| "p_left P_locked = [UploadY, UploadU, UploadV, DrawPicture, UnlockMutex]"
| "p_left P_Y = [UploadU, UploadV, DrawPicture, UnlockMutex]"
| "p_left P_U = [UploadV, DrawPicture, UnlockMutex]"
| "p_left P_V = [DrawPicture, UnlockMutex]"
| "p_left P_drawn = [UnlockMutex]"

definition p_calls :: "pphase \<Rightarrow> vcall list" where
  "p_calls pp = (if pp = P_rest \<or> pp = P_drawn then [] else [PaintCall])"

definition p_holds :: "pphase \<Rightarrow> bool" where
  "p_holds pp \<longleftrightarrow> pp \<noteq> P_rest \<and> pp \<noteq> P_shown"

definition plane :: "nat \<Rightarrow> nat \<Rightarrow> nat \<Rightarrow> nat \<Rightarrow> nat \<Rightarrow> u8 list \<Rightarrow> gl_cmd list" where
  "plane n t w h off buf = [GlActiveTexture n, GlBindTexture t, GlTexImage w h (take (w * h) (drop off buf)),
     GlTexFilterLinear, GlTexClampToEdge]"

abbreviation plane_Y :: "nat \<Rightarrow> nat \<Rightarrow> video_render \<Rightarrow> gl_cmd list" where
  "plane_Y w h r \<equiv> plane 0 (idY r) w h 0 (the (pBufYuv420p r))"
abbreviation plane_U :: "nat \<Rightarrow> nat \<Rightarrow> video_render \<Rightarrow> gl_cmd list" where
  "plane_U w h r \<equiv> plane 1 (idU r) (w div 2) (h div 2) (w * h) (the (pBufYuv420p r))"
abbreviation plane_V :: "nat \<Rightarrow> nat \<Rightarrow> video_render \<Rightarrow> gl_cmd list" where
  "plane_V w h r \<equiv> plane 2 (idV r) (w div 2) (h div 2) (w * h * 5 div 4) (the (pBufYuv420p r))"

fun p_seen :: "nat \<Rightarrow> nat \<Rightarrow> pphase \<Rightarrow> video_render \<Rightarrow> gl_cmd list" where
  "p_seen w h P_Y r = plane_Y w h r"
| "p_seen w h P_U r = plane_Y w h r @ plane_U w h r"
| "p_seen w h P_V r = plane_Y w h r @ plane_U w h r @ plane_V w h r"
| "p_seen w h pp r = []"

text \<open>A picture of this size can be stored in the widget and read from it.\<close>

definition fits :: "nat \<Rightarrow> nat \<Rightarrow> video_render \<Rightarrow> bool" where
  "fits w h r \<longleftrightarrow> int (w * h * 5) \<le> INT_MAX \<and>
     (\<exists>buf. pBufYuv420p r = Some buf \<and> w * h * 3 div 2 \<le> length buf)"

lemma chroma_fits:
  "w * h + w div 2 * (h div 2) \<le> w * h * 3 div 2"
  "w * h * 5 div 4 + w div 2 * (h div 2) \<le> w * h * 3 div (2 :: nat)"
proof -
  have "2 * (w div 2) * (2 * (h div 2)) \<le> w * h" by (intro mult_le_mono) simp_all
  then have "4 * (w div 2 * (h div 2)) \<le> w * h" by (simp add: ac_simps)
  then show "w * h + w div 2 * (h div 2) \<le> w * h * 3 div 2"
    "w * h * 5 div 4 + w div 2 * (h div 2) \<le> w * h * 3 div 2" by linarith+
qed

text \<open>The widget the threads share, from the widget after the calls that count as done.\<close>

definition between :: "nat \<Rightarrow> nat \<Rightarrow> dphase \<Rightarrow> pphase \<Rightarrow> video_render \<Rightarrow> video_render" where
  "between w h dp pp r = r\<lparr>mMutex := d_holds dp \<or> p_holds pp, gl := gl r @ p_seen w h pp r,
     updates := updates r - d_owes dp, mVideoW := d_width w dp (mVideoW r)\<rparr>"

definition sim_ok :: "nat \<Rightarrow> nat \<Rightarrow> dphase \<Rightarrow> u8 list list \<Rightarrow> pphase \<Rightarrow> video_render \<Rightarrow> bool" where
  "sim_ok w h dp fs pp r \<longleftrightarrow> \<not> mMutex r \<and> fits w h r \<and> \<not> (d_holds dp \<and> p_holds pp)
     \<and> d_owes dp \<le> updates r \<and> (0 < d_owes dp \<longrightarrow> viewFlag r) \<and> (pp \<noteq> P_rest \<longrightarrow> viewFlag r)
     \<and> (viewFlag r \<or> d_sized dp \<longrightarrow> mVideoW r = w \<and> mVideoH r = h)
     \<and> (\<forall>bs \<in> d_bytes dp \<union> set fs. w * h * 3 div 2 \<le> length bs)"

definition here :: "nat \<Rightarrow> nat \<Rightarrow> dphase \<Rightarrow> u8 list list \<Rightarrow> pphase \<Rightarrow> nat \<Rightarrow> video_render \<Rightarrow> two_threads" where
  "here w h dp fs pp n r = \<lparr>decoder = d_left h dp @ steps_of (stream_calls w h fs),
     painter = p_left pp @ steps_of (replicate n PaintCall), widget = between w h dp pp r\<rparr>"

definition sim :: "nat \<Rightarrow> nat \<Rightarrow> two_threads \<Rightarrow> vcall list \<Rightarrow> vcall list \<Rightarrow> video_render \<Rightarrow> bool" where
  "sim w h c A B r \<longleftrightarrow> (\<exists>dp fs pp n. sim_ok w h dp fs pp r \<and> c = here w h dp fs pp n r
     \<and> A = d_calls w h dp @ stream_calls w h fs \<and> B = p_calls pp @ replicate n PaintCall)"

lemma stream_calls_simps [simp]:
  "stream_calls w h [] = []"
  "stream_calls w h (bs # fs) = frame_calls w h bs @ stream_calls w h fs"
  by (simp_all add: stream_calls_def)

lemma frame_steps [simp]: "steps_of (frame_calls w h bs @ cs) = StoreWidth w # d_left h (D_wide bs) @ steps_of cs"
  by (simp add: frame_calls_def)

lemma p_seen_updates [simp]:
  "p_seen w h pp (r\<lparr>mVideoW := a\<rparr>) = p_seen w h pp r"
  "p_seen w h pp (r\<lparr>mVideoH := a\<rparr>) = p_seen w h pp r"
  "p_seen w h pp (r\<lparr>viewFlag := f\<rparr>) = p_seen w h pp r"
  "p_seen w h pp (r\<lparr>updates := u\<rparr>) = p_seen w h pp r"
  by (cases pp; simp)+

lemma p_seen_free: "\<not> p_holds pp \<Longrightarrow> p_seen w h pp r = []"
  by (cases pp) (simp_all add: p_holds_def)

text \<open>The moves of the decoder.\<close>

lemma next_frame: "vt_move True (here w h D_next (bs # fs) pp n r) = Inr (here w h (D_wide bs) fs pp n r)"
  by (simp add: here_def between_def)

lemma no_frame: "vt_move True (here w h D_next [] pp n r) = Inr (here w h D_next [] pp n r)"
  by (simp add: here_def)

lemma size_stored:
  "vt_move True (here w h (D_wide bs) fs pp n r) = Inr (here w h (D_sized bs) fs pp n (SetVideoSize w h r))"
  by (simp add: here_def between_def SetVideoSize_def)

lemma decoder_locks:
  "vt_move True (here w h (D_sized bs) fs pp n r)
   = Inr (here w h (if p_holds pp then D_sized bs else D_held bs) fs pp n r)"
  by (simp add: here_def between_def lock_def)

lemma decoder_copies:
  assumes "sim_ok w h (D_held bs) fs pp r"
  shows "\<exists>r'. SetYUVData bs r = Inr r' \<and> sim_ok w h D_copied fs pp r'
    \<and> vt_move True (here w h (D_held bs) fs pp n r) = Inr (here w h D_copied fs pp n r')"
proof -
  have free: "\<not> p_holds pp" and size: "mVideoW r = w" "mVideoH r = h"
    using assms by (simp_all add: sim_ok_def)
  obtain buf where buf: "pBufYuv420p r = Some buf" "w * h * 3 div 2 \<le> length buf" "w * h * 3 div 2 \<le> length bs"
    and mul: "mul_int w h = Inr (w * h)" "mul_int (w * h) 3 = Inr (w * h * 3)"
    using assms by (auto simp: sim_ok_def fits_def mul_int_def)
  let ?new = "take (w * h * 3 div 2) bs @ drop (w * h * 3 div 2) buf"
  let ?r = "r\<lparr>pBufYuv420p := Some ?new\<rparr>"
  have "SetYUVData bs r = Inr ?r"
    using assms by (simp add: SetYUVData_def lock_def unlock_def size buf mul memcpy_def sim_ok_def)
  moreover have "sim_ok w h D_copied fs pp ?r"
    using assms buf by (auto simp: sim_ok_def fits_def)
  moreover have "vt_move True (here w h (D_held bs) fs pp n r) = Inr (here w h D_copied fs pp n ?r)"
    using free by (simp add: here_def between_def copy_bytes_def size buf mul memcpy_def p_seen_free)
  ultimately show ?thesis by blast
qed

lemma decoder_unlocks:
  "\<not> p_holds pp \<Longrightarrow> vt_move True (here w h D_copied fs pp n r) = Inr (here w h D_free fs pp n r)"
  by (simp add: here_def between_def unlock_def)

lemma flag_stored:
  "vt_move True (here w h D_free fs pp n r) = Inr (here w h D_flag fs pp n (SetViewStated True r))"
  by (simp add: here_def between_def SetViewStated_def)

lemma flag_tested:
  "viewFlag r \<Longrightarrow> vt_move True (here w h D_flag fs pp n r) = Inr (here w h D_ask fs pp n r)"
  by (simp add: here_def between_def)

lemma repaint_asked:
  "0 < updates r \<Longrightarrow> vt_move True (here w h D_ask fs pp n r) = Inr (here w h D_next fs pp n r)"
  by (simp add: here_def between_def)

text \<open>The moves of the painter.\<close>

lemma no_painting: "vt_move False (here w h dp fs P_rest 0 r) = Inr (here w h dp fs P_rest 0 r)"
  by (simp add: here_def)

lemma next_painting:
  "vt_move False (here w h dp fs P_rest (Suc n) r)
   = Inr (here w h dp fs (if viewFlag r then P_shown else P_rest) n r)"
  by (simp add: here_def between_def p_holds_def)

lemma painter_locks:
  "vt_move False (here w h dp fs P_shown n r) = Inr (here w h dp fs (if d_holds dp then P_shown else P_locked) n r)"
  by (simp add: here_def between_def lock_def p_holds_def)

lemma plane_upload:
  "off + w * h \<le> length buf \<Longrightarrow> upload i t w h off buf r = Inr (emit (plane i t w h off buf) r)"
  by (simp add: upload_def read_bytes_def plane_def)

text \<open>A painter that has passed the test sees the size of the frames, whatever the decoder stores.\<close>

lemma painter_facts:
  assumes "sim_ok w h dp fs pp r" "pp \<noteq> P_rest"
  obtains buf where "pBufYuv420p r = Some buf" "w * h * 3 div 2 \<le> length buf"
    "mVideoW r = w" "mVideoH r = h" "d_width w dp w = w"
    "mul_int w h = Inr (w * h)" "mul_int (w * h) 5 = Inr (w * h * 5)"
proof -
  have "d_width w dp w = w" by (cases dp) simp_all
  moreover have "mVideoW r = w" "mVideoH r = h" "fits w h r"
    using assms by (simp_all add: sim_ok_def)
  moreover from this(3) have "mul_int w h = Inr (w * h)" "mul_int (w * h) 5 = Inr (w * h * 5)"
    by (simp_all add: fits_def mul_int_def)
  ultimately show ?thesis using that by (auto simp: fits_def)
qed

lemma uploads_planes:
  assumes "sim_ok w h dp fs pp r" "pp \<noteq> P_rest"
  shows "upload_Y (between w h dp pp r) = Inr (emit (plane_Y w h r) (between w h dp pp r))"
    "upload_U (between w h dp pp r) = Inr (emit (plane_U w h r) (between w h dp pp r))"
    "upload_V (between w h dp pp r) = Inr (emit (plane_V w h r) (between w h dp pp r))"
proof -
  obtain buf where f: "pBufYuv420p r = Some buf" "w * h * 3 div 2 \<le> length buf"
    "mVideoW r = w" "mVideoH r = h" "d_width w dp w = w"
    "mul_int w h = Inr (w * h)" "mul_int (w * h) 5 = Inr (w * h * 5)"
    by (rule painter_facts [OF assms])
  have "w * h \<le> length buf" "w * h + w div 2 * (h div 2) \<le> length buf"
    "w * h * 5 div 4 + w div 2 * (h div 2) \<le> length buf"
    using chroma_fits [of w h] f(2) by linarith+
  then show "upload_Y (between w h dp pp r) = Inr (emit (plane_Y w h r) (between w h dp pp r))"
    "upload_U (between w h dp pp r) = Inr (emit (plane_U w h r) (between w h dp pp r))"
    "upload_V (between w h dp pp r) = Inr (emit (plane_V w h r) (between w h dp pp r))"
    by (simp_all add: upload_Y_def upload_U_def upload_V_def between_def f plane_upload)
qed

lemma painter_uploads:
  "sim_ok w h dp fs P_locked r \<Longrightarrow> vt_move False (here w h dp fs P_locked n r) = Inr (here w h dp fs P_Y n r)"
  "sim_ok w h dp fs P_Y r \<Longrightarrow> vt_move False (here w h dp fs P_Y n r) = Inr (here w h dp fs P_U n r)"
  "sim_ok w h dp fs P_U r \<Longrightarrow> vt_move False (here w h dp fs P_U n r) = Inr (here w h dp fs P_V n r)"
  by (simp_all add: here_def uploads_planes) (simp_all add: between_def p_holds_def emit_def)

lemma painter_draws:
  assumes "sim_ok w h dp fs P_V r"
  shows "\<exists>r'. paintGL r = Inr r' \<and> sim_ok w h dp fs P_drawn r'
    \<and> vt_move False (here w h dp fs P_V n r) = Inr (here w h dp fs P_drawn n r')"
proof -
  let ?r = "draw_picture (emit (p_seen w h P_V r) r)"
  have view: "viewFlag r" "\<not> mMutex r" using assms by (simp_all add: sim_ok_def)
  obtain buf where f: "pBufYuv420p r = Some buf" "w * h * 3 div 2 \<le> length buf"
    "mVideoW r = w" "mVideoH r = h" "d_width w dp w = w"
    "mul_int w h = Inr (w * h)" "mul_int (w * h) 5 = Inr (w * h * 5)"
    by (rule painter_facts [OF assms]) simp_all
  have "w * h \<le> length buf" "w * h + w div 2 * (h div 2) \<le> length buf"
    "w * h * 5 div 4 + w div 2 * (h div 2) \<le> length buf"
    using chroma_fits [of w h] f(2) by linarith+
  then have "paintGL r = Inr ?r"
    using view by (simp add: paintGL_def lock_def unlock_def f plane_upload Let_def draw_picture_def)
      (simp add: emit_def)
  moreover have "sim_ok w h dp fs P_drawn ?r"
    using assms by (simp add: sim_ok_def fits_def draw_picture_def emit_def p_holds_def)
  moreover have "vt_move False (here w h dp fs P_V n r) = Inr (here w h dp fs P_drawn n ?r)"
    by (simp add: here_def between_def draw_picture_def emit_def p_holds_def)
  ultimately show ?thesis by blast
qed

lemma painter_unlocks:
  "\<not> d_holds dp \<Longrightarrow> vt_move False (here w h dp fs P_drawn n r) = Inr (here w h dp fs P_rest n r)"
  by (simp add: here_def between_def unlock_def p_holds_def)

section \<open>Every step is a call or nothing\<close>

text \<open>A move leaves the calls as they are, or performs the next call of its thread.\<close>

definition advances :: "nat \<Rightarrow> nat \<Rightarrow> two_threads \<Rightarrow> vcall list \<Rightarrow> vcall list \<Rightarrow> video_render \<Rightarrow> bool" where
  "advances w h c A B r \<longleftrightarrow> sim w h c A B r
     \<or> (\<exists>a A' r'. A = a # A' \<and> call_run a r = Inr r' \<and> sim w h c A' B r')
     \<or> (\<exists>b B' r'. B = b # B' \<and> call_run b r = Inr r' \<and> sim w h c A B' r')"

lemma sim_here:
  "sim_ok w h dp fs pp r \<Longrightarrow>
   sim w h (here w h dp fs pp n r) (d_calls w h dp @ stream_calls w h fs) (p_calls pp @ replicate n PaintCall) r"
  unfolding sim_def by blast

lemma advances_stutter:
  assumes "m = Inr (here w h dp fs pp n r)" "sim_ok w h dp fs pp r"
    and "A = d_calls w h dp @ stream_calls w h fs" "B = p_calls pp @ replicate n PaintCall"
  shows "\<exists>c'. m = Inr c' \<and> advances w h c' A B r"
  using assms(1) sim_here [OF assms(2), of n] unfolding assms(3,4) advances_def by simp

lemma advances_decoder:
  assumes "m = Inr (here w h dp fs pp n r')" "sim_ok w h dp fs pp r'" "call_run a r = Inr r'"
    and "A = a # d_calls w h dp @ stream_calls w h fs" "B = p_calls pp @ replicate n PaintCall"
  shows "\<exists>c'. m = Inr c' \<and> advances w h c' A B r"
  using assms(1,3) sim_here [OF assms(2), of n] unfolding assms(4,5) advances_def by auto

lemma advances_painter:
  assumes "m = Inr (here w h dp fs pp n r')" "sim_ok w h dp fs pp r'" "call_run b r = Inr r'"
    and "A = d_calls w h dp @ stream_calls w h fs" "B = b # p_calls pp @ replicate n PaintCall"
  shows "\<exists>c'. m = Inr c' \<and> advances w h c' A B r"
  using assms(1,3) sim_here [OF assms(2), of n] unfolding assms(4,5) advances_def by auto

lemma decoder_step:
  assumes ok: "sim_ok w h dp fs pp r"
  shows "\<exists>c'. vt_move True (here w h dp fs pp n r) = Inr c'
    \<and> advances w h c' (d_calls w h dp @ stream_calls w h fs) (p_calls pp @ replicate n PaintCall) r"
proof (cases dp)
  case D_next
  show ?thesis
  proof (cases fs)
    case Nil
    show ?thesis
      unfolding D_next Nil by (rule advances_stutter [OF no_frame]) (use ok in \<open>simp_all add: D_next Nil\<close>)
  next
    case (Cons bs fs')
    show ?thesis
      unfolding D_next Cons
      by (rule advances_stutter [OF next_frame]) (use ok in \<open>auto simp: D_next Cons sim_ok_def\<close>)
  qed
next
  case (D_wide bs)
  show ?thesis
    unfolding D_wide
    by (rule advances_decoder [OF size_stored, where a = "SizeCall w h"])
      (use ok in \<open>auto simp: D_wide sim_ok_def SetVideoSize_def fits_def frame_calls_def\<close>)
next
  case (D_sized bs)
  show ?thesis
    unfolding D_sized
    by (rule advances_stutter [OF decoder_locks]) (use ok in \<open>auto simp: D_sized sim_ok_def\<close>)
next
  case (D_held bs)
  with ok decoder_copies obtain r' where r': "SetYUVData bs r = Inr r'" "sim_ok w h D_copied fs pp r'"
    "vt_move True (here w h (D_held bs) fs pp n r) = Inr (here w h D_copied fs pp n r')" by blast
  show ?thesis
    unfolding D_held by (rule advances_decoder [OF r'(3,2)]) (simp_all add: r'(1))
next
  case D_copied
  with ok have "\<not> p_holds pp" by (simp add: sim_ok_def)
  then show ?thesis
    unfolding D_copied
    by (rule advances_stutter [OF decoder_unlocks]) (use ok in \<open>auto simp: D_copied sim_ok_def\<close>)
next
  case D_free
  show ?thesis
    unfolding D_free
    by (rule advances_decoder [OF flag_stored, where a = "ShowCall True"])
      (use ok in \<open>auto simp: D_free sim_ok_def SetViewStated_def fits_def\<close>)
next
  case D_flag
  with ok have "viewFlag r" by (simp add: sim_ok_def)
  then show ?thesis
    unfolding D_flag
    by (rule advances_stutter [OF flag_tested]) (use ok in \<open>auto simp: D_flag sim_ok_def\<close>)
next
  case D_ask
  with ok have "0 < updates r" by (simp add: sim_ok_def)
  then show ?thesis
    unfolding D_ask
    by (rule advances_stutter [OF repaint_asked]) (use ok in \<open>auto simp: D_ask sim_ok_def\<close>)
qed

lemma painter_step:
  assumes ok: "sim_ok w h dp fs pp r"
  shows "\<exists>c'. vt_move False (here w h dp fs pp n r) = Inr c'
    \<and> advances w h c' (d_calls w h dp @ stream_calls w h fs) (p_calls pp @ replicate n PaintCall) r"
proof (cases pp)
  case P_rest
  show ?thesis
  proof (cases n)
    case 0
    show ?thesis
      unfolding P_rest 0 by (rule advances_stutter [OF no_painting]) (use ok in \<open>simp_all add: P_rest 0\<close>)
  next
    case (Suc m)
    show ?thesis
    proof (cases "viewFlag r")
      case True
      then show ?thesis
        unfolding P_rest Suc
        by (intro advances_stutter [OF next_painting])
          (use ok in \<open>auto simp: P_rest Suc sim_ok_def p_calls_def p_holds_def\<close>)
    next
      case False
      then show ?thesis
        unfolding P_rest Suc
        by (intro advances_painter [OF next_painting, where b = PaintCall])
          (use ok in \<open>auto simp: P_rest Suc sim_ok_def p_calls_def p_holds_def paintGL_def\<close>)
    qed
  qed
next
  case P_shown
  show ?thesis
    unfolding P_shown
    by (rule advances_stutter [OF painter_locks])
      (use ok in \<open>auto simp: P_shown sim_ok_def p_calls_def p_holds_def\<close>)
next
  case P_locked
  with ok have ok': "sim_ok w h dp fs P_locked r" by simp
  show ?thesis
    unfolding P_locked
    by (rule advances_stutter [OF painter_uploads(1) [OF ok']])
      (use ok' in \<open>simp_all add: sim_ok_def p_calls_def p_holds_def\<close>)
next
  case P_Y
  with ok have ok': "sim_ok w h dp fs P_Y r" by simp
  show ?thesis
    unfolding P_Y
    by (rule advances_stutter [OF painter_uploads(2) [OF ok']])
      (use ok' in \<open>simp_all add: sim_ok_def p_calls_def p_holds_def\<close>)
next
  case P_U
  with ok have ok': "sim_ok w h dp fs P_U r" by simp
  show ?thesis
    unfolding P_U
    by (rule advances_stutter [OF painter_uploads(3) [OF ok']])
      (use ok' in \<open>simp_all add: sim_ok_def p_calls_def p_holds_def\<close>)
next
  case P_V
  with ok painter_draws obtain r' where r': "paintGL r = Inr r'" "sim_ok w h dp fs P_drawn r'"
    "vt_move False (here w h dp fs P_V n r) = Inr (here w h dp fs P_drawn n r')" by blast
  show ?thesis
    unfolding P_V by (rule advances_painter [OF r'(3,2)]) (simp_all add: r'(1) p_calls_def)
next
  case P_drawn
  with ok have "\<not> d_holds dp" by (simp add: sim_ok_def p_holds_def)
  then show ?thesis
    unfolding P_drawn
    by (rule advances_stutter [OF painter_unlocks])
      (use ok in \<open>auto simp: P_drawn sim_ok_def p_calls_def p_holds_def\<close>)
qed

lemma step_advances: "sim w h c A B r \<Longrightarrow> \<exists>c'. vt_move t c = Inr c' \<and> advances w h c' A B r"
  using decoder_step painter_step by (cases t) (fastforce simp: sim_def)+

section \<open>Runs\<close>

lemma run_simulated:
  assumes "sim w h c A B r"
  shows "\<exists>c' A1 A2 B1 B2 cs r'. vt_run s c = Inr c' \<and> A = A1 @ A2 \<and> B = B1 @ B2 \<and> cs \<in> shuffles A1 B1
    \<and> rfold call_run cs r = Inr r' \<and> sim w h c' A2 B2 r'"
  using assms
proof (induction s arbitrary: c A B r)
  case Nil
  then show ?case
    by (intro exI [of _ c] exI [of _ "[]"] exI [of _ A] exI [of _ B] exI [of _ r]) simp
next
  case (Cons t s)
  obtain c1 where c1: "vt_move t c = Inr c1" "advances w h c1 A B r"
    using step_advances [OF Cons.prems] by blast
  consider "sim w h c1 A B r"
    | a A' r1 where "A = a # A'" "call_run a r = Inr r1" "sim w h c1 A' B r1"
    | b B' r1 where "B = b # B'" "call_run b r = Inr r1" "sim w h c1 A B' r1"
    using c1(2) unfolding advances_def by blast
  then show ?case
  proof cases
    case 1
    from Cons.IH [OF 1] show ?thesis by (simp add: c1(1))
  next
    case 2
    from Cons.IH [OF 2(3)] obtain c' A1 A2 B1 B2 cs r' where IH: "vt_run s c1 = Inr c'" "A' = A1 @ A2"
      "B = B1 @ B2" "cs \<in> shuffles A1 B1" "rfold call_run cs r1 = Inr r'" "sim w h c' A2 B2 r'" by blast
    then show ?thesis
      using c1(1) 2(1,2) Cons_in_shuffles_leftI [OF IH(4)]
      by (intro exI [of _ c'] exI [of _ "a # A1"] exI [of _ A2] exI [of _ B1] exI [of _ B2]
          exI [of _ "a # cs"] exI [of _ r']) simp
  next
    case 3
    from Cons.IH [OF 3(3)] obtain c' A1 A2 B1 B2 cs r' where IH: "vt_run s c1 = Inr c'" "A = A1 @ A2"
      "B' = B1 @ B2" "cs \<in> shuffles A1 B1" "rfold call_run cs r1 = Inr r'" "sim w h c' A2 B2 r'" by blast
    then show ?thesis
      using c1(1) 3(1,2) Cons_in_shuffles_rightI [OF IH(4)]
      by (intro exI [of _ c'] exI [of _ A1] exI [of _ A2] exI [of _ "b # B1"] exI [of _ B2]
          exI [of _ "b # cs"] exI [of _ r']) simp
  qed
qed

lemma steps_of_eq_Nil [simp]: "steps_of cs = [] \<longleftrightarrow> cs = []"
  by (cases cs; cases "hd cs") auto

lemma sim_finished:
  assumes "sim w h c A B r" "finished c"
  shows "A = [] \<and> B = [] \<and> widget c = r"
proof -
  obtain dp fs pp n where ok: "sim_ok w h dp fs pp r" and c: "c = here w h dp fs pp n r"
    and AB: "A = d_calls w h dp @ stream_calls w h fs" "B = p_calls pp @ replicate n PaintCall"
    using assms(1) unfolding sim_def by blast
  have "dp = D_next" using assms(2) by (cases dp) (simp_all add: c here_def finished_def)
  moreover have "pp = P_rest" using assms(2) by (cases pp) (simp_all add: c here_def finished_def)
  ultimately show ?thesis
    using assms(2) ok by (simp add: AB c here_def finished_def between_def sim_ok_def p_calls_def p_holds_def)
qed

text \<open>A widget that is ready for a stream of frames of one size.\<close>

definition ready :: "nat \<Rightarrow> nat \<Rightarrow> u8 list list \<Rightarrow> video_render \<Rightarrow> bool" where
  "ready w h fs r \<longleftrightarrow> \<not> mMutex r \<and> fits w h r \<and> (viewFlag r \<longrightarrow> mVideoW r = w \<and> mVideoH r = h)
     \<and> (\<forall>bs \<in> set fs. w * h * 3 div 2 \<le> length bs)"

lemma sim_start:
  assumes "ready w h fs r"
  shows "sim w h (threads (stream_calls w h fs) (replicate n PaintCall) r)
    (stream_calls w h fs) (replicate n PaintCall) r"
proof -
  have "sim_ok w h D_next fs P_rest r" using assms by (simp add: ready_def sim_ok_def p_holds_def)
  moreover have "r\<lparr>mMutex := False\<rparr> = r" using assms by (cases r) (simp add: ready_def)
  ultimately show ?thesis
    using sim_here [of w h D_next fs P_rest r n]
    by (simp add: here_def between_def threads_def p_calls_def p_holds_def)
qed

section \<open>Progress\<close>

definition left :: "two_threads \<Rightarrow> nat" where
  "left c = length (decoder c) + length (painter c)"

definition can_move :: "bool \<Rightarrow> two_threads \<Rightarrow> bool" where
  "can_move t c \<longleftrightarrow> (case if t then decoder c else painter c of [] \<Rightarrow> False
     | x # k \<Rightarrow> x = LockMutex \<longrightarrow> \<not> mMutex (widget c))"

lemma vop_exec_length:
  "vop_exec x k r = Inr (k', r') \<Longrightarrow> (if x = LockMutex \<and> mMutex r then k' = x # k \<and> r' = r else length k' \<le> length k)"
  by (cases x) (auto simp: rbind_eq_Inr split: if_splits)

lemma move_progress:
  assumes "vt_move t c = Inr c'"
  shows "if can_move t c then left c' < left c else c' = c"
proof (cases "if t then decoder c else painter c")
  case Nil
  then show ?thesis using assms by (cases t) (simp_all add: can_move_def)
next
  case (Cons x k)
  then obtain k' r' where "vop_exec x k (widget c) = Inr (k', r')"
    and "c' = (if t then c\<lparr>decoder := k', widget := r'\<rparr> else c\<lparr>painter := k', widget := r'\<rparr>)"
    using assms by (cases t) (auto simp: rbind_eq_Inr)
  then show ?thesis
    using vop_exec_length [of x k "widget c" k' r'] Cons
    by (cases t) (auto simp: can_move_def left_def split: if_splits)
qed

lemma run_progress:
  assumes "vt_run s c = Inr c'"
  shows "left c' \<le> left c" "t \<in> set s \<Longrightarrow> can_move t c \<Longrightarrow> left c' < left c"
proof -
  have "left c' \<le> left c \<and> (t \<in> set s \<longrightarrow> can_move t c \<longrightarrow> left c' < left c)"
    using assms
  proof (induction s arbitrary: c)
    case (Cons u s)
    then obtain c1 where c1: "vt_move u c = Inr c1" "vt_run s c1 = Inr c'" by (auto simp: rbind_eq_Inr)
    show ?case using move_progress [OF c1(1)] Cons.IH [OF c1(2)] by (auto split: if_splits)
  qed simp
  then show "left c' \<le> left c" "t \<in> set s \<Longrightarrow> can_move t c \<Longrightarrow> left c' < left c" by simp_all
qed

text \<open>While a thread has steps left, one of the two can move: the holder of the mutex never waits.\<close>

lemma no_deadlock:
  assumes "sim w h c A B r" "\<not> finished c"
  shows "\<exists>t. can_move t c"
proof -
  obtain dp fs pp n where c: "c = here w h dp fs pp n r"
    using assms(1) unfolding sim_def by blast
  have "can_move True c" if "d_holds dp"
    using that by (cases dp) (simp_all add: c here_def can_move_def)
  moreover have "can_move False c" if "p_holds pp"
    using that by (cases pp) (simp_all add: c here_def can_move_def p_holds_def)
  moreover have "can_move True c \<or> can_move False c" if "\<not> mMutex (widget c)"
    using that assms(2) by (auto simp: finished_def can_move_def neq_Nil_conv)
  moreover have "mMutex (widget c) \<longleftrightarrow> d_holds dp \<or> p_holds pp"
    by (simp add: c here_def between_def)
  ultimately show ?thesis by blast
qed

lemma fair_rounds:
  assumes "sim w h c A B r" "\<forall>u \<in> set rounds. True \<in> set u \<and> False \<in> set u" "left c \<le> length rounds"
  shows "\<exists>c'. vt_run (concat rounds) c = Inr c' \<and> finished c'"
  using assms
proof (induction rounds arbitrary: c A B r)
  case Nil
  then show ?case by (simp add: left_def finished_def)
next
  case (Cons u rounds)
  obtain c1 A1 B1 r1 where c1: "vt_run u c = Inr c1" "sim w h c1 A1 B1 r1"
    using run_simulated [OF Cons.prems(1), of u] by blast
  have "left c1 \<le> length rounds"
  proof (cases "finished c")
    case True
    then show ?thesis using run_progress(1) [OF c1(1)] by (simp add: left_def finished_def)
  next
    case False
    then obtain t where "can_move t c" using no_deadlock [OF Cons.prems(1)] by blast
    then have "left c1 < left c" using Cons.prems(2) run_progress(2) [OF c1(1), of t] by (cases t) auto
    then show ?thesis using Cons.prems(3) by simp
  qed
  from Cons.IH [OF c1(2) _ this] Cons.prems(2) show ?case by (simp add: vt_run_append c1(1))
qed

section \<open>A stream of frames of one size\<close>

text \<open>The calls of a frame are what the sink and the camera do with it.\<close>

lemma frame_calls_show:
  "rbind (pack_frame E b) (\<lambda>bs. rfold call_run (frame_calls (fwidth b) (fheight b) bs) r) = show_frame E b r"
proof -
  have "rfold call_run [ShowCall True] = (\<lambda>r. Inr (SetViewStated True r))" by (rule ext) simp
  then show ?thesis by (simp add: show_frame_def frame_calls_def)
qed

lemma steps_of_append [simp]: "steps_of (as @ bs) = steps_of as @ steps_of bs"
  by (simp add: steps_of_def)

lemma left_start: "left (threads (stream_calls w h fs) (replicate n PaintCall) r) = 8 * length fs + 7 * n"
proof -
  have "length (steps_of (stream_calls w h fs)) = 8 * length fs"
    by (induction fs) (simp_all add: frame_calls_def)
  moreover have "length (steps_of (replicate n PaintCall)) = 7 * n" by (induction n) simp_all
  ultimately show ?thesis by (simp add: left_def threads_def)
qed

lemma ready_start: "fits w h (VR_new junk) \<Longrightarrow> \<forall>bs \<in> set fs. w * h * 3 div 2 \<le> length bs \<Longrightarrow> ready w h fs (VR_new junk)"
  by (simp add: ready_def VR_new_def)

text \<open>A widget whose buffer holds twelve bytes, before and after its first frame.\<close>

definition ex_widget :: "bool \<Rightarrow> video_render" where
  "ex_widget seen = \<lparr>program = True, textureUniformY = 0, textureUniformU = 1, textureUniformV = 2,
     idY = 1, idU = 2, idV = 3, pTextures = True, pShaders = True,
     mVideoW = (if seen then 2 else 0), mVideoH = (if seen then 2 else 0), mMaxVideoW = 1920, mMaxVideoH = 1280,
     pBufYuv420p = Some [1, 2, 3, 4, 5, 6, 7, 8, 9, 10, 11, 12], viewFlag = seen, mMutex = False, gl = [], updates = 0,
     shown = True\<rparr>"

lemma ex_widget_ready: "ready 2 2 [[1, 2, 3, 4, 5, 6], [9, 9, 9, 9, 8, 7]] (ex_widget seen)"
  by (simp add: ready_def fits_def ex_widget_def)





section \<open>A frame of another size\<close>

lemma shuffles_one:
  "cs \<in> shuffles ds [p] \<Longrightarrow> \<exists>xs ys. ds = xs @ ys \<and> cs = xs @ p # ys"
proof (induction ds arbitrary: cs)
  case (Cons d ds)
  then consider "cs = p # d # ds" | cs' where "cs = d # cs'" "cs' \<in> shuffles ds [p]" by auto
  then show ?case
  proof cases
    case 2
    with Cons.IH obtain xs ys where "ds = xs @ ys" "cs' = xs @ p # ys" by blast
    with 2 show ?thesis by (intro exI [of _ "d # xs"] exI [of _ ys]) simp
  qed auto
qed simp

text \<open>Calls that do not paint draw nothing.\<close>

lemma silent_call:
  "call_run x r = Inr r' \<Longrightarrow> x \<noteq> PaintCall \<Longrightarrow> x \<noteq> ShowCall False \<Longrightarrow> gl r' = gl r \<and> (viewFlag r \<longrightarrow> viewFlag r')"
  by (cases x) (auto simp: SetVideoSize_def SetViewStated_def SetYUVData_by_steps copy_bytes_def lock_def unlock_def
      rbind_eq_Inr Let_def split: option.splits if_splits)

lemma silent_calls:
  "rfold call_run cs r = Inr r' \<Longrightarrow> PaintCall \<notin> set cs \<Longrightarrow> ShowCall False \<notin> set cs \<Longrightarrow>
   gl r' = gl r \<and> (viewFlag r \<longrightarrow> viewFlag r')"
proof (induction cs arbitrary: r)
  case (Cons x cs)
  then obtain r1 where r1: "call_run x r = Inr r1" "rfold call_run cs r1 = Inr r'" by (auto simp: rbind_eq_Inr)
  then show ?case
    using silent_call [OF r1(1)] Cons.IH [OF r1(2)] Cons.prems(2,3) by auto
qed simp

text \<open>The textures of one call of \<^verbatim>\<open>paintGL\<close> belong to one size.\<close>

lemma paintGL_one_size:
  assumes "paintGL r = Inr r'" "viewFlag r"
  shows "\<exists>w h bs us cs. gl r' = gl r @ [GlActiveTexture 0, GlBindTexture (idY r), GlTexImage w h bs,
    GlTexFilterLinear, GlTexClampToEdge, GlActiveTexture 1, GlBindTexture (idU r),
    GlTexImage (w div 2) (h div 2) us] @ cs"
  using assms
  by (auto simp: paintGL_by_steps upload_Y_def upload_U_def upload_V_def upload_unchanged upload_def rbind_eq_Inr
      lock_def unlock_def emit_def draw_picture_def split: option.splits)

text \<open>So they do in every execution of the calls one after the other.\<close>

lemma serial_one_size:
  assumes "cs \<in> shuffles (frame_calls w' h' bs) [PaintCall]" "rfold call_run cs r = Inr r'" "viewFlag r"
  shows "\<exists>y u w h ys us gs. gl r' = gl r @ [GlActiveTexture 0, GlBindTexture y, GlTexImage w h ys,
    GlTexFilterLinear, GlTexClampToEdge, GlActiveTexture 1, GlBindTexture u,
    GlTexImage (w div 2) (h div 2) us] @ gs"
proof -
  obtain as bs' where calls: "frame_calls w' h' bs = as @ bs'" "cs = as @ PaintCall # bs'"
    using shuffles_one [OF assms(1)] by blast
  then obtain r1 r2 where r: "rfold call_run as r = Inr r1" "paintGL r1 = Inr r2" "rfold call_run bs' r2 = Inr r'"
    using assms(2) by (auto simp: rfold_append rbind_eq_Inr)
  have "set as \<union> set bs' = set (frame_calls w' h' bs)" using calls(1) by simp
  then have quiet: "PaintCall \<notin> set as \<union> set bs'" "ShowCall False \<notin> set as \<union> set bs'"
    by (simp_all add: frame_calls_def)
  then have "gl r1 = gl r" "viewFlag r1" "gl r' = gl r2"
    using silent_calls [OF r(1)] silent_calls [OF r(3)] assms(3) by auto
  with paintGL_one_size [OF r(2)] show ?thesis by (metis (no_types))
qed



end
