(* ===== verification/Spec2Isabelle.thy ===== *)
theory Spec2Isabelle
  imports Main_Window Conference_Flow Remote_Tracks Text_Room Video_Threads
begin

text \<open>
  A verification library for the UbuntuWebrtcDemo client, a Qt program that joins the video
  and text rooms of a Janus server. It covers the program's own code, the files directly
  under \<^verbatim>\<open>src/\<close>, and the smart pointers of webrtc that it is built on; a definition has the name of the C++ function it translates, with a prefix
  (\<open>JVRM_\<close>, \<open>JPC_\<close>, \<open>JWS_\<close>, \<open>VR_\<close>, \<open>WVF_\<close>, \<open>VC_\<close>, \<open>Vcm_\<close>, \<open>VA_\<close>, \<open>DC_\<close>, \<open>Conf_\<close>, \<open>WI_\<close>, \<open>MW_\<close>) where
  several classes share a name.

  \<^bold>\<open>The program.\<close> The main window (\<^verbatim>\<open>MainWindow.cpp\<close>) calls the interface
  (\<^verbatim>\<open>WebrtcInterface.cpp\<close>), which calls the one \<^verbatim>\<open>ConferenceManager\<close>. That owns a
  \<^verbatim>\<open>JanusVideoRoomManager\<close>, which owns the web socket with its keep-alive timers and one
  \<^verbatim>\<open>JanusPeerConnection\<close> for each handle on the server. The session tells the conference
  manager through three registered functions to connect a handle, to take a remote
  description, to drop a stream; the conference manager keeps one stream for each handle and
  sends the local descriptions and candidates of the streams back through the session. A
  stream owns a peer connection of webrtc; received video is shown by \<^verbatim>\<open>WebrtcVideoFrame\<close> and
  \<^verbatim>\<open>VideoRender\<close>, local video comes from \<^verbatim>\<open>VcmCapture\<close>.

  \<^bold>\<open>How it is modelled.\<close> Objects are records; the fields keep their C++ names. Peers of the
  session and shared streams live in heaps, maps from addresses, since what matters about
  them is who deletes them; everything else is passed by value. Machine integers are words.
  Undefined behaviour and the end of the process are values: a step returns \<open>Inl\<close> and a
  \<open>fault\<close>, or \<open>Inr\<close> and the next state, threaded by \<open>rbind\<close> and \<open>rfold\<close>. A \<^verbatim>\<open>std::function\<close>
  stored in a table is a constructor of a datatype of slots, and a function runs the slot.
  Time and concurrency are relations: the socket, the session, the conference and the process
  each have a step relation over their events, in any order.

  \<^bold>\<open>The theories.\<close>
  \<^item> \<^verbatim>\<open>Demo_Prelude\<close>, \<^verbatim>\<open>Text_Numbers\<close>, \<^verbatim>\<open>Doubles\<close>: words, faults, the result monad; decimal
    texts and what \<^verbatim>\<open>strtol\<close> and streams make of them; the doubles the JSON code needs.
  \<^item> \<^verbatim>\<open>Json_Value\<close>, \<^verbatim>\<open>Json_Tools\<close> (\<^verbatim>\<open>JsonTools.cpp\<close>), \<^verbatim>\<open>Common_Tools\<close> (\<^verbatim>\<open>Common.cpp\<close>): JSON
    values with jsoncpp's accessors; the helpers, with their round trips and bounds.
  \<^item> \<^verbatim>\<open>Shared_Pointers\<close> (webrtc's headers \<^verbatim>\<open>atomic_ops.h\<close>, \<^verbatim>\<open>ref_counter.h\<close>,
    \<^verbatim>\<open>ref_counted_object.h\<close>, \<^verbatim>\<open>scoped_refptr.h\<close>): counted objects with a 32-bit counter, and the
    proof that programs of smart pointers are safe.
  \<^item> \<^verbatim>\<open>Web_Socket\<close> (\<^verbatim>\<open>JanusWebSocket.cpp\<close>): the socket and its two timers as an event-driven
    machine; the watchdog fires exactly after a lost keep-alive.
  \<^item> \<^verbatim>\<open>Janus_State\<close>, \<^verbatim>\<open>Janus_Peer\<close> (\<^verbatim>\<open>JanusPeerConnection.cpp\<close>), \<^verbatim>\<open>Janus_Manager\<close>
    (\<^verbatim>\<open>JanusVideoRoomManager.cpp\<close>): the session.
  \<^item> \<^verbatim>\<open>Janus_Objects\<close>: the contract \<open>peer_op\<close> of an operation on a peer, interpreted for each
    of them. \<^verbatim>\<open>Janus_Invariants\<close>: every call of the session returns and keeps the ownership
    invariant \<open>janus_wf\<close>. \<^verbatim>\<open>Janus_Session\<close>: the interface \<open>room_client\<close> of the conference
    layer, and the outcome of every message under it. \<^verbatim>\<open>Janus_Protocol\<close>: what is sent to the
    server and what the answers do. \<^verbatim>\<open>Janus_Feeds\<close>: the session refines a list of publishers.
  \<^item> \<^verbatim>\<open>Video_Frames\<close> (\<^verbatim>\<open>WebrtcVideoFrame.cpp\<close>, \<^verbatim>\<open>VideoRender.cpp\<close>), \<^verbatim>\<open>Video_Capture\<close>
    (\<^verbatim>\<open>VcmCapture.cpp\<close>, \<^verbatim>\<open>VideoCapture.cpp\<close>, \<^verbatim>\<open>CapturerTrackSource.cpp\<close>,
    \<^verbatim>\<open>ConnecttionFactory.cpp\<close>): frames, from the camera to the capturer and from the stream to
    the screen. \<^verbatim>\<open>Video_Threads\<close>: the calls of the widget cut into steps that the decoder
    and the painting thread interleave under any schedule: serializable and free of
    deadlock while the size of the frames stays, torn when it changes.
  \<^item> \<^verbatim>\<open>Webrtc_Streams\<close> (\<^verbatim>\<open>WebrtcStreamBase.cpp\<close>, \<^verbatim>\<open>WebrtcStreamVideoAudio.cpp\<close>,
    \<^verbatim>\<open>WebrtcStreamDataChannels.cpp\<close>): the streams; both kinds are interpretations of
    \<open>negotiator\<close>. \<^verbatim>\<open>Remote_Tracks\<close>: the references that the received tracks lose.
  \<^item> \<^verbatim>\<open>Conference\<close> (\<^verbatim>\<open>ConferenceManager.cpp\<close>), \<^verbatim>\<open>Conference_Invariants\<close>: the tables of the
    streams; reference counts are exact; the layer is an interpretation of \<open>room_client\<close>.
    \<^verbatim>\<open>Conference_Session\<close>: session, streams and user requests in time.
    \<^verbatim>\<open>Conference_Protocol\<close>: windows, offers and answers, candidates, leaving, logging out.
    \<^verbatim>\<open>Conference_Pointers\<close>: the layer's shared objects are those of \<^verbatim>\<open>Shared_Pointers\<close>, step by
    step, temporaries included. \<^verbatim>\<open>Conference_Flow\<close>: a second invariant, nothing is held back;
    it is a second interpretation of \<open>room_client\<close>. \<^verbatim>\<open>Room_Publishing\<close>: from the answer to the
    join request to the local description on the server. \<^verbatim>\<open>Text_Room\<close>: from the offer to the
    join request on the open channel.
  \<^item> \<^verbatim>\<open>Demo_Process\<close> (\<^verbatim>\<open>WebrtcInterface.cpp\<close>, \<^verbatim>\<open>MainWindow.cpp\<close>): the singletons, the buttons,
    and the process in time. \<^verbatim>\<open>Main_Window\<close> (\<^verbatim>\<open>MainWindow.cpp\<close>, \<^verbatim>\<open>main.cpp\<close>): the connections of
    the buttons, from the start of \<^verbatim>\<open>main\<close> to its end. The theorems about the whole program are below.

  \<^bold>\<open>Bounds.\<close> No definition uses fuel. The loops of the program run over lists and are
  structural recursions; the camera's \<^verbatim>\<open>while(1)\<close> is modelled round by round. \<^verbatim>\<open>int\<close> has 32
  bits, \<^verbatim>\<open>long\<close> and pointers 64. Timers count milliseconds.

  \<^bold>\<open>Parameters.\<close> Code that is not under \<^verbatim>\<open>src/\<close> enters as arguments: the reader and writer
  of jsoncpp (\<open>json_lib\<close>), \<^verbatim>\<open>qrand\<close> (\<open>je_rand\<close>), the environment of the process, libyuv's
  copies and rotations (\<open>frame_env\<close>), the adapter and the broadcaster of webrtc
  (\<open>capture_env\<close>), its peer connections (\<open>webrtc_env\<close>: whether one can be made, what a
  description parses to; the calls on it are recorded), the generated form and Qt's
  conversions of texts (\<open>proc_env\<close>). What an allocator leaves in members that no constructor
  sets is a parameter too, named junk.

  \<^bold>\<open>Not modelled.\<close> \<^verbatim>\<open>mainwindow.cpp\<close> is an empty window outside the build. Texts printed for debugging are left out, except the reports of room requests, which are
  the program's only answer to the user. Two threads that touch one object at the same time
  are modelled for the video widget only, down to single stores and calls of OpenGL; elsewhere
  a callback of webrtc is a step of its own, between two others. Code
  that the preprocessor removes (\<^verbatim>\<open>#if 0\<close>, \<^verbatim>\<open>ALVA_WEBRTC_USE_WEBRTCCAPTURE\<close>) is not part of the
  program. Everything else below \<^verbatim>\<open>src/webrtc\<close>, \<^verbatim>\<open>src/libyuv\<close> and \<^verbatim>\<open>src/jsoncpp\<close> is third-party. The
  references that webrtc takes itself, as observer of a description it is still making or of
  a connection, are not counted: the counts are those of the program's own pointers.
\<close>

section \<open>The whole program\<close>



section \<open>A publisher is seen\<close>

lemma offer_event:
  assumes "OnRemoteSdp s = Some f" "GetStringFromJsonObject (je_json E) j ''type'' [] = (b1, type)"
    and "GetStringFromJsonObject (je_json E) j ''sdp'' [] = (b2, sdp)" "sdp \<noteq> []"
    and "GetValueFromJsonObject v ''jsep'' JNull = (b3, j)" "JsonValueToLongLong (je_json E) v ''sender'' = h"
    and "f h type sdp False (client s) = Inr c"
  shows "run_video_event E EventAttached v s = Inr (s\<lparr>client := c\<rparr>)"
  using assms by (simp add: onVideoRoomEventAttached_def onVideoRoomEventSdp_def Let_def up_call_def)

text \<open>
  C2: a publisher becomes visible. The server's offer on the handle of a subscriber makes a
  stream with its connection, which is asked for an answer; the answer is set as the local
  description, signalled, and sent to the server on the same handle, in the session of the
  peer, with the request to start the room: one message, which carries it unchanged.
\<close>

theorem subscriber_answers_offer:
  assumes "conf_ready W s" "OnRemoteSdp s = Some (onRetmoeSDP W)" "always_connects W"
    and "mVideoRoomPeerList s = us @ a # vs" "heap s a = Some p" "mVideoRoomHandleID p = h" "mSubscribeId p \<noteq> 0"
    and "\<forall>b \<in> set us. map_option mVideoRoomHandleID (heap s b) \<noteq> Some h"
    and "\<forall>b \<in> set (mTextRoomPeerList s). map_option mTextRoomHandleID (heap s b) \<noteq> Some h"
    and "map_of (mRemoteStreamInfos_VideoAudio (client s)) h = None"
    and "map_of (mRemoteStreamInfos_DataChannels (client s)) h = None"
    and "GetStringFromJsonObject (je_json E) j ''type'' [] = (b1, ''offer'')"
    and "GetStringFromJsonObject (je_json E) j ''sdp'' [] = (b2, sdp)" "sdp \<noteq> []"
    and "GetValueFromJsonObject v ''jsep'' JNull = (b3, j)" "JsonValueToLongLong (je_json E) v ''sender'' = h"
    and "we_parse W ''offer'' sdp = Some d" "d_type d = ''offer''"
  shows "\<exists>s1 info st s2. run_video_event E EventAttached v s = Inr s1
    \<and> map_of (mRemoteStreamInfos_VideoAudio (client s1)) h = Some info
    \<and> OnSuccess answer (si_stream info) = Inr st
    \<and> calls_of st = [SetBitrate 128000 256000 512000,
        AddTrackCall (fst (tracks (client s))) ''stream_id'', AddTrackCall (snd (tracks (client s))) ''stream_id'',
        SetRemoteDescription d, CreateAnswer, SetLocalDescription answer]
    \<and> run_signal E (last (emitted st)) (up_conf (put_va h (info\<lparr>si_stream := st\<rparr>)) s1) = Inr s2
    \<and> sent s2 = sent s @ [wire E (plugin_msg h (tr E s) (mSessionID p)
        [(''body'', JObj [(''request'', JStr ''start''), (''room'', json_of_uint (mVideoRoomId p))]),
         (''jsep'', jsep_obj (d_type answer) (d_sdp answer))])]"
proof -
  have w: "we_factory W" "we_pc W h" using assms(3) by (simp_all add: always_connects_def)
  obtain c' u st where c': "onRetmoeSDP W h ''offer'' sdp False (client s) = Inr c'"
    "map_of (mRemoteStreamInfos_VideoAudio c') h = Some (new_info u)"
    "mRemoteStreamInfos_DataChannels c' = mRemoteStreamInfos_DataChannels (client s)"
    "OnSuccess answer u = Inr st"
    "calls_of st = [SetBitrate 128000 256000 512000,
        AddTrackCall (fst (tracks (client s))) ''stream_id'', AddTrackCall (snd (tracks (client s))) ''stream_id'',
        SetRemoteDescription d, CreateAnswer, SetLocalDescription answer]"
    "last (emitted st) = LocalSDP h (d_sdp answer) (d_type answer)"
    by (rule answer_made [OF assms(10) w assms(17,18), where answer = answer]) blast
  let ?s1 = "s\<lparr>client := c'\<rparr>"
  have wf: "janus_wf ?s1" using conference.ready_wf [OF assms(1)] by (simp add: janus_wf_def owned_def)
  have run: "run_video_event E EventAttached v s = Inr ?s1"
    using offer_event [where f = "onRetmoeSDP W" and type = "''offer''" and sdp = sdp and s = s and h = h and c = c'
      and E = E and j = j and ?b1.0 = b1 and ?b2.0 = b2 and ?b3.0 = b3 and v = v] assms(2,12-16) c'(1) by blast
  have "mVideoRoomPeerList ?s1 = us @ a # vs" "heap ?s1 a = Some p"
    "\<forall>b \<in> set us. map_option mVideoRoomHandleID (heap ?s1 b) \<noteq> Some h"
    "\<forall>b \<in> set (mTextRoomPeerList ?s1). map_option mTextRoomHandleID (heap ?s1 b) \<noteq> Some h"
    "canSendSDP ((new_info u)\<lparr>si_stream := st\<rparr>)" "map_of (mRemoteStreamInfos_DataChannels (client ?s1)) h = None"
    using assms(4,5,8,9,11) c'(3) by (simp_all add: new_info_def)
  note send = description_sent [OF wf this(1,2) assms(6) this(3-6), of E "d_sdp answer" "d_type answer"]
  obtain s2 where raw: "run_signal E (LocalSDP h (d_sdp answer) (d_type answer)) (up_conf (put_va h ((new_info u)\<lparr>si_stream := st\<rparr>)) ?s1) = Inr s2"
    "sent s2 = sent ?s1 @ [wire E (plugin_msg h (tr E ?s1) (mSessionID p)
        [(''body'', if mSubscribeId p = 0
            then JObj [(''request'', JStr ''configure''), (''audio'', JBool True), (''video'', JBool True)]
            else JObj [(''request'', JStr ''start''), (''room'', json_of_uint (mVideoRoomId p))]),
         (''jsep'', jsep_obj (d_type answer) (d_sdp answer))])]"
    by (rule send) blast
  have tr: "tr E ?s1 = tr E s" by (rule tr_cong) simp
  note s2 = raw [unfolded c'(6) [symmetric] tr if_not_P [OF assms(7)]]
  show ?thesis
    using run c'(2,4,5) s2
    by (intro exI [of _ ?s1] exI [of _ "new_info u"] exI [of _ st] exI [of _ s2])
      (simp add: new_info_def del: run_video_event.simps run_signal.simps)
qed

theorem subscriber_answers_offer_witness:
  "\<exists>s1 s2 reported s'. run_video_event (ex_env [] JNull) EventAttached (ex_jsep ''offer'' ''v=0'') (ex_member 77) = Inr s1
     \<and> run_signal (ex_env [] JNull) reported s' = Inr s2 \<and> length (sent s2) = Suc (length (sent (ex_member 77)))"
proof -
  define answer where "answer = \<lparr>d_type = ''answer'', d_sdp = ''v=1''\<rparr>"
  obtain s1 info st s2 where
    "run_video_event (ex_env [] JNull) EventAttached (ex_jsep ''offer'' ''v=0'') (ex_member 77) = Inr s1"
    "run_signal (ex_env [] JNull) (last (emitted st)) (up_conf (put_va 5 (info\<lparr>si_stream := st\<rparr>)) s1) = Inr s2"
    "length (sent s2) = Suc (length (sent (ex_member 77)))"
    using subscriber_answers_offer [OF ex_member_facts(1,3) [of 77] ex_connected_facts(1) ex_member_facts(4,6) [of 77], where h = 5
        and E = "ex_env [] JNull" and v = "ex_jsep ''offer'' ''v=0''" and answer = answer,
        OF _ _ _ _ _ _ ex_jsep_facts(2,3) _ ex_jsep_facts(1,4) ex_connected_facts(2)]
    by (auto simp: ex_member_facts)
  then show ?thesis by blast
qed

end
